(* ===== verification/Air_Prelude.thy ===== *)
theory Air_Prelude
  imports Main "HOL-Library.Word" "HOL-Library.Sublist"
begin

text \<open>
  What the components share: Rust's \<^verbatim>\<open>Result\<close> as a sum type with the propagation the
  \<^verbatim>\<open>?\<close> operator performs, \<^verbatim>\<open>BTreeMap\<close> as a sorted association list, big- and
  little-endian byte encodings of machine integers, and the generic facts on lists, options
  and maps that the component proofs use.  Nothing in this theory belongs to one component.

  The collections: \<open>result_simps\<close> holds the inversion rules for \<^verbatim>\<open>?\<close>-chains, \<open>bt_simps\<close> the
  lookup equations of the ordered map, \<open>bt_wf\<close> the rules that keep its key order, and
  \<open>inv_intros\<close> the invariant-preservation lemmas the components contribute.
\<close>

named_theorems result_simps \<open>inversion of fallible computations\<close>
named_theorems bt_simps \<open>lookups in an updated ordered map\<close>
named_theorems bt_wf \<open>operations that keep an ordered map ordered\<close>
named_theorems inv_intros \<open>operations that keep a component's invariant\<close>


section \<open>Machine types\<close>

type_synonym u8 = "8 word"
type_synonym u16 = "16 word"
type_synonym u32 = "32 word"
type_synonym u64 = "64 word"
type_synonym usize = "64 word"
type_synonym bytes = "8 word list"

text \<open>Points in time and durations, in nanoseconds, as \<^verbatim>\<open>chrono\<close> counts them.\<close>

type_synonym time = int
type_synonym duration = int

definition duration_days :: "int \<Rightarrow> duration" where
  "duration_days n = n * 86400 * 1000000000"

definition saturating_sub :: "'a::len word \<Rightarrow> 'a word \<Rightarrow> 'a word" where
  "saturating_sub a b = (if b \<le> a then a - b else 0)"

lemma unat_saturating_sub [simp]: "unat (saturating_sub a b) = unat a - unat b"
  by (auto simp: saturating_sub_def unat_sub word_le_nat_alt)


lemma less_of_add_le: "a + b \<le> (c :: nat) \<Longrightarrow> 0 < b \<Longrightarrow> a < c"
  by simp

lemma unat_of_nat_usize: "n < 2 ^ 64 \<Longrightarrow> unat (of_nat n :: usize) = n"
  by (simp only: unat_of_nat mod_less word_size len_num0 len_num1 len_bit0 mult_2[symmetric])
     (simp add: mod_less)

lemma unat_u32_bound [simp]: "unat (w :: u32) < 4294967296"
  using unsigned_less[of w, where 'a = nat] by simp

lemma unat_u64_bound [simp]: "unat (w :: u64) < 18446744073709551616"
  using unsigned_less[of w, where 'a = nat] by simp


section \<open>Result and the question-mark operator\<close>

abbreviation Err :: "'e \<Rightarrow> 'e + 'a" where "Err \<equiv> Inl"
abbreviation Ok :: "'a \<Rightarrow> 'e + 'a" where "Ok \<equiv> Inr"

text \<open>\<^verbatim>\<open>r?\<close> followed by the rest of the function body.\<close>

fun and_then :: "'e + 'a \<Rightarrow> ('a \<Rightarrow> 'e + 'b) \<Rightarrow> 'e + 'b" where
  "and_then (Inl e) f = Inl e"
| "and_then (Inr x) f = f x"

fun map_err :: "('e \<Rightarrow> 'd) \<Rightarrow> 'e + 'a \<Rightarrow> 'd + 'a" where
  "map_err g (Inl e) = Inl (g e)"
| "map_err g (Inr x) = Inr x"

fun map_ok :: "('a \<Rightarrow> 'b) \<Rightarrow> 'e + 'a \<Rightarrow> 'e + 'b" where
  "map_ok g (Inl e) = Inl e"
| "map_ok g (Inr x) = Inr (g x)"

fun ok_or :: "'e \<Rightarrow> 'a option \<Rightarrow> 'e + 'a" where
  "ok_or e None = Inl e"
| "ok_or e (Some x) = Inr x"

fun to_option :: "'e + 'a \<Rightarrow> 'a option" where
  "to_option (Inl e) = None"
| "to_option (Inr x) = Some x"

fun unwrap_or :: "'a \<Rightarrow> 'a option \<Rightarrow> 'a" where
  "unwrap_or d None = d"
| "unwrap_or d (Some x) = x"

fun is_ok :: "'e + 'a \<Rightarrow> bool" where
  "is_ok (Inl e) = False"
| "is_ok (Inr x) = True"

text \<open>A guard with an early return: \<^verbatim>\<open>if !cond { return Err(e); }\<close>.\<close>

definition ensure :: "bool \<Rightarrow> 'e \<Rightarrow> 'e + unit" where
  "ensure b e = (if b then Inr () else Inl e)"

text \<open>A loop whose body may return early with an error, and \<^verbatim>\<open>collect::<Result<Vec<_>, _>>()\<close>.\<close>

fun fold_res :: "('x \<Rightarrow> 's \<Rightarrow> 'e + 's) \<Rightarrow> 'x list \<Rightarrow> 's \<Rightarrow> 'e + 's" where
  "fold_res f [] s = Inr s"
| "fold_res f (x # xs) s = and_then (f x s) (fold_res f xs)"

fun collect_res :: "('x \<Rightarrow> 'e + 'y) \<Rightarrow> 'x list \<Rightarrow> 'e + 'y list" where
  "collect_res f [] = Inr []"
| "collect_res f (x # xs) =
     and_then (f x) (\<lambda>y. and_then (collect_res f xs) (\<lambda>ys. Inr (y # ys)))"

lemma and_then_Inr_iff [result_simps]:
  "(and_then m f = Inr y) = (\<exists>x. m = Inr x \<and> f x = Inr y)"
  by (cases m) auto

lemma and_then_Inl_iff [result_simps]:
  "(and_then m f = Inl e) = (m = Inl e \<or> (\<exists>x. m = Inr x \<and> f x = Inl e))"
  by (cases m) auto

lemma map_err_Inr_iff [result_simps]: "(map_err g m = Inr x) = (m = Inr x)"
  by (cases m) auto

lemma map_err_Inl_iff [result_simps]: "(map_err g m = Inl d) = (\<exists>e. m = Inl e \<and> d = g e)"
  by (cases m) auto

lemma map_ok_Inr_iff [result_simps]: "(map_ok g m = Inr y) = (\<exists>x. m = Inr x \<and> y = g x)"
  by (cases m) auto

lemma map_ok_Inl_iff [result_simps]: "(map_ok g m = Inl e) = (m = Inl e)"
  by (cases m) auto

lemma ok_or_Inr_iff [result_simps]: "(ok_or e m = Inr x) = (m = Some x)"
  by (cases m) auto

lemma ok_or_Inl_iff [result_simps]: "(ok_or e m = Inl d) = (m = None \<and> d = e)"
  by (cases m) auto

lemma to_option_Some_iff [result_simps]: "(to_option m = Some x) = (m = Inr x)"
  by (cases m) auto

lemma ensure_Inr_iff [result_simps]: "(ensure b e = Inr u) = b"
  by (simp add: ensure_def)

lemma ensure_Inl_iff [result_simps]: "(ensure b e = Inl d) = (\<not> b \<and> d = e)"
  by (auto simp: ensure_def)

lemma ensure_simps [simp]: "ensure True e = Inr ()" "ensure False e = Inl e"
  by (simp_all add: ensure_def)

lemma is_ok_iff [result_simps]: "is_ok m = (\<exists>x. m = Inr x)"
  by (cases m) auto

lemma fold_res_invariant:
  assumes "fold_res f xs s = Inr s'" "I s"
    and "\<And>x s s'. x \<in> set xs \<Longrightarrow> I s \<Longrightarrow> f x s = Inr s' \<Longrightarrow> I s'"
  shows "I s'"
  using assms
proof (induction xs arbitrary: s)
  case Nil
  then show ?case by simp
next
  case (Cons x xs)
  from Cons.prems(1) obtain t where "f x s = Inr t" "fold_res f xs t = Inr s'"
    by (auto simp: result_simps)
  with Cons show ?case by (meson list.set_intros)
qed

lemma collect_res_Inr_iff:
  "(collect_res f xs = Inr ys) = list_all2 (\<lambda>x y. f x = Inr y) xs ys"
  by (induction xs arbitrary: ys) (auto simp: result_simps list_all2_Cons1)

lemma collect_res_inverse:
  "collect_res f xs = Inr ys \<Longrightarrow> (\<And>x y. x \<in> set xs \<Longrightarrow> f x = Inr y \<Longrightarrow> g y = Inr x) \<Longrightarrow>
   collect_res g ys = Inr xs"
  by (induction xs arbitrary: ys) (auto simp: result_simps)

lemma collect_res_length [dest]: "collect_res f xs = Inr ys \<Longrightarrow> length ys = length xs"
  by (auto simp: collect_res_Inr_iff dest: list_all2_lengthD)


lemma list_all2_left: "list_all2 P xs ys \<Longrightarrow> x \<in> set xs \<Longrightarrow> \<exists>y \<in> set ys. P x y"
  by (induction rule: list_all2_induct) auto

lemma list_all2_right: "list_all2 P xs ys \<Longrightarrow> y \<in> set ys \<Longrightarrow> \<exists>x \<in> set xs. P x y"
  by (induction rule: list_all2_induct) auto

lemma map_of_rev_distinct: "distinct (map fst xs) \<Longrightarrow> map_of (rev xs) = map_of xs"
  by (subst map_of_inject_set) (simp_all add: rev_map[symmetric])


section \<open>Ordered maps\<close>

text \<open>
  \<^verbatim>\<open>BTreeMap\<close> iterates in key order and holds one value per key, so the model keeps the
  entries as the list its iterator yields.
\<close>

type_synonym ('k, 'v) btree_map = "('k \<times> 'v) list"

definition bt_get :: "('k, 'v) btree_map \<Rightarrow> 'k \<Rightarrow> 'v option" where
  "bt_get m k = map_of m k"

definition bt_insert :: "'k::linorder \<Rightarrow> 'v \<Rightarrow> ('k, 'v) btree_map \<Rightarrow> ('k, 'v) btree_map" where
  "bt_insert k v m = filter (\<lambda>p. fst p < k) m @ (k, v) # filter (\<lambda>p. k < fst p) m"

definition bt_remove :: "'k \<Rightarrow> ('k, 'v) btree_map \<Rightarrow> ('k, 'v) btree_map" where
  "bt_remove k m = filter (\<lambda>p. fst p \<noteq> k) m"

definition bt_keys :: "('k, 'v) btree_map \<Rightarrow> 'k list" where
  "bt_keys m = map fst m"

definition bt_values :: "('k, 'v) btree_map \<Rightarrow> 'v list" where
  "bt_values m = map snd m"

definition bt_ordered :: "('k::linorder, 'v) btree_map \<Rightarrow> bool" where
  "bt_ordered m = sorted_wrt (<) (bt_keys m)"

lemma map_of_filter_fst: "map_of (filter (\<lambda>p. P (fst p)) m) k = (if P k then map_of m k else None)"
  by (induction m) auto

lemma bt_get_Nil [simp, bt_simps]: "bt_get [] k = None"
  by (simp add: bt_get_def)

lemma bt_get_insert [simp, bt_simps]:
  "bt_get (bt_insert k v m) k' = (if k' = k then Some v else bt_get m k')"
  using map_of_filter_fst[of "\<lambda>x. x < k" m k'] map_of_filter_fst[of "\<lambda>x. k < x" m k']
  by (auto simp: bt_get_def bt_insert_def map_add_def split: option.splits)

lemma bt_get_remove [simp, bt_simps]:
  "bt_get (bt_remove k m) k' = (if k' = k then None else bt_get m k')"
  using map_of_filter_fst[of "\<lambda>x. x \<noteq> k" m k'] by (simp add: bt_get_def bt_remove_def)

lemma bt_ordered_Nil [simp, bt_wf]: "bt_ordered []"
  by (simp add: bt_ordered_def bt_keys_def)

lemma bt_ordered_filter [bt_wf]: "bt_ordered m \<Longrightarrow> bt_ordered (filter P m)"
  by (simp add: bt_ordered_def bt_keys_def sorted_wrt_map sorted_wrt_filter)

lemma bt_ordered_insert [bt_wf]: "bt_ordered m \<Longrightarrow> bt_ordered (bt_insert k v m)"
  by (auto simp: bt_ordered_def bt_keys_def bt_insert_def sorted_wrt_append sorted_wrt_map
      sorted_wrt_filter)

lemma bt_ordered_remove [bt_wf]: "bt_ordered m \<Longrightarrow> bt_ordered (bt_remove k m)"
  by (simp add: bt_remove_def bt_ordered_filter)

lemma bt_ordered_distinct: "bt_ordered m \<Longrightarrow> distinct (bt_keys m)"
  by (simp add: bt_ordered_def strict_sorted_iff)

lemma bt_get_in_set: "bt_get m k = Some v \<Longrightarrow> (k, v) \<in> set m"
  by (simp add: bt_get_def map_of_SomeD)

lemma bt_get_iff: "bt_ordered m \<Longrightarrow> (bt_get m k = Some v) = ((k, v) \<in> set m)"
  by (metis bt_get_def bt_get_in_set bt_keys_def bt_ordered_distinct map_of_is_SomeI)

lemma bt_set_insert:
  "bt_ordered m \<Longrightarrow> set (bt_insert k v m) = insert (k, v) {p \<in> set m. fst p \<noteq> k}"
  by (auto simp: bt_insert_def)

lemma bt_set_remove: "set (bt_remove k m) = {p \<in> set m. fst p \<noteq> k}"
  by (auto simp: bt_remove_def)

lemma bt_get_None_iff: "(bt_get m k = None) = (k \<notin> set (bt_keys m))"
  by (simp add: bt_get_def bt_keys_def map_of_eq_None_iff)

text \<open>Two ordered maps with the same lookups are the same list.\<close>

lemma bt_eta: "bt_ordered m \<Longrightarrow> m = map (\<lambda>k. (k, the (bt_get m k))) (bt_keys m)"
  by (auto simp: bt_keys_def comp_def bt_get_iff[symmetric] intro!: map_idI[symmetric])

lemma bt_ext:
  assumes "bt_ordered m" "bt_ordered n" "\<And>k. bt_get m k = bt_get n k"
  shows "m = n"
proof -
  have "set (bt_keys m) = set (bt_keys n)"
    using assms(3) by (metis bt_get_None_iff subsetI subset_antisym)
  then have keys: "bt_keys m = bt_keys n"
    using assms(1,2) by (simp add: bt_ordered_def strict_sorted_equal)
  have "m = map (\<lambda>k. (k, the (bt_get n k))) (bt_keys n)"
    using bt_eta[OF assms(1)] assms(3) keys by simp
  also have "\<dots> = n"
    using bt_eta[OF assms(2)] by simp
  finally show ?thesis .
qed


section \<open>Keyed stores\<close>

text \<open>
  The contract that several state holders share: a partial lookup, an update and a removal that
  touch one key only, and an invariant both keep.  The loops of the code that insert or remove a
  list of keys are reasoned about once, here.
\<close>

locale keyed_store =
  fixes lookup_key :: "'s \<Rightarrow> 'k \<Rightarrow> 'v option"
    and put_key :: "'k \<Rightarrow> 'v \<Rightarrow> 's \<Rightarrow> 's"
    and drop_key :: "'k \<Rightarrow> 's \<Rightarrow> 's"
    and store_ok :: "'s \<Rightarrow> bool"
  assumes lookup_put: "lookup_key (put_key k v s) k' = (if k' = k then Some v else lookup_key s k')"
    and lookup_drop: "lookup_key (drop_key k s) k' = (if k' = k then None else lookup_key s k')"
    and ok_put: "store_ok s \<Longrightarrow> store_ok (put_key k v s)"
    and ok_drop: "store_ok s \<Longrightarrow> store_ok (drop_key k s)"
begin

lemma lookup_drop_all:
  "lookup_key (fold drop_key ks s) k = (if k \<in> set ks then None else lookup_key s k)"
  by (induction ks arbitrary: s) (auto simp: lookup_drop)

lemma ok_drop_all: "store_ok s \<Longrightarrow> store_ok (fold drop_key ks s)"
  by (induction ks arbitrary: s) (auto simp: ok_drop)

lemma lookup_put_all:
  "lookup_key (fold (\<lambda>(k, v). put_key k v) kvs s) k =
     (case map_of (rev kvs) k of Some v \<Rightarrow> Some v | None \<Rightarrow> lookup_key s k)"
  by (induction kvs arbitrary: s)
     (auto simp: lookup_put map_add_def split: option.splits prod.splits)

lemma ok_put_all: "store_ok s \<Longrightarrow> store_ok (fold (\<lambda>(k, v). put_key k v) kvs s)"
  by (induction kvs arbitrary: s) (auto simp: ok_put split: prod.splits)

end

interpretation bt: keyed_store bt_get bt_insert bt_remove bt_ordered
  by unfold_locales (simp_all add: bt_wf)


lemma collect_ordered: "bt_ordered q \<Longrightarrow> fold (\<lambda>(k, v). bt_insert k v) q [] = q"
proof (rule bt_ext)
  assume q: "bt_ordered q"
  show "bt_ordered (fold (\<lambda>(k, v). bt_insert k v) q [])"
    by (rule bt.ok_put_all) simp
  show "bt_get (fold (\<lambda>(k, v). bt_insert k v) q []) k = bt_get q k" for k
    using bt_ordered_distinct[OF q]
    by (simp add: bt.lookup_put_all map_of_rev_distinct bt_keys_def)
       (simp add: bt_get_def split: option.splits)
qed


section \<open>Byte encodings of integers\<close>

fun le_bytes :: "nat \<Rightarrow> nat \<Rightarrow> bytes" where
  "le_bytes 0 n = []"
| "le_bytes (Suc k) n = of_nat n # le_bytes k (n div 256)"

fun from_le_bytes :: "bytes \<Rightarrow> nat" where
  "from_le_bytes [] = 0"
| "from_le_bytes (b # bs) = unat b + 256 * from_le_bytes bs"

definition be_bytes :: "nat \<Rightarrow> nat \<Rightarrow> bytes" where
  "be_bytes k n = rev (le_bytes k n)"

definition from_be_bytes :: "bytes \<Rightarrow> nat" where
  "from_be_bytes bs = from_le_bytes (rev bs)"

lemma le_bytes_numeral:
  "le_bytes (numeral k) n = of_nat n # le_bytes (pred_numeral k) (n div 256)"
  by (simp only: numeral_eq_Suc[of k] le_bytes.simps)

lemma length_le_bytes [simp]: "length (le_bytes k n) = k"
  by (induction k arbitrary: n) auto

lemma length_be_bytes [simp]: "length (be_bytes k n) = k"
  by (simp add: be_bytes_def)

lemma from_le_le_bytes: "n < 256 ^ k \<Longrightarrow> from_le_bytes (le_bytes k n) = n"
proof (induction k arbitrary: n)
  case (Suc k)
  then have "n div 256 < 256 ^ k"
    by (simp add: less_mult_imp_div_less mult.commute)
  with Suc.IH show ?case
    by (simp add: unat_of_nat)
qed simp

lemma le_bytes_inject:
  "n < 256 ^ k \<Longrightarrow> m < 256 ^ k \<Longrightarrow> le_bytes k n = le_bytes k m \<Longrightarrow> n = m"
  by (metis from_le_le_bytes)

lemma unat_u8_bound [simp]: "unat (b :: u8) < 256"
  using unsigned_less[of b] by simp

lemma le_from_le_bytes: "le_bytes (length bs) (from_le_bytes bs) = bs"
proof (induction bs)
  case (Cons b bs)
  have "(256 :: u8) = 0" by simp
  then have "256 * (of_nat n :: u8) = 0" for n by (simp only: mult_zero_left)
  with Cons.IH show ?case by simp
qed simp

lemma from_le_bytes_bound: "from_le_bytes bs < 256 ^ length bs"
proof (induction bs)
  case (Cons b bs)
  then have "Suc (from_le_bytes bs) \<le> 256 ^ length bs" by simp
  then have "256 * Suc (from_le_bytes bs) \<le> 256 * 256 ^ length bs" by (rule mult_le_mono2)
  moreover have "from_le_bytes (b # bs) < 256 * Suc (from_le_bytes bs)" by simp
  ultimately have "from_le_bytes (b # bs) < 256 * 256 ^ length bs" by (rule less_le_trans[rotated])
  then show ?case by simp
qed simp

lemma from_be_be_bytes: "n < 256 ^ k \<Longrightarrow> from_be_bytes (be_bytes k n) = n"
  by (simp add: from_be_bytes_def be_bytes_def from_le_le_bytes)

lemma be_from_be_bytes: "be_bytes (length bs) (from_be_bytes bs) = bs"
  using le_from_le_bytes[of "rev bs"] by (simp add: from_be_bytes_def be_bytes_def)

lemma from_be_bytes_bound: "from_be_bytes bs < 256 ^ length bs"
  using from_le_bytes_bound[of "rev bs"] by (simp add: from_be_bytes_def)

lemma sint_word_of_int_64: "- (2 ^ 63) \<le> t \<Longrightarrow> t < 2 ^ 63 \<Longrightarrow> sint (word_of_int t :: 64 word) = t"
  by (simp add: sint_uint uint_word_of_int_eq signed_take_bit_take_bit signed_take_bit_int_eq_self)

end
