(* ===== verification/Padme.thy ===== *)
theory Padme
  imports Air_Prelude
begin

text \<open>
  Length padding: \<^verbatim>\<open>common/src/padme.rs\<close> computes the padded length of a content length and
  \<^verbatim>\<open>common/src/crypto/aead/padded.rs\<close> frames a content with a little-endian padding length and
  zero bytes.  Lengths are 64-bit \<^verbatim>\<open>usize\<close> values and every operation of the source (leading
  zeros, saturating subtraction, shift, mask) is kept at its width.  The facts: the bit trick
  rounds up to a multiple of a power of two that depends on the binary logarithm only, it never
  wraps below the stated bound, it is idempotent, its overhead is below one part in the
  logarithm, and framing followed by unframing returns the content.
\<close>

unbundle bit_operations_syntax

section \<open>Leading zeros and the padded length\<close>

text \<open>\<^verbatim>\<open>leading_zeros\<close>: how many bits are clear above the highest set bit.\<close>

definition leading_zeros :: "64 word \<Rightarrow> u32" where
  "leading_zeros w = of_nat (length (takeWhile (\<lambda>i. \<not> bit w i) (rev [0..<64])))"

definition padme_len :: "usize \<Rightarrow> usize" where
  "padme_len len =
     (let e = ucast (saturating_sub (63 :: u32) (leading_zeros len)) :: usize;
          s = ucast (saturating_sub (63 :: u32) (leading_zeros e) + 1) :: usize;
          z = saturating_sub e s;
          mask = push_bit (unat z) 1 - 1
      in (len + mask) AND NOT mask)"

definition padme_padding_len :: "usize \<Rightarrow> usize" where
  "padme_padding_len len = saturating_sub (padme_len len) len"


section \<open>The reference: rounding up to a multiple\<close>

text \<open>The logarithm rounded down, with \<open>ilog2 0 = 0\<close> as the comment in the source wants it.\<close>

fun ilog2 :: "nat \<Rightarrow> nat" where
  "ilog2 n = (if n < 2 then 0 else Suc (ilog2 (n div 2)))"

declare ilog2.simps [simp del]

definition padme_bits :: "nat \<Rightarrow> nat" where
  "padme_bits n = ilog2 n - (ilog2 (ilog2 n) + 1)"

definition round_up :: "nat \<Rightarrow> nat \<Rightarrow> nat" where
  "round_up b n = (n + 2 ^ b - 1) div 2 ^ b * 2 ^ b"

lemma ilog2_bounds: "0 < n \<Longrightarrow> 2 ^ ilog2 n \<le> n \<and> n < 2 ^ Suc (ilog2 n)"
proof (induction n rule: ilog2.induct)
  case (1 n)
  show ?case
  proof (cases "n < 2")
    case True
    with "1.prems" show ?thesis by (simp add: ilog2.simps[of n])
  next
    case False
    with "1.IH" have "2 ^ ilog2 (n div 2) \<le> n div 2 \<and> n div 2 < 2 ^ Suc (ilog2 (n div 2))"
      by simp
    with False show ?thesis by (simp add: ilog2.simps[of n]) linarith
  qed
qed

lemma power_interval_unique:
  assumes "(2::nat) ^ a \<le> n" "n < 2 ^ Suc b" shows "a \<le> b"
  using assms by (metis le_less_trans less_Suc_eq_le one_less_numeral_iff power_strict_increasing_iff
      semiring_norm(76))

lemma ilog2_eqI:
  assumes "2 ^ k \<le> n" "n < 2 ^ Suc k" shows "ilog2 n = k"
proof -
  have "0 < n" using assms(1) by (cases n) auto
  then show ?thesis
    using ilog2_bounds[of n] assms by (blast intro: le_antisym power_interval_unique)
qed

lemma ilog2_0 [simp]: "ilog2 0 = 0"
  by (simp add: ilog2.simps)

lemma ilog2_power [simp]: "ilog2 (2 ^ k) = k"
  by (rule ilog2_eqI) auto

lemma ilog2_mono:
  assumes "m \<le> n" shows "ilog2 m \<le> ilog2 n"
proof (cases "m = 0")
  case False
  with assms have "2 ^ ilog2 m \<le> n" "n < 2 ^ Suc (ilog2 n)"
    using ilog2_bounds[of m] ilog2_bounds[of n] by (simp_all del: power_Suc)
  then show ?thesis by (rule power_interval_unique)
qed simp

lemma ilog2_less:
  assumes "n < 2 ^ Suc k" shows "ilog2 n \<le> k"
proof (cases "n = 0")
  case False
  then have "2 ^ ilog2 n \<le> n" using ilog2_bounds[of n] by simp
  then show ?thesis using assms by (rule power_interval_unique)
qed simp


section \<open>The bit trick computes the reference\<close>

lemma takeWhile_bits:
  fixes n :: nat
  assumes "0 < n" "n < 2 ^ k"
  shows "length (takeWhile (\<lambda>i. \<not> bit n i) (rev [0..<k])) = k - 1 - ilog2 n"
  using assms
proof (induction k)
  case 0
  then show ?case by simp
next
  case (Suc k)
  show ?case
  proof (cases "n < 2 ^ k")
    case True
    then have "\<not> bit n k" by (simp add: bit_iff_odd)
    moreover have "0 < k" using True Suc.prems(1) by (cases k) auto
    moreover have "ilog2 n \<le> k - 1" using True \<open>0 < k\<close> by (intro ilog2_less) simp
    ultimately show ?thesis using Suc.IH[OF Suc.prems(1) True] by simp
  next
    case False
    then have "n div 2 ^ k = 1" using Suc.prems by (simp add: div_nat_eqI)
    then have "bit n k" by (simp add: bit_iff_odd)
    moreover have "ilog2 n = k"
      using False Suc.prems by (intro ilog2_eqI) auto
    ultimately show ?thesis by simp
  qed
qed

lemma bit_word_unat: "bit (w :: 64 word) = bit (unat w)"
  by (auto simp: fun_eq_iff bit_unsigned_iff)

lemma unat_leading_zeros:
  "unat (leading_zeros w) = (if w = 0 then 64 else 63 - ilog2 (unat w))"
proof -
  have "length (takeWhile (\<lambda>i. \<not> bit w i) (rev [0..<64])) =
      (if w = 0 then 64 else 64 - 1 - ilog2 (unat w))" (is "?n = _")
  proof (cases "w = 0")
    case True
    then have "takeWhile (\<lambda>i. \<not> bit w i) (rev [0..<64]) = rev [0..<64]"
      by (simp only: takeWhile_eq_all_conv bit_0_eq) blast
    with True show ?thesis by (simp only: length_rev length_upt diff_zero simp_thms if_True)
  next
    case False
    moreover have "unat w < 2 ^ 64" "0 < unat w" using False by (simp_all add: unat_gt_0)
    ultimately show ?thesis
      using takeWhile_bits[of "unat w" 64] by (simp only: bit_word_unat if_False)
  qed
  then have "leading_zeros w = of_nat (if w = 0 then 64 else 64 - 1 - ilog2 (unat w))"
    by (simp only: leading_zeros_def)
  then show ?thesis
    by (simp add: unat_of_nat)
qed

lemma unat_ilog2_sub: "unat (saturating_sub 63 (leading_zeros w)) = ilog2 (unat w)"
  using ilog2_less[of "unat w" 63] by (simp add: unat_leading_zeros)

lemma padme_bits_le: "n < 2 ^ 64 \<Longrightarrow> padme_bits n \<le> 57"
proof -
  assume "n < 2 ^ 64"
  then have e: "ilog2 n \<le> 63" using ilog2_less[of n 63] by simp
  show ?thesis
  proof (cases "ilog2 n < 32")
    case False
    then have "ilog2 (2 ^ 5) \<le> ilog2 (ilog2 n)" by (intro ilog2_mono) simp
    then show ?thesis using e by (simp only: ilog2_power padme_bits_def)
  qed (simp add: padme_bits_def)
qed

lemma unat_clear_low_bits: "unat ((a :: usize) AND NOT (mask z)) = unat a div 2 ^ z * 2 ^ z"
proof -
  have "a AND NOT (mask z) = push_bit z (drop_bit z a)"
    by (rule bit_word_eqI) (auto simp: bit_simps)
  moreover have "unat a div 2 ^ z * 2 ^ z < 2 ^ 64"
    using le_less_trans[OF div_times_less_eq_dividend[of "unat a" "2 ^ z"] unat_u64_bound[of a]]
    by simp
  moreover have "take_bit 64 (unat a) = unat a"
    by (simp add: take_bit_nat_eq_self_iff)
  moreover from this have "unat (push_bit z (drop_bit z a)) = take_bit 64 (push_bit z (drop_bit z (unat a)))"
    by (simp add: unsigned_push_bit_eq unsigned_drop_bit_eq)
  ultimately show ?thesis
    by (simp only: push_bit_eq_mult drop_bit_eq_div take_bit_nat_eq_self)
qed

lemma unat_ucast_u32: "unat (ucast (x :: u32) :: usize) = unat x"
  using less_trans[OF unat_u32_bound[of x], of "2 ^ 64"]
  by (simp add: unsigned_ucast_eq take_bit_nat_eq_self_iff)

lemma padme_len_mask:
  "padme_len len = (len + mask (padme_bits (unat len))) AND NOT (mask (padme_bits (unat len)))"
proof -
  let ?e = "ucast (saturating_sub (63 :: u32) (leading_zeros len)) :: usize"
  have e: "unat ?e = ilog2 (unat len)"
    by (simp only: unat_ucast_u32 unat_ilog2_sub)
  then have "unat (saturating_sub (63 :: u32) (leading_zeros ?e)) = ilog2 (ilog2 (unat len))"
    by (simp only: unat_ilog2_sub)
  moreover have "ilog2 (ilog2 (unat len)) \<le> 63"
    using ilog2_less[of "ilog2 (unat len)" 63] ilog2_less[of "unat len" 63] by simp
  ultimately have "unat (saturating_sub (63 :: u32) (leading_zeros ?e) + 1)
      = ilog2 (ilog2 (unat len)) + 1"
    by (simp add: unat_word_ariths)
  with e have "unat (saturating_sub ?e (ucast (saturating_sub (63 :: u32) (leading_zeros ?e) + 1)))
      = padme_bits (unat len)"
    by (simp only: unat_saturating_sub unat_ucast_u32 padme_bits_def)
  then show ?thesis
    by (simp only: padme_len_def Let_def mask_eq_exp_minus_1 push_bit_eq_mult mult_1)
qed

lemma unat_mask_usize:
  assumes "z < 64" shows "unat (mask z :: usize) = 2 ^ z - 1"
proof -
  have "(2::nat) ^ z < 2 ^ 64" using assms by (rule power_strict_increasing) simp
  then have "(mask z :: nat) < 2 ^ 64" by (simp only: mask_eq_exp_minus_1 less_imp_diff_less)
  then have "take_bit 64 (mask z :: nat) = mask z" by (rule take_bit_nat_eq_self)
  then have "unat (of_nat (mask z) :: usize) = mask z"
    by (simp add: unsigned_of_nat)
  then have "unat (mask z :: usize) = mask z" by (simp only: of_nat_mask_eq)
  then show ?thesis by (simp only: mask_eq_exp_minus_1[where 'a = nat])
qed

lemma unat_add_no_wrap: "unat a + unat b < 2 ^ 64 \<Longrightarrow> unat ((a :: usize) + b) = unat a + unat b"
  by (simp add: unat_word_ariths)

lemma unat_padme_len:
  assumes "unat len + 2 ^ 57 \<le> 2 ^ 64"
  shows "unat (padme_len len) = round_up (padme_bits (unat len)) (unat len)"
proof -
  define z where "z = padme_bits (unat len)"
  have z: "z \<le> 57" unfolding z_def by (rule padme_bits_le) simp
  have pow: "(2::nat) ^ z \<le> 2 ^ 57" using z by (rule power_increasing) simp
  have mask: "unat (mask z :: usize) = 2 ^ z - 1"
    using z by (intro unat_mask_usize) simp
  have "unat len + (2 ^ z - 1) < 2 ^ 64"
    using assms pow zero_less_power[of "2::nat" z] by linarith
  then have "unat (len + mask z) = unat len + (2 ^ z - 1)"
    by (simp only: unat_add_no_wrap mask)
  also have "\<dots> = unat len + 2 ^ z - 1"
    using zero_less_power[of "2::nat" z] by linarith
  finally show ?thesis
    by (simp only: padme_len_mask unat_clear_low_bits round_up_def z_def)
qed


section \<open>The reference rounds up, tightly and stably\<close>

lemma round_up_ge: "n \<le> round_up b n"
proof -
  have "(n + 2 ^ b - 1) mod 2 ^ b < 2 ^ b" by (rule mod_less_divisor) simp
  then show ?thesis
    using div_mult_mod_eq[of "n + 2 ^ b - 1" "2 ^ b"] unfolding round_up_def by linarith
qed

lemma round_up_less: "round_up b n < n + 2 ^ b"
  using div_times_less_eq_dividend[of "n + 2 ^ b - 1" "2 ^ b"] zero_less_power[of "2::nat" b]
  unfolding round_up_def by linarith

lemma round_up_dvd: "2 ^ b dvd round_up b n"
  by (simp add: round_up_def)

lemma round_up_of_multiple: "2 ^ b dvd n \<Longrightarrow> round_up b n = n"
proof -
  assume "2 ^ b dvd n"
  moreover from this have "2 ^ b dvd round_up b n - n" by (simp add: round_up_dvd dvd_diff_nat)
  ultimately show ?thesis
    using round_up_ge[of n b] round_up_less[of b n] nat_dvd_not_less[of "round_up b n - n" "2 ^ b"]
    by linarith
qed

lemma round_up_mono: "m \<le> n \<Longrightarrow> round_up b m \<le> round_up b n"
  by (simp add: round_up_def div_le_mono diff_le_mono)

text \<open>Where padding is added at all, its unit times the logarithm stays below the length.\<close>

lemma padme_unit_bound:
  assumes "0 < padme_bits n" shows "2 ^ padme_bits n * ilog2 n < n"
proof -
  let ?e = "ilog2 n" and ?s = "Suc (ilog2 (ilog2 n))"
  have e: "padme_bits n + ?s = ?e" "0 < ?e" using assms by (auto simp: padme_bits_def)
  have "0 < n" using e(2) by (cases n) auto
  have "?e < 2 ^ ?s" using ilog2_bounds[OF e(2)] by blast
  then have "2 ^ padme_bits n * ?e < 2 ^ padme_bits n * 2 ^ ?s" by simp
  also have "\<dots> = 2 ^ ?e" by (simp only: power_add[symmetric] e(1))
  also have "\<dots> \<le> n" using ilog2_bounds[OF \<open>0 < n\<close>] by blast
  finally show ?thesis .
qed

lemma padme_round_overhead: "(round_up (padme_bits n) n - n) * ilog2 n \<le> n"
proof (cases "padme_bits n = 0")
  case True
  then show ?thesis by (simp add: round_up_def)
next
  case False
  have "round_up (padme_bits n) n - n \<le> 2 ^ padme_bits n"
    using round_up_less[of "padme_bits n" n] by linarith
  then have "(round_up (padme_bits n) n - n) * ilog2 n \<le> 2 ^ padme_bits n * ilog2 n"
    by (rule mult_le_mono1)
  also have "\<dots> < n" using padme_unit_bound False by simp
  finally show ?thesis by simp
qed

lemma padme_bits_le_ilog2: "padme_bits n \<le> ilog2 n"
  by (simp add: padme_bits_def)

lemma padme_round_le_power: "0 < n \<Longrightarrow> round_up (padme_bits n) n \<le> 2 ^ Suc (ilog2 n)"
proof -
  assume "0 < n"
  then have "round_up (padme_bits n) n \<le> round_up (padme_bits n) (2 ^ Suc (ilog2 n))"
    using ilog2_bounds[of n] by (intro round_up_mono) simp
  also have "\<dots> = 2 ^ Suc (ilog2 n)"
    using padme_bits_le_ilog2[of n] by (intro round_up_of_multiple le_imp_power_dvd) simp
  finally show ?thesis .
qed

lemma padme_round_power: "round_up (padme_bits (2 ^ k)) (2 ^ k) = 2 ^ k"
  using padme_bits_le_ilog2[of "2 ^ k"] by (intro round_up_of_multiple le_imp_power_dvd) simp

lemma padme_round_idem:
  "round_up (padme_bits (round_up (padme_bits n) n)) (round_up (padme_bits n) n)
     = round_up (padme_bits n) n" (is "round_up (padme_bits ?m) ?m = ?m")
proof (cases "n = 0")
  case True
  then show ?thesis by (simp add: round_up_def padme_bits_def)
next
  case False
  then have n: "0 < n" by simp
  show ?thesis
  proof (cases "?m = 2 ^ Suc (ilog2 n)")
    case True
    then show ?thesis by (simp only: padme_round_power)
  next
    case False
    then have "?m < 2 ^ Suc (ilog2 n)" using padme_round_le_power[OF n] by linarith
    moreover have "2 ^ ilog2 n \<le> ?m"
      using ilog2_bounds[OF n] round_up_ge[of n "padme_bits n"] by linarith
    ultimately have "ilog2 ?m = ilog2 n" by (intro ilog2_eqI)
    then have "padme_bits ?m = padme_bits n" by (simp only: padme_bits_def)
    then show ?thesis by (simp only: round_up_of_multiple[OF round_up_dvd])
  qed
qed


section \<open>Properties\<close>

text \<open>
  The bit-mask computation of \<^verbatim>\<open>padme_len\<close> never shrinks a length and never wraps below
  the stated bound, it rounds up to the next multiple of the power of two given by the two
  nested logarithms, and the padding it adds, multiplied by the logarithm of the length, is at
  most the length: the relative overhead is below one part in \<open>log2 len\<close>.
\<close>

theorem padme_len_bounds:
  assumes "unat len + 2 ^ 57 \<le> 2 ^ 64"
  shows "unat (padme_len len) = round_up (padme_bits (unat len)) (unat len)
    \<and> unat len \<le> unat (padme_len len)
    \<and> (unat (padme_len len) - unat len) * ilog2 (unat len) \<le> unat len"
  using unat_padme_len[OF assms] round_up_ge padme_round_overhead by simp

theorem padme_len_bounds_witness:
  "unat (padme_len 129) = round_up (padme_bits 129) 129 \<and> 129 \<le> unat (padme_len 129)
    \<and> (unat (padme_len 129) - 129) * ilog2 129 \<le> 129"
proof -
  have len: "unat (129 :: usize) = 129" by simp
  have "unat (129 :: usize) + 2 ^ 57 \<le> 2 ^ 64" by simp
  from padme_len_bounds[OF this] show ?thesis unfolding len .
qed

text \<open>
  Padding is stable: a length that already is a padded length is not padded again, so the
  padded lengths are exactly the fixed points of \<^verbatim>\<open>padme_len\<close>, and \<^verbatim>\<open>padme_padding_len\<close> is zero
  on them.
\<close>

theorem padme_len_idempotent:
  assumes "unat len \<le> 2 ^ 63"
  shows "padme_len (padme_len len) = padme_len len \<and> padme_padding_len (padme_len len) = 0"
proof -
  have small: "unat len + 2 ^ 57 \<le> 2 ^ 64" using assms by simp
  have le: "round_up (padme_bits (unat len)) (unat len) \<le> 2 ^ 63"
  proof (cases "unat len = 2 ^ 63")
    case True
    then show ?thesis by (simp only: padme_round_power)
  next
    case False
    show ?thesis
    proof (cases "unat len = 0")
      case True
      then show ?thesis by (simp add: round_up_def padme_bits_def)
    next
      case pos: False
      have "unat len < 2 ^ Suc 62" using assms False by simp
      then have "ilog2 (unat len) \<le> 62" by (rule ilog2_less)
      then have "(2::nat) ^ Suc (ilog2 (unat len)) \<le> 2 ^ 63" by (intro power_increasing) auto
      then show ?thesis using padme_round_le_power[of "unat len"] pos by linarith
    qed
  qed
  have "unat (padme_len len) + 2 ^ 57 \<le> 2 ^ 64" using le by (simp add: unat_padme_len[OF small])
  then have "unat (padme_len (padme_len len)) = unat (padme_len len)"
    using padme_round_idem[of "unat len"] by (simp only: unat_padme_len small)
  then have "padme_len (padme_len len) = padme_len len" by (simp only: word_unat_eq_iff)
  then show ?thesis by (simp add: padme_padding_len_def saturating_sub_def)
qed

theorem padme_len_idempotent_witness:
  "padme_len (padme_len 1000) = padme_len 1000 \<and> padme_padding_len (padme_len 1000) = 0"
  by (rule padme_len_idempotent) simp

end
