(* ===== verification/Common_Crypto.thy ===== *)
theory Common_Crypto
  imports Padme
begin

text \<open>
  The symmetric-crypto layer of \<^verbatim>\<open>common/src\<close>: the versioned persistence codec
  (\<^verbatim>\<open>codec/mod.rs\<close>), authenticated encryption with and without associated data
  (\<^verbatim>\<open>crypto/aead/traits.rs\<close>), its padded variant (\<^verbatim>\<open>crypto/aead/padded.rs\<close>), key derivation
  (\<^verbatim>\<open>crypto/kdf/traits.rs\<close>) and the queue ratchet (\<^verbatim>\<open>crypto/ratchet/mod.rs\<close>).

  CBOR, TLS serialization, AES-GCM, HKDF and the random generator are third-party code and
  arguments of the definitions.  What they are relied on for is named by the predicates
  \<open>aead_correct\<close> and \<open>codec_correct\<close>.
\<close>

section \<open>Errors\<close>

datatype encryption_error =
  RandomnessError | EncryptionError | EncSerializationError | EncRatchetForwardError

datatype decryption_error =
  DecryptionError | DeserializationError | DecSerializationError | DecRatchetForwardError

datatype library_error = LibraryError


section \<open>The persistence codec\<close>

datatype persistence_codec = V1

fun codec_version_byte :: "persistence_codec \<Rightarrow> u8" where
  "codec_version_byte V1 = 1"

datatype 'ce codec_error =
  EmptyInputSlice | UnknownCodecVersion | CodecError persistence_codec 'ce

definition codec_try_from :: "u8 \<Rightarrow> 'ce codec_error + persistence_codec" where
  "codec_try_from value = (if value = 1 then Ok V1 else Err UnknownCodecVersion)"

fun codec_serialize :: "persistence_codec \<Rightarrow> ('a \<Rightarrow> 'ce + bytes) \<Rightarrow> 'a \<Rightarrow> 'ce + bytes" where
  "codec_serialize V1 cbor_to_writer value =
     map_ok (\<lambda>bs. codec_version_byte V1 # bs) (cbor_to_writer value)"

fun codec_deserialize :: "persistence_codec \<Rightarrow> (bytes \<Rightarrow> 'ce + 'a) \<Rightarrow> bytes \<Rightarrow> 'ce + 'a" where
  "codec_deserialize V1 cbor_from_slice bs = cbor_from_slice bs"

definition codec_to_vec :: "('a \<Rightarrow> 'ce + bytes) \<Rightarrow> 'a \<Rightarrow> 'ce codec_error + bytes" where
  "codec_to_vec cbor_to_writer value =
     map_err (CodecError V1) (codec_serialize V1 cbor_to_writer value)"

fun codec_from_slice :: "(bytes \<Rightarrow> 'ce + 'a) \<Rightarrow> bytes \<Rightarrow> 'ce codec_error + 'a" where
  "codec_from_slice cbor_from_slice [] = Err EmptyInputSlice"
| "codec_from_slice cbor_from_slice (b # bs) =
     and_then (codec_try_from b) (\<lambda>version.
       map_err (CodecError version) (codec_deserialize version cbor_from_slice bs))"

text \<open>What a serializer and its deserializer promise: decoding inverts encoding.\<close>

definition codec_correct :: "('a \<Rightarrow> 'e + bytes) \<Rightarrow> (bytes \<Rightarrow> 'd + 'a) \<Rightarrow> bool" where
  "codec_correct enc dec = (\<forall>x bs. enc x = Ok bs \<longrightarrow> dec bs = Ok x)"

lemma codec_correctD: "codec_correct enc dec \<Longrightarrow> enc x = Ok bs \<Longrightarrow> dec bs = Ok x"
  by (simp add: codec_correct_def)

lemma codec_correct_persistence:
  "codec_correct enc dec \<Longrightarrow> codec_correct (codec_to_vec enc) (codec_from_slice dec)"
  by (auto simp: codec_correct_def codec_to_vec_def codec_try_from_def result_simps)

lemma codec_to_vec_nonempty: "codec_to_vec ser x = Ok bs \<Longrightarrow> bs \<noteq> []"
  by (auto simp: codec_to_vec_def result_simps)

lemma codec_correct_inject: "codec_correct enc dec \<Longrightarrow> enc x = Ok bs \<Longrightarrow> enc y = Ok bs \<Longrightarrow> x = y"
  by (metis codec_correctD sum.inject(2))


section \<open>Authenticated encryption\<close>

type_synonym aes_enc = "bytes \<Rightarrow> bytes \<Rightarrow> bytes \<Rightarrow> bytes \<Rightarrow> bytes option"
type_synonym aes_dec = "bytes \<Rightarrow> bytes \<Rightarrow> bytes \<Rightarrow> bytes \<Rightarrow> bytes option"

record aead_ciphertext =
  ciphertext :: bytes
  nonce :: bytes

text \<open>
  \<^verbatim>\<open>AeadKey::encrypt\<close>: a fresh nonce, then AES-GCM over message and associated data.  The
  cipher takes key, nonce, message and associated data; \<open>rnd\<close> is the outcome of the random
  generator.
\<close>

definition aead_encrypt :: "aes_enc \<Rightarrow> bytes option \<Rightarrow> bytes \<Rightarrow> bytes \<Rightarrow> bytes \<Rightarrow>
    encryption_error + aead_ciphertext" where
  "aead_encrypt aes rnd key msg aad =
     and_then (ok_or RandomnessError rnd) (\<lambda>nonce_raw.
     and_then (ok_or EncryptionError (aes key nonce_raw msg aad)) (\<lambda>ct.
     Ok \<lparr> ciphertext = ct, nonce = nonce_raw \<rparr>))"

definition aead_decrypt_with_aad :: "aes_dec \<Rightarrow> bytes \<Rightarrow> aead_ciphertext \<Rightarrow> bytes \<Rightarrow>
    decryption_error + bytes" where
  "aead_decrypt_with_aad aes key ct aad =
     ok_or DecryptionError (aes key (nonce ct) (ciphertext ct) aad)"

definition aead_decrypt :: "aes_dec \<Rightarrow> bytes \<Rightarrow> aead_ciphertext \<Rightarrow> decryption_error + bytes" where
  "aead_decrypt aes key ct = aead_decrypt_with_aad aes key ct []"

text \<open>Decryption under the same key, nonce and associated data returns the message.\<close>

definition aead_correct :: "aes_enc \<Rightarrow> aes_dec \<Rightarrow> bool" where
  "aead_correct enc dec =
     (\<forall>key n msg aad ct. enc key n msg aad = Some ct \<longrightarrow> dec key n ct aad = Some msg)"

text \<open>The default methods of \<^verbatim>\<open>AeadEncryptable\<close> and \<^verbatim>\<open>AeadDecryptable\<close>.\<close>

definition encrypt :: "('a \<Rightarrow> 'te + bytes) \<Rightarrow> aes_enc \<Rightarrow> bytes option \<Rightarrow> bytes \<Rightarrow> 'a \<Rightarrow>
    encryption_error + aead_ciphertext" where
  "encrypt tls_ser aes rnd key value =
     and_then (map_err (\<lambda>_. EncSerializationError) (tls_ser value)) (\<lambda>plaintext.
     aead_encrypt aes rnd key plaintext [])"

definition encrypt_with_aad :: "('a \<Rightarrow> 'te + bytes) \<Rightarrow> ('d \<Rightarrow> 'te + bytes) \<Rightarrow> aes_enc \<Rightarrow>
    bytes option \<Rightarrow> bytes \<Rightarrow> 'a \<Rightarrow> 'd \<Rightarrow> encryption_error + aead_ciphertext" where
  "encrypt_with_aad tls_ser aad_ser aes rnd key value aad =
     and_then (map_err (\<lambda>_. EncSerializationError) (tls_ser value)) (\<lambda>plaintext.
     and_then (map_err (\<lambda>_. EncSerializationError) (aad_ser aad)) (\<lambda>aad_bytes.
     aead_encrypt aes rnd key plaintext aad_bytes))"

definition decrypt :: "(bytes \<Rightarrow> 'te + 'a) \<Rightarrow> aes_dec \<Rightarrow> bytes \<Rightarrow> aead_ciphertext \<Rightarrow>
    decryption_error + 'a" where
  "decrypt tls_de aes key ct =
     and_then (aead_decrypt aes key ct) (\<lambda>plaintext.
     map_err (\<lambda>_. DeserializationError) (tls_de plaintext))"

definition decrypt_with_aad :: "(bytes \<Rightarrow> 'te + 'a) \<Rightarrow> ('d \<Rightarrow> 'te + bytes) \<Rightarrow> aes_dec \<Rightarrow>
    bytes \<Rightarrow> aead_ciphertext \<Rightarrow> 'd \<Rightarrow> decryption_error + 'a" where
  "decrypt_with_aad tls_de aad_ser aes key ct aad =
     and_then (map_err (\<lambda>_. DecSerializationError) (aad_ser aad)) (\<lambda>aad_bytes.
     and_then (aead_decrypt_with_aad aes key ct aad_bytes) (\<lambda>plaintext.
     map_err (\<lambda>_. DeserializationError) (tls_de plaintext)))"

lemma aead_decrypt_encrypt:
  "aead_correct enc dec \<Longrightarrow> aead_encrypt enc rnd key msg aad = Ok ct \<Longrightarrow>
   aead_decrypt_with_aad dec key ct aad = Ok msg"
  by (auto simp: aead_encrypt_def aead_decrypt_with_aad_def aead_correct_def result_simps)

lemma decrypt_encrypt:
  "aead_correct aenc adec \<Longrightarrow> codec_correct ser de \<Longrightarrow> encrypt ser aenc rnd key x = Ok ct \<Longrightarrow>
   decrypt de adec key ct = Ok x"
  by (auto simp: encrypt_def decrypt_def aead_decrypt_def result_simps codec_correctD
      dest: aead_decrypt_encrypt)

lemma decrypt_encrypt_with_aad:
  "aead_correct aenc adec \<Longrightarrow> codec_correct ser de \<Longrightarrow>
   encrypt_with_aad ser aad_ser aenc rnd key x aad = Ok ct \<Longrightarrow>
   decrypt_with_aad de aad_ser adec key ct aad = Ok x"
  by (auto simp: encrypt_with_aad_def decrypt_with_aad_def result_simps codec_correctD
      dest: aead_decrypt_encrypt)


section \<open>Padded framing\<close>

definition PAD_PREFIX_LEN :: usize where "PAD_PREFIX_LEN = 4"

definition PAD_FLOOR :: usize where "PAD_FLOOR = 128"

text \<open>\<^verbatim>\<open>Vec::resize\<close>: truncate, or append copies of the value.\<close>

definition vec_resize :: "nat \<Rightarrow> 'a \<Rightarrow> 'a list \<Rightarrow> 'a list" where
  "vec_resize n v xs = take n xs @ replicate (n - length xs) v"

definition pad :: "bytes \<Rightarrow> usize \<Rightarrow> encryption_error + bytes" where
  "pad content floor =
     (let total = max floor (padme_len (PAD_PREFIX_LEN + of_nat (length content)));
          pad_len = total - PAD_PREFIX_LEN - of_nat (length content)
      in and_then (if unat pad_len < 2 ^ 32 then Ok (ucast pad_len :: u32)
                   else Err EncSerializationError) (\<lambda>pad_len_prefix.
         Ok (vec_resize (unat (PAD_PREFIX_LEN + pad_len)) 0 (le_bytes 4 (unat pad_len_prefix))
             @ content)))"

definition unpad :: "bytes \<Rightarrow> decryption_error + bytes" where
  "unpad plaintext =
     and_then (if unat PAD_PREFIX_LEN \<le> length plaintext
               then Ok (take (unat PAD_PREFIX_LEN) plaintext)
               else Err DeserializationError) (\<lambda>pad_len_prefix.
     (let pad_len = of_nat (from_le_bytes pad_len_prefix) :: usize;
          content_start = (if unat PAD_PREFIX_LEN + unat pad_len < 2 ^ 64
                           then Some (PAD_PREFIX_LEN + pad_len) else None)
      in case content_start of
           None \<Rightarrow> Err DeserializationError
         | Some start \<Rightarrow>
             (if unat start \<le> length plaintext then Ok (drop (unat start) plaintext)
              else Err DeserializationError)))"

definition pad_and_serialize :: "('a \<Rightarrow> 'ce codec_error + bytes) \<Rightarrow> 'a \<Rightarrow> usize \<Rightarrow>
    encryption_error + bytes" where
  "pad_and_serialize to_vec content floor =
     and_then (map_err (\<lambda>_. EncSerializationError) (to_vec content)) (\<lambda>bs. pad bs floor)"

definition encrypt_padded :: "('a \<Rightarrow> 'ce codec_error + bytes) \<Rightarrow> aes_enc \<Rightarrow> bytes option \<Rightarrow>
    usize \<Rightarrow> bytes \<Rightarrow> 'a \<Rightarrow> encryption_error + aead_ciphertext" where
  "encrypt_padded to_vec aes rnd pad_floor key value =
     and_then (pad_and_serialize to_vec value pad_floor) (\<lambda>plaintext.
     aead_encrypt aes rnd key plaintext [])"

definition encrypt_padded_with_aad :: "('a \<Rightarrow> 'ce codec_error + bytes) \<Rightarrow>
    ('d \<Rightarrow> 'ce codec_error + bytes) \<Rightarrow> aes_enc \<Rightarrow> bytes option \<Rightarrow> usize \<Rightarrow> bytes \<Rightarrow> 'a \<Rightarrow> 'd \<Rightarrow>
    encryption_error + aead_ciphertext" where
  "encrypt_padded_with_aad to_vec aad_to_vec aes rnd pad_floor key value aad =
     and_then (pad_and_serialize to_vec value pad_floor) (\<lambda>plaintext.
     and_then (map_err (\<lambda>_. EncSerializationError) (aad_to_vec aad)) (\<lambda>aad_bytes.
     aead_encrypt aes rnd key plaintext aad_bytes))"

definition decrypt_padded :: "(bytes \<Rightarrow> 'ce codec_error + 'a) \<Rightarrow> aes_dec \<Rightarrow> bytes \<Rightarrow>
    aead_ciphertext \<Rightarrow> decryption_error + 'a" where
  "decrypt_padded from_slice aes key ct =
     and_then (aead_decrypt aes key ct) (\<lambda>plaintext.
     and_then (unpad plaintext) (\<lambda>content.
     map_err (\<lambda>_. DeserializationError) (from_slice content)))"

definition decrypt_padded_with_aad :: "(bytes \<Rightarrow> 'ce codec_error + 'a) \<Rightarrow>
    ('d \<Rightarrow> 'ce codec_error + bytes) \<Rightarrow> aes_dec \<Rightarrow> bytes \<Rightarrow> aead_ciphertext \<Rightarrow> 'd \<Rightarrow>
    decryption_error + 'a" where
  "decrypt_padded_with_aad from_slice aad_to_vec aes key ct aad =
     and_then (map_err (\<lambda>_. DecSerializationError) (aad_to_vec aad)) (\<lambda>aad_bytes.
     and_then (aead_decrypt_with_aad aes key ct aad_bytes) (\<lambda>plaintext.
     and_then (unpad plaintext) (\<lambda>content.
     map_err (\<lambda>_. DeserializationError) (from_slice content))))"


subsection \<open>Framing lemmas\<close>

lemma unat_max: "unat (max a b) = max (unat a) (unat b)"
  by (simp add: max_def word_le_nat_alt)

text \<open>The padded length of a content, as the module documentation states it.\<close>

definition padded_total :: "usize \<Rightarrow> nat \<Rightarrow> nat" where
  "padded_total floor n = max (unat floor) (round_up (padme_bits (4 + n)) (4 + n))"

lemma padded_total_ge: "4 + n \<le> padded_total floor n"
  unfolding padded_total_def using round_up_ge[of "4 + n" "padme_bits (4 + n)"]
  by (rule le_trans) simp

text \<open>Contents of this size leave the length arithmetic far from wrapping.\<close>

definition content_fits :: "bytes \<Rightarrow> bool" where
  "content_fits content = (length content + 4 + 2 ^ 57 \<le> 2 ^ 64)"

lemma content_fits_less: "content_fits content \<Longrightarrow> length content + 4 < 2 ^ 64"
  unfolding content_fits_def by (erule less_of_add_le) simp

lemma unat_prefixed_length:
  assumes "content_fits content"
  shows "unat (of_nat (length content) :: usize) = length content"
    and "unat (PAD_PREFIX_LEN + of_nat (length content)) = 4 + length content"
proof -
  note less = content_fits_less[OF assms]
  then show len: "unat (of_nat (length content) :: usize) = length content"
    by (intro unat_of_nat_usize) (rule less_trans[rotated], assumption, simp)
  have four: "unat PAD_PREFIX_LEN = 4" by (simp add: PAD_PREFIX_LEN_def)
  have "unat PAD_PREFIX_LEN + unat (of_nat (length content) :: usize) < 2 ^ 64"
    using less by (simp only: len four add.commute)
  from unat_add_no_wrap[OF this]
  show "unat (PAD_PREFIX_LEN + of_nat (length content)) = 4 + length content"
    by (simp only: four len)
qed

lemma pad_lengths:
  fixes content :: bytes and floor :: usize
  assumes "content_fits content"
  defines "tot \<equiv> max floor (padme_len (PAD_PREFIX_LEN + of_nat (length content)))"
  defines "pad_len \<equiv> tot - PAD_PREFIX_LEN - of_nat (length content)"
  shows "unat tot = padded_total floor (length content)"
    and "unat pad_len = padded_total floor (length content) - (4 + length content)"
    and "unat (PAD_PREFIX_LEN + pad_len) = padded_total floor (length content) - length content"
proof -
  note len = unat_prefixed_length[OF assms(1)]
  have "unat (PAD_PREFIX_LEN + of_nat (length content)) + 2 ^ 57 \<le> 2 ^ 64"
    using assms(1) by (simp only: len content_fits_def ac_simps)
  then show t: "unat tot = padded_total floor (length content)"
    by (simp only: tot_def unat_max unat_padme_len len padded_total_def)
  have four: "unat PAD_PREFIX_LEN = 4" by (simp add: PAD_PREFIX_LEN_def)
  have ge: "4 + length content \<le> unat tot" by (simp only: t padded_total_ge)
  have "unat (tot - PAD_PREFIX_LEN) = unat tot - 4"
    using ge four by (subst unat_sub) (auto simp: word_le_nat_alt)
  then show p: "unat pad_len = padded_total floor (length content) - (4 + length content)"
    unfolding pad_len_def using ge len(1)
    by (subst unat_sub) (auto simp: word_le_nat_alt t)
  have "unat PAD_PREFIX_LEN + unat pad_len < 2 ^ 64"
    using unat_u64_bound[of tot] ge unfolding four p t by simp
  from unat_add_no_wrap[OF this] ge
  show "unat (PAD_PREFIX_LEN + pad_len) = padded_total floor (length content) - length content"
    unfolding four p t by simp
qed

lemma pad_eq:
  fixes content :: bytes and floor :: usize
  assumes "content_fits content"
  defines "k \<equiv> padded_total floor (length content) - (4 + length content)"
  shows "pad content floor =
    (if k < 2 ^ 32 then Ok (le_bytes 4 k @ replicate k 0 @ content) else Err EncSerializationError)"
proof -
  let ?pad_len = "max floor (padme_len (PAD_PREFIX_LEN + of_nat (length content)))
      - PAD_PREFIX_LEN - of_nat (length content)"
  note len = pad_lengths[OF assms(1), of floor]
  have k: "unat ?pad_len = k" by (simp only: len k_def)
  have frame: "unat (PAD_PREFIX_LEN + ?pad_len) = 4 + k"
    using padded_total_ge[of "length content" floor] unfolding len k_def by linarith
  have narrow: "unat (ucast ?pad_len :: u32) = k" if "k < 2 ^ 32"
    using that k by (simp add: unsigned_ucast_eq take_bit_nat_eq_self)
  show ?thesis
    unfolding pad_def Let_def k frame by (simp add: narrow vec_resize_def)
qed

lemma pad_le_prefix [simp]: "take 4 (le_bytes 4 k @ xs) = le_bytes 4 k"
  by simp

lemma unpad_frame:
  assumes "k < 2 ^ 32"
  shows "unpad (le_bytes 4 k @ replicate k 0 @ content) = Ok content"
proof -
  have "from_le_bytes (le_bytes 4 k) = k" using assms by (intro from_le_le_bytes) simp
  moreover have "unat (of_nat k :: usize) = k" using assms by (simp add: unat_of_nat)
  moreover from this have "unat (PAD_PREFIX_LEN + of_nat k) = 4 + k"
    using assms by (subst unat_add_no_wrap) (simp_all add: PAD_PREFIX_LEN_def)
  ultimately show ?thesis
    using assms by (simp add: unpad_def Let_def PAD_PREFIX_LEN_def del: le_bytes.simps)
qed

lemma pad_Ok:
  assumes "content_fits content" "padded_total floor (length content) < 2 ^ 32"
  shows "\<exists>padded. pad content floor = Ok padded"
proof -
  have "padded_total floor (length content) - (4 + length content) < 2 ^ 32"
    using assms(2) by (rule less_imp_diff_less)
  then show ?thesis by (simp only: pad_eq[OF assms(1)] if_True) blast
qed

lemma unpad_pad: "content_fits content \<Longrightarrow> pad content floor = Ok padded \<Longrightarrow> unpad padded = Ok content"
  by (auto simp: pad_eq unpad_frame simp del: le_bytes.simps split: if_splits)

lemma length_pad:
  "content_fits content \<Longrightarrow> pad content floor = Ok padded \<Longrightarrow>
   length padded = padded_total floor (length content)"
  using padded_total_ge[of "length content" floor]
  by (auto simp: pad_eq simp del: le_bytes.simps split: if_splits)


section \<open>Key derivation\<close>

text \<open>
  HKDF is a pair of functions: building the state from a pseudorandom key, which fails on a key
  that is too short, and expanding it to a length.  \<^verbatim>\<open>KdfKey::derive\<close> computes \<open>kdf_info\<close> from its
  label, and expands \<open>info\<close>.
\<close>

definition str_bytes :: "string \<Rightarrow> bytes" where
  "str_bytes s = map of_char s"

definition kdf_key_derive :: "(bytes \<Rightarrow> 'h option) \<Rightarrow> ('h \<Rightarrow> bytes \<Rightarrow> nat \<Rightarrow> bytes option) \<Rightarrow>
    string \<Rightarrow> bytes \<Rightarrow> nat \<Rightarrow> bytes \<Rightarrow> library_error + bytes" where
  "kdf_key_derive from_prk expand ADDITIONAL_LABEL secret len info =
     and_then (ok_or LibraryError (from_prk secret)) (\<lambda>kdf.
     (let kdf_info = str_bytes ADDITIONAL_LABEL @ info
      in ok_or LibraryError (expand kdf info len)))"

definition kdf_derive :: "(bytes \<Rightarrow> 'h option) \<Rightarrow> ('h \<Rightarrow> bytes \<Rightarrow> nat \<Rightarrow> bytes option) \<Rightarrow>
    ('i \<Rightarrow> 'te + bytes) \<Rightarrow> string \<Rightarrow> string \<Rightarrow> nat \<Rightarrow> bytes \<Rightarrow> 'i \<Rightarrow> library_error + bytes" where
  "kdf_derive from_prk expand tls_ser ADDITIONAL_LABEL LABEL output_length kdf_key additional_info =
     and_then (map_err (\<lambda>_. LibraryError) (tls_ser additional_info)) (\<lambda>bs.
     kdf_key_derive from_prk expand ADDITIONAL_LABEL kdf_key output_length (bs @ str_bytes LABEL))"


section \<open>The queue ratchet\<close>

text \<open>
  The ratchet is generic in its payload.  Its key derivations are the two instances of
  \<open>kdf_derive\<close> the key modules declare, with the empty vector as additional information.
\<close>

record queue_ratchet =
  sequence_number :: u64
  secret :: bytes
  ratchet_key :: bytes

record queue_message =
  qm_sequence_number :: u64
  qm_ciphertext :: aead_ciphertext

type_synonym kdf = "string \<Rightarrow> bytes \<Rightarrow> library_error + bytes"

definition RatchetSecret_derive :: "kdf \<Rightarrow> bytes \<Rightarrow> library_error + bytes" where
  "RatchetSecret_derive kdf sec = kdf ''RatchetSecret derive'' sec"

definition RatchetKey_derive :: "kdf \<Rightarrow> bytes \<Rightarrow> library_error + bytes" where
  "RatchetKey_derive kdf sec = kdf ''RatchetKey'' sec"

text \<open>The derivation both instances go through: 32 bytes under the label of a ratchet secret.\<close>

definition ratchet_kdf :: "(bytes \<Rightarrow> 'h option) \<Rightarrow> ('h \<Rightarrow> bytes \<Rightarrow> nat \<Rightarrow> bytes option) \<Rightarrow>
    (bytes \<Rightarrow> 'te + bytes) \<Rightarrow> kdf" where
  "ratchet_kdf from_prk expand tls_ser label sec =
     kdf_derive from_prk expand tls_ser ''RatchetSecret'' label 32 sec []"

definition ratchet_try_from :: "kdf \<Rightarrow> bytes \<Rightarrow> library_error + queue_ratchet" where
  "ratchet_try_from kdf sec =
     and_then (map_err (\<lambda>_. LibraryError) (RatchetKey_derive kdf sec)) (\<lambda>key.
     Ok \<lparr> sequence_number = 0, secret = sec, ratchet_key = key \<rparr>)"

definition ratchet_forward :: "kdf \<Rightarrow> queue_ratchet \<Rightarrow> library_error + queue_ratchet" where
  "ratchet_forward kdf r =
     and_then (RatchetSecret_derive kdf (secret r)) (\<lambda>sec.
     and_then (RatchetKey_derive kdf sec) (\<lambda>key.
     Ok (r\<lparr> secret := sec, ratchet_key := key,
            sequence_number := sequence_number r + 1 \<rparr>)))"

text \<open>\<open>enc\<close> and \<open>dec\<close> are the payload's encryption and decryption under a ratchet key.\<close>

definition ratchet_encrypt :: "kdf \<Rightarrow> (bytes \<Rightarrow> 'p \<Rightarrow> encryption_error + aead_ciphertext) \<Rightarrow>
    'p \<Rightarrow> queue_ratchet \<Rightarrow> encryption_error + (queue_message \<times> queue_ratchet)" where
  "ratchet_encrypt kdf enc payload r =
     and_then (enc (ratchet_key r) payload) (\<lambda>ct.
     (let queue_message = \<lparr> qm_sequence_number = sequence_number r, qm_ciphertext = ct \<rparr>
      in and_then (map_err (\<lambda>_. EncRatchetForwardError) (ratchet_forward kdf r)) (\<lambda>r'.
         Ok (queue_message, r'))))"

definition ratchet_decrypt :: "kdf \<Rightarrow> (bytes \<Rightarrow> aead_ciphertext \<Rightarrow> decryption_error + 'p) \<Rightarrow>
    queue_message \<Rightarrow> queue_ratchet \<Rightarrow> decryption_error + ('p \<times> queue_ratchet)" where
  "ratchet_decrypt kdf dec msg r =
     and_then (dec (ratchet_key r) (qm_ciphertext msg)) (\<lambda>plaintext.
     and_then (map_err (\<lambda>_. DecRatchetForwardError) (ratchet_forward kdf r)) (\<lambda>r'.
     Ok (plaintext, r')))"

text \<open>Encrypting and decrypting a whole sequence, as the two ends of a queue do.\<close>

fun encrypt_all :: "kdf \<Rightarrow> (bytes \<Rightarrow> 'p \<Rightarrow> encryption_error + aead_ciphertext) \<Rightarrow>
    'p list \<Rightarrow> queue_ratchet \<Rightarrow> encryption_error + (queue_message list \<times> queue_ratchet)" where
  "encrypt_all kdf enc [] r = Ok ([], r)"
| "encrypt_all kdf enc (p # ps) r =
     and_then (ratchet_encrypt kdf enc p r) (\<lambda>(m, r').
     and_then (encrypt_all kdf enc ps r') (\<lambda>(ms, r''). Ok (m # ms, r'')))"

fun decrypt_all :: "kdf \<Rightarrow> (bytes \<Rightarrow> aead_ciphertext \<Rightarrow> decryption_error + 'p) \<Rightarrow>
    queue_message list \<Rightarrow> queue_ratchet \<Rightarrow> decryption_error + ('p list \<times> queue_ratchet)" where
  "decrypt_all kdf dec [] r = Ok ([], r)"
| "decrypt_all kdf dec (m # ms) r =
     and_then (ratchet_decrypt kdf dec m r) (\<lambda>(p, r').
     and_then (decrypt_all kdf dec ms r') (\<lambda>(ps, r''). Ok (p # ps, r'')))"

definition payload_correct :: "(bytes \<Rightarrow> 'p \<Rightarrow> encryption_error + aead_ciphertext) \<Rightarrow>
    (bytes \<Rightarrow> aead_ciphertext \<Rightarrow> decryption_error + 'p) \<Rightarrow> bool" where
  "payload_correct enc dec = (\<forall>key p ct. enc key p = Ok ct \<longrightarrow> dec key ct = Ok p)"

lemma payload_correctI:
  "aead_correct aenc adec \<Longrightarrow> codec_correct ser de \<Longrightarrow>
   payload_correct (encrypt ser aenc rnd) (decrypt de adec)"
  by (auto simp: payload_correct_def decrypt_encrypt)

lemma ratchet_decrypt_encrypt:
  "payload_correct enc dec \<Longrightarrow> ratchet_encrypt kdf enc p r = Ok (m, r') \<Longrightarrow>
   ratchet_decrypt kdf dec m r = Ok (p, r')"
  by (auto simp: ratchet_encrypt_def ratchet_decrypt_def payload_correct_def result_simps)

lemma ratchet_forward_sequence_number:
  "ratchet_forward kdf r = Ok r' \<Longrightarrow> sequence_number r' = sequence_number r + 1"
  by (auto simp: ratchet_forward_def result_simps)

lemma ratchet_encrypt_sequence_number:
  "ratchet_encrypt kdf enc p r = Ok (m, r') \<Longrightarrow>
   qm_sequence_number m = sequence_number r \<and> sequence_number r' = sequence_number r + 1"
  by (auto simp: ratchet_encrypt_def result_simps dest: ratchet_forward_sequence_number)

lemma decrypt_all_snoc:
  "decrypt_all kdf dec ms r = Ok (ps, r') \<Longrightarrow> ratchet_decrypt kdf dec m r' = Ok (p, r'') \<Longrightarrow>
   decrypt_all kdf dec (ms @ [m]) r = Ok (ps @ [p], r'')"
  by (induction ms arbitrary: r ps) (fastforce simp: result_simps)+

lemma decrypt_all_sequence_number:
  "decrypt_all kdf dec ms r = Ok (ps, r') \<Longrightarrow>
   length ps = length ms \<and> sequence_number r' = sequence_number r + of_nat (length ms)"
proof (induction ms arbitrary: r ps)
  case (Cons m ms)
  then obtain p r1 ps1 where step: "ratchet_decrypt kdf dec m r = Ok (p, r1)"
    and rest: "decrypt_all kdf dec ms r1 = Ok (ps1, r')" and ps: "ps = p # ps1"
    by (auto simp: result_simps)
  from step have "sequence_number r1 = sequence_number r + 1"
    by (auto simp: ratchet_decrypt_def result_simps dest: ratchet_forward_sequence_number)
  with Cons.IH[OF rest] show ?case by (simp add: ps ac_simps)
qed simp

lemma decrypt_all_encrypt_all:
  "payload_correct enc dec \<Longrightarrow> encrypt_all kdf enc ps r = Ok (ms, r') \<Longrightarrow>
   decrypt_all kdf dec ms r = Ok (ps, r')"
  by (induction ps arbitrary: r ms)
     (auto simp: result_simps split: prod.splits dest!: ratchet_decrypt_encrypt)

lemma encrypt_all_sequence_numbers:
  "encrypt_all kdf enc ps r = Ok (ms, r') \<Longrightarrow>
   map qm_sequence_number ms = map (\<lambda>i. sequence_number r + of_nat i) [0..<length ps] \<and>
   sequence_number r' = sequence_number r + of_nat (length ps)"
proof (induction ps arbitrary: r ms)
  case Nil
  then show ?case by simp
next
  case (Cons p ps)
  from Cons.prems obtain m r1 ms1 where step: "ratchet_encrypt kdf enc p r = Ok (m, r1)"
    and rest: "encrypt_all kdf enc ps r1 = Ok (ms1, r')" and ms: "ms = m # ms1"
    by (auto simp: result_simps split: prod.splits)
  have "map qm_sequence_number ms1 = map (\<lambda>i. sequence_number r + of_nat (Suc i)) [0..<length ps]"
    and "sequence_number r' = sequence_number r + of_nat (Suc (length ps))"
    using Cons.IH[OF rest] ratchet_encrypt_sequence_number[OF step] by (simp_all add: ac_simps)
  then show ?case
    using ratchet_encrypt_sequence_number[OF step] ms
    by (simp add: upt_conv_Cons map_Suc_upt[symmetric] comp_def del: upt_Suc)
qed


section \<open>Properties\<close>

text \<open>
  Framing a content and unframing it returns the content, and the framed length is the
  maximum of the floor and the Padme length of content plus prefix: it depends on the content's
  length only, never on the content, and contents of one padding bucket get one length.
\<close>

theorem pad_unpad_roundtrip:
  assumes "content_fits content" "pad content floor = Ok padded"
  shows "unpad padded = Ok content
    \<and> length padded = max (unat floor) (unat (padme_len (PAD_PREFIX_LEN + of_nat (length content))))"
proof -
  have "unat (PAD_PREFIX_LEN + of_nat (length content)) + 2 ^ 57 \<le> 2 ^ 64"
    using assms(1) by (simp only: unat_prefixed_length content_fits_def ac_simps)
  then have "unat (padme_len (PAD_PREFIX_LEN + of_nat (length content)))
      = round_up (padme_bits (4 + length content)) (4 + length content)"
    using assms(1) by (simp only: unat_padme_len unat_prefixed_length)
  then show ?thesis
    using unpad_pad[OF assms] length_pad[OF assms] by (simp add: padded_total_def)
qed

lemma small_padme_bits: "padme_bits 6 = 0" "padme_bits 7 = 0"
proof -
  have "ilog2 6 = 2" "ilog2 7 = 2" "ilog2 2 = 1" by (rule ilog2_eqI; simp)+
  then show "padme_bits 6 = 0" "padme_bits 7 = 0" by (simp_all add: padme_bits_def)
qed

lemma pad_example: "content_fits [1, 2, 3]"
  "pad [1, 2, 3] 16 = Ok ([9, 0, 0, 0] @ replicate 9 0 @ [1, 2, 3])"
proof -
  show fits: "content_fits [1, 2, 3]" by (simp add: content_fits_def)
  have "padded_total 16 (length [1, 2, 3 :: u8]) - (4 + length [1, 2, 3 :: u8]) = 9"
    by (simp add: padded_total_def round_up_def small_padme_bits)
  moreover have "(9::nat) < 2 ^ 32" "le_bytes 4 9 = [9, 0, 0, 0]"
    by (simp_all add: le_bytes_numeral)
  ultimately show "pad [1, 2, 3] 16 = Ok ([9, 0, 0, 0] @ replicate 9 0 @ [1, 2, 3])"
    by (simp only: pad_eq[OF fits] if_True)
qed

theorem pad_unpad_roundtrip_witness:
  "unpad ([9, 0, 0, 0] @ replicate 9 0 @ [1, 2, 3]) = Ok [1, 2, 3] \<and>
   length ([9, 0, 0, 0] @ replicate 9 0 @ [1, 2, 3 :: u8]) =
     max (unat (16 :: usize)) (unat (padme_len (PAD_PREFIX_LEN + of_nat (length [1, 2, 3 :: u8]))))"
  by (rule pad_unpad_roundtrip[OF pad_example])

text \<open>
  Padded authenticated encryption round-trips: whatever \<^verbatim>\<open>encrypt_padded_with_aad\<close> returns,
  \<^verbatim>\<open>decrypt_padded_with_aad\<close> under the same key and associated data turns back into the value,
  through the version byte of the persistence codec, the padding frame and the cipher.
\<close>

theorem padded_aead_roundtrip:
  assumes "aead_correct aenc adec" "codec_correct cbor_ser cbor_de"
    and "\<And>bs. codec_to_vec cbor_ser value = Ok bs \<Longrightarrow> content_fits bs"
    and "encrypt_padded_with_aad (codec_to_vec cbor_ser) aad_ser aenc rnd pad_floor key value aad = Ok ct"
  shows "decrypt_padded_with_aad (codec_from_slice cbor_de) aad_ser adec key ct aad = Ok value"
proof -
  from assms(4) obtain bs padded aad_bytes where
    ser: "codec_to_vec cbor_ser value = Ok bs" and padded: "pad bs pad_floor = Ok padded"
    and aad: "aad_ser aad = Ok aad_bytes" and ct: "aead_encrypt aenc rnd key padded aad_bytes = Ok ct"
    by (auto simp: encrypt_padded_with_aad_def pad_and_serialize_def result_simps)
  have "unpad padded = Ok bs" using assms(3)[OF ser] padded by (rule unpad_pad)
  moreover have "codec_from_slice cbor_de bs = Ok value"
    using codec_correct_persistence[OF assms(2)] ser by (rule codec_correctD)
  ultimately show ?thesis
    using aead_decrypt_encrypt[OF assms(1) ct] aad by (simp add: decrypt_padded_with_aad_def)
qed

definition plain_aes :: aes_enc where
  "plain_aes key n msg aad = Some (map (\<lambda>b. b + 1) msg)"

definition plain_aes_inv :: aes_dec where
  "plain_aes_inv key n ct aad = Some (map (\<lambda>b. b - 1) ct)"

definition byte_ser :: "u8 \<Rightarrow> unit + bytes" where
  "byte_ser b = Ok [b]"

definition byte_de :: "bytes \<Rightarrow> unit + u8" where
  "byte_de bs = (case bs of [b] \<Rightarrow> Ok b | _ \<Rightarrow> Err ())"

lemma plain_aes_correct: "aead_correct plain_aes plain_aes_inv"
  by (simp add: aead_correct_def plain_aes_def plain_aes_inv_def comp_def)

lemma byte_codec_correct: "codec_correct byte_ser byte_de"
  by (simp add: codec_correct_def byte_ser_def byte_de_def)

theorem padded_aead_roundtrip_witness:
  "case encrypt_padded_with_aad (codec_to_vec byte_ser) (codec_to_vec byte_ser) plain_aes
          (Some [7]) PAD_FLOOR [1] 42 9 of
     Err e \<Rightarrow> False
   | Ok ct \<Rightarrow> decrypt_padded_with_aad (codec_from_slice byte_de) (codec_to_vec byte_ser)
               plain_aes_inv [1] ct 9 = Ok 42"
proof -
  have fits: "content_fits bs" if "codec_to_vec byte_ser 42 = Ok bs" for bs
    using that by (auto simp: codec_to_vec_def byte_ser_def content_fits_def)
  have "padded_total PAD_FLOOR (length [1, 42 :: u8]) = 128"
    by (simp add: padded_total_def round_up_def small_padme_bits PAD_FLOOR_def)
  moreover have "content_fits [1, 42]" by (simp add: content_fits_def)
  ultimately obtain padded where "pad [1, 42] PAD_FLOOR = Ok padded"
    using pad_Ok[of "[1, 42]" PAD_FLOOR] by auto
  then obtain ct where
    "encrypt_padded_with_aad (codec_to_vec byte_ser) (codec_to_vec byte_ser) plain_aes
       (Some [7]) PAD_FLOOR [1] 42 9 = Ok ct"
    by (simp add: encrypt_padded_with_aad_def pad_and_serialize_def codec_to_vec_def byte_ser_def
        aead_encrypt_def plain_aes_def)
  with padded_aead_roundtrip[OF plain_aes_correct byte_codec_correct fits this] show ?thesis
    by simp
qed


definition byte_kdf :: kdf where
  "byte_kdf label sec = Ok (map of_char (take 3 label) @ take 3 sec)"


end
