(* ===== verification/Mls_Types.thy ===== *)
theory Mls_Types
  imports Common_Crypto
begin

text \<open>
  What the code observes of the MLS library.  OpenMLS is third-party code: its messages, commits,
  leaves and group contexts appear as records of the accessors the sources call on them, with the
  rest of each value in an opaque field, and its operations on a public group are the functions
  of the record \<open>openmls\<close>, an argument of every definition that calls them.  The type of public
  groups and the type of ratchet trees are type variables.

  The theory also has \<^verbatim>\<open>common/src/utils/mod.rs\<close>, which reads the removed clients off a commit.
\<close>

section \<open>Leaves, members, proposals\<close>

type_synonym leaf_index = u32
type_synonym group_epoch = u64
type_synonym group_id = bytes
type_synonym signature_key = bytes

record credential =
  cred_is_basic :: bool
  cred_serialized_content :: bytes

datatype leaf_extension = UnknownExtension u16 bytes | OtherExtension bytes

record leaf_node =
  ln_signature_key :: signature_key
  ln_credential :: credential
  ln_extensions :: "leaf_extension list"

record key_package =
  kp_leaf_node :: leaf_node
  kp_hpke_init_key :: bytes
  kp_hash_ref :: "bytes option"

record member =
  m_index :: leaf_index
  m_signature_key :: signature_key
  m_credential :: credential

datatype sender = Member leaf_index | External u32 | NewMemberProposal | NewMemberCommit

datatype proposal =
  Add key_package | Update leaf_node | Remove leaf_index | SelfRemove | OtherProposal u16

datatype proposal_type =
  AddType | UpdateType | RemoveType | SelfRemoveType | OtherType u16

fun proposal_type_of :: "proposal \<Rightarrow> proposal_type" where
  "proposal_type_of (Add _) = AddType"
| "proposal_type_of (Update _) = UpdateType"
| "proposal_type_of (Remove _) = RemoveType"
| "proposal_type_of SelfRemove = SelfRemoveType"
| "proposal_type_of (OtherProposal t) = OtherType t"

record queued_proposal =
  qp_proposal :: proposal
  qp_sender :: sender


section \<open>Contexts, commits, messages\<close>

text \<open>The app-data dictionary of a context's extensions: component ids and their bytes.\<close>

type_synonym component_id = u16

record group_context =
  gc_group_id :: group_id
  gc_epoch :: group_epoch
  gc_ciphersuite :: u16
  gc_app_data_dictionary :: "(component_id \<times> bytes) list option"
  gc_rest :: bytes

record group_info =
  gi_group_context :: group_context
  gi_rest :: bytes

record verifiable_group_info =
  vgi_group_context :: group_context
  vgi_extensions :: bytes
  vgi_confirmation_tag :: bytes
  vgi_signer :: leaf_index
  vgi_signature :: bytes

record staged_commit =
  sc_add_proposals :: "key_package list"
  sc_update_proposals :: "leaf_node list"
  sc_remove_proposals :: "leaf_index list"
  sc_queued_proposals :: "queued_proposal list"
  sc_update_path_leaf_node :: "leaf_node option"
  sc_group_context :: group_context
  sc_rest :: bytes

datatype app_data_op = AppDataUpdate component_id bytes | AppDataRemove component_id

datatype processed_message_content =
    ApplicationMessage bytes
  | ProposalMessage queued_proposal
  | ExternalJoinProposalMessage queued_proposal
  | StagedCommitMessage staged_commit
  | OwnPendingCommit
  | OwnPrivateMessage
  | UnresolvedAppDataCommit "app_data_op list"

record processed_message =
  pr_sender :: sender
  pr_aad :: bytes
  pr_credential :: credential
  pr_content :: processed_message_content

datatype content_type = ContentApplication | ContentProposal | ContentCommit

record public_message =
  pm_content_type :: content_type
  pm_sender :: sender
  pm_epoch :: group_epoch
  pm_group_id :: group_id
  pm_confirmation_tag :: "bytes option"
  pm_rest :: bytes

record private_message =
  prv_epoch :: group_epoch
  prv_group_id :: group_id
  prv_rest :: bytes

datatype protocol_message = PrivateMessage private_message | PublicMessage public_message

record mls_welcome =
  wel_secrets :: "bytes list"
  wel_rest :: bytes

text \<open>The two accessors of a staged commit that overlap agree on the removed leaves.\<close>

definition staged_commit_wf :: "staged_commit \<Rightarrow> bool" where
  "staged_commit_wf sc =
     (\<forall>i. i \<in> set (sc_remove_proposals sc) \<longleftrightarrow>
          Remove i \<in> qp_proposal ` set (sc_queued_proposals sc))"


section \<open>Errors of the library\<close>

datatype openmls_library_error = OpenMlsLibraryError

datatype validation_error = ValidationLibraryError | WrongEpoch | OtherValidationError

datatype public_process_message_error =
  ValidationError validation_error | OtherProcessMessageError

datatype resolve_app_data_commit_error = ResolveAppDataCommitError

type_synonym storage_error = "unit codec_error"

datatype merge_commit_error = MergeLibraryError | MergeStorageError storage_error

datatype creation_error = CreationRejected | WriteToStorageError storage_error


section \<open>Removed clients\<close>

definition removed_client :: "queued_proposal \<Rightarrow> leaf_index option" where
  "removed_client p =
     (case qp_proposal p of
        Remove removed \<Rightarrow> Some removed
      | SelfRemove \<Rightarrow> (case qp_sender p of Member leaf_node_index \<Rightarrow> Some leaf_node_index | _ \<Rightarrow> None)
      | _ \<Rightarrow> None)"

definition removed_clients :: "staged_commit \<Rightarrow> leaf_index list" where
  "removed_clients sc = List.map_filter removed_client (sc_queued_proposals sc)"

lemma removed_client_Some_iff:
  "removed_client p = Some i \<longleftrightarrow>
     qp_proposal p = Remove i \<or> qp_proposal p = SelfRemove \<and> qp_sender p = Member i"
  by (auto simp: removed_client_def split: proposal.splits sender.splits)

lemma set_map_filter: "set (List.map_filter f xs) = {y. \<exists>x \<in> set xs. f x = Some y}"
  by (induction xs) (auto simp: List.map_filter_simps split: option.splits)

lemma set_removed_clients:
  "set (removed_clients sc) =
     {i. \<exists>p \<in> set (sc_queued_proposals sc).
           qp_proposal p = Remove i \<or> qp_proposal p = SelfRemove \<and> qp_sender p = Member i}"
  by (simp add: removed_clients_def set_map_filter removed_client_Some_iff)

lemma remove_proposals_removed:
  assumes "staged_commit_wf sc" "i \<in> set (sc_remove_proposals sc)"
  shows "i \<in> set (removed_clients sc)"
proof -
  from assms obtain p where "p \<in> set (sc_queued_proposals sc)" "Remove i = qp_proposal p"
    unfolding staged_commit_wf_def by blast
  then show ?thesis unfolding set_removed_clients by force
qed

end
