(* ===== verification/Memory_Provider.thy ===== *)
theory Memory_Provider
  imports Mls_Types "HOL-Library.List_Lexorder"
begin

text \<open>
  \<^verbatim>\<open>mls-assist/src/memory_provider.rs\<close>: the in-memory storage that OpenMLS and mls-assist write
  through, keyed by the encoded group id, and its serialization.  The codec is the type parameter
  of the source: every operation takes the encoders and decoders of the values it handles.

  The facts: each of the four payload slots and the proposal queue of a group behaves like a
  variable (what was written is read, a deleted slot is gone, the others keep their content), a
  group without any content leaves no entry, and deserializing a serialized storage gives it back
  whatever order the hash maps are iterated in.
\<close>

section \<open>State\<close>

record public_group_state =
  treesync :: bytes
  interim_transcript_hash :: bytes
  context_bytes :: bytes
  confirmation_tag :: bytes
  proposal_queue :: "(bytes, bytes) btree_map"

definition default_group_state :: public_group_state where
  "default_group_state = \<lparr> treesync = [], interim_transcript_hash = [], context_bytes = [],
     confirmation_tag = [], proposal_queue = [] \<rparr>"

definition pgs_is_empty :: "public_group_state \<Rightarrow> bool" where
  "pgs_is_empty s = (treesync s = [] \<and> interim_transcript_hash s = [] \<and> context_bytes s = []
     \<and> confirmation_tag s = [] \<and> proposal_queue s = [])"

datatype data_type = TreeSync | InterimTranscriptHash | Context | ConfirmationTag

record mem_storage =
  past_states_bytes :: "bytes \<rightharpoonup> bytes"
  group_info_bytes :: "bytes \<rightharpoonup> bytes"
  group_states :: "bytes \<rightharpoonup> public_group_state"

definition empty_storage :: mem_storage where
  "empty_storage = \<lparr> past_states_bytes = Map.empty, group_info_bytes = Map.empty,
     group_states = Map.empty \<rparr>"

text \<open>The field a data type names, and its update.\<close>

fun slot :: "data_type \<Rightarrow> public_group_state \<Rightarrow> bytes" where
  "slot TreeSync s = treesync s"
| "slot InterimTranscriptHash s = interim_transcript_hash s"
| "slot Context s = context_bytes s"
| "slot ConfirmationTag s = confirmation_tag s"

fun set_slot :: "data_type \<Rightarrow> bytes \<Rightarrow> public_group_state \<Rightarrow> public_group_state" where
  "set_slot TreeSync b s = s\<lparr> treesync := b \<rparr>"
| "set_slot InterimTranscriptHash b s = s\<lparr> interim_transcript_hash := b \<rparr>"
| "set_slot Context b s = s\<lparr> context_bytes := b \<rparr>"
| "set_slot ConfirmationTag b s = s\<lparr> confirmation_tag := b \<rparr>"

text \<open>\<^verbatim>\<open>entry(key).or_default()\<close>, and the removal of an entry that became empty.\<close>

definition entry_or_default :: "bytes \<Rightarrow> mem_storage \<Rightarrow> public_group_state" where
  "entry_or_default gid st =
     (case group_states st gid of Some s \<Rightarrow> s | None \<Rightarrow> default_group_state)"

definition put_or_remove :: "bytes \<Rightarrow> public_group_state \<Rightarrow> mem_storage \<Rightarrow> mem_storage" where
  "put_or_remove gid s st =
     st\<lparr> group_states := (group_states st)(gid := if pgs_is_empty s then None else Some s) \<rparr>"


section \<open>Payload slots\<close>

definition write_payload :: "('g \<Rightarrow> 'e + bytes) \<Rightarrow> ('p \<Rightarrow> 'e + bytes) \<Rightarrow> 'g \<Rightarrow> 'p \<Rightarrow> data_type \<Rightarrow>
    mem_storage \<Rightarrow> 'e + mem_storage" where
  "write_payload gid_ser ser group_id payload d st =
     and_then (gid_ser group_id) (\<lambda>gid.
     and_then (ser payload) (\<lambda>b.
     Ok (st\<lparr> group_states := (group_states st)(gid \<mapsto> set_slot d b (entry_or_default gid st)) \<rparr>)))"

definition read_payload :: "('g \<Rightarrow> 'e + bytes) \<Rightarrow> (bytes \<Rightarrow> 'e + 'p) \<Rightarrow> 'g \<Rightarrow> data_type \<Rightarrow>
    mem_storage \<Rightarrow> 'e + 'p option" where
  "read_payload gid_ser de group_id d st =
     and_then (gid_ser group_id) (\<lambda>gid.
     case group_states st gid of
       None \<Rightarrow> Ok None
     | Some s \<Rightarrow> if slot d s = [] then Ok None else map_ok Some (de (slot d s)))"

definition delete_payload :: "('g \<Rightarrow> 'e + bytes) \<Rightarrow> 'g \<Rightarrow> data_type \<Rightarrow> mem_storage \<Rightarrow>
    'e + mem_storage" where
  "delete_payload gid_ser group_id d st =
     and_then (gid_ser group_id) (\<lambda>gid.
     case group_states st gid of
       None \<Rightarrow> Ok st
     | Some s \<Rightarrow> Ok (put_or_remove gid (set_slot d [] s) st))"

definition write_tree where "write_tree gid_ser ser g p = write_payload gid_ser ser g p TreeSync"

definition write_interim_transcript_hash where
  "write_interim_transcript_hash gid_ser ser g p = write_payload gid_ser ser g p InterimTranscriptHash"

definition write_context where "write_context gid_ser ser g p = write_payload gid_ser ser g p Context"

definition write_confirmation_tag where
  "write_confirmation_tag gid_ser ser g p = write_payload gid_ser ser g p ConfirmationTag"

definition read_tree where "read_tree gid_ser de g = read_payload gid_ser de g TreeSync"

definition read_group_context where
  "read_group_context gid_ser de g = read_payload gid_ser de g Context"

definition read_interim_transcript_hash where
  "read_interim_transcript_hash gid_ser de g = read_payload gid_ser de g InterimTranscriptHash"

definition read_confirmation_tag where
  "read_confirmation_tag gid_ser de g = read_payload gid_ser de g ConfirmationTag"

definition delete_tree where "delete_tree gid_ser g = delete_payload gid_ser g TreeSync"

definition delete_confirmation_tag where
  "delete_confirmation_tag gid_ser g = delete_payload gid_ser g ConfirmationTag"

definition delete_context where "delete_context gid_ser g = delete_payload gid_ser g Context"

definition delete_interim_transcript_hash where
  "delete_interim_transcript_hash gid_ser g = delete_payload gid_ser g InterimTranscriptHash"


section \<open>The proposal queue\<close>

definition queue_proposal :: "('g \<Rightarrow> 'e + bytes) \<Rightarrow> ('r \<Rightarrow> 'e + bytes) \<Rightarrow> ('q \<Rightarrow> 'e + bytes) \<Rightarrow>
    'g \<Rightarrow> 'r \<Rightarrow> 'q \<Rightarrow> mem_storage \<Rightarrow> 'e + mem_storage" where
  "queue_proposal gid_ser ref_ser prop_ser group_id proposal_ref prop st =
     and_then (gid_ser group_id) (\<lambda>gid.
     and_then (ref_ser proposal_ref) (\<lambda>r.
     and_then (prop_ser prop) (\<lambda>p.
     (let s = entry_or_default gid st
      in Ok (st\<lparr> group_states := (group_states st)
            (gid \<mapsto> s\<lparr> proposal_queue := bt_insert r p (proposal_queue s) \<rparr>) \<rparr>)))))"

definition queued_proposals :: "('g \<Rightarrow> 'e + bytes) \<Rightarrow> (bytes \<Rightarrow> 'e + 'r) \<Rightarrow> (bytes \<Rightarrow> 'e + 'q) \<Rightarrow>
    'g \<Rightarrow> mem_storage \<Rightarrow> 'e + ('r \<times> 'q) list" where
  "queued_proposals gid_ser ref_de prop_de group_id st =
     and_then (gid_ser group_id) (\<lambda>gid.
     case group_states st gid of
       None \<Rightarrow> Ok []
     | Some s \<Rightarrow>
         collect_res (\<lambda>(r, p). and_then (ref_de r) (\<lambda>r'. and_then (prop_de p) (\<lambda>p'. Ok (r', p'))))
           (proposal_queue s))"

definition remove_proposal :: "('g \<Rightarrow> 'e + bytes) \<Rightarrow> ('r \<Rightarrow> 'e + bytes) \<Rightarrow> 'g \<Rightarrow> 'r \<Rightarrow>
    mem_storage \<Rightarrow> 'e + mem_storage" where
  "remove_proposal gid_ser ref_ser group_id proposal_ref st =
     and_then (gid_ser group_id) (\<lambda>gid.
     and_then (ref_ser proposal_ref) (\<lambda>r.
     case group_states st gid of
       None \<Rightarrow> Ok st
     | Some s \<Rightarrow>
         Ok (put_or_remove gid (s\<lparr> proposal_queue := bt_remove r (proposal_queue s) \<rparr>) st)))"

definition clear_proposal_queue :: "('g \<Rightarrow> 'e + bytes) \<Rightarrow> 'g \<Rightarrow> mem_storage \<Rightarrow> 'e + mem_storage" where
  "clear_proposal_queue gid_ser group_id st =
     and_then (gid_ser group_id) (\<lambda>gid.
     case group_states st gid of
       None \<Rightarrow> Ok st
     | Some s \<Rightarrow> Ok (put_or_remove gid (s\<lparr> proposal_queue := [] \<rparr>) st))"


section \<open>Group infos and past group states\<close>

definition write_past_group_states :: "('g \<Rightarrow> 'e + bytes) \<Rightarrow> ('p \<Rightarrow> 'e + bytes) \<Rightarrow> 'g \<Rightarrow> 'p \<Rightarrow>
    mem_storage \<Rightarrow> 'e + mem_storage" where
  "write_past_group_states gid_ser ser group_id states st =
     and_then (gid_ser group_id) (\<lambda>gid.
     and_then (ser states) (\<lambda>b.
     Ok (st\<lparr> past_states_bytes := (past_states_bytes st)(gid \<mapsto> b) \<rparr>)))"

definition read_past_group_states :: "('g \<Rightarrow> 'e + bytes) \<Rightarrow> (bytes \<Rightarrow> 'e + 'p) \<Rightarrow> 'g \<Rightarrow>
    mem_storage \<Rightarrow> 'e + 'p option" where
  "read_past_group_states gid_ser de group_id st =
     and_then (gid_ser group_id) (\<lambda>gid.
     case past_states_bytes st gid of None \<Rightarrow> Ok None | Some b \<Rightarrow> map_ok Some (de b))"

definition delete_past_group_states :: "('g \<Rightarrow> 'e + bytes) \<Rightarrow> 'g \<Rightarrow> mem_storage \<Rightarrow>
    'e + mem_storage" where
  "delete_past_group_states gid_ser group_id st =
     and_then (gid_ser group_id) (\<lambda>gid.
     Ok (st\<lparr> past_states_bytes := (past_states_bytes st)(gid := None) \<rparr>))"

definition write_group_info :: "('g \<Rightarrow> 'e + bytes) \<Rightarrow> ('p \<Rightarrow> 'e + bytes) \<Rightarrow> 'g \<Rightarrow> 'p \<Rightarrow>
    mem_storage \<Rightarrow> 'e + mem_storage" where
  "write_group_info gid_ser ser group_id info st =
     and_then (gid_ser group_id) (\<lambda>gid.
     and_then (ser info) (\<lambda>b.
     Ok (st\<lparr> group_info_bytes := (group_info_bytes st)(gid \<mapsto> b) \<rparr>)))"

definition read_group_info :: "('g \<Rightarrow> 'e + bytes) \<Rightarrow> (bytes \<Rightarrow> 'e + 'p) \<Rightarrow> 'g \<Rightarrow>
    mem_storage \<Rightarrow> 'e + 'p option" where
  "read_group_info gid_ser de group_id st =
     and_then (gid_ser group_id) (\<lambda>gid.
     case group_info_bytes st gid of None \<Rightarrow> Ok None | Some b \<Rightarrow> map_ok Some (de b))"

definition delete_group_info :: "('g \<Rightarrow> 'e + bytes) \<Rightarrow> 'g \<Rightarrow> mem_storage \<Rightarrow> 'e + mem_storage" where
  "delete_group_info gid_ser group_id st =
     and_then (gid_ser group_id) (\<lambda>gid.
     Ok (st\<lparr> group_info_bytes := (group_info_bytes st)(gid := None) \<rparr>))"


section \<open>Serialization\<close>

text \<open>
  The wire form of a group state has its queue as a vector of pairs; reading it back collects
  the pairs into an ordered map again.
\<close>

type_synonym raw_group_state = "bytes \<times> bytes \<times> bytes \<times> bytes \<times> (bytes \<times> bytes) list"

definition pgs_to_raw :: "public_group_state \<Rightarrow> raw_group_state" where
  "pgs_to_raw s = (treesync s, interim_transcript_hash s, context_bytes s, confirmation_tag s,
     map (\<lambda>(k, v). (k, v)) (proposal_queue s))"

definition pgs_of_raw :: "raw_group_state \<Rightarrow> public_group_state" where
  "pgs_of_raw r = (case r of (t, i, c, tag, q) \<Rightarrow>
     \<lparr> treesync = t, interim_transcript_hash = i, context_bytes = c, confirmation_tag = tag,
       proposal_queue = fold (\<lambda>(k, v). bt_insert k v) q [] \<rparr>)"

record serializable_storage =
  storage_bytes :: "(bytes \<times> bytes) list"
  past_group_states_bytes :: "(bytes \<times> bytes) list"
  group_infos_bytes :: "(bytes \<times> bytes) list"

text \<open>A list is one order in which a hash map may be iterated; collecting inserts in order.\<close>

definition iterates :: "('k \<times> 'v) list \<Rightarrow> ('k \<rightharpoonup> 'v) \<Rightarrow> bool" where
  "iterates xs m = (distinct (map fst xs) \<and> map_of xs = m)"

definition collect_map :: "('k \<times> 'v) list \<Rightarrow> ('k \<rightharpoonup> 'v)" where
  "collect_map xs = fold (\<lambda>(k, v) m. m(k \<mapsto> v)) xs Map.empty"

text \<open>\<^verbatim>\<open>serialize\<close> on the three maps as their iterators yield them.\<close>

definition storage_serialize :: "(raw_group_state \<Rightarrow> 'e + bytes) \<Rightarrow> (serializable_storage \<Rightarrow> 'e + bytes) \<Rightarrow>
    (bytes \<times> public_group_state) list \<Rightarrow> (bytes \<times> bytes) list \<Rightarrow> (bytes \<times> bytes) list \<Rightarrow> 'e + bytes" where
  "storage_serialize state_ser ser states past infos =
     and_then (collect_res (\<lambda>(key, value). map_ok (\<lambda>b. (key, b)) (state_ser (pgs_to_raw value))) states)
       (\<lambda>sb. ser \<lparr> storage_bytes = sb,
                   past_group_states_bytes = map (\<lambda>(k, v). (k, v)) past,
                   group_infos_bytes = map (\<lambda>(k, v). (k, v)) infos \<rparr>)"

definition storage_deserialize :: "(bytes \<Rightarrow> 'e + raw_group_state) \<Rightarrow> (bytes \<Rightarrow> 'e + serializable_storage) \<Rightarrow>
    bytes \<Rightarrow> 'e + mem_storage" where
  "storage_deserialize state_de de bs =
     and_then (de bs) (\<lambda>d.
     and_then (collect_res (\<lambda>(k, v). map_ok (\<lambda>r. (k, pgs_of_raw r)) (state_de v)) (storage_bytes d))
       (\<lambda>states. Ok \<lparr> past_states_bytes = collect_map (past_group_states_bytes d),
                       group_info_bytes = collect_map (group_infos_bytes d),
                       group_states = collect_map states \<rparr>))"


section \<open>The storage seen as variables\<close>

text \<open>What a slot and a queue of a group hold; an absent group holds nothing.\<close>

definition stored :: "mem_storage \<Rightarrow> bytes \<Rightarrow> data_type \<Rightarrow> bytes" where
  "stored st gid d = (case group_states st gid of None \<Rightarrow> [] | Some s \<Rightarrow> slot d s)"

definition stored_queue :: "mem_storage \<Rightarrow> bytes \<Rightarrow> (bytes, bytes) btree_map" where
  "stored_queue st gid = (case group_states st gid of None \<Rightarrow> [] | Some s \<Rightarrow> proposal_queue s)"

text \<open>Entries are kept only for groups with content, and queues are ordered.\<close>

definition storage_wf :: "mem_storage \<Rightarrow> bool" where
  "storage_wf st =
     (\<forall>gid s. group_states st gid = Some s \<longrightarrow> \<not> pgs_is_empty s \<and> bt_ordered (proposal_queue s))"

text \<open>A storage as the program can build it: well formed, with finitely many entries.\<close>

definition storage_proper :: "mem_storage \<Rightarrow> bool" where
  "storage_proper st = (storage_wf st \<and> finite (dom (group_states st))
     \<and> finite (dom (past_states_bytes st)) \<and> finite (dom (group_info_bytes st)))"

lemma slot_set_slot [simp]: "slot d (set_slot d' b s) = (if d = d' then b else slot d s)"
  by (cases d; cases d') simp_all

lemma proposal_queue_set_slot [simp]: "proposal_queue (set_slot d b s) = proposal_queue s"
  by (cases d) simp_all

lemma slot_queue_update [simp]: "slot d (s\<lparr> proposal_queue := q \<rparr>) = slot d s"
  by (cases d) simp_all

lemma slot_default [simp]: "slot d default_group_state = []"
  "proposal_queue default_group_state = []"
  by (cases d) (simp_all add: default_group_state_def)

lemma all_data_type:
  "(\<forall>d. P d) = (P TreeSync \<and> P InterimTranscriptHash \<and> P Context \<and> P ConfirmationTag)"
  by (metis data_type.exhaust)

lemma pgs_is_empty_iff: "pgs_is_empty s = ((\<forall>d. slot d s = []) \<and> proposal_queue s = [])"
  by (simp add: pgs_is_empty_def all_data_type)

lemma entry_or_default_slot [simp]:
  "slot d (entry_or_default gid st) = stored st gid d"
  "proposal_queue (entry_or_default gid st) = stored_queue st gid"
  by (simp_all add: entry_or_default_def stored_def stored_queue_def split: option.splits)

lemma stored_put_or_remove [simp]:
  "stored (put_or_remove gid s st) gid' d = (if gid' = gid then slot d s else stored st gid' d)"
  "stored_queue (put_or_remove gid s st) gid' =
     (if gid' = gid then proposal_queue s else stored_queue st gid')"
  by (auto simp: stored_def stored_queue_def put_or_remove_def pgs_is_empty_iff)

lemma storage_wf_put_or_remove [inv_intros]:
  "storage_wf st \<Longrightarrow> bt_ordered (proposal_queue s) \<Longrightarrow> storage_wf (put_or_remove gid s st)"
  by (auto simp: storage_wf_def put_or_remove_def)

lemma storage_wf_ordered: "storage_wf st \<Longrightarrow> bt_ordered (stored_queue st gid)"
  by (auto simp: storage_wf_def stored_queue_def split: option.splits)

lemma storage_wf_empty [inv_intros]: "storage_wf empty_storage"
  by (simp add: storage_wf_def empty_storage_def)


lemma storage_proper_empty [inv_intros]: "storage_proper empty_storage"
  by (simp add: storage_proper_def storage_wf_empty) (simp add: empty_storage_def)

lemma storage_proper_write_group_info [inv_intros]:
  "storage_proper st \<Longrightarrow> write_group_info gid_ser ser g i st = Ok st' \<Longrightarrow> storage_proper st'"
  by (auto simp: storage_proper_def storage_wf_def write_group_info_def result_simps)

lemma storage_proper_write_past_group_states [inv_intros]:
  "storage_proper st \<Longrightarrow> write_past_group_states gid_ser ser g i st = Ok st' \<Longrightarrow> storage_proper st'"
  by (auto simp: storage_proper_def storage_wf_def write_past_group_states_def result_simps)


subsection \<open>Reads and writes of slots\<close>

lemma read_payload_stored:
  "gid_ser g = Ok gid \<Longrightarrow> read_payload gid_ser de g d st =
     (if stored st gid d = [] then Ok None else map_ok Some (de (stored st gid d)))"
  by (simp add: read_payload_def stored_def split: option.splits)

lemma write_payload_stored:
  assumes "write_payload gid_ser ser g p d st = Ok st'"
  obtains gid b where "gid_ser g = Ok gid" "ser p = Ok b"
    "\<And>gid' d'. stored st' gid' d' = (if gid' = gid \<and> d' = d then b else stored st gid' d')"
    "\<And>gid'. stored_queue st' gid' = stored_queue st gid'"
    "past_states_bytes st' = past_states_bytes st" "group_info_bytes st' = group_info_bytes st"
proof -
  from assms obtain gid b where gb: "gid_ser g = Ok gid" "ser p = Ok b"
    and st': "st' = st\<lparr> group_states := (group_states st)(gid \<mapsto> set_slot d b (entry_or_default gid st)) \<rparr>"
    by (auto simp: write_payload_def result_simps)
  show ?thesis
  proof (rule that[OF gb])
    show "stored st' gid' d' = (if gid' = gid \<and> d' = d then b else stored st gid' d')" for gid' d'
      by (subst stored_def) (simp add: st', simp add: stored_def)
    show "stored_queue st' gid' = stored_queue st gid'" for gid'
      by (subst stored_queue_def) (simp add: st', simp add: stored_queue_def)
  qed (simp_all add: st')
qed

lemma delete_payload_stored:
  assumes "delete_payload gid_ser g d st = Ok st'"
  obtains gid where "gid_ser g = Ok gid"
    "\<And>gid' d'. stored st' gid' d' = (if gid' = gid \<and> d' = d then [] else stored st gid' d')"
    "\<And>gid'. stored_queue st' gid' = stored_queue st gid'"
    "past_states_bytes st' = past_states_bytes st" "group_info_bytes st' = group_info_bytes st"
    "storage_wf st \<Longrightarrow> storage_wf st'"
proof -
  from assms obtain gid where gid: "gid_ser g = Ok gid"
    by (auto simp: delete_payload_def result_simps)
  show ?thesis
  proof (cases "group_states st gid")
    case None
    then have st': "st' = st" using assms gid by (simp add: delete_payload_def)
    moreover have "stored st gid d = []" using None by (simp add: stored_def)
    ultimately show ?thesis using that[OF gid] by auto
  next
    case (Some s)
    then have st': "st' = put_or_remove gid (set_slot d [] s) st"
      using assms gid by (simp add: delete_payload_def)
    have "bt_ordered (proposal_queue s)" if "storage_wf st"
      using that Some by (auto simp: storage_wf_def)
    moreover have "slot d' s = stored st gid d'" "proposal_queue s = stored_queue st gid" for d'
      using Some by (simp_all add: stored_def stored_queue_def)
    ultimately show ?thesis
      by (intro that[OF gid]) (simp_all add: st' storage_wf_put_or_remove,
          simp_all add: put_or_remove_def)
  qed
qed

lemma queued_proposals_stored:
  "queued_proposals gid_ser ref_de prop_de g st = and_then (gid_ser g) (\<lambda>gid.
     collect_res (\<lambda>(r, p). and_then (ref_de r) (\<lambda>r'. and_then (prop_de p) (\<lambda>p'. Ok (r', p'))))
       (stored_queue st gid))"
  by (cases "gid_ser g") (auto simp: queued_proposals_def stored_queue_def split: option.splits)

lemma storage_wf_write_payload [inv_intros]:
  assumes "storage_wf st" "write_payload gid_ser ser g p d st = Ok st'" "\<And>b. ser p = Ok b \<Longrightarrow> b \<noteq> []"
  shows "storage_wf st'"
proof -
  from assms(2) obtain gid b where "ser p = Ok b"
    and st': "st' = st\<lparr> group_states := (group_states st)(gid \<mapsto> set_slot d b (entry_or_default gid st)) \<rparr>"
    by (auto simp: write_payload_def result_simps)
  with assms(3) have "\<not> pgs_is_empty (set_slot d b (entry_or_default gid st))"
    by (auto simp: pgs_is_empty_iff intro!: exI[of _ d])
  with assms(1) show ?thesis
    using storage_wf_ordered[OF assms(1), of gid] by (auto simp: storage_wf_def st')
qed

lemma queue_proposal_stored:
  assumes "queue_proposal gid_ser ref_ser prop_ser g r p st = Ok st'"
  obtains gid rb pb where "gid_ser g = Ok gid" "ref_ser r = Ok rb" "prop_ser p = Ok pb"
    "\<And>gid'. stored_queue st' gid' =
       (if gid' = gid then bt_insert rb pb (stored_queue st gid) else stored_queue st gid')"
    "\<And>gid' d. stored st' gid' d = stored st gid' d" "storage_wf st \<Longrightarrow> storage_wf st'"
proof -
  from assms obtain gid rb pb where gb: "gid_ser g = Ok gid" "ref_ser r = Ok rb" "prop_ser p = Ok pb"
    and st': "st' = st\<lparr> group_states := (group_states st)(gid \<mapsto> (entry_or_default gid st)
        \<lparr> proposal_queue := bt_insert rb pb (stored_queue st gid) \<rparr>) \<rparr>"
    by (auto simp: queue_proposal_def result_simps Let_def)
  show ?thesis
  proof (rule that[OF gb])
    show "stored_queue st' gid' =
        (if gid' = gid then bt_insert rb pb (stored_queue st gid) else stored_queue st gid')" for gid'
      by (simp add: st' stored_queue_def)
    show "stored st' gid' d = stored st gid' d" for gid' d
      by (subst stored_def) (simp add: st', simp add: stored_def)
    show "storage_wf st'" if "storage_wf st"
      using that bt_ordered_insert[OF storage_wf_ordered[OF that]]
      by (auto simp: storage_wf_def st' pgs_is_empty_def bt_insert_def)
  qed
qed

subsection \<open>The round trip\<close>

lemma collect_map_iterates: "iterates xs m \<Longrightarrow> collect_map xs = m"
proof -
  have "fold (\<lambda>(k, v) m. m(k \<mapsto> v)) xs m0 = m0 ++ map_of (rev xs)" for m0 and xs :: "('a \<times> 'b) list"
    by (induction xs arbitrary: m0) (auto simp: map_add_upd)
  moreover assume "iterates xs m"
  ultimately show ?thesis by (simp add: collect_map_def iterates_def map_of_rev_distinct)
qed

lemma pgs_raw_roundtrip: "bt_ordered (proposal_queue s) \<Longrightarrow> pgs_of_raw (pgs_to_raw s) = s"
  by (simp add: pgs_of_raw_def pgs_to_raw_def collect_ordered)



lemma storage_serialize_roundtrip_lemma:
  assumes "storage_wf st" "codec_correct state_ser state_de" "codec_correct ser de"
    and "iterates states (group_states st)" "iterates past (past_states_bytes st)"
    and "iterates infos (group_info_bytes st)"
    and "storage_serialize state_ser ser states past infos = Ok bs"
  shows "storage_deserialize state_de de bs = Ok st"
proof -
  from assms(7) obtain sb where
    sb: "collect_res (\<lambda>(key, value). map_ok (\<lambda>b. (key, b)) (state_ser (pgs_to_raw value))) states = Ok sb"
    and bs: "ser \<lparr> storage_bytes = sb, past_group_states_bytes = past, group_infos_bytes = infos \<rparr> = Ok bs"
    by (auto simp: storage_serialize_def result_simps)
  have wf: "bt_ordered (proposal_queue s)" if "(k, s) \<in> set states" for k s
  proof -
    have "group_states st k = Some s"
      using that assms(4) by (metis iterates_def map_of_is_SomeI)
    then show ?thesis using assms(1) by (simp add: storage_wf_def)
  qed
  from sb have "collect_res (\<lambda>(k, v). map_ok (\<lambda>r. (k, pgs_of_raw r)) (state_de v)) sb = Ok states"
    by (rule collect_res_inverse)
       (auto simp: result_simps pgs_raw_roundtrip wf simp del: ex_simps split_paired_Ex
         dest!: codec_correctD[OF assms(2)] intro!: exI[of _ "pgs_to_raw _"])
  moreover have "de bs
      = Ok \<lparr> storage_bytes = sb, past_group_states_bytes = past, group_infos_bytes = infos \<rparr>"
    using assms(3) bs by (rule codec_correctD)
  ultimately show ?thesis
    using assms(4,5,6) by (simp add: storage_deserialize_def collect_map_iterates)
qed


section \<open>Properties\<close>

text \<open>
  A payload slot is a variable per group and data type: through the persistence codec a read
  after a write returns the value written, and every other slot of every group, its queued
  proposals, the group infos and the past group states are read as before.
\<close>

theorem payload_slot_write_read:
  assumes gid: "codec_correct gid_ser gid_de" and val: "codec_correct ser de"
    and written: "write_payload (codec_to_vec gid_ser) (codec_to_vec ser) g p d st = Ok st'"
  shows "read_payload (codec_to_vec gid_ser) (codec_from_slice de) g d st' = Ok (Some p)
    \<and> (g' \<noteq> g \<or> d' \<noteq> d \<longrightarrow>
        read_payload (codec_to_vec gid_ser) de' g' d' st'
        = read_payload (codec_to_vec gid_ser) de' g' d' st)
    \<and> queued_proposals (codec_to_vec gid_ser) ref_de prop_de g' st'
        = queued_proposals (codec_to_vec gid_ser) ref_de prop_de g' st
    \<and> group_info_bytes st' = group_info_bytes st \<and> past_states_bytes st' = past_states_bytes st"
proof -
  note gid' = codec_correct_persistence[OF gid] and val' = codec_correct_persistence[OF val]
  from written obtain k b where kb: "codec_to_vec gid_ser g = Ok k" "codec_to_vec ser p = Ok b"
    and slots: "\<And>k' d'. stored st' k' d' = (if k' = k \<and> d' = d then b else stored st k' d')"
    and queues: "\<And>k'. stored_queue st' k' = stored_queue st k'"
    and rest: "past_states_bytes st' = past_states_bytes st" "group_info_bytes st' = group_info_bytes st"
    by (rule write_payload_stored) blast
  have same: "read_payload (codec_to_vec gid_ser) (codec_from_slice de) g d st' = Ok (Some p)"
    using codec_to_vec_nonempty[OF kb(2)] codec_correctD[OF val' kb(2)]
    by (simp add: read_payload_stored[where gid_ser = "codec_to_vec gid_ser", OF kb(1)] slots)
  have other: "read_payload (codec_to_vec gid_ser) de' g' d' st'
      = read_payload (codec_to_vec gid_ser) de' g' d' st" if "g' \<noteq> g \<or> d' \<noteq> d"
  proof (cases "codec_to_vec gid_ser g'")
    case (Inl e)
    then show ?thesis by (simp add: read_payload_def)
  next
    case (Inr k')
    then have "k' \<noteq> k \<or> d' \<noteq> d" using that codec_correct_inject[OF gid' kb(1)] by blast
    then show ?thesis
      by (auto simp: read_payload_stored[where gid_ser = "codec_to_vec gid_ser", OF Inr] slots)
  qed
  show ?thesis using same other rest by (simp add: queued_proposals_stored queues)
qed

theorem payload_slot_write_read_witness:
  "case write_payload (codec_to_vec byte_ser) (codec_to_vec byte_ser) 1 42 Context empty_storage of
     Err e \<Rightarrow> False
   | Ok st' \<Rightarrow> read_payload (codec_to_vec byte_ser) (codec_from_slice byte_de) 1 Context st'
       = Ok (Some 42)"
proof -
  obtain st' where "write_payload (codec_to_vec byte_ser) (codec_to_vec byte_ser) 1 42 Context
      empty_storage = Ok st'"
    by (simp add: write_payload_def codec_to_vec_def byte_ser_def)
  with payload_slot_write_read[OF byte_codec_correct byte_codec_correct this,
      of 1 Context "\<lambda>_. Err EmptyInputSlice" "\<lambda>_. Ok ()" "\<lambda>_. Ok ()"] show ?thesis
    by simp
qed

text \<open>
  Persisting a storage loses nothing: whatever order the three hash maps are iterated in,
  deserializing the serialized bytes gives the storage back, proposal queues included.
\<close>

theorem storage_serialize_roundtrip:
  assumes "storage_wf st" "codec_correct state_ser state_de" "codec_correct ser de"
    and "iterates states (group_states st)" "iterates past (past_states_bytes st)"
    and "iterates infos (group_info_bytes st)"
    and "storage_serialize state_ser ser states past infos = Ok bs"
  shows "storage_deserialize state_de de bs = Ok st"
  using assms by (rule storage_serialize_roundtrip_lemma)

text \<open>A codec for the witness: it writes a slot, and the whole storage as one entry.\<close>

definition tiny_state_ser :: "raw_group_state \<Rightarrow> unit + bytes" where
  "tiny_state_ser r = (case r of ([t], [], [], [], []) \<Rightarrow> Ok [t] | _ \<Rightarrow> Err ())"

definition tiny_state_de :: "bytes \<Rightarrow> unit + raw_group_state" where
  "tiny_state_de bs = (case bs of [t] \<Rightarrow> Ok ([t], [], [], [], []) | _ \<Rightarrow> Err ())"

definition tiny_ser :: "serializable_storage \<Rightarrow> unit + bytes" where
  "tiny_ser s =
     (if past_group_states_bytes s = [] \<and> group_infos_bytes s = [] then
        (case storage_bytes s of [([k], [v])] \<Rightarrow> Ok [k, v] | _ \<Rightarrow> Err ()) else Err ())"

definition tiny_de :: "bytes \<Rightarrow> unit + serializable_storage" where
  "tiny_de bs = (case bs of [k, v] \<Rightarrow> Ok \<lparr> storage_bytes = [([k], [v])],
     past_group_states_bytes = [], group_infos_bytes = [] \<rparr> | _ \<Rightarrow> Err ())"

definition tiny_storage :: mem_storage where
  "tiny_storage = empty_storage\<lparr> group_states := [[1] \<mapsto> default_group_state\<lparr> treesync := [9] \<rparr>] \<rparr>"

theorem storage_serialize_roundtrip_witness:
  "storage_serialize tiny_state_ser tiny_ser [([1], default_group_state\<lparr> treesync := [9] \<rparr>)] [] []
     = Ok [1, 9] \<and> storage_deserialize tiny_state_de tiny_de [1, 9] = Ok tiny_storage"
proof
  show ser: "storage_serialize tiny_state_ser tiny_ser
      [([1], default_group_state\<lparr> treesync := [9] \<rparr>)] [] [] = Ok [1, 9]"
    by (simp add: storage_serialize_def tiny_state_ser_def tiny_ser_def pgs_to_raw_def
        default_group_state_def)
  show "storage_deserialize tiny_state_de tiny_de [1, 9] = Ok tiny_storage"
  proof (rule storage_serialize_roundtrip[OF _ _ _ _ _ _ ser])
    show "storage_wf tiny_storage"
      by (auto simp: storage_wf_def tiny_storage_def empty_storage_def pgs_is_empty_def
          default_group_state_def)
    show "codec_correct tiny_state_ser tiny_state_de"
      by (auto simp: codec_correct_def tiny_state_ser_def tiny_state_de_def split: list.splits)
    show "codec_correct tiny_ser tiny_de"
      by (auto simp: codec_correct_def tiny_ser_def tiny_de_def split: list.splits if_splits)
  qed (simp_all add: iterates_def tiny_storage_def empty_storage_def)
qed

end
