(* ===== verification/Apq_Mls.thy ===== *)
theory Apq_Mls
  imports Memory_Provider
begin

text \<open>
  The record of OpenMLS operations that the delivery service uses on public groups, and
  \<^verbatim>\<open>apqmls/src/processing.rs\<close> and \<^verbatim>\<open>extension.rs\<close> on top of it: an APQ group is a pair of a
  traditional (T) and a post-quantum (PQ) group that move in lock step.  Processing a pair of
  messages processes both halves, compares what they do, and, for commits, checks the
  \<^verbatim>\<open>ApqInfo\<close> component against both groups.

  The fact shown: an accepted pair of commits does the same thing to both groups, and the
  component names exactly these two groups, one epoch further.
\<close>

section \<open>Operations of the MLS library\<close>

text \<open>
  \<open>'pg\<close> is \<^verbatim>\<open>PublicGroup\<close>, \<open>'rt\<close> is \<^verbatim>\<open>RatchetTree\<close>.  Operations that write through the storage
  provider take the storage and return it.  An app-data updater is represented by the calls made
  on it so far, a set of changes by the bytes the library returns for it.
\<close>

datatype PqtMode = ConfOnly | ConfAndAuth

record apq_info =
  t_session_group_id :: group_id
  pq_session_group_id :: group_id
  apq_mode :: PqtMode
  t_cipher_suite :: u16
  pq_cipher_suite :: u16
  t_epoch :: group_epoch
  pq_epoch :: group_epoch

record ('pg, 'rt) openmls =
  om_from_external :: "'rt \<Rightarrow> verifiable_group_info \<Rightarrow> mem_storage \<Rightarrow>
    creation_error + 'pg \<times> group_info \<times> mem_storage"
  om_load :: "mem_storage \<Rightarrow> group_id \<Rightarrow> storage_error + 'pg option"
  om_process_message :: "'pg \<Rightarrow> protocol_message \<Rightarrow> public_process_message_error + processed_message"
  om_updater_changes :: "'pg \<Rightarrow> app_data_op list \<Rightarrow> bytes option"
  om_resolve_app_data_commit :: "'pg \<Rightarrow> processed_message \<Rightarrow> bytes option \<Rightarrow>
    resolve_app_data_commit_error + processed_message"
  om_merge_commit :: "'pg \<Rightarrow> staged_commit \<Rightarrow> mem_storage \<Rightarrow> merge_commit_error + 'pg \<times> mem_storage"
  om_add_proposal :: "'pg \<Rightarrow> queued_proposal \<Rightarrow> mem_storage \<Rightarrow> storage_error + 'pg \<times> mem_storage"
  om_members :: "'pg \<Rightarrow> member list"
  om_leaf :: "'pg \<Rightarrow> leaf_index \<Rightarrow> leaf_node option"
  om_group_context :: "'pg \<Rightarrow> group_context"
  om_export_ratchet_tree :: "'pg \<Rightarrow> 'rt"
  om_ext_commit_sender_index :: "'pg \<Rightarrow> staged_commit \<Rightarrow> openmls_library_error + leaf_index"
  om_signature_scheme :: "u16 \<Rightarrow> u16"
  om_verify_group_info :: "verifiable_group_info \<Rightarrow> signature_key \<times> u16 \<Rightarrow> group_info option"
  om_apq_info_de :: "bytes \<Rightarrow> unit + apq_info"


section \<open>App-data commits\<close>

definition compute_app_data_updates :: "(app_data_op list \<Rightarrow> bytes option) \<Rightarrow> app_data_op list \<Rightarrow>
    bytes option" where
  "compute_app_data_updates changes proposals =
     (let (updater, updated) = fold (\<lambda>op (updater, updated).
            case op of
              AppDataUpdate component_id d \<Rightarrow> (updater @ [AppDataUpdate component_id d], True)
            | AppDataRemove component_id \<Rightarrow> (updater @ [AppDataRemove component_id], True))
          proposals ([], False)
      in if updated then changes updater else None)"

definition resolve_app_data_commit_public :: "('pg, 'rt, 'z) openmls_scheme \<Rightarrow> 'pg \<Rightarrow>
    processed_message \<Rightarrow> resolve_app_data_commit_error + processed_message" where
  "resolve_app_data_commit_public om g message =
     (case pr_content message of
        UnresolvedAppDataCommit proposals \<Rightarrow>
          om_resolve_app_data_commit om g message
            (compute_app_data_updates (om_updater_changes om g) proposals)
      | _ \<Rightarrow> Ok message)"

lemma compute_app_data_updates_eq:
  "compute_app_data_updates changes ops = (if ops = [] then None else changes ops)"
proof -
  have "fold (\<lambda>op (updater, updated).
            case op of
              AppDataUpdate component_id d \<Rightarrow> (updater @ [AppDataUpdate component_id d], True)
            | AppDataRemove component_id \<Rightarrow> (updater @ [AppDataRemove component_id], True))
          ops (u, b) = (u @ ops, b \<or> ops \<noteq> [])" for u b
    by (induction ops arbitrary: u b) (auto split: app_data_op.splits)
  then show ?thesis by (simp add: compute_app_data_updates_def)
qed


section \<open>The APQ component\<close>

definition APQMLS_COMPONENT_ID :: component_id where
  "APQMLS_COMPONENT_ID = 0x8001"

definition ApqInfo_from_extensions :: "('pg, 'rt, 'z) openmls_scheme \<Rightarrow> group_context \<Rightarrow>
    unit + apq_info option" where
  "ApqInfo_from_extensions om ctx =
     (case Option.bind (gc_app_data_dictionary ctx) (\<lambda>dict. map_of dict APQMLS_COMPONENT_ID) of
        None \<Rightarrow> Ok None
      | Some bs \<Rightarrow> map_ok Some (om_apq_info_de om bs))"


section \<open>What a message does\<close>

record apq_processed_message =
  apq_t_message :: processed_message
  apq_pq_message :: processed_message

definition into_staged_commit :: "apq_processed_message \<Rightarrow> (staged_commit \<times> staged_commit) option" where
  "into_staged_commit m =
     (case pr_content (apq_t_message m) of
        StagedCommitMessage t \<Rightarrow>
          (case pr_content (apq_pq_message m) of
             StagedCommitMessage pq \<Rightarrow> Some (t, pq)
           | _ \<Rightarrow> None)
      | _ \<Rightarrow> None)"

datatype apq_validation_error =
  InvalidMessageType | MismatchedMessages | MissingApqInfo | InvalidApqInfo

datatype apq_process_public_message_error =
    ApqProcessing public_process_message_error
  | ApqValidation apq_validation_error
  | ApqAppDataUpdate resolve_app_data_commit_error

record proposal_content =
  pc_proposal_type :: proposal_type
  pc_credential :: "credential option"
  pc_leaf_index :: "leaf_index option"

record commit_content =
  cc_path_credential :: "credential option"
  cc_adds :: "credential list"
  cc_removes :: "leaf_index set"
  cc_updates :: "credential list"

datatype message_type =
  ProposalType proposal_content | CommitType commit_content | OwnPendingCommitType

fun MessageType_new :: "processed_message_content \<Rightarrow> message_type option" where
  "MessageType_new (ApplicationMessage _) = None"
| "MessageType_new (ProposalMessage queued_proposal) =
     (let prop = qp_proposal queued_proposal;
          (credential, leaf_index) = (case prop of
             Add kp \<Rightarrow> (Some (ln_credential (kp_leaf_node kp)), None)
           | Update ln \<Rightarrow> (Some (ln_credential ln), None)
           | Remove removed \<Rightarrow> (None, Some removed)
           | _ \<Rightarrow> (None, None))
      in Some (ProposalType \<lparr> pc_proposal_type = proposal_type_of prop, pc_credential = credential,
                              pc_leaf_index = leaf_index \<rparr>))"
| "MessageType_new (ExternalJoinProposalMessage queued_proposal) =
     (let prop = qp_proposal queued_proposal;
          credential = (case prop of Add kp \<Rightarrow> Some (ln_credential (kp_leaf_node kp)) | _ \<Rightarrow> None)
      in Some (ProposalType \<lparr> pc_proposal_type = proposal_type_of prop, pc_credential = credential,
                              pc_leaf_index = None \<rparr>))"
| "MessageType_new (StagedCommitMessage sc) =
     Some (CommitType
       \<lparr> cc_path_credential = map_option ln_credential (sc_update_path_leaf_node sc),
         cc_adds = map (\<lambda>kp. ln_credential (kp_leaf_node kp)) (sc_add_proposals sc),
         cc_removes = set (sc_remove_proposals sc),
         cc_updates = map ln_credential (sc_update_proposals sc) \<rparr>)"
| "MessageType_new OwnPendingCommit = Some OwnPendingCommitType"
| "MessageType_new OwnPrivateMessage = None"
| "MessageType_new (UnresolvedAppDataCommit _) = None"

fun same_credential :: "(credential \<Rightarrow> credential \<Rightarrow> bool) \<Rightarrow> credential option \<Rightarrow>
    credential option \<Rightarrow> bool" where
  "same_credential compare (Some a) (Some b) = compare a b"
| "same_credential compare None None = True"
| "same_credential compare _ _ = False"

definition proposal_content_eq :: "(credential \<Rightarrow> credential \<Rightarrow> bool) \<Rightarrow> proposal_content \<Rightarrow>
    proposal_content \<Rightarrow> bool" where
  "proposal_content_eq compare a b =
     (pc_proposal_type a = pc_proposal_type b \<and> pc_leaf_index a = pc_leaf_index b
      \<and> same_credential compare (pc_credential a) (pc_credential b))"

definition commit_content_eq :: "(credential \<Rightarrow> credential \<Rightarrow> bool) \<Rightarrow> commit_content \<Rightarrow>
    commit_content \<Rightarrow> bool" where
  "commit_content_eq compare a b =
     (same_credential compare (cc_path_credential a) (cc_path_credential b)
      \<and> cc_removes a = cc_removes b
      \<and> length (cc_adds a) = length (cc_adds b)
      \<and> length (cc_updates a) = length (cc_updates b)
      \<and> list_all (\<lambda>(x, y). compare x y) (zip (cc_adds a) (cc_adds b))
      \<and> list_all (\<lambda>(x, y). compare x y) (zip (cc_updates a) (cc_updates b)))"

fun message_type_eq :: "(credential \<Rightarrow> credential \<Rightarrow> bool) \<Rightarrow> message_type \<Rightarrow> message_type \<Rightarrow> bool" where
  "message_type_eq compare (ProposalType a) (ProposalType b) = proposal_content_eq compare a b"
| "message_type_eq compare (CommitType a) (CommitType b) = commit_content_eq compare a b"
| "message_type_eq compare OwnPendingCommitType OwnPendingCommitType = True"
| "message_type_eq compare _ _ = False"

record message_info =
  mi_msg_type :: message_type
  mi_sender :: sender

definition MessageInfo_new :: "processed_message_content \<Rightarrow> sender \<Rightarrow>
    apq_validation_error + message_info" where
  "MessageInfo_new content sender =
     and_then (ok_or InvalidMessageType (MessageType_new content)) (\<lambda>msg_type.
     Ok \<lparr> mi_msg_type = msg_type, mi_sender = sender \<rparr>)"

definition message_info_eq :: "(credential \<Rightarrow> credential \<Rightarrow> bool) \<Rightarrow> message_info \<Rightarrow> message_info \<Rightarrow>
    bool" where
  "message_info_eq compare a b =
     (message_type_eq compare (mi_msg_type a) (mi_msg_type b) \<and> mi_sender a = mi_sender b)"


section \<open>Validation and processing\<close>

record validation_params =
  vp_epoch :: group_epoch
  vp_group_id :: group_id
  vp_ciphersuite :: u16

definition ValidationParams_from_public_group :: "('pg, 'rt, 'z) openmls_scheme \<Rightarrow> 'pg \<Rightarrow>
    validation_params" where
  "ValidationParams_from_public_group om g =
     \<lparr> vp_epoch = gc_epoch (om_group_context om g), vp_group_id = gc_group_id (om_group_context om g),
       vp_ciphersuite = gc_ciphersuite (om_group_context om g) \<rparr>"

text \<open>The \<open>u64\<close> increment wraps, as in a build without overflow checks.\<close>

definition ValidationParams_validate :: "('pg, 'rt, 'z) openmls_scheme \<Rightarrow> validation_params \<Rightarrow>
    validation_params \<Rightarrow> processed_message \<Rightarrow> processed_message \<Rightarrow> apq_validation_error + unit" where
  "ValidationParams_validate om pq_params t_params pq_message t_message =
     (case (pr_content pq_message, pr_content t_message) of
        (StagedCommitMessage pq_staged_commit, StagedCommitMessage t_staged_commit) \<Rightarrow>
          and_then (and_then (map_err (\<lambda>_. InvalidApqInfo)
              (ApqInfo_from_extensions om (sc_group_context pq_staged_commit)))
            (ok_or MissingApqInfo)) (\<lambda>pq_apq_info.
          and_then (and_then (map_err (\<lambda>_. InvalidApqInfo)
              (ApqInfo_from_extensions om (sc_group_context t_staged_commit)))
            (ok_or MissingApqInfo)) (\<lambda>t_apq_info.
          let apq_info_match = (pq_apq_info = t_apq_info);
              epochs_match = (pq_epoch pq_apq_info = gc_epoch (sc_group_context pq_staged_commit)
                \<and> t_epoch t_apq_info = gc_epoch (sc_group_context t_staged_commit));
              epochs_are_incremented = (pq_epoch pq_apq_info = vp_epoch pq_params + 1
                \<and> t_epoch t_apq_info = vp_epoch t_params + 1);
              group_ids_match = (pq_session_group_id pq_apq_info = vp_group_id pq_params
                \<and> t_session_group_id t_apq_info = vp_group_id t_params);
              ciphersuites_match = (pq_cipher_suite pq_apq_info = vp_ciphersuite pq_params
                \<and> t_cipher_suite t_apq_info = vp_ciphersuite t_params)
          in if \<not> apq_info_match \<or> \<not> epochs_match \<or> \<not> epochs_are_incremented
                \<or> \<not> group_ids_match \<or> \<not> ciphersuites_match
             then Err InvalidApqInfo else Ok ()))
      | _ \<Rightarrow> Ok ())"

definition apq_public_process_message :: "('pg, 'rt, 'z) openmls_scheme \<Rightarrow>
    (credential \<Rightarrow> credential \<Rightarrow> bool) \<Rightarrow> 'pg \<Rightarrow> 'pg \<Rightarrow> protocol_message \<Rightarrow> protocol_message \<Rightarrow>
    apq_process_public_message_error + apq_processed_message" where
  "apq_public_process_message om sender_equivalence t_group pq_group t_protocol pq_protocol =
     and_then (map_err ApqProcessing (om_process_message om pq_group pq_protocol)) (\<lambda>pq_message.
     and_then (map_err ApqAppDataUpdate (resolve_app_data_commit_public om pq_group pq_message)) (\<lambda>pq_message.
     and_then (map_err ApqValidation (MessageInfo_new (pr_content pq_message) (pr_sender pq_message))) (\<lambda>pq_message_info.
     and_then (map_err ApqProcessing (om_process_message om t_group t_protocol)) (\<lambda>t_message.
     and_then (map_err ApqAppDataUpdate (resolve_app_data_commit_public om t_group t_message)) (\<lambda>t_message.
     and_then (map_err ApqValidation (MessageInfo_new (pr_content t_message) (pr_sender t_message))) (\<lambda>t_message_info.
     and_then (ensure (message_info_eq sender_equivalence pq_message_info t_message_info)
       (ApqValidation MismatchedMessages)) (\<lambda>_.
     and_then (map_err ApqValidation (ValidationParams_validate om
         (ValidationParams_from_public_group om pq_group) (ValidationParams_from_public_group om t_group)
         pq_message t_message)) (\<lambda>_.
     Ok \<lparr> apq_t_message = t_message, apq_pq_message = pq_message \<rparr>))))))))"


section \<open>Facts\<close>

lemma same_credential_iff: "same_credential compare a b = rel_option compare a b"
  by (cases "(compare, a, b)" rule: same_credential.cases) auto

lemma commit_content_eq_iff:
  "commit_content_eq compare a b \<longleftrightarrow>
     rel_option compare (cc_path_credential a) (cc_path_credential b)
     \<and> cc_removes a = cc_removes b \<and> list_all2 compare (cc_adds a) (cc_adds b)
     \<and> list_all2 compare (cc_updates a) (cc_updates b)"
  by (auto simp: commit_content_eq_def same_credential_iff list_all2_iff list_all_iff)

lemma message_type_eq_Commit:
  "message_type_eq compare m (CommitType b) \<longleftrightarrow> (\<exists>a. m = CommitType a \<and> commit_content_eq compare a b)"
  by (cases m) auto

lemma MessageType_new_Commit:
  "MessageType_new c = Some (CommitType cc) \<longleftrightarrow> (\<exists>sc. c = StagedCommitMessage sc \<and>
     cc = \<lparr> cc_path_credential = map_option ln_credential (sc_update_path_leaf_node sc),
         cc_adds = map (\<lambda>kp. ln_credential (kp_leaf_node kp)) (sc_add_proposals sc),
         cc_removes = set (sc_remove_proposals sc),
         cc_updates = map ln_credential (sc_update_proposals sc) \<rparr>)"
  by (cases c) (auto simp: Let_def split: proposal.splits)

lemma apq_public_process_message_Ok:
  assumes "apq_public_process_message om eqv tg pqg tm pqm = Ok res"
  obtains pqi ti where
    "MessageInfo_new (pr_content (apq_pq_message res)) (pr_sender (apq_pq_message res)) = Ok pqi"
    "MessageInfo_new (pr_content (apq_t_message res)) (pr_sender (apq_t_message res)) = Ok ti"
    "message_info_eq eqv pqi ti"
    "ValidationParams_validate om (ValidationParams_from_public_group om pqg)
       (ValidationParams_from_public_group om tg) (apq_pq_message res) (apq_t_message res) = Ok ()"
  using assms by (auto simp: apq_public_process_message_def result_simps)

lemma ValidationParams_validate_commits:
  assumes "ValidationParams_validate om pqp tp pqm tm = Ok ()"
    and "pr_content pqm = StagedCommitMessage pqc" "pr_content tm = StagedCommitMessage tc"
  shows "\<exists>info. ApqInfo_from_extensions om (sc_group_context pqc) = Ok (Some info)
    \<and> ApqInfo_from_extensions om (sc_group_context tc) = Ok (Some info)
    \<and> info = \<lparr> t_session_group_id = vp_group_id tp, pq_session_group_id = vp_group_id pqp,
        apq_mode = apq_mode info, t_cipher_suite = vp_ciphersuite tp,
        pq_cipher_suite = vp_ciphersuite pqp, t_epoch = vp_epoch tp + 1, pq_epoch = vp_epoch pqp + 1 \<rparr>
    \<and> gc_epoch (sc_group_context tc) = vp_epoch tp + 1
    \<and> gc_epoch (sc_group_context pqc) = vp_epoch pqp + 1"
proof -
  from assms obtain info where info:
    "ApqInfo_from_extensions om (sc_group_context pqc) = Ok (Some info)"
    "ApqInfo_from_extensions om (sc_group_context tc) = Ok (Some info)"
    "pq_epoch info = gc_epoch (sc_group_context pqc)" "t_epoch info = gc_epoch (sc_group_context tc)"
    "pq_epoch info = vp_epoch pqp + 1" "t_epoch info = vp_epoch tp + 1"
    "pq_session_group_id info = vp_group_id pqp" "t_session_group_id info = vp_group_id tp"
    "pq_cipher_suite info = vp_ciphersuite pqp" "t_cipher_suite info = vp_ciphersuite tp"
    by (auto simp: ValidationParams_validate_def result_simps Let_def split: if_splits)
  have "info = \<lparr> t_session_group_id = vp_group_id tp, pq_session_group_id = vp_group_id pqp,
      apq_mode = apq_mode info, t_cipher_suite = vp_ciphersuite tp,
      pq_cipher_suite = vp_ciphersuite pqp, t_epoch = vp_epoch tp + 1, pq_epoch = vp_epoch pqp + 1 \<rparr>"
    using info by (cases info) simp
  with info show ?thesis by (intro exI[of _ info]) auto
qed

text \<open>
  (C16) The two halves of an accepted APQ commit agree.  If the T half is a commit then so is the
  PQ half; sender and removed leaves are equal, the path, added and updated credentials are
  pairwise equivalent; and both contexts carry one \<^verbatim>\<open>ApqInfo\<close>, which names the ids and
  ciphersuites of the two groups and their epochs plus one, the epochs the two commits lead to.
\<close>

theorem apq_commit_halves_agree:
  assumes processed: "apq_public_process_message om eqv tg pqg tm pqm = Ok res"
    and tc: "pr_content (apq_t_message res) = StagedCommitMessage tc"
  shows "\<exists>pqc info. pr_content (apq_pq_message res) = StagedCommitMessage pqc
    \<and> pr_sender (apq_pq_message res) = pr_sender (apq_t_message res)
    \<and> set (sc_remove_proposals pqc) = set (sc_remove_proposals tc)
    \<and> list_all2 (\<lambda>a b. eqv (ln_credential (kp_leaf_node a)) (ln_credential (kp_leaf_node b)))
        (sc_add_proposals pqc) (sc_add_proposals tc)
    \<and> list_all2 (\<lambda>a b. eqv (ln_credential a) (ln_credential b))
        (sc_update_proposals pqc) (sc_update_proposals tc)
    \<and> rel_option (\<lambda>a b. eqv (ln_credential a) (ln_credential b))
        (sc_update_path_leaf_node pqc) (sc_update_path_leaf_node tc)
    \<and> ApqInfo_from_extensions om (sc_group_context pqc) = Ok (Some info)
    \<and> ApqInfo_from_extensions om (sc_group_context tc) = Ok (Some info)
    \<and> info = \<lparr> t_session_group_id = gc_group_id (om_group_context om tg),
        pq_session_group_id = gc_group_id (om_group_context om pqg), apq_mode = apq_mode info,
        t_cipher_suite = gc_ciphersuite (om_group_context om tg),
        pq_cipher_suite = gc_ciphersuite (om_group_context om pqg),
        t_epoch = gc_epoch (om_group_context om tg) + 1,
        pq_epoch = gc_epoch (om_group_context om pqg) + 1 \<rparr>
    \<and> gc_epoch (sc_group_context tc) = gc_epoch (om_group_context om tg) + 1
    \<and> gc_epoch (sc_group_context pqc) = gc_epoch (om_group_context om pqg) + 1"
proof -
  obtain pqi ti where infos:
    "MessageInfo_new (pr_content (apq_pq_message res)) (pr_sender (apq_pq_message res)) = Ok pqi"
    "MessageInfo_new (pr_content (apq_t_message res)) (pr_sender (apq_t_message res)) = Ok ti"
    "message_info_eq eqv pqi ti"
    and valid: "ValidationParams_validate om (ValidationParams_from_public_group om pqg)
       (ValidationParams_from_public_group om tg) (apq_pq_message res) (apq_t_message res) = Ok ()"
    using apq_public_process_message_Ok[OF processed] .
  from infos tc obtain pqc where pqc: "pr_content (apq_pq_message res) = StagedCommitMessage pqc"
    and "pr_sender (apq_pq_message res) = pr_sender (apq_t_message res)"
      "set (sc_remove_proposals pqc) = set (sc_remove_proposals tc)"
      "list_all2 (\<lambda>a b. eqv (ln_credential (kp_leaf_node a)) (ln_credential (kp_leaf_node b)))
        (sc_add_proposals pqc) (sc_add_proposals tc)"
      "list_all2 (\<lambda>a b. eqv (ln_credential a) (ln_credential b))
        (sc_update_proposals pqc) (sc_update_proposals tc)"
      "rel_option (\<lambda>a b. eqv (ln_credential a) (ln_credential b))
        (sc_update_path_leaf_node pqc) (sc_update_path_leaf_node tc)"
    by (auto simp: MessageInfo_new_def message_info_eq_def result_simps message_type_eq_Commit
        MessageType_new_Commit commit_content_eq_iff list.rel_map option.rel_map)
  moreover obtain info where
    "ApqInfo_from_extensions om (sc_group_context pqc) = Ok (Some info)"
    "ApqInfo_from_extensions om (sc_group_context tc) = Ok (Some info)"
    "info = \<lparr> t_session_group_id = gc_group_id (om_group_context om tg),
        pq_session_group_id = gc_group_id (om_group_context om pqg), apq_mode = apq_mode info,
        t_cipher_suite = gc_ciphersuite (om_group_context om tg),
        pq_cipher_suite = gc_ciphersuite (om_group_context om pqg),
        t_epoch = gc_epoch (om_group_context om tg) + 1,
        pq_epoch = gc_epoch (om_group_context om pqg) + 1 \<rparr>"
    "gc_epoch (sc_group_context tc) = gc_epoch (om_group_context om tg) + 1"
    "gc_epoch (sc_group_context pqc) = gc_epoch (om_group_context om pqg) + 1"
    using ValidationParams_validate_commits[OF valid pqc tc]
    by (auto simp: ValidationParams_from_public_group_def)
  ultimately show ?thesis by blast
qed


section \<open>A concrete library instance\<close>

text \<open>
  For the witnesses: a library whose groups are an id byte and an epoch byte, with members 0 to
  2, whose commits all carry the proposals of a given template, and whose signatures are the key
  itself.  It is used nowhere else.
\<close>

type_synonym tiny_group = "u8 \<times> u8"

definition tiny_context :: "tiny_group \<Rightarrow> group_context" where
  "tiny_context g = \<lparr> gc_group_id = [fst g], gc_epoch = ucast (snd g), gc_ciphersuite = 1,
     gc_app_data_dictionary = Some [(APQMLS_COMPONENT_ID, [snd g])], gc_rest = [] \<rparr>"

definition tiny_group_of :: "group_context \<Rightarrow> tiny_group" where
  "tiny_group_of ctx = (case gc_group_id ctx of [i] \<Rightarrow> i | _ \<Rightarrow> 0, ucast (gc_epoch ctx))"

definition tiny_credential :: "u8 \<Rightarrow> credential" where
  "tiny_credential k = \<lparr> cred_is_basic = True, cred_serialized_content = [k] \<rparr>"

definition tiny_leaf :: "u8 \<Rightarrow> leaf_node" where
  "tiny_leaf k = \<lparr> ln_signature_key = [k], ln_credential = tiny_credential k,
     ln_extensions = [UnknownExtension 0xff00 [k]] \<rparr>"

definition tiny_write :: "tiny_group \<Rightarrow> mem_storage \<Rightarrow> mem_storage" where
  "tiny_write g st = st\<lparr> group_states := (group_states st)([1, fst g] \<mapsto>
     default_group_state\<lparr> context_bytes := [fst g, snd g] \<rparr>) \<rparr>"

definition tiny_commit :: staged_commit where
  "tiny_commit = \<lparr> sc_add_proposals = [], sc_update_proposals = [], sc_remove_proposals = [],
     sc_queued_proposals = [], sc_update_path_leaf_node = Some (tiny_leaf 0),
     sc_group_context = tiny_context (0, 0), sc_rest = [] \<rparr>"

fun tiny_process_message :: "staged_commit \<Rightarrow> tiny_group \<Rightarrow> protocol_message \<Rightarrow>
    public_process_message_error + processed_message" where
  "tiny_process_message template g (PrivateMessage m) = Err OtherProcessMessageError"
| "tiny_process_message template g (PublicMessage m) =
     (if pm_epoch m \<noteq> ucast (snd g) then Err (ValidationError WrongEpoch)
      else Ok \<lparr> pr_sender = pm_sender m, pr_aad = pm_rest m, pr_credential = tiny_credential 0,
        pr_content = (if pm_content_type m = ContentCommit
          then StagedCommitMessage (template\<lparr> sc_group_context := tiny_context (fst g, snd g + 1) \<rparr>)
          else ProposalMessage \<lparr> qp_proposal = SelfRemove, qp_sender = pm_sender m \<rparr>) \<rparr>)"

definition tiny_openmls :: "staged_commit \<Rightarrow> (tiny_group, bytes) openmls" where
  "tiny_openmls template =
     \<lparr> om_from_external = (\<lambda>rt vgi st. let g = tiny_group_of (vgi_group_context vgi) in
         if tiny_context g = vgi_group_context vgi
         then Ok (g, \<lparr> gi_group_context = vgi_group_context vgi, gi_rest = [] \<rparr>, tiny_write g st)
         else Err CreationRejected),
       om_load = (\<lambda>st gid. Ok (case group_states st (1 # gid) of None \<Rightarrow> None
         | Some s \<Rightarrow> (case context_bytes s of [i, e] \<Rightarrow> Some (i, e) | _ \<Rightarrow> None))),
       om_process_message = tiny_process_message template,
       om_updater_changes = (\<lambda>g ops. Some []),
       om_resolve_app_data_commit = (\<lambda>g m changes. Err ResolveAppDataCommitError),
       om_merge_commit = (\<lambda>g sc st. let g' = tiny_group_of (sc_group_context sc) in
         if tiny_context g' = sc_group_context sc \<and> fst g' = fst g then Ok (g', tiny_write g' st)
         else Err MergeLibraryError),
       om_add_proposal = (\<lambda>g p st. Ok (g, tiny_write g st)),
       om_members = (\<lambda>g. map (\<lambda>k. \<lparr> m_index = ucast k, m_signature_key = [k],
         m_credential = tiny_credential k \<rparr>) [0, 1, 2]),
       om_leaf = (\<lambda>g i. if i < 3 then Some (tiny_leaf (ucast i)) else None),
       om_group_context = tiny_context,
       om_export_ratchet_tree = (\<lambda>g. [fst g, snd g]),
       om_ext_commit_sender_index = (\<lambda>g sc. Ok 3),
       om_signature_scheme = (\<lambda>c. c),
       om_verify_group_info = (\<lambda>vgi (key, scheme). if vgi_signature vgi = key
         then Some \<lparr> gi_group_context = vgi_group_context vgi, gi_rest = [] \<rparr> else None),
       om_apq_info_de = (\<lambda>bs. case bs of
         [e] \<Rightarrow> Ok \<lparr> t_session_group_id = [1], pq_session_group_id = [2], apq_mode = ConfOnly,
           t_cipher_suite = 1, pq_cipher_suite = 1, t_epoch = ucast e, pq_epoch = ucast e \<rparr>
         | _ \<Rightarrow> Err ()) \<rparr>"

definition tiny_message :: "content_type \<Rightarrow> u8 \<Rightarrow> u8 \<Rightarrow> leaf_index \<Rightarrow> public_message" where
  "tiny_message ct i e sender_index = \<lparr> pm_content_type = ct, pm_sender = Member sender_index,
     pm_epoch = ucast e, pm_group_id = [i], pm_confirmation_tag = Some [], pm_rest = [] \<rparr>"

lemma tiny_openmls_simps [simp]:
  "om_group_context (tiny_openmls t) = tiny_context"
  "om_process_message (tiny_openmls t) = tiny_process_message t"
  "om_export_ratchet_tree (tiny_openmls t) g = [fst g, snd g]"
  by (simp_all add: tiny_openmls_def)

theorem apq_commit_halves_agree_witness:
  "\<exists>res tc pqc. apq_public_process_message (tiny_openmls tiny_commit) (=) (1, 4) (2, 4)
       (PublicMessage (tiny_message ContentCommit 1 4 0)) (PublicMessage (tiny_message ContentCommit 2 4 0))
     = Ok res \<and> pr_content (apq_t_message res) = StagedCommitMessage tc
     \<and> pr_content (apq_pq_message res) = StagedCommitMessage pqc
     \<and> gc_epoch (sc_group_context tc) = 5 \<and> gc_epoch (sc_group_context pqc) = 5"
proof -
  let ?tc = "tiny_commit\<lparr> sc_group_context := tiny_context (1, 5) \<rparr>"
  let ?pqc = "tiny_commit\<lparr> sc_group_context := tiny_context (2, 5) \<rparr>"
  let ?pm = "\<lambda>sc. \<lparr> pr_sender = Member 0, pr_aad = [], pr_credential = tiny_credential 0,
      pr_content = StagedCommitMessage sc \<rparr>"
  let ?res = "\<lparr> apq_t_message = ?pm ?tc, apq_pq_message = ?pm ?pqc \<rparr>"
  have run: "apq_public_process_message (tiny_openmls tiny_commit) (=) (1, 4) (2, 4)
      (PublicMessage (tiny_message ContentCommit 1 4 0)) (PublicMessage (tiny_message ContentCommit 2 4 0))
    = Ok ?res"
    by (simp add: apq_public_process_message_def tiny_message_def resolve_app_data_commit_public_def
        MessageInfo_new_def message_info_eq_def commit_content_eq_iff list.rel_eq option.rel_eq
        ValidationParams_validate_def ValidationParams_from_public_group_def
        ApqInfo_from_extensions_def tiny_context_def tiny_openmls_def)
  have "pr_content (apq_t_message ?res) = StagedCommitMessage ?tc" by simp
  from apq_commit_halves_agree[OF run this] show ?thesis
    using run by (auto simp: tiny_context_def)
qed

end
