(* ===== verification/Past_Group_States.thy ===== *)
theory Past_Group_States
  imports Mls_Types
begin

text \<open>
  \<^verbatim>\<open>mls-assist/src/group/past_group_states.rs\<close>: for each epoch in which members were added, the
  ratchet tree of that epoch, who may fetch it, and when it was stored.  The clock is an
  argument.  The facts: a tree is handed out only to a joiner it was stored for and only until it
  expires, and adding or expiring one epoch leaves the others alone.
\<close>

record 'rt past_group_state =
  nodes :: 'rt
  creation_time :: time
  potential_joiners :: "signature_key set"

definition PastGroupState_new :: "time \<Rightarrow> 'rt \<Rightarrow> signature_key list \<Rightarrow> 'rt past_group_state" where
  "PastGroupState_new now tree joiners =
     \<lparr> nodes = tree, creation_time = now, potential_joiners = fold insert joiners {} \<rparr>"

definition is_authorized :: "'rt past_group_state \<Rightarrow> signature_key \<Rightarrow> bool" where
  "is_authorized s joiner = (joiner \<in> potential_joiners s)"

definition past_state_has_expired :: "time \<Rightarrow> duration \<Rightarrow> 'rt past_group_state \<Rightarrow> bool" where
  "past_state_has_expired now expiration_time s = (now - expiration_time \<ge> creation_time s)"

text \<open>\<^verbatim>\<open>HashMap<GroupEpoch, PastGroupState>\<close>; the order of its iterator is irrelevant here.\<close>

type_synonym 'rt past_group_states = "group_epoch \<rightharpoonup> 'rt past_group_state"

definition add_state :: "time \<Rightarrow> group_epoch \<Rightarrow> 'rt \<Rightarrow> signature_key list \<Rightarrow> 'rt past_group_states \<Rightarrow>
    'rt past_group_states" where
  "add_state now epoch tree joiners states =
     (if joiners = [] then states else states(epoch \<mapsto> PastGroupState_new now tree joiners))"

definition get_for_joiner :: "'rt past_group_states \<Rightarrow> group_epoch \<Rightarrow> signature_key \<Rightarrow> 'rt option" where
  "get_for_joiner states epoch joiner =
     (case states epoch of
        None \<Rightarrow> None
      | Some s \<Rightarrow> if is_authorized s joiner then Some (nodes s) else None)"

text \<open>
  The source collects the expired epochs and removes them one by one; on a map both passes
  together clear exactly the expired entries.
\<close>

definition remove_expired_states :: "time \<Rightarrow> duration \<Rightarrow> 'rt past_group_states \<Rightarrow>
    'rt past_group_states" where
  "remove_expired_states now expiration_time states =
     (\<lambda>epoch. case states epoch of
        Some s \<Rightarrow> if past_state_has_expired now expiration_time s then None else Some s
      | None \<Rightarrow> None)"

lemma fold_insert_set: "fold insert xs A = A \<union> set xs"
  by (induction xs arbitrary: A) auto

lemma is_authorized_new [simp]:
  "is_authorized (PastGroupState_new now tree joiners) j \<longleftrightarrow> j \<in> set joiners"
  by (simp add: is_authorized_def PastGroupState_new_def fold_insert_set)

lemma get_for_joiner_add_state:
  "get_for_joiner (add_state now epoch tree joiners states) epoch' j =
     (if epoch' = epoch \<and> joiners \<noteq> [] then (if j \<in> set joiners then Some tree else None)
      else get_for_joiner states epoch' j)"
  by (simp add: get_for_joiner_def add_state_def) (simp add: PastGroupState_new_def)

lemma remove_expired_states_Some_iff:
  "remove_expired_states now ex states epoch = Some s \<longleftrightarrow>
     states epoch = Some s \<and> now - ex < creation_time s"
  by (auto simp: remove_expired_states_def past_state_has_expired_def split: option.splits)

lemma get_for_joiner_Some_iff:
  "get_for_joiner states epoch j = Some tree \<longleftrightarrow>
     (\<exists>s. states epoch = Some s \<and> j \<in> potential_joiners s \<and> tree = nodes s)"
  by (auto simp: get_for_joiner_def is_authorized_def split: option.splits)

text \<open>The two-pass removal of the source, and that it is the one-pass definition.\<close>

definition remove_epochs :: "group_epoch list \<Rightarrow> 'rt past_group_states \<Rightarrow> 'rt past_group_states" where
  "remove_epochs epochs states = fold (\<lambda>epoch m. m(epoch := None)) epochs states"

lemma remove_epochs_apply:
  "remove_epochs epochs states epoch = (if epoch \<in> set epochs then None else states epoch)"
  unfolding remove_epochs_def by (induction epochs arbitrary: states) auto

lemma remove_expired_states_two_pass:
  assumes "set (map fst entries) = dom states" "map_of entries = states" "distinct (map fst entries)"
  shows "remove_epochs (map fst (filter (\<lambda>(e, s). past_state_has_expired now ex s) entries)) states
    = remove_expired_states now ex states"
proof
  fix epoch
  have "epoch \<in> set (map fst (filter (\<lambda>(e, s). past_state_has_expired now ex s) entries)) \<longleftrightarrow>
      (\<exists>s. states epoch = Some s \<and> past_state_has_expired now ex s)"
    using assms(2,3) by (auto simp: map_of_eq_Some_iff intro!: rev_image_eqI)
  then show "remove_epochs (map fst (filter (\<lambda>(e, s). past_state_has_expired now ex s) entries))
      states epoch = remove_expired_states now ex states epoch"
    by (auto simp: remove_epochs_apply remove_expired_states_def split: option.splits)
qed

end
