(* ===== verification/Mls_Group.thy ===== *)
theory Mls_Group
  imports Apq_Mls Past_Group_States
begin

text \<open>
  \<^verbatim>\<open>mls-assist/src/group/\<close> and \<^verbatim>\<open>mls-assist/src/messages/\<close>: the group state the delivery service
  keeps for a group (public group, current group info, past ratchet trees), the processing of
  messages that carry an assisted group info, and the merge of what was processed.

  The facts: a processed commit comes with a group info signed by the committer and describing
  exactly the context the commit leads to; accepting it persists the whole group, so that loading
  it back gives the merged state; the tree of the new epoch is handed to the clients the commit
  added and to nobody else; deleting a group leaves its proposal queue behind.
\<close>

section \<open>Messages\<close>

record assisted_group_info =
  agi_extensions :: bytes
  agi_signature :: bytes

record assisted_message_in =
  am_mls_message :: protocol_message
  am_serialized_mls_message :: bytes
  am_group_info_option :: "assisted_group_info option"

definition combine_apq :: "bytes \<Rightarrow> bytes \<Rightarrow> bytes" where
  "combine_apq t pq = t @ pq"

definition am_epoch :: "assisted_message_in \<Rightarrow> group_epoch" where
  "am_epoch m = (case am_mls_message m of PrivateMessage p \<Rightarrow> prv_epoch p | PublicMessage p \<Rightarrow> pm_epoch p)"

definition am_group_id :: "assisted_message_in \<Rightarrow> group_id" where
  "am_group_id m =
     (case am_mls_message m of PrivateMessage p \<Rightarrow> prv_group_id p | PublicMessage p \<Rightarrow> pm_group_id p)"

definition am_sender :: "assisted_message_in \<Rightarrow> sender option" where
  "am_sender m = (case am_mls_message m of PrivateMessage _ \<Rightarrow> None | PublicMessage p \<Rightarrow> Some (pm_sender p))"

definition into_verifiable_group_info :: "assisted_group_info \<Rightarrow> leaf_index \<Rightarrow> group_context \<Rightarrow>
    bytes \<Rightarrow> verifiable_group_info" where
  "into_verifiable_group_info agi sender_index ctx tag =
     \<lparr> vgi_group_context = ctx, vgi_extensions = agi_extensions agi, vgi_confirmation_tag = tag,
       vgi_signer = sender_index, vgi_signature = agi_signature agi \<rparr>"

definition joiners :: "mls_welcome \<Rightarrow> bytes list" where
  "joiners w = wel_secrets w"

text \<open>
  The sending side: a message out is public, private or of another kind, and the second argument
  carries the group info whose extensions and signature are kept.
\<close>

datatype mls_message_body_out =
  PublicMessageOut public_message | PrivateMessageOut private_message
  | GroupInfoOut assisted_group_info | OtherMessageOut bytes

record assisted_message_out =
  amo_mls_message :: mls_message_body_out
  amo_assisted_group_info_option :: "assisted_group_info option"

definition AssistedMessageOut_new :: "mls_message_body_out \<Rightarrow> mls_message_body_out option \<Rightarrow>
    assisted_message_out" where
  "AssistedMessageOut_new mls_message group_info_option =
     \<lparr> amo_mls_message = mls_message,
       amo_assisted_group_info_option =
         (case group_info_option of
            Some (GroupInfoOut gi) \<Rightarrow>
              Some \<lparr> agi_extensions = agi_extensions gi, agi_signature = agi_signature gi \<rparr>
          | Some _ \<Rightarrow> None
          | None \<Rightarrow> None) \<rparr>"

fun amo_epoch :: "mls_message_body_out \<Rightarrow> group_epoch option" where
  "amo_epoch (PublicMessageOut m) = Some (pm_epoch m)"
| "amo_epoch (PrivateMessageOut m) = Some (prv_epoch m)"
| "amo_epoch _ = None"

text \<open>
  Reading an assisted message: an MLS message followed by an optional group info.  The two TLS
  decoders are parameters; each returns the value and the unread rest.
\<close>

datatype tls_codec_error = EndOfStream | InvalidInput | OtherTlsError

datatype mls_message_body_in =
  PublicMessageIn public_message | PrivateMessageIn private_message
  | WelcomeIn mls_welcome | GroupInfoIn bytes | KeyPackageIn bytes

definition AssistedMessageIn_tls_deserialize_bytes ::
    "(bytes \<Rightarrow> tls_codec_error + mls_message_body_in \<times> bytes) \<Rightarrow>
     (bytes \<Rightarrow> tls_codec_error + assisted_group_info option \<times> bytes) \<Rightarrow>
     (assisted_group_info option \<Rightarrow> nat) \<Rightarrow> bytes \<Rightarrow> tls_codec_error + assisted_message_in \<times> bytes" where
  "AssistedMessageIn_tls_deserialize_bytes de_msg de_info info_len bs =
     and_then (de_msg bs) (\<lambda>(mls_message, remainder).
     and_then (de_info remainder) (\<lambda>(group_info_option, _).
     and_then (if length remainder \<le> length bs
               then Ok (take (length bs - length remainder) bs) else Err EndOfStream) (\<lambda>serialized.
     and_then (if info_len group_info_option \<le> length remainder
               then Ok (drop (info_len group_info_option) remainder) else Err EndOfStream) (\<lambda>rest.
     and_then (case mls_message of
                 PublicMessageIn pm \<Rightarrow> Ok (PublicMessage pm)
               | PrivateMessageIn pm \<Rightarrow> Ok (PrivateMessage pm)
               | _ \<Rightarrow> Err InvalidInput) (\<lambda>protocol_message.
     Ok (\<lparr> am_mls_message = protocol_message, am_serialized_mls_message = serialized,
           am_group_info_option = group_info_option \<rparr>, rest))))))"

definition AssistedWelcome_tls_deserialize_bytes ::
    "(bytes \<Rightarrow> tls_codec_error + mls_message_body_in \<times> bytes) \<Rightarrow> bytes \<Rightarrow>
     tls_codec_error + mls_welcome \<times> bytes" where
  "AssistedWelcome_tls_deserialize_bytes de_msg bs =
     and_then (de_msg bs) (\<lambda>(mls_message, remainder).
     case mls_message of WelcomeIn w \<Rightarrow> Ok (w, remainder) | _ \<Rightarrow> Err EndOfStream)"


section \<open>Errors\<close>

datatype library_error = LibraryError | OpenMlsLibrary openmls_library_error

datatype group_info_validation_error =
  GivLibraryError library_error | UnknownSender | InvalidGroupInfoSignature | InconsistentGroupContext

datatype process_assisted_message_error =
    InvalidAssistedMessage
  | PamLibraryError library_error
  | ProcessMessageError public_process_message_error
  | GroupInfoValidation group_info_validation_error
  | AppDataUpdateError resolve_app_data_commit_error

datatype process_apq_assisted_message_error =
    ApqInvalidAssistedMessage
  | ApqLibraryError library_error
  | ApqProcessMessageError apq_process_public_message_error
  | ApqGroupInfoValidation group_info_validation_error

text \<open>\<^verbatim>\<open>todo!()\<close> panics; the model makes it an outcome of its own.\<close>

datatype accept_error = MergeCommit merge_commit_error | Todo


section \<open>The group\<close>

record ('pg, 'rt) mls_group =
  g_public_group :: 'pg
  g_group_info :: group_info
  g_past_group_states :: "'rt past_group_states"

text \<open>The storage provider's codecs for group ids, group infos and past states.\<close>

record ('pg, 'rt) mls_assist = "('pg, 'rt) openmls" +
  gid_ser :: "group_id \<Rightarrow> unit + bytes"
  gi_ser :: "group_info \<Rightarrow> unit + bytes"
  gi_de :: "bytes \<Rightarrow> unit + group_info"
  pgs_ser :: "'rt past_group_states \<Rightarrow> unit + bytes"
  pgs_de :: "bytes \<Rightarrow> unit + 'rt past_group_states"

definition Group_new :: "('pg, 'rt, 'z) mls_assist_scheme \<Rightarrow> verifiable_group_info \<Rightarrow> 'rt \<Rightarrow>
    mem_storage \<Rightarrow> creation_error + ('pg, 'rt) mls_group \<times> mem_storage" where
  "Group_new om vgi ratchet_tree st =
     and_then (om_from_external om ratchet_tree vgi st) (\<lambda>(pg, gi, st).
     let group_id = gc_group_id (gi_group_context gi) in
     and_then (map_err WriteToStorageError
       (write_group_info (codec_to_vec (gid_ser om)) (codec_to_vec (gi_ser om)) group_id gi st)) (\<lambda>st.
     and_then (map_err WriteToStorageError
       (write_past_group_states (codec_to_vec (gid_ser om)) (codec_to_vec (pgs_ser om))
          group_id Map.empty st)) (\<lambda>st.
     Ok (\<lparr> g_public_group = pg, g_group_info = gi, g_past_group_states = Map.empty \<rparr>, st))))"

definition Group_load :: "('pg, 'rt, 'z) mls_assist_scheme \<Rightarrow> mem_storage \<Rightarrow> group_id \<Rightarrow>
    storage_error + ('pg, 'rt) mls_group option" where
  "Group_load om st group_id =
     and_then (read_group_info (codec_to_vec (gid_ser om)) (codec_from_slice (gi_de om)) group_id st)
       (\<lambda>group_info_option.
     and_then (read_past_group_states (codec_to_vec (gid_ser om)) (codec_from_slice (pgs_de om))
         group_id st) (\<lambda>past_group_states_option.
     and_then (om_load om st group_id) (\<lambda>public_group_option.
     case (group_info_option, past_group_states_option, public_group_option) of
       (Some gi, Some past, Some pg) \<Rightarrow>
         Ok (Some \<lparr> g_public_group = pg, g_group_info = gi, g_past_group_states = past \<rparr>)
     | _ \<Rightarrow> Ok None)))"

definition Group_delete :: "('pg, 'rt, 'z) mls_assist_scheme \<Rightarrow> group_id \<Rightarrow> mem_storage \<Rightarrow>
    storage_error + mem_storage" where
  "Group_delete om group_id st =
     and_then (delete_group_info (codec_to_vec (gid_ser om)) group_id st) (\<lambda>st.
     and_then (delete_past_group_states (codec_to_vec (gid_ser om)) group_id st) (\<lambda>st.
     and_then (delete_tree (codec_to_vec (gid_ser om)) group_id st) (\<lambda>st.
     and_then (delete_confirmation_tag (codec_to_vec (gid_ser om)) group_id st) (\<lambda>st.
     and_then (delete_context (codec_to_vec (gid_ser om)) group_id st) (\<lambda>st.
     delete_interim_transcript_hash (codec_to_vec (gid_ser om)) group_id st)))))"

datatype processed_assisted_message =
    PamPrivateMessage private_message
  | NonCommit processed_message
  | Commit processed_message group_info

fun pam_sender :: "processed_assisted_message \<Rightarrow> sender option" where
  "pam_sender (NonCommit pm) = Some (pr_sender pm)"
| "pam_sender (Commit pm _) = Some (pr_sender pm)"
| "pam_sender (PamPrivateMessage _) = None"

record processed_assisted_message_plus =
  processed_assisted_message :: processed_assisted_message
  serialized_mls_message :: bytes

text \<open>The part of \<^verbatim>\<open>accept_processed_message\<close> after the message has been taken apart.\<close>

definition accept_content :: "('pg, 'rt, 'z) mls_assist_scheme \<Rightarrow> processed_message_content \<Rightarrow>
    'pg \<Rightarrow> mem_storage \<Rightarrow> accept_error + signature_key list \<times> 'pg \<times> mem_storage" where
  "accept_content om content pg st =
     (case content of
        StagedCommitMessage sc \<Rightarrow>
          map_ok (\<lambda>(pg, st). (map (\<lambda>kp. ln_signature_key (kp_leaf_node kp)) (sc_add_proposals sc), pg, st))
            (map_err MergeCommit (om_merge_commit om pg sc st))
      | ProposalMessage proposal \<Rightarrow>
          map_ok (\<lambda>(pg, st). ([], pg, st))
            (map_err (\<lambda>e. MergeCommit (MergeStorageError e)) (om_add_proposal om pg proposal st))
      | OwnPendingCommit \<Rightarrow> Ok ([], pg, st)
      | ApplicationMessage _ \<Rightarrow> Err Todo
      | ExternalJoinProposalMessage _ \<Rightarrow> Err Todo
      | OwnPrivateMessage \<Rightarrow> Ok ([], pg, st)
      | UnresolvedAppDataCommit _ \<Rightarrow> Ok ([], pg, st))"

definition accept_processed :: "('pg, 'rt, 'z) mls_assist_scheme \<Rightarrow> time \<Rightarrow> processed_message \<Rightarrow>
    duration \<Rightarrow> ('pg, 'rt) mls_group \<Rightarrow> mem_storage \<Rightarrow> accept_error + ('pg, 'rt) mls_group \<times> mem_storage" where
  "accept_processed om now pm expiration_time g st =
     and_then (accept_content om (pr_content pm) (g_public_group g) st)
       (\<lambda>(added_potential_joiners, pg, st).
     let past = remove_expired_states now expiration_time
           (add_state now (gc_epoch (om_group_context om pg)) (om_export_ratchet_tree om pg)
             added_potential_joiners (g_past_group_states g));
         g = g\<lparr> g_public_group := pg, g_past_group_states := past \<rparr>;
         group_id = gc_group_id (gi_group_context (g_group_info g))
     in and_then (map_err (\<lambda>e. MergeCommit (MergeStorageError e))
          (write_group_info (codec_to_vec (gid_ser om)) (codec_to_vec (gi_ser om)) group_id
            (g_group_info g) st)) (\<lambda>st.
        and_then (map_err (\<lambda>e. MergeCommit (MergeStorageError e))
          (write_past_group_states (codec_to_vec (gid_ser om)) (codec_to_vec (pgs_ser om)) group_id
            past st)) (\<lambda>st.
        Ok (g, st))))"

definition accept_processed_message :: "('pg, 'rt, 'z) mls_assist_scheme \<Rightarrow> time \<Rightarrow>
    processed_assisted_message \<Rightarrow> duration \<Rightarrow> ('pg, 'rt) mls_group \<Rightarrow> mem_storage \<Rightarrow>
    accept_error + ('pg, 'rt) mls_group \<times> mem_storage" where
  "accept_processed_message om now pam expiration_time g st =
     (case pam of
        NonCommit pm \<Rightarrow> accept_processed om now pm expiration_time g st
      | Commit pm gi \<Rightarrow> accept_processed om now pm expiration_time (g\<lparr> g_group_info := gi \<rparr>) st
      | PamPrivateMessage _ \<Rightarrow> Ok (g, st))"

definition past_group_state :: "('pg, 'rt) mls_group \<Rightarrow> group_epoch \<Rightarrow> signature_key \<Rightarrow> 'rt option" where
  "past_group_state g epoch joiner = get_for_joiner (g_past_group_states g) epoch joiner"

definition group_epoch_of :: "('pg, 'rt, 'z) openmls_scheme \<Rightarrow> ('pg, 'rt) mls_group \<Rightarrow> group_epoch" where
  "group_epoch_of om g = gc_epoch (om_group_context om (g_public_group g))"


section \<open>Processing\<close>

datatype assisted_sender = AssistedMember leaf_index | AssistedExternal signature_key

record validate_group_info_params =
  vg_assisted_sender :: assisted_sender
  vg_staged_commit :: staged_commit
  vg_confirmation_tag :: bytes

definition from_processed_commit :: "bytes \<Rightarrow> processed_message \<Rightarrow>
    library_error + validate_group_info_params" where
  "from_processed_commit tag processed =
     (case pr_content processed of
        StagedCommitMessage staged_commit \<Rightarrow>
          and_then (case pr_sender processed of
              Member leaf_index \<Rightarrow> Ok (AssistedMember leaf_index)
            | External _ \<Rightarrow> Err LibraryError
            | NewMemberProposal \<Rightarrow> Err LibraryError
            | NewMemberCommit \<Rightarrow>
                (case sc_update_path_leaf_node staged_commit of
                   None \<Rightarrow> Err LibraryError
                 | Some external_add \<Rightarrow> Ok (AssistedExternal (ln_signature_key external_add))))
            (\<lambda>assisted_sender.
          Ok \<lparr> vg_assisted_sender = assisted_sender, vg_staged_commit = staged_commit,
               vg_confirmation_tag = tag \<rparr>)
      | _ \<Rightarrow> Err LibraryError)"

definition validate_group_info :: "('pg, 'rt, 'z) openmls_scheme \<Rightarrow> ('pg, 'rt) mls_group \<Rightarrow>
    validate_group_info_params \<Rightarrow> assisted_group_info \<Rightarrow> group_info_validation_error + group_info" where
  "validate_group_info om g params agi =
     (let signature_scheme = om_signature_scheme om (gc_ciphersuite (gi_group_context (g_group_info g)));
          staged_commit = vg_staged_commit params
      in and_then (case vg_assisted_sender params of
           AssistedMember index \<Rightarrow>
             and_then (ok_or UnknownSender (map_option (\<lambda>m. (m_signature_key m, signature_scheme))
               (find (\<lambda>m. m_index m = index) (om_members om (g_public_group g))))) (\<lambda>sender_pk.
             Ok (index, sender_pk))
         | AssistedExternal signature_public_key \<Rightarrow>
             and_then (map_err (\<lambda>e. GivLibraryError (OpenMlsLibrary e))
               (om_ext_commit_sender_index om (g_public_group g) staged_commit)) (\<lambda>index.
             Ok (index, (signature_public_key, signature_scheme))))
         (\<lambda>(sender_index, sender_pk).
         and_then (ok_or InvalidGroupInfoSignature (om_verify_group_info om
             (into_verifiable_group_info agi sender_index (sc_group_context staged_commit)
               (vg_confirmation_tag params)) sender_pk)) (\<lambda>gi.
         and_then (ensure (gi_group_context gi = sc_group_context staged_commit)
           InconsistentGroupContext) (\<lambda>_.
         Ok gi))))"

definition process_assisted_message :: "('pg, 'rt, 'z) openmls_scheme \<Rightarrow> ('pg, 'rt) mls_group \<Rightarrow>
    assisted_message_in \<Rightarrow> process_assisted_message_error + processed_assisted_message_plus" where
  "process_assisted_message om g am =
     (case am_mls_message am of
        PrivateMessage private_message \<Rightarrow>
          Ok \<lparr> processed_assisted_message = PamPrivateMessage private_message,
               serialized_mls_message = am_serialized_mls_message am \<rparr>
      | PublicMessage pm \<Rightarrow>
          (case pm_content_type pm of
             ContentApplication \<Rightarrow> Err InvalidAssistedMessage
           | ContentProposal \<Rightarrow>
               and_then (map_err ProcessMessageError
                 (om_process_message om (g_public_group g) (PublicMessage pm))) (\<lambda>processed.
               and_then (map_err AppDataUpdateError
                 (resolve_app_data_commit_public om (g_public_group g) processed)) (\<lambda>processed.
               Ok \<lparr> processed_assisted_message = NonCommit processed,
                    serialized_mls_message = am_serialized_mls_message am \<rparr>))
           | ContentCommit \<Rightarrow>
               and_then (ok_or InvalidAssistedMessage (am_group_info_option am)) (\<lambda>agi.
               and_then (map_err ProcessMessageError
                 (om_process_message om (g_public_group g) (PublicMessage pm))) (\<lambda>processed.
               and_then (map_err AppDataUpdateError
                 (resolve_app_data_commit_public om (g_public_group g) processed)) (\<lambda>processed.
               and_then (ok_or (PamLibraryError LibraryError) (pm_confirmation_tag pm)) (\<lambda>tag.
               and_then (map_err PamLibraryError (from_processed_commit tag processed)) (\<lambda>params.
               and_then (map_err GroupInfoValidation (validate_group_info om g params agi)) (\<lambda>gi.
               Ok \<lparr> processed_assisted_message = Commit processed gi,
                    serialized_mls_message = am_serialized_mls_message am \<rparr>))))))))"


section \<open>APQ groups\<close>

record apq_processed_assisted_message =
  apam_processed_message :: apq_processed_message
  apam_t_group_info :: group_info
  apam_pq_group_info :: group_info

record apq_processed_assisted_message_plus =
  apq_processed_assisted_message :: apq_processed_assisted_message
  serialized_apq_message :: bytes

definition extract_public_commit :: "assisted_message_in \<Rightarrow>
    (public_message \<times> bytes \<times> assisted_group_info) option" where
  "extract_public_commit am =
     (case am_mls_message am of
        PrivateMessage _ \<Rightarrow> None
      | PublicMessage pm \<Rightarrow>
          (case pm_content_type pm of
             ContentApplication \<Rightarrow> None
           | ContentProposal \<Rightarrow> None
           | ContentCommit \<Rightarrow>
               map_option (\<lambda>agi. (pm, am_serialized_mls_message am, agi)) (am_group_info_option am)))"

definition process_apq_assisted_message :: "('pg, 'rt, 'z) openmls_scheme \<Rightarrow> ('pg, 'rt) mls_group \<Rightarrow>
    ('pg, 'rt) mls_group \<Rightarrow> assisted_message_in \<Rightarrow> assisted_message_in \<Rightarrow>
    (credential \<Rightarrow> credential \<Rightarrow> bool) \<Rightarrow>
    process_apq_assisted_message_error + apq_processed_assisted_message_plus" where
  "process_apq_assisted_message om t_group pq_group t_am pq_am sender_equivalence =
     and_then (ok_or ApqInvalidAssistedMessage (extract_public_commit pq_am))
       (\<lambda>(pq_commit, pq_serialized, pq_agi).
     and_then (ok_or ApqInvalidAssistedMessage (extract_public_commit t_am))
       (\<lambda>(t_commit, t_serialized, t_agi).
     and_then (ok_or (ApqLibraryError LibraryError) (pm_confirmation_tag t_commit)) (\<lambda>t_tag.
     and_then (ok_or (ApqLibraryError LibraryError) (pm_confirmation_tag pq_commit)) (\<lambda>pq_tag.
     and_then (map_err ApqProcessMessageError (apq_public_process_message om sender_equivalence
         (g_public_group t_group) (g_public_group pq_group)
         (PublicMessage t_commit) (PublicMessage pq_commit))) (\<lambda>apq_processed.
     and_then (map_err ApqLibraryError
         (from_processed_commit t_tag (apq_t_message apq_processed))) (\<lambda>t_params.
     and_then (map_err ApqGroupInfoValidation
         (validate_group_info om t_group t_params t_agi)) (\<lambda>t_group_info.
     and_then (map_err ApqLibraryError
         (from_processed_commit pq_tag (apq_pq_message apq_processed))) (\<lambda>pq_params.
     and_then (map_err ApqGroupInfoValidation
         (validate_group_info om pq_group pq_params pq_agi)) (\<lambda>pq_group_info.
     Ok \<lparr> apq_processed_assisted_message = \<lparr> apam_processed_message = apq_processed,
            apam_t_group_info = t_group_info, apam_pq_group_info = pq_group_info \<rparr>,
          serialized_apq_message = combine_apq t_serialized pq_serialized \<rparr>)))))))))"

definition accept_apq_processed_message :: "('pg, 'rt, 'z) mls_assist_scheme \<Rightarrow> time \<Rightarrow>
    apq_processed_assisted_message \<Rightarrow> duration \<Rightarrow> ('pg, 'rt) mls_group \<times> mem_storage \<Rightarrow>
    ('pg, 'rt) mls_group \<times> mem_storage \<Rightarrow>
    accept_error + (('pg, 'rt) mls_group \<times> mem_storage) \<times> (('pg, 'rt) mls_group \<times> mem_storage)" where
  "accept_apq_processed_message om now m expiration_time t pq =
     and_then (accept_processed_message om now
         (Commit (apq_t_message (apam_processed_message m)) (apam_t_group_info m))
         expiration_time (fst t) (snd t)) (\<lambda>t.
     and_then (accept_processed_message om now
         (Commit (apq_pq_message (apam_processed_message m)) (apam_pq_group_info m))
         expiration_time (fst pq) (snd pq)) (\<lambda>pq.
     Ok (t, pq)))"


section \<open>What the library promises about storage\<close>

text \<open>
  The library reads and writes its own part of the storage only, through its operations; what it
  creates, merges or queues a proposal in is what it loads afterwards; and a merged group is in
  the context the commit was staged for.
\<close>

definition storage_backed :: "('pg, 'rt, 'z) openmls_scheme \<Rightarrow> bool" where
  "storage_backed om =
     ((\<forall>st st' gid. group_states st = group_states st' \<longrightarrow> om_load om st gid = om_load om st' gid)
      \<and> (\<forall>rt vgi st pg gi st'. om_from_external om rt vgi st = Ok (pg, gi, st') \<longrightarrow>
           om_group_context om pg = gi_group_context gi
           \<and> om_load om st' (gc_group_id (gi_group_context gi)) = Ok (Some pg)
           \<and> (storage_proper st \<longrightarrow> storage_proper st'))
      \<and> (\<forall>pg sc st pg' st'. om_merge_commit om pg sc st = Ok (pg', st') \<longrightarrow>
           om_group_context om pg' = sc_group_context sc
           \<and> om_load om st' (gc_group_id (sc_group_context sc)) = Ok (Some pg')
           \<and> (storage_proper st \<longrightarrow> storage_proper st'))
      \<and> (\<forall>pg p st pg' st'. om_add_proposal om pg p st = Ok (pg', st') \<longrightarrow>
           om_group_context om pg' = om_group_context om pg
           \<and> om_load om st' (gc_group_id (om_group_context om pg)) = Ok (Some pg')
           \<and> (storage_proper st \<longrightarrow> storage_proper st')))"

lemma storage_backed_load_cong:
  "storage_backed om \<Longrightarrow> group_states st = group_states st' \<Longrightarrow> om_load om st gid = om_load om st' gid"
  unfolding storage_backed_def by blast

lemma storage_backed_create:
  "storage_backed om \<Longrightarrow> om_from_external om rt vgi st = Ok (pg, gi, st') \<Longrightarrow>
     om_group_context om pg = gi_group_context gi
     \<and> om_load om st' (gc_group_id (gi_group_context gi)) = Ok (Some pg)
     \<and> (storage_proper st \<longrightarrow> storage_proper st')"
  unfolding storage_backed_def by blast

lemma storage_backed_merge:
  "storage_backed om \<Longrightarrow> om_merge_commit om pg sc st = Ok (pg', st') \<Longrightarrow>
     om_group_context om pg' = sc_group_context sc
     \<and> om_load om st' (gc_group_id (sc_group_context sc)) = Ok (Some pg')
     \<and> (storage_proper st \<longrightarrow> storage_proper st')"
  unfolding storage_backed_def by blast

lemma storage_backed_add_proposal:
  "storage_backed om \<Longrightarrow> om_add_proposal om pg p st = Ok (pg', st') \<Longrightarrow>
     om_group_context om pg' = om_group_context om pg
     \<and> om_load om st' (gc_group_id (om_group_context om pg)) = Ok (Some pg')
     \<and> (storage_proper st \<longrightarrow> storage_proper st')"
  unfolding storage_backed_def by blast

definition group_codecs_correct :: "('pg, 'rt, 'z) mls_assist_scheme \<Rightarrow> bool" where
  "group_codecs_correct om =
     (codec_correct (gi_ser om) (gi_de om) \<and> codec_correct (pgs_ser om) (pgs_de om))"


section \<open>Facts\<close>

lemma write_group_info_past_states_read:
  assumes "group_codecs_correct om"
    and "write_group_info (codec_to_vec (gid_ser om)) (codec_to_vec (gi_ser om)) gid gi st = Ok st1"
    and "write_past_group_states (codec_to_vec (gid_ser om)) (codec_to_vec (pgs_ser om)) gid past st1 = Ok st2"
  shows "read_group_info (codec_to_vec (gid_ser om)) (codec_from_slice (gi_de om)) gid st2 = Ok (Some gi)"
    and "read_past_group_states (codec_to_vec (gid_ser om)) (codec_from_slice (pgs_de om)) gid st2
      = Ok (Some past)"
    and "group_states st2 = group_states st"
proof -
  have codecs: "codec_correct (codec_to_vec (gi_ser om)) (codec_from_slice (gi_de om))"
    "codec_correct (codec_to_vec (pgs_ser om)) (codec_from_slice (pgs_de om))"
    using assms(1) by (auto simp: group_codecs_correct_def intro: codec_correct_persistence)
  from assms(2) obtain k b where k: "codec_to_vec (gid_ser om) gid = Ok k"
    and b: "codec_to_vec (gi_ser om) gi = Ok b"
    and st1: "st1 = st\<lparr> group_info_bytes := (group_info_bytes st)(k \<mapsto> b) \<rparr>"
    by (auto simp: write_group_info_def result_simps)
  from assms(3) k obtain c where c: "codec_to_vec (pgs_ser om) past = Ok c"
    and st2: "st2 = st1\<lparr> past_states_bytes := (past_states_bytes st1)(k \<mapsto> c) \<rparr>"
    by (auto simp: write_past_group_states_def result_simps)
  show "read_group_info (codec_to_vec (gid_ser om)) (codec_from_slice (gi_de om)) gid st2 = Ok (Some gi)"
    using codec_correctD[OF codecs(1), OF b] by (simp add: read_group_info_def k st1 st2)
  show "read_past_group_states (codec_to_vec (gid_ser om)) (codec_from_slice (pgs_de om)) gid st2
      = Ok (Some past)"
    using codec_correctD[OF codecs(2), OF c] by (simp add: read_past_group_states_def k st2)
  show "group_states st2 = group_states st"
    by (simp add: st1 st2)
qed

lemma Group_load_written:
  assumes "storage_backed om" "group_codecs_correct om"
    and "write_group_info (codec_to_vec (gid_ser om)) (codec_to_vec (gi_ser om)) gid gi st = Ok st1"
    and "write_past_group_states (codec_to_vec (gid_ser om)) (codec_to_vec (pgs_ser om)) gid past st1 = Ok st2"
    and "om_load om st gid = Ok (Some pg)"
  shows "Group_load om st2 gid
    = Ok (Some \<lparr> g_public_group = pg, g_group_info = gi, g_past_group_states = past \<rparr>)"
proof -
  note rd = write_group_info_past_states_read[OF assms(2-4)]
  have ld: "om_load om st2 gid = Ok (Some pg)"
    using storage_backed_load_cong[OF assms(1) rd(3)] assms(5) by simp
  show ?thesis unfolding Group_load_def rd(1,2) ld and_then.simps prod.case option.case by (rule refl)
qed

lemma Group_new_load:
  assumes "storage_backed om" "group_codecs_correct om"
    and "Group_new om vgi rt st = Ok (g, st')"
  shows "Group_load om st' (gc_group_id (gi_group_context (g_group_info g))) = Ok (Some g)
    \<and> om_group_context om (g_public_group g) = gi_group_context (g_group_info g)
    \<and> (storage_proper st \<longrightarrow> storage_proper st')"
proof -
  from assms(3) obtain pg gi st0 st1 where
    ext: "om_from_external om rt vgi st = Ok (pg, gi, st0)"
    and gi: "write_group_info (codec_to_vec (gid_ser om)) (codec_to_vec (gi_ser om))
      (gc_group_id (gi_group_context gi)) gi st0 = Ok st1"
    and past: "write_past_group_states (codec_to_vec (gid_ser om)) (codec_to_vec (pgs_ser om))
      (gc_group_id (gi_group_context gi)) Map.empty st1 = Ok st'"
    and g: "g = \<lparr> g_public_group = pg, g_group_info = gi, g_past_group_states = Map.empty \<rparr>"
    by (auto simp: Group_new_def result_simps Let_def)
  have "om_load om st0 (gc_group_id (gi_group_context gi)) = Ok (Some pg)"
    and ctx: "om_group_context om pg = gi_group_context gi"
    and "storage_proper st \<longrightarrow> storage_proper st0"
    using storage_backed_create[OF assms(1) ext] by blast+
  with Group_load_written[OF assms(1,2) gi past this(1)] show ?thesis
    using storage_proper_write_past_group_states[OF storage_proper_write_group_info[OF _ gi] past]
    by (simp only: g mls_group.simps simp_thms) blast
qed

lemma process_assisted_message_commit:
  assumes "process_assisted_message om g am = Ok res"
    and "processed_assisted_message res = Commit pm gi"
  obtains msg agi tag params where "am_mls_message am = PublicMessage msg"
    "pm_content_type msg = ContentCommit" "am_group_info_option am = Some agi"
    "pm_confirmation_tag msg = Some tag" "from_processed_commit tag pm = Ok params"
    "validate_group_info om g params agi = Ok gi"
    "serialized_mls_message res = am_serialized_mls_message am"
  using assms by (auto simp: process_assisted_message_def result_simps
      split: protocol_message.splits content_type.splits)

lemma from_processed_commit_Ok:
  "from_processed_commit tag pm = Ok params \<Longrightarrow>
     pr_content pm = StagedCommitMessage (vg_staged_commit params) \<and> vg_confirmation_tag params = tag
     \<and> (vg_assisted_sender params = AssistedMember i \<longleftrightarrow> pr_sender pm = Member i)
     \<and> (vg_assisted_sender params = AssistedExternal key \<longleftrightarrow> pr_sender pm = NewMemberCommit
          \<and> map_option ln_signature_key (sc_update_path_leaf_node (vg_staged_commit params)) = Some key)"
  by (auto simp: from_processed_commit_def result_simps
      split: processed_message_content.splits sender.splits option.splits)

lemma validate_group_info_context:
  "validate_group_info om g params agi = Ok gi \<Longrightarrow>
     gi_group_context gi = sc_group_context (vg_staged_commit params)"
  by (auto simp: validate_group_info_def result_simps Let_def)

lemma processed_commit_context:
  assumes "process_assisted_message om g am = Ok res"
    and "processed_assisted_message res = Commit pm gi"
  shows "\<exists>sc. pr_content pm = StagedCommitMessage sc \<and> gi_group_context gi = sc_group_context sc"
proof -
  obtain tag params agi where "from_processed_commit tag pm = Ok params"
    and "validate_group_info om g params agi = Ok gi"
    using process_assisted_message_commit[OF assms] .
  then show ?thesis using from_processed_commit_Ok validate_group_info_context by blast
qed

lemma process_apq_assisted_message_context:
  assumes "process_apq_assisted_message om tg pqg tm pqm eqv = Ok res"
  shows "\<exists>t_sc pq_sc.
      pr_content (apq_t_message (apam_processed_message (apq_processed_assisted_message res)))
        = StagedCommitMessage t_sc
      \<and> gi_group_context (apam_t_group_info (apq_processed_assisted_message res)) = sc_group_context t_sc
      \<and> pr_content (apq_pq_message (apam_processed_message (apq_processed_assisted_message res)))
        = StagedCommitMessage pq_sc
      \<and> gi_group_context (apam_pq_group_info (apq_processed_assisted_message res)) = sc_group_context pq_sc"
proof -
  from assms obtain apm t_tag t_params pq_tag pq_params t_agi pq_agi t_gi pq_gi where
    t: "from_processed_commit t_tag (apq_t_message apm) = Ok t_params"
      "validate_group_info om tg t_params t_agi = Ok t_gi"
    and pq: "from_processed_commit pq_tag (apq_pq_message apm) = Ok pq_params"
      "validate_group_info om pqg pq_params pq_agi = Ok pq_gi"
    and res: "apq_processed_assisted_message res = \<lparr> apam_processed_message = apm,
        apam_t_group_info = t_gi, apam_pq_group_info = pq_gi \<rparr>"
    by (auto simp: process_apq_assisted_message_def result_simps)
  from from_processed_commit_Ok[OF t(1)] from_processed_commit_Ok[OF pq(1)]
    validate_group_info_context[OF t(2)] validate_group_info_context[OF pq(2)]
  show ?thesis by (simp add: res)
qed

lemma accept_commit_Ok:
  assumes "accept_processed_message om now (Commit pm gi) ex g st = Ok (g', st')"
    and "pr_content pm = StagedCommitMessage sc"
  obtains pg past st0 st1 where "om_merge_commit om (g_public_group g) sc st = Ok (pg, st0)"
    "past = remove_expired_states now ex (add_state now (gc_epoch (om_group_context om pg))
        (om_export_ratchet_tree om pg)
        (map (\<lambda>kp. ln_signature_key (kp_leaf_node kp)) (sc_add_proposals sc)) (g_past_group_states g))"
    "write_group_info (codec_to_vec (gid_ser om)) (codec_to_vec (gi_ser om))
       (gc_group_id (gi_group_context gi)) gi st0 = Ok st1"
    "write_past_group_states (codec_to_vec (gid_ser om)) (codec_to_vec (pgs_ser om))
       (gc_group_id (gi_group_context gi)) past st1 = Ok st'"
    "g' = \<lparr> g_public_group = pg, g_group_info = gi, g_past_group_states = past \<rparr>"
  using assms by (auto simp: accept_processed_message_def accept_processed_def accept_content_def
      result_simps Let_def)


lemma accept_commit_persisted:
  assumes "storage_backed om" "group_codecs_correct om"
    and "accept_processed_message om now (Commit pm gi) ex g st = Ok (g', st')"
    and "pr_content pm = StagedCommitMessage sc" "gi_group_context gi = sc_group_context sc"
  shows "Group_load om st' (gc_group_id (gi_group_context gi)) = Ok (Some g')
    \<and> g_group_info g' = gi \<and> om_group_context om (g_public_group g') = gi_group_context gi
    \<and> (storage_proper st \<longrightarrow> storage_proper st')"
proof -
  obtain pg past st0 st1 where
    merge: "om_merge_commit om (g_public_group g) sc st = Ok (pg, st0)"
    and gi: "write_group_info (codec_to_vec (gid_ser om)) (codec_to_vec (gi_ser om))
       (gc_group_id (gi_group_context gi)) gi st0 = Ok st1"
    and past: "write_past_group_states (codec_to_vec (gid_ser om)) (codec_to_vec (pgs_ser om))
       (gc_group_id (gi_group_context gi)) past st1 = Ok st'"
    and g': "g' = \<lparr> g_public_group = pg, g_group_info = gi, g_past_group_states = past \<rparr>"
    using accept_commit_Ok[OF assms(3,4)] .
  have "om_load om st0 (gc_group_id (gi_group_context gi)) = Ok (Some pg)"
    and "om_group_context om pg = gi_group_context gi"
    and "storage_proper st \<longrightarrow> storage_proper st0"
    using storage_backed_merge[OF assms(1) merge] assms(5) by simp_all
  with Group_load_written[OF assms(1,2) gi past this(1)] show ?thesis
    using storage_proper_write_past_group_states[OF storage_proper_write_group_info[OF _ gi] past]
    by (simp only: g' mls_group.simps simp_thms) blast
qed

lemma accept_proposal_persisted:
  assumes "storage_backed om" "group_codecs_correct om"
    and "accept_processed_message om now (NonCommit pm) ex g st = Ok (g', st')"
    and "pr_content pm = ProposalMessage p"
    and ctx: "om_group_context om (g_public_group g) = gi_group_context (g_group_info g)"
  shows "Group_load om st' (gc_group_id (gi_group_context (g_group_info g))) = Ok (Some g')
    \<and> g_group_info g' = g_group_info g
    \<and> om_group_context om (g_public_group g') = gi_group_context (g_group_info g)
    \<and> (storage_proper st \<longrightarrow> storage_proper st')"
proof -
  from assms(3,4) obtain pg past st0 st1 where
    add: "om_add_proposal om (g_public_group g) p st = Ok (pg, st0)"
    and gi: "write_group_info (codec_to_vec (gid_ser om)) (codec_to_vec (gi_ser om))
       (gc_group_id (gi_group_context (g_group_info g))) (g_group_info g) st0 = Ok st1"
    and past: "write_past_group_states (codec_to_vec (gid_ser om)) (codec_to_vec (pgs_ser om))
       (gc_group_id (gi_group_context (g_group_info g))) past st1 = Ok st'"
    and g': "g' = \<lparr> g_public_group = pg, g_group_info = g_group_info g, g_past_group_states = past \<rparr>"
    by (auto simp: accept_processed_message_def accept_processed_def accept_content_def
        result_simps Let_def)
  have "om_load om st0 (gc_group_id (gi_group_context (g_group_info g))) = Ok (Some pg)"
    and "om_group_context om pg = gi_group_context (g_group_info g)"
    and "storage_proper st \<longrightarrow> storage_proper st0"
    using storage_backed_add_proposal[OF assms(1) add] ctx by simp_all
  with Group_load_written[OF assms(1,2) gi past this(1)] show ?thesis
    using storage_proper_write_past_group_states[OF storage_proper_write_group_info[OF _ gi] past]
    by (simp only: g' mls_group.simps simp_thms) blast
qed


section \<open>Properties\<close>

text \<open>
  (C13) A commit is only let through together with a group info its committer vouches for: the
  group info verifies under the key of the member with the sender's index, or, for an external
  commit, under the key of the leaf it adds and the index the library assigns; and it describes
  exactly the context the commit leads to.  The bytes forwarded to the other members are the bytes
  received.
\<close>

theorem processed_commit_is_vouched_for:
  assumes "process_assisted_message om g am = Ok res"
    and "processed_assisted_message res = Commit pm gi"
  shows "\<exists>sc agi tag index key. pr_content pm = StagedCommitMessage sc
    \<and> am_group_info_option am = Some agi
    \<and> gi_group_context gi = sc_group_context sc
    \<and> om_verify_group_info om (into_verifiable_group_info agi index (sc_group_context sc) tag)
        (key, om_signature_scheme om (gc_ciphersuite (gi_group_context (g_group_info g)))) = Some gi
    \<and> (case pr_sender pm of
         Member i \<Rightarrow> index = i \<and> (\<exists>m \<in> set (om_members om (g_public_group g)).
           m_index m = i \<and> m_signature_key m = key)
       | NewMemberCommit \<Rightarrow> om_ext_commit_sender_index om (g_public_group g) sc = Ok index
           \<and> map_option ln_signature_key (sc_update_path_leaf_node sc) = Some key
       | _ \<Rightarrow> False)
    \<and> serialized_mls_message res = am_serialized_mls_message am"
proof -
  obtain msg agi tag params where agi: "am_group_info_option am = Some agi"
    and params: "from_processed_commit tag pm = Ok params"
    and valid: "validate_group_info om g params agi = Ok gi"
    and bytes: "serialized_mls_message res = am_serialized_mls_message am"
    using process_assisted_message_commit[OF assms] .
  have content: "pr_content pm = StagedCommitMessage (vg_staged_commit params)"
    using from_processed_commit_Ok[OF params] by blast
  have "\<exists>tag index key. om_verify_group_info om (into_verifiable_group_info agi index
        (sc_group_context (vg_staged_commit params)) tag)
        (key, om_signature_scheme om (gc_ciphersuite (gi_group_context (g_group_info g)))) = Some gi
    \<and> (case pr_sender pm of
         Member i \<Rightarrow> index = i \<and> (\<exists>m \<in> set (om_members om (g_public_group g)).
           m_index m = i \<and> m_signature_key m = key)
       | NewMemberCommit \<Rightarrow> om_ext_commit_sender_index om (g_public_group g)
             (vg_staged_commit params) = Ok index
           \<and> map_option ln_signature_key (sc_update_path_leaf_node (vg_staged_commit params)) = Some key
       | _ \<Rightarrow> False)"
  proof (cases "vg_assisted_sender params")
    case (AssistedMember i)
    then have "pr_sender pm = Member i" using from_processed_commit_Ok[OF params] by blast
    with valid AssistedMember show ?thesis
      by (fastforce simp: validate_group_info_def result_simps Let_def find_Some_iff)
  next
    case (AssistedExternal key)
    then have "pr_sender pm = NewMemberCommit
        \<and> map_option ln_signature_key (sc_update_path_leaf_node (vg_staged_commit params)) = Some key"
      using from_processed_commit_Ok[OF params] by blast
    with valid AssistedExternal show ?thesis
      by (fastforce simp: validate_group_info_def result_simps Let_def)
  qed
  with agi content bytes validate_group_info_context[OF valid] show ?thesis by blast
qed

text \<open>
  (C14) Accepting a processed commit persists it completely: loading the group under its id gives
  the group as it now is in memory, with the commit's group info, in the context that group info
  describes.
\<close>

theorem accepted_commit_is_persisted:
  assumes "storage_backed om" "group_codecs_correct om"
    and "process_assisted_message om g am = Ok res"
    and "processed_assisted_message res = Commit pm gi"
    and "accept_processed_message om now (Commit pm gi) ex g st = Ok (g', st')"
  shows "Group_load om st' (gc_group_id (gi_group_context gi)) = Ok (Some g')
    \<and> g_group_info g' = gi \<and> om_group_context om (g_public_group g') = gi_group_context gi"
proof -
  obtain sc where "pr_content pm = StagedCommitMessage sc" "gi_group_context gi = sc_group_context sc"
    using processed_commit_context[OF assms(3,4)] by blast
  then show ?thesis using accept_commit_persisted[OF assms(1,2,5)] by blast
qed

text \<open>
  (C15) After a commit, the ratchet tree of an epoch is given to a client exactly if the commit
  led to that epoch and added the client, or the commit added nobody for that epoch and the tree
  had been stored for the client earlier; in both cases only while it is not older than the
  expiration time.
\<close>

theorem past_tree_only_for_added_clients:
  assumes "accept_processed_message om now (Commit pm gi) ex g st = Ok (g', st')"
    and "pr_content pm = StagedCommitMessage sc"
  shows "past_group_state g' epoch j = Some tree \<longleftrightarrow>
    (if epoch = group_epoch_of om g' \<and> sc_add_proposals sc \<noteq> []
     then j \<in> (\<lambda>kp. ln_signature_key (kp_leaf_node kp)) ` set (sc_add_proposals sc)
       \<and> tree = om_export_ratchet_tree om (g_public_group g') \<and> 0 < ex
     else past_group_state g epoch j = Some tree
       \<and> (\<exists>s. g_past_group_states g epoch = Some s \<and> now - ex < creation_time s))"
proof -
  obtain pg past st0 st1 where
    past: "past = remove_expired_states now ex (add_state now (gc_epoch (om_group_context om pg))
        (om_export_ratchet_tree om pg)
        (map (\<lambda>kp. ln_signature_key (kp_leaf_node kp)) (sc_add_proposals sc)) (g_past_group_states g))"
    and g': "g' = \<lparr> g_public_group = pg, g_group_info = gi, g_past_group_states = past \<rparr>"
    using accept_commit_Ok[OF assms] .
  show ?thesis
    by (auto simp: g' past past_group_state_def group_epoch_of_def get_for_joiner_Some_iff
        remove_expired_states_Some_iff add_state_def PastGroupState_new_def fold_insert_set)
qed

text \<open>
  (C25) Deleting a group removes its group info, its past trees and its four payload slots, but
  not its queue of proposals: that stays in the storage, so a group with queued proposals keeps
  its entry.
\<close>

theorem group_delete_keeps_proposal_queue:
  assumes "Group_delete om gid st = Ok st'"
  shows "\<exists>k. codec_to_vec (gid_ser om) gid = Ok k
    \<and> group_info_bytes st' k = None \<and> past_states_bytes st' k = None
    \<and> (\<forall>d. stored st' k d = []) \<and> stored_queue st' k = stored_queue st k
    \<and> (stored_queue st k \<noteq> [] \<longrightarrow> group_states st' k \<noteq> None)"
proof -
  from assms obtain k st2 st3 st4 st5 where k: "codec_to_vec (gid_ser om) gid = Ok k"
    and del: "delete_payload (codec_to_vec (gid_ser om)) gid TreeSync
        (st\<lparr> group_info_bytes := (group_info_bytes st)(k := None),
             past_states_bytes := (past_states_bytes st)(k := None) \<rparr>) = Ok st3"
      "delete_payload (codec_to_vec (gid_ser om)) gid ConfirmationTag st3 = Ok st4"
      "delete_payload (codec_to_vec (gid_ser om)) gid Context st4 = Ok st5"
      "delete_payload (codec_to_vec (gid_ser om)) gid InterimTranscriptHash st5 = Ok st'"
    by (auto simp: Group_delete_def delete_group_info_def delete_past_group_states_def delete_tree_def
        delete_confirmation_tag_def delete_context_def delete_interim_transcript_hash_def result_simps)
  have step: "(\<forall>d'. stored s' k d' = (if d' = d then [] else stored s k d'))
      \<and> stored_queue s' k = stored_queue s k \<and> past_states_bytes s' = past_states_bytes s
      \<and> group_info_bytes s' = group_info_bytes s"
    if "delete_payload (codec_to_vec (gid_ser om)) gid d s = Ok s'" for d s s'
    using that by (rule delete_payload_stored) (use k in auto)
  have "stored_queue st' k = stored_queue st k"
    using step[OF del(1)] step[OF del(2)] step[OF del(3)] step[OF del(4)]
    by (simp add: stored_queue_def)
  moreover have "\<forall>d. stored st' k d = []"
    using step[OF del(1)] step[OF del(2)] step[OF del(3)] step[OF del(4)] by (auto simp: all_data_type)
  moreover have "group_info_bytes st' k = None" "past_states_bytes st' k = None"
    using step[OF del(1)] step[OF del(2)] step[OF del(3)] step[OF del(4)] by auto
  moreover have "group_states st' k \<noteq> None" if "stored_queue st' k \<noteq> []"
    using that by (auto simp: stored_queue_def split: option.splits)
  ultimately show ?thesis using k by auto
qed


section \<open>Witnesses\<close>

definition tiny_gi_ser :: "group_info \<Rightarrow> unit + bytes" where
  "tiny_gi_ser gi = (let g = tiny_group_of (gi_group_context gi) in
     if gi = \<lparr> gi_group_context = tiny_context g, gi_rest = [] \<rparr> then Ok [fst g, snd g] else Err ())"

definition tiny_gi_de :: "bytes \<Rightarrow> unit + group_info" where
  "tiny_gi_de bs = (case bs of [i, e] \<Rightarrow> Ok \<lparr> gi_group_context = tiny_context (i, e), gi_rest = [] \<rparr>
     | _ \<Rightarrow> Err ())"

text \<open>Only the empty set of past states has an encoding, or every set has the same one.\<close>

definition tiny_pgs_ser :: "bool \<Rightarrow> bytes past_group_states \<Rightarrow> unit + bytes" where
  "tiny_pgs_ser lossy m = (if lossy \<or> m = Map.empty then Ok [0] else Err ())"

definition tiny_assist :: "bool \<Rightarrow> staged_commit \<Rightarrow> (tiny_group, bytes) mls_assist" where
  "tiny_assist lossy template = openmls.extend (tiny_openmls template)
     (mls_assist.fields (\<lambda>gid. Ok gid) tiny_gi_ser tiny_gi_de (tiny_pgs_ser lossy) (\<lambda>bs. Ok Map.empty))"

definition tiny_state :: "u8 \<Rightarrow> u8 \<Rightarrow> (tiny_group, bytes) mls_group" where
  "tiny_state i e = \<lparr> g_public_group = (i, e),
     g_group_info = \<lparr> gi_group_context = tiny_context (i, e), gi_rest = [] \<rparr>,
     g_past_group_states = Map.empty \<rparr>"

definition tiny_assisted :: "content_type \<Rightarrow> u8 \<Rightarrow> u8 \<Rightarrow> leaf_index \<Rightarrow> bytes \<Rightarrow> assisted_message_in" where
  "tiny_assisted ct i e sender_index signature =
     \<lparr> am_mls_message = PublicMessage (tiny_message ct i e sender_index),
       am_serialized_mls_message = [7],
       am_group_info_option = Some \<lparr> agi_extensions = [], agi_signature = signature \<rparr> \<rparr>"

definition tiny_processed :: "staged_commit \<Rightarrow> u8 \<Rightarrow> u8 \<Rightarrow> leaf_index \<Rightarrow> processed_message" where
  "tiny_processed template i e sender_index =
     \<lparr> pr_sender = Member sender_index, pr_aad = [], pr_credential = tiny_credential 0,
       pr_content = StagedCommitMessage (template\<lparr> sc_group_context := tiny_context (i, e) \<rparr>) \<rparr>"

lemma tiny_assist_simps [simp]:
  "om_group_context (tiny_assist l t) = tiny_context"
  "om_process_message (tiny_assist l t) = tiny_process_message t"
  "om_members (tiny_assist l t) = om_members (tiny_openmls t)"
  "om_leaf (tiny_assist l t) = om_leaf (tiny_openmls t)"
  "om_load (tiny_assist l t) = om_load (tiny_openmls t)"
  "om_from_external (tiny_assist l t) = om_from_external (tiny_openmls t)"
  "om_merge_commit (tiny_assist l t) = om_merge_commit (tiny_openmls t)"
  "om_add_proposal (tiny_assist l t) = om_add_proposal (tiny_openmls t)"
  "om_verify_group_info (tiny_assist l t) = om_verify_group_info (tiny_openmls t)"
  "om_signature_scheme (tiny_assist l t) = om_signature_scheme (tiny_openmls t)"
  "om_ext_commit_sender_index (tiny_assist l t) = om_ext_commit_sender_index (tiny_openmls t)"
  "om_export_ratchet_tree (tiny_assist l t) = om_export_ratchet_tree (tiny_openmls t)"
  "om_apq_info_de (tiny_assist l t) = om_apq_info_de (tiny_openmls t)"
  "gid_ser (tiny_assist l t) = (\<lambda>gid. Ok gid)"
  "gi_ser (tiny_assist l t) = tiny_gi_ser" "gi_de (tiny_assist l t) = tiny_gi_de"
  "pgs_ser (tiny_assist l t) = tiny_pgs_ser l" "pgs_de (tiny_assist l t) = (\<lambda>bs. Ok Map.empty)"
  by (simp_all add: tiny_assist_def openmls.defs mls_assist.defs tiny_openmls_def)

lemma tiny_state_simps [simp]:
  "g_public_group (tiny_state i e) = (i, e)" "pr_sender (tiny_processed t i e s) = Member s"
  by (simp_all add: tiny_state_def tiny_processed_def)

lemma ucast_u8_u64_u8 [simp]: "(ucast (ucast (b :: u8) :: u64) :: u8) = b"
  by (rule bit_word_eqI) (auto simp: bit_simps)

lemma tiny_group_of_context [simp]: "tiny_group_of (tiny_context g) = g"
  by (simp add: tiny_group_of_def tiny_context_def)

lemma tiny_load_write [simp]:
  "om_load (tiny_openmls t) (tiny_write g st) [fst g] = Ok (Some g)"
  by (simp add: tiny_openmls_def tiny_write_def)

lemma tiny_write_proper: "storage_proper st \<Longrightarrow> storage_proper (tiny_write g st)"
  by (auto simp: storage_proper_def storage_wf_def tiny_write_def pgs_is_empty_def
      default_group_state_def)

lemma tiny_storage_backed: "storage_backed (tiny_assist l t)"
proof -
  have written: "om_load (tiny_openmls t) st' (gc_group_id ctx) = Ok (Some g)
      \<and> (storage_proper st \<longrightarrow> storage_proper st')"
    if "st' = tiny_write g st" "tiny_context g = ctx" for g st st' ctx
    using that tiny_load_write[of t g st] by (auto simp: tiny_context_def tiny_write_proper)
  have "om_load (tiny_openmls t) st i = om_load (tiny_openmls t) st' i"
    if "group_states st = group_states st'" for st st' i
    using that by (simp add: tiny_openmls_def)
  moreover have "tiny_context pg = gi_group_context gi
      \<and> om_load (tiny_openmls t) st' (gc_group_id (gi_group_context gi)) = Ok (Some pg)
      \<and> (storage_proper st \<longrightarrow> storage_proper st')"
    if "om_from_external (tiny_openmls t) rt vgi st = Ok (pg, gi, st')" for rt vgi st pg gi st'
  proof -
    from that have eqs: "st' = tiny_write pg st" "tiny_context pg = gi_group_context gi"
      by (auto simp: tiny_openmls_def Let_def split: if_splits)
    from eqs(2) written[OF eqs] show ?thesis by blast
  qed
  moreover have "tiny_context pg' = sc_group_context sc
      \<and> om_load (tiny_openmls t) st' (gc_group_id (sc_group_context sc)) = Ok (Some pg')
      \<and> (storage_proper st \<longrightarrow> storage_proper st')"
    if "om_merge_commit (tiny_openmls t) pg sc st = Ok (pg', st')" for pg sc st pg' st'
  proof -
    from that have eqs: "st' = tiny_write pg' st" "tiny_context pg' = sc_group_context sc"
      by (auto simp: tiny_openmls_def Let_def split: if_splits)
    from eqs(2) written[OF eqs] show ?thesis by blast
  qed
  moreover have "tiny_context pg' = tiny_context pg
      \<and> om_load (tiny_openmls t) st' (gc_group_id (tiny_context pg)) = Ok (Some pg')
      \<and> (storage_proper st \<longrightarrow> storage_proper st')"
    if "om_add_proposal (tiny_openmls t) pg p st = Ok (pg', st')" for pg p st pg' st'
  proof -
    from that have eqs: "st' = tiny_write pg st" "pg' = pg" by (auto simp: tiny_openmls_def)
    from eqs(2) written[OF eqs(1) refl] show ?thesis by simp
  qed
  ultimately show ?thesis unfolding storage_backed_def tiny_assist_simps by blast
qed

lemma tiny_codecs: "group_codecs_correct (tiny_assist False t)"
  by (auto simp: group_codecs_correct_def codec_correct_def tiny_gi_ser_def tiny_gi_de_def
      tiny_pgs_ser_def Let_def split: if_splits)

lemma tiny_process:
  "process_assisted_message (tiny_assist l t) (tiny_state i e) (tiny_assisted ContentCommit i e 0 [0])
   = Ok \<lparr> processed_assisted_message = Commit (tiny_processed t i (e + 1) 0)
            \<lparr> gi_group_context = tiny_context (i, e + 1), gi_rest = [] \<rparr>,
          serialized_mls_message = [7] \<rparr>"
  by (simp add: process_assisted_message_def tiny_assisted_def tiny_message_def tiny_state_def
      tiny_processed_def resolve_app_data_commit_public_def from_processed_commit_def
      validate_group_info_def Let_def into_verifiable_group_info_def)
     (simp add: tiny_openmls_def)

lemma tiny_merge:
  "om_merge_commit (tiny_openmls t) (i, e) (t'\<lparr> sc_group_context := tiny_context (i, e') \<rparr>) st
     = Ok ((i, e'), tiny_write (i, e') st)"
  by (simp add: tiny_openmls_def Let_def)

lemma tiny_accept_Ok:
  assumes "l \<or> sc_add_proposals t = []"
  shows "\<exists>g' st'. accept_processed_message (tiny_assist l t) now (Commit (tiny_processed t i (e + 1) 0)
       \<lparr> gi_group_context = tiny_context (i, e + 1), gi_rest = [] \<rparr>) ex (tiny_state i e) st = Ok (g', st')
     \<and> g_public_group g' = (i, e + 1)"
proof -
  have "remove_expired_states now ex Map.empty = Map.empty" for now ex
    by (simp add: remove_expired_states_def fun_eq_iff)
  with assms show ?thesis
    by (auto simp: accept_processed_message_def accept_processed_def accept_content_def
        tiny_processed_def tiny_state_def tiny_merge Let_def write_group_info_def
        write_past_group_states_def codec_to_vec_def tiny_gi_ser_def tiny_pgs_ser_def add_state_def)
qed

theorem processed_commit_is_vouched_for_witness:
  "\<exists>res pm gi. process_assisted_message (tiny_assist True tiny_commit) (tiny_state 1 4)
       (tiny_assisted ContentCommit 1 4 0 [0]) = Ok res
     \<and> processed_assisted_message res = Commit pm gi \<and> pr_sender pm = Member 0
     \<and> (\<exists>m \<in> set (om_members (tiny_openmls tiny_commit) (1, 4)). m_index m = 0)"
  using processed_commit_is_vouched_for[OF tiny_process[of True tiny_commit 1 4],
      of "tiny_processed tiny_commit 1 5 0" "\<lparr> gi_group_context = tiny_context (1, 5), gi_rest = [] \<rparr>"]
  by (auto simp: tiny_process)

theorem accepted_commit_is_persisted_witness:
  "\<exists>g' st'. accept_processed_message (tiny_assist False tiny_commit) 100
       (Commit (tiny_processed tiny_commit 1 5 0) \<lparr> gi_group_context = tiny_context (1, 5), gi_rest = [] \<rparr>)
       50 (tiny_state 1 4) empty_storage = Ok (g', st')
     \<and> Group_load (tiny_assist False tiny_commit) st' [1] = Ok (Some g')"
proof -
  obtain g' st' where acc: "accept_processed_message (tiny_assist False tiny_commit) 100
       (Commit (tiny_processed tiny_commit 1 5 0) \<lparr> gi_group_context = tiny_context (1, 5), gi_rest = [] \<rparr>)
       50 (tiny_state 1 4) empty_storage = Ok (g', st')"
    using tiny_accept_Ok[of False tiny_commit 100 1 4 50 empty_storage]
    by (auto simp: tiny_commit_def)
  have "processed_assisted_message \<lparr> processed_assisted_message = Commit (tiny_processed tiny_commit 1 5 0)
            \<lparr> gi_group_context = tiny_context (1, 5), gi_rest = [] \<rparr>,
          serialized_mls_message = [7] \<rparr> = Commit (tiny_processed tiny_commit 1 5 0)
            \<lparr> gi_group_context = tiny_context (1, 5), gi_rest = [] \<rparr>" by simp
  moreover have "process_assisted_message (tiny_assist False tiny_commit) (tiny_state 1 4)
      (tiny_assisted ContentCommit 1 4 0 [0])
   = Ok \<lparr> processed_assisted_message = Commit (tiny_processed tiny_commit 1 5 0)
            \<lparr> gi_group_context = tiny_context (1, 5), gi_rest = [] \<rparr>,
          serialized_mls_message = [7] \<rparr>"
    using tiny_process[of False tiny_commit 1 4] by simp
  ultimately have "Group_load (tiny_assist False tiny_commit) st' (gc_group_id (tiny_context (1, 5)))
      = Ok (Some g')"
    using accepted_commit_is_persisted[OF tiny_storage_backed tiny_codecs _ _ acc] by simp
  with acc show ?thesis by (auto simp: tiny_context_def)
qed

definition tiny_key_package :: "u8 \<Rightarrow> key_package" where
  "tiny_key_package k = \<lparr> kp_leaf_node = tiny_leaf k, kp_hpke_init_key = [k], kp_hash_ref = Some [k] \<rparr>"

definition tiny_add :: "u8 \<Rightarrow> staged_commit" where
  "tiny_add k = tiny_commit\<lparr> sc_add_proposals := [tiny_key_package k],
     sc_queued_proposals := [\<lparr> qp_proposal = Add (tiny_key_package k), qp_sender = Member 0 \<rparr>] \<rparr>"

theorem past_tree_only_for_added_clients_witness:
  "\<exists>g' st'. accept_processed_message (tiny_assist True (tiny_add 9)) 100
       (Commit (tiny_processed (tiny_add 9) 1 5 0) \<lparr> gi_group_context = tiny_context (1, 5), gi_rest = [] \<rparr>)
       50 (tiny_state 1 4) empty_storage = Ok (g', st')
     \<and> past_group_state g' 5 [9] = Some [1, 5] \<and> past_group_state g' 5 [8] \<noteq> Some [1, 5]"
proof -
  obtain g' st' where acc: "accept_processed_message (tiny_assist True (tiny_add 9)) 100
       (Commit (tiny_processed (tiny_add 9) 1 5 0) \<lparr> gi_group_context = tiny_context (1, 5), gi_rest = [] \<rparr>)
       50 (tiny_state 1 4) empty_storage = Ok (g', st')" and g': "g_public_group g' = (1, 5)"
    using tiny_accept_Ok[of True "tiny_add 9" 100 1 4 50 empty_storage] by auto
  have sc: "pr_content (tiny_processed (tiny_add 9) 1 5 0)
      = StagedCommitMessage ((tiny_add 9)\<lparr> sc_group_context := tiny_context (1, 5) \<rparr>)"
    by (simp add: tiny_processed_def)
  note tree = past_tree_only_for_added_clients[OF acc sc, of 5 _ "[1, 5]"]
  have "group_epoch_of (tiny_assist True (tiny_add 9)) g' = 5"
    by (simp add: group_epoch_of_def g' tiny_context_def)
  then have "past_group_state g' 5 [9] = Some [1, 5]" "past_group_state g' 5 [8] \<noteq> Some [1, 5]"
    using tree[of "[9]"] tree[of "[8]"] g'
    by (simp_all add: tiny_add_def tiny_key_package_def tiny_leaf_def)
  with acc show ?thesis by blast
qed

theorem group_delete_keeps_proposal_queue_witness:
  "let st = empty_storage\<lparr> group_states := [[1, 1] \<mapsto> default_group_state\<lparr> treesync := [1],
       proposal_queue := [([2], [3])] \<rparr>] \<rparr>
   in \<exists>st'. Group_delete (tiny_assist False tiny_commit) [1] st = Ok st'
     \<and> stored_queue st' [1, 1] = [([2], [3])] \<and> group_states st' [1, 1] \<noteq> None"
proof -
  let ?st = "empty_storage\<lparr> group_states := [[1, 1] \<mapsto> default_group_state\<lparr> treesync := [1],
       proposal_queue := [([2], [3])] \<rparr>] \<rparr>"
  obtain st' where del: "Group_delete (tiny_assist False tiny_commit) [1] ?st = Ok st'"
    by (simp add: Group_delete_def delete_group_info_def delete_past_group_states_def delete_tree_def
        delete_confirmation_tag_def delete_context_def delete_interim_transcript_hash_def
        delete_payload_def codec_to_vec_def put_or_remove_def pgs_is_empty_def)
  then show ?thesis
    using group_delete_keeps_proposal_queue[OF del]
    by (simp add: codec_to_vec_def stored_queue_def Let_def)
qed

end
