(* ===== verification/Ds_Group_State.thy ===== *)
theory Ds_Group_State
  imports Mls_Group
begin

text \<open>
  \<^verbatim>\<open>backend/src/ds/group_state/mod.rs\<close>: the state the delivery service keeps per group, with the
  profiles of its members, the room policy state and the pending self-removals; its encryption at
  rest; and the messages that go out to the clients (\<^verbatim>\<open>common/src/messages/client_ds.rs\<close>,
  \<^verbatim>\<open>backend/src/messages/intra_backend.rs\<close>).

  The facts: the profile map stays ordered with every profile under its own leaf index, a
  message is never sent back to its sender, and decrypting an encrypted state gives it back.
\<close>

section \<open>Parameters of the delivery service\<close>

record qs_reference =
  qr_client_homeserver_domain :: string
  qr_sealed_reference :: bytes

record user_id =
  uid_uuid :: bytes
  uid_domain :: string

datatype role_index = Outsider | Regular | OtherRole

type_synonym ear_key = bytes
type_synonym encrypted_user_profile_key = bytes
type_synonym encrypted_welcome_attribution_info = bytes

record join_connection_group_params_aad =
  jaad_encrypted_friendship_package :: bytes
  jaad_encrypted_user_profile_key :: encrypted_user_profile_key

datatype aad_payload =
    AadGroupOperation "encrypted_user_profile_key list"
  | AadJoinConnectionGroup join_connection_group_params_aad
  | AadResync
  | AadDeleteGroup

record welcome_bundle =
  wb_welcome :: mls_welcome
  wb_encrypted_attribution_info :: encrypted_welcome_attribution_info
  wb_encrypted_joiner_info :: bytes

record apq_welcome_bundle =
  awb_welcome :: "mls_welcome \<times> mls_welcome"
  awb_encrypted_attribution_info :: encrypted_welcome_attribution_info
  awb_encrypted_joiner_info :: bytes

record ds_commit_reply =
  dcr_group_id :: group_id
  dcr_epoch :: group_epoch
  dcr_timestamp :: time

record user_profile_key_update_params =
  upk_group_id :: group_id
  upk_sender_index :: leaf_index
  upk_user_profile_key :: encrypted_user_profile_key

record member_profile =
  mp_leaf_index :: leaf_index
  mp_client_queue_config :: qs_reference
  mp_activity_time :: time
  mp_activity_epoch :: group_epoch
  mp_encrypted_user_profile_key :: encrypted_user_profile_key

record serializable_ds_group_state_v1 =
  v1_group_id :: group_id
  v1_serialized_provider :: bytes
  v1_room_state :: bytes
  v1_member_profiles :: "(leaf_index \<times> member_profile) list"

record serializable_ds_group_state_v2 =
  v2_group_id :: group_id
  v2_serialized_provider :: bytes
  v2_room_state :: bytes
  v2_member_profiles :: "(leaf_index \<times> member_profile) list"
  v2_proposals :: "bytes list"

datatype encryptable_ds_group_state =
  EncV1 serializable_ds_group_state_v1 | EncV2 serializable_ds_group_state_v2

text \<open>
  What the service takes from other crates: the room policy (\<open>'rs\<close> is its verified state, an
  unverified state is opaque bytes), TLS and CBOR codecs, HPKE for joiner information, AES-GCM
  with the nonce source, and the order in which a hash map is iterated.
\<close>

record ('pg, 'rt, 'rs) ds_env = "('pg, 'rt) mls_assist" +
  env_apply_regular_proposals :: "'rs \<Rightarrow> bytes \<Rightarrow> (bytes \<times> role_index) list \<Rightarrow> unit + 'rs"
  env_room_unverified :: "'rs \<Rightarrow> bytes"
  env_room_ser :: "bytes \<Rightarrow> unit + bytes"
  env_room_de :: "bytes \<Rightarrow> unit + bytes"
  env_room_verify :: "bytes \<Rightarrow> unit + 'rs"
  env_fallback_room :: "bytes list \<Rightarrow> 'rs"
  env_aad_de :: "bytes \<Rightarrow> unit + aad_payload"
  env_qs_reference_de :: "bytes \<Rightarrow> unit + qs_reference"
  env_client_credential_de :: "bytes \<Rightarrow> unit + user_id"
  env_user_id_ser :: "user_id \<Rightarrow> unit + bytes"
  env_air_component_de :: "bytes \<Rightarrow> unit + bool"
  env_joiner_encrypt :: "bytes \<Rightarrow> ear_key \<Rightarrow> bytes"
  env_welcome_bundle_ser :: "welcome_bundle \<Rightarrow> unit + bytes"
  env_apq_welcome_bundle_ser :: "apq_welcome_bundle \<Rightarrow> unit + bytes"
  env_commit_response_ser :: "ds_commit_reply \<Rightarrow> unit + bytes"
  env_targeted_ser :: "bytes \<Rightarrow> unit + bytes"
  env_profile_update_ser :: "user_profile_key_update_params \<Rightarrow> unit + bytes"
  env_state_ser :: "raw_group_state \<Rightarrow> unit + bytes"
  env_state_de :: "bytes \<Rightarrow> unit + raw_group_state"
  env_storage_ser :: "serializable_storage \<Rightarrow> unit + bytes"
  env_storage_de :: "bytes \<Rightarrow> unit + serializable_storage"
  env_order_states :: "(bytes \<rightharpoonup> public_group_state) \<Rightarrow> (bytes \<times> public_group_state) list"
  env_order_bytes :: "(bytes \<rightharpoonup> bytes) \<Rightarrow> (bytes \<times> bytes) list"
  env_group_state_ser :: "encryptable_ds_group_state \<Rightarrow> unit + bytes"
  env_group_state_de :: "bytes \<Rightarrow> unit + encryptable_ds_group_state"
  env_aes :: aes_enc
  env_aes_inv :: aes_dec


section \<open>Messages to clients\<close>

datatype qs_queue_message_type =
  WelcomeBundle | ApqWelcomeBundle | MlsMessage | ApqMlsMessage | UserProfileKeyUpdate
  | TargetedMessage | DsResponse

record qs_queue_message_payload =
  qm_timestamp :: time
  qm_message_type :: qs_queue_message_type
  qm_payload :: bytes

record ds_event_message =
  ev_group_id :: group_id
  ev_sender_index :: leaf_index
  ev_epoch :: group_epoch
  ev_timestamp :: time
  ev_payload :: bytes

datatype ds_fan_out_payload =
  QueueMessage qs_queue_message_payload | EventMessage ds_event_message

fun payload_timestamp :: "ds_fan_out_payload \<Rightarrow> time" where
  "payload_timestamp (QueueMessage p) = qm_timestamp p"
| "payload_timestamp (EventMessage e) = ev_timestamp e"

record ds_fan_out_message =
  fo_payload :: ds_fan_out_payload
  fo_client_reference :: qs_reference
  fo_suppress_notifications :: bool
  fo_broadcast_to_all_client_queues :: bool

definition payload_of_mls_message :: "time \<Rightarrow> bytes \<Rightarrow> qs_queue_message_payload" where
  "payload_of_mls_message now msg =
     \<lparr> qm_timestamp = now, qm_message_type = MlsMessage, qm_payload = msg \<rparr>"

definition apq_mls_message :: "time \<Rightarrow> bytes \<Rightarrow> qs_queue_message_payload" where
  "apq_mls_message timestamp msg =
     \<lparr> qm_timestamp = timestamp, qm_message_type = ApqMlsMessage, qm_payload = msg \<rparr>"

definition targeted_message_payload :: "('pg, 'rt, 'rs, 'z) ds_env_scheme \<Rightarrow> time \<Rightarrow> bytes \<Rightarrow>
    unit + qs_queue_message_payload" where
  "targeted_message_payload env now msg =
     map_ok (\<lambda>p. \<lparr> qm_timestamp = now, qm_message_type = TargetedMessage, qm_payload = p \<rparr>)
       (env_targeted_ser env msg)"

definition ds_commit_response :: "('pg, 'rt, 'rs, 'z) ds_env_scheme \<Rightarrow> time \<Rightarrow> group_id \<Rightarrow>
    group_epoch \<Rightarrow> time \<Rightarrow> unit + qs_queue_message_payload" where
  "ds_commit_response env now group_id epoch timestamp =
     map_ok (\<lambda>p. \<lparr> qm_timestamp = now, qm_message_type = DsResponse, qm_payload = p \<rparr>)
       (env_commit_response_ser env
         \<lparr> dcr_group_id = group_id, dcr_epoch = epoch, dcr_timestamp = timestamp \<rparr>)"

definition payload_of_welcome_bundle :: "('pg, 'rt, 'rs, 'z) ds_env_scheme \<Rightarrow> time \<Rightarrow>
    welcome_bundle \<Rightarrow> unit + qs_queue_message_payload" where
  "payload_of_welcome_bundle env now wb =
     map_ok (\<lambda>p. \<lparr> qm_timestamp = now, qm_message_type = WelcomeBundle, qm_payload = p \<rparr>)
       (env_welcome_bundle_ser env wb)"

definition payload_of_apq_welcome_bundle :: "('pg, 'rt, 'rs, 'z) ds_env_scheme \<Rightarrow> time \<Rightarrow>
    apq_welcome_bundle \<Rightarrow> unit + qs_queue_message_payload" where
  "payload_of_apq_welcome_bundle env now wb =
     map_ok (\<lambda>p. \<lparr> qm_timestamp = now, qm_message_type = ApqWelcomeBundle, qm_payload = p \<rparr>)
       (env_apq_welcome_bundle_ser env wb)"

definition payload_of_profile_update :: "('pg, 'rt, 'rs, 'z) ds_env_scheme \<Rightarrow> time \<Rightarrow>
    user_profile_key_update_params \<Rightarrow> unit + qs_queue_message_payload" where
  "payload_of_profile_update env now params =
     map_ok (\<lambda>p. \<lparr> qm_timestamp = now, qm_message_type = UserProfileKeyUpdate, qm_payload = p \<rparr>)
       (env_profile_update_ser env params)"


section \<open>The group state\<close>

record ('pg, 'rt, 'rs) ds_group_state =
  ds_room_state :: 'rs
  ds_group :: "('pg, 'rt) mls_group"
  ds_storage :: mem_storage
  ds_member_profiles :: "(leaf_index, member_profile) btree_map"
  ds_proposals :: "bytes list"

definition DsGroupState_new :: "time \<Rightarrow> mem_storage \<Rightarrow> ('pg, 'rt) mls_group \<Rightarrow>
    encrypted_user_profile_key \<Rightarrow> qs_reference \<Rightarrow> 'rs \<Rightarrow> ('pg, 'rt, 'rs) ds_group_state" where
  "DsGroupState_new now provider g key queue_config room_state =
     (let creator_client_profile = \<lparr> mp_leaf_index = 0, mp_client_queue_config = queue_config,
            mp_activity_time = now, mp_activity_epoch = 0, mp_encrypted_user_profile_key = key \<rparr>
      in \<lparr> ds_room_state = room_state, ds_group = g, ds_storage = provider,
           ds_member_profiles = bt_insert 0 creator_client_profile [], ds_proposals = [] \<rparr>)"

definition from_basic_credential :: "('pg, 'rt, 'rs, 'z) ds_env_scheme \<Rightarrow> credential \<Rightarrow>
    unit + user_id" where
  "from_basic_credential env c =
     (if \<not> cred_is_basic c then Err () else env_client_credential_de env (cred_serialized_content c))"

definition room_state_change_role :: "('pg, 'rt, 'rs, 'z) ds_env_scheme \<Rightarrow> user_id \<Rightarrow> user_id \<Rightarrow>
    role_index \<Rightarrow> ('pg, 'rt, 'rs) ds_group_state \<Rightarrow> ('pg, 'rt, 'rs) ds_group_state option" where
  "room_state_change_role env sender target role s =
     (case env_user_id_ser env sender of
        Err _ \<Rightarrow> None
      | Ok sender \<Rightarrow>
          (case env_user_id_ser env target of
             Err _ \<Rightarrow> None
           | Ok target \<Rightarrow>
               (case env_apply_regular_proposals env (ds_room_state s) sender [(target, role)] of
                  Ok rs \<Rightarrow> Some (s\<lparr> ds_room_state := rs \<rparr>)
                | Err _ \<Rightarrow> None)))"

definition group_leaf :: "('pg, 'rt, 'z) openmls_scheme \<Rightarrow> ('pg, 'rt) mls_group \<Rightarrow> leaf_index \<Rightarrow>
    leaf_node option" where
  "group_leaf om g index = om_leaf om (g_public_group g) index"

definition leaf_credential :: "('pg, 'rt, 'rs, 'z) ds_env_scheme \<Rightarrow>
    ('pg, 'rt, 'rs) ds_group_state \<Rightarrow> leaf_index \<Rightarrow> user_id option" where
  "leaf_credential env s index =
     Option.bind (group_leaf env (ds_group s) index) (\<lambda>leaf.
       to_option (from_basic_credential env (ln_credential leaf)))"

definition is_apq :: "('pg, 'rt, 'rs, 'z) ds_env_scheme \<Rightarrow> ('pg, 'rt, 'rs) ds_group_state \<Rightarrow> bool" where
  "is_apq env s =
     (case ApqInfo_from_extensions env (gi_group_context (g_group_info (ds_group s))) of
        Ok info \<Rightarrow> info \<noteq> None
      | Err _ \<Rightarrow> False)"

definition welcome_info :: "('pg, 'rt, 'rs) ds_group_state \<Rightarrow> group_epoch \<Rightarrow> signature_key \<Rightarrow>
    'rt option" where
  "welcome_info s epoch sender = past_group_state (ds_group s) epoch sender"

definition encrypted_user_profile_keys :: "('pg, 'rt, 'rs) ds_group_state \<Rightarrow>
    encrypted_user_profile_key list" where
  "encrypted_user_profile_keys s = map mp_encrypted_user_profile_key (bt_values (ds_member_profiles s))"

record ('rt, 'rs) external_commit_data =
  eci_group_info :: group_info
  eci_ratchet_tree :: 'rt
  eci_encrypted_user_profile_keys :: "encrypted_user_profile_key list"
  eci_room_state :: 'rs
  eci_proposals :: "bytes list"

definition external_commit_info :: "('pg, 'rt, 'rs, 'z) ds_env_scheme \<Rightarrow>
    ('pg, 'rt, 'rs) ds_group_state \<Rightarrow> ('rt, 'rs) external_commit_data" where
  "external_commit_info env s =
     \<lparr> eci_group_info = g_group_info (ds_group s),
       eci_ratchet_tree = om_export_ratchet_tree env (g_public_group (ds_group s)),
       eci_encrypted_user_profile_keys = encrypted_user_profile_keys s,
       eci_room_state = ds_room_state s,
       eci_proposals = ds_proposals s \<rparr>"

definition destination_clients :: "('pg, 'rt, 'rs) ds_group_state \<Rightarrow> qs_reference list" where
  "destination_clients s = map mp_client_queue_config (bt_values (ds_member_profiles s))"

definition other_destination_clients :: "('pg, 'rt, 'rs) ds_group_state \<Rightarrow> leaf_index \<Rightarrow>
    qs_reference list" where
  "other_destination_clients s sender_index =
     List.map_filter (\<lambda>(client_index, client_profile).
       if client_index \<noteq> sender_index then Some (mp_client_queue_config client_profile) else None)
       (ds_member_profiles s)"

definition AIR_COMPONENT_ID :: component_id where
  "AIR_COMPONENT_ID = 0x8000"

definition broadcast_to_all_client_queues :: "('pg, 'rt, 'rs, 'z) ds_env_scheme \<Rightarrow>
    ('pg, 'rt, 'rs) ds_group_state \<Rightarrow> bool" where
  "broadcast_to_all_client_queues env s =
     (let is_self_group =
        (case Option.bind (Option.bind
            (gc_app_data_dictionary (gi_group_context (g_group_info (ds_group s))))
            (\<lambda>dict. map_of dict AIR_COMPONENT_ID))
            (\<lambda>bs. to_option (env_air_component_de env bs)) of
           Some self_group \<Rightarrow> self_group
         | None \<Rightarrow> False)
      in \<not> is_self_group)"

definition qs_client_ref_by_index :: "('pg, 'rt, 'rs) ds_group_state \<Rightarrow> leaf_index \<Rightarrow>
    qs_reference option" where
  "qs_client_ref_by_index s member_index =
     map_option mp_client_queue_config (bt_get (ds_member_profiles s) member_index)"

definition remove_profiles :: "leaf_index list \<Rightarrow> ('pg, 'rt, 'rs) ds_group_state \<Rightarrow>
    ('pg, 'rt, 'rs) ds_group_state" where
  "remove_profiles removed s =
     s\<lparr> ds_member_profiles := fold bt_remove removed (ds_member_profiles s) \<rparr>"


section \<open>Encryption at rest\<close>

datatype ds_group_state_encryption_error =
  DsEncryption encryption_error | DsSerialization storage_error

text \<open>\<open>MissingGroupPanic\<close> is the failing \<^verbatim>\<open>unwrap\<close> when the storage holds no group under its id.\<close>

datatype ds_group_state_decryption_error =
  DsDecryption decryption_error | DsDeserialization storage_error | MissingGroupPanic

definition v2_of_v1 :: "serializable_ds_group_state_v1 \<Rightarrow> serializable_ds_group_state_v2" where
  "v2_of_v1 v1 = \<lparr> v2_group_id = v1_group_id v1, v2_serialized_provider = v1_serialized_provider v1,
     v2_room_state = v1_room_state v1, v2_member_profiles = v1_member_profiles v1, v2_proposals = [] \<rparr>"

fun v2_of_encryptable :: "encryptable_ds_group_state \<Rightarrow> serializable_ds_group_state_v2" where
  "v2_of_encryptable (EncV1 s) = v2_of_v1 s"
| "v2_of_encryptable (EncV2 s) = s"

definition from_group_state :: "('pg, 'rt, 'rs, 'z) ds_env_scheme \<Rightarrow>
    ('pg, 'rt, 'rs) ds_group_state \<Rightarrow> storage_error + serializable_ds_group_state_v2" where
  "from_group_state env s =
     (let group_id = gc_group_id (gi_group_context (g_group_info (ds_group s)));
          st = ds_storage s
      in and_then (storage_serialize (codec_to_vec (env_state_ser env)) (codec_to_vec (env_storage_ser env))
             (env_order_states env (group_states st)) (env_order_bytes env (past_states_bytes st))
             (env_order_bytes env (group_info_bytes st))) (\<lambda>serialized_provider.
         and_then (codec_to_vec (env_room_ser env) (env_room_unverified env (ds_room_state s)))
           (\<lambda>room_state.
         Ok \<lparr> v2_group_id = group_id, v2_serialized_provider = serialized_provider,
              v2_room_state = room_state,
              v2_member_profiles = map (\<lambda>(k, v). (k, v)) (ds_member_profiles s),
              v2_proposals = ds_proposals s \<rparr>)))"

definition fallback_room_state :: "('pg, 'rt, 'rs, 'z) ds_env_scheme \<Rightarrow> member list \<Rightarrow> 'rs" where
  "fallback_room_state env members =
     env_fallback_room env (fold (\<lambda>member member_ids.
       case from_basic_credential env (m_credential member) of
         Err _ \<Rightarrow> member_ids
       | Ok user \<Rightarrow> (case env_user_id_ser env user of Err _ \<Rightarrow> member_ids | Ok bs \<Rightarrow> member_ids @ [bs]))
       members [])"

definition into_group_state :: "('pg, 'rt, 'rs, 'z) ds_env_scheme \<Rightarrow>
    serializable_ds_group_state_v2 \<Rightarrow>
    ds_group_state_decryption_error + ('pg, 'rt, 'rs) ds_group_state" where
  "into_group_state env v2 =
     and_then (map_err DsDeserialization (storage_deserialize (codec_from_slice (env_state_de env))
         (codec_from_slice (env_storage_de env)) (v2_serialized_provider v2))) (\<lambda>storage.
     and_then (map_err DsDeserialization (Group_load env storage (v2_group_id v2))) (\<lambda>group_option.
     and_then (ok_or MissingGroupPanic group_option) (\<lambda>group.
     let client_profiles = fold (\<lambda>(k, v). bt_insert k v) (v2_member_profiles v2) [];
         room_state = (case Option.bind (to_option (codec_from_slice (env_room_de env) (v2_room_state v2)))
             (\<lambda>state. to_option (env_room_verify env state)) of
           Some rs \<Rightarrow> rs
         | None \<Rightarrow> fallback_room_state env (om_members env (g_public_group group)))
     in Ok \<lparr> ds_room_state = room_state, ds_group = group, ds_storage = storage,
             ds_member_profiles = client_profiles, ds_proposals = v2_proposals v2 \<rparr>)))"

definition ds_encrypt :: "('pg, 'rt, 'rs, 'z) ds_env_scheme \<Rightarrow> bytes option \<Rightarrow> ear_key \<Rightarrow>
    ('pg, 'rt, 'rs) ds_group_state \<Rightarrow> ds_group_state_encryption_error + aead_ciphertext" where
  "ds_encrypt env rnd key s =
     and_then (map_err DsSerialization (from_group_state env s)) (\<lambda>v2.
     map_err DsEncryption (encrypt (env_group_state_ser env) (env_aes env) rnd key (EncV2 v2)))"

definition ds_decrypt :: "('pg, 'rt, 'rs, 'z) ds_env_scheme \<Rightarrow> ear_key \<Rightarrow> aead_ciphertext \<Rightarrow>
    ds_group_state_decryption_error + ('pg, 'rt, 'rs) ds_group_state" where
  "ds_decrypt env key ct =
     and_then (map_err DsDecryption (decrypt (env_group_state_de env) (env_aes_inv env) key ct))
       (\<lambda>encryptable.
     into_group_state env (v2_of_encryptable encryptable))"


section \<open>Member profiles\<close>

text \<open>Ordered, and every profile is stored under its own leaf index.\<close>

definition profiles_wf :: "(leaf_index, member_profile) btree_map \<Rightarrow> bool" where
  "profiles_wf m = (bt_ordered m \<and> (\<forall>(k, p) \<in> set m. mp_leaf_index p = k))"

lemma profiles_wf_ordered: "profiles_wf m \<Longrightarrow> bt_ordered m"
  by (simp add: profiles_wf_def)

lemma profiles_wf_Nil [inv_intros]: "profiles_wf []"
  by (simp add: profiles_wf_def)

lemma profiles_wf_insert [inv_intros]:
  "profiles_wf m \<Longrightarrow> mp_leaf_index p = k \<Longrightarrow> profiles_wf (bt_insert k p m)"
  by (auto simp: profiles_wf_def bt_ordered_insert bt_set_insert)

lemma profiles_wf_remove [inv_intros]: "profiles_wf m \<Longrightarrow> profiles_wf (bt_remove k m)"
  by (auto simp: profiles_wf_def bt_ordered_remove bt_set_remove)

lemma profiles_wf_remove_all [inv_intros]: "profiles_wf m \<Longrightarrow> profiles_wf (fold bt_remove ks m)"
  by (induction ks arbitrary: m) (auto intro: inv_intros)

lemma profiles_wf_get: "profiles_wf m \<Longrightarrow> bt_get m k = Some p \<Longrightarrow> mp_leaf_index p = k"
  by (auto simp: profiles_wf_def dest: bt_get_in_set)

lemma profiles_wf_new [inv_intros]:
  "profiles_wf (ds_member_profiles (DsGroupState_new now st g key qc rs))"
  by (simp add: DsGroupState_new_def Let_def inv_intros)

lemma remove_profiles_simps [simp]:
  "ds_room_state (remove_profiles ks s) = ds_room_state s"
  "ds_group (remove_profiles ks s) = ds_group s"
  "ds_storage (remove_profiles ks s) = ds_storage s"
  "ds_proposals (remove_profiles ks s) = ds_proposals s"
  "bt_get (ds_member_profiles (remove_profiles ks s)) k =
     (if k \<in> set ks then None else bt_get (ds_member_profiles s) k)"
  by (simp_all add: remove_profiles_def bt.lookup_drop_all)

lemma profiles_wf_remove_profiles [inv_intros]:
  "profiles_wf (ds_member_profiles s) \<Longrightarrow> profiles_wf (ds_member_profiles (remove_profiles ks s))"
  by (simp add: remove_profiles_def profiles_wf_remove_all)

lemma room_state_change_role_frame:
  assumes "room_state_change_role env a b r s = Some s'"
  shows "ds_group s' = ds_group s" "ds_storage s' = ds_storage s"
    "ds_member_profiles s' = ds_member_profiles s" "ds_proposals s' = ds_proposals s"
  using assms by (auto simp: room_state_change_role_def split: sum.splits)

lemma map_filter_keys:
  "List.map_filter (\<lambda>(k, p). if P k then Some (f p) else None) m
     = map (\<lambda>(k, p). f p) (filter (\<lambda>(k, p). P k) m)"
  by (induction m) (auto simp: List.map_filter_simps)

lemma other_destination_clients_eq:
  "other_destination_clients s i
     = map (\<lambda>(k, p). mp_client_queue_config p) (filter (\<lambda>(k, p). k \<noteq> i) (ds_member_profiles s))"
  by (simp add: other_destination_clients_def map_filter_keys)

lemma in_other_destination_clients:
  "qc \<in> set (other_destination_clients s i) \<longleftrightarrow>
     (\<exists>k p. (k, p) \<in> set (ds_member_profiles s) \<and> k \<noteq> i \<and> mp_client_queue_config p = qc)"
  by (auto simp: other_destination_clients_eq image_iff)

lemma destination_clients_unknown_sender:
  "bt_get (ds_member_profiles s) i = None \<Longrightarrow> other_destination_clients s i = destination_clients s"
proof -
  assume "bt_get (ds_member_profiles s) i = None"
  then have "filter (\<lambda>(k, p). k \<noteq> i) (ds_member_profiles s) = ds_member_profiles s"
    by (force simp: bt_get_None_iff bt_keys_def intro: filter_True)
  then show ?thesis
    by (simp add: other_destination_clients_eq destination_clients_def bt_values_def case_prod_beta)
qed


section \<open>The round trip of the encryption at rest\<close>

text \<open>
  The codecs invert each other, a cipher text decrypts under its key, hash maps are iterated
  completely, and the room policy verifies the states it produced.
\<close>

definition ds_codecs_correct :: "('pg, 'rt, 'rs, 'z) ds_env_scheme \<Rightarrow> bool" where
  "ds_codecs_correct env =
     (codec_correct (env_state_ser env) (env_state_de env)
      \<and> codec_correct (env_storage_ser env) (env_storage_de env)
      \<and> codec_correct (env_room_ser env) (env_room_de env)
      \<and> codec_correct (env_group_state_ser env) (env_group_state_de env)
      \<and> aead_correct (env_aes env) (env_aes_inv env)
      \<and> (\<forall>m. finite (dom m) \<longrightarrow> iterates (env_order_states env m) m)
      \<and> (\<forall>m. finite (dom m) \<longrightarrow> iterates (env_order_bytes env m) m)
      \<and> (\<forall>rs. env_room_verify env (env_room_unverified env rs) = Ok rs))"

text \<open>The state's storage holds its group, and its maps are proper maps.\<close>

definition ds_state_ok :: "('pg, 'rt, 'rs, 'z) ds_env_scheme \<Rightarrow> ('pg, 'rt, 'rs) ds_group_state \<Rightarrow> bool" where
  "ds_state_ok env s =
     (Group_load env (ds_storage s) (gc_group_id (gi_group_context (g_group_info (ds_group s))))
        = Ok (Some (ds_group s))
      \<and> storage_proper (ds_storage s) \<and> profiles_wf (ds_member_profiles s))"

lemma into_from_group_state:
  assumes env: "ds_codecs_correct env" and ok: "ds_state_ok env s"
    and ser: "from_group_state env s = Ok v2"
  shows "into_group_state env v2 = Ok s"
proof -
  let ?st = "ds_storage s"
  from ser obtain sp rs where
    sp: "storage_serialize (codec_to_vec (env_state_ser env)) (codec_to_vec (env_storage_ser env))
           (env_order_states env (group_states ?st)) (env_order_bytes env (past_states_bytes ?st))
           (env_order_bytes env (group_info_bytes ?st)) = Ok sp"
    and rs: "codec_to_vec (env_room_ser env) (env_room_unverified env (ds_room_state s)) = Ok rs"
    and v2: "v2 = \<lparr> v2_group_id = gc_group_id (gi_group_context (g_group_info (ds_group s))),
        v2_serialized_provider = sp, v2_room_state = rs,
        v2_member_profiles = ds_member_profiles s, v2_proposals = ds_proposals s \<rparr>"
    by (auto simp: from_group_state_def Let_def result_simps)
  have codecs: "codec_correct (codec_to_vec (env_state_ser env)) (codec_from_slice (env_state_de env))"
    "codec_correct (codec_to_vec (env_storage_ser env)) (codec_from_slice (env_storage_de env))"
    "codec_correct (codec_to_vec (env_room_ser env)) (codec_from_slice (env_room_de env))"
    using env by (auto simp: ds_codecs_correct_def intro: codec_correct_persistence)
  have st: "storage_deserialize (codec_from_slice (env_state_de env))
      (codec_from_slice (env_storage_de env)) sp = Ok ?st"
    using env ok by (intro storage_serialize_roundtrip_lemma[OF _ codecs(1,2) _ _ _ sp])
      (auto simp: ds_codecs_correct_def ds_state_ok_def storage_proper_def)
  have room: "codec_from_slice (env_room_de env) rs = Ok (env_room_unverified env (ds_room_state s))"
    using codecs(3) rs by (rule codec_correctD)
  have profiles: "fold (\<lambda>(k, v). bt_insert k v) (ds_member_profiles s) [] = ds_member_profiles s"
    using ok by (auto simp: ds_state_ok_def profiles_wf_def intro: collect_ordered)
  show ?thesis
    using env ok by (simp add: into_group_state_def v2 st room profiles Let_def ds_codecs_correct_def
        ds_state_ok_def)
qed

lemma ds_decrypt_encrypt:
  assumes "ds_codecs_correct env" "ds_state_ok env s" "ds_encrypt env rnd key s = Ok ct"
  shows "ds_decrypt env key ct = Ok s"
proof -
  from assms(3) obtain v2 where v2: "from_group_state env s = Ok v2"
    and ct: "encrypt (env_group_state_ser env) (env_aes env) rnd key (EncV2 v2) = Ok ct"
    by (auto simp: ds_encrypt_def result_simps)
  have "decrypt (env_group_state_de env) (env_aes_inv env) key ct = Ok (EncV2 v2)"
    using assms(1) ct by (auto simp: ds_codecs_correct_def intro: decrypt_encrypt)
  then show ?thesis
    using into_from_group_state[OF assms(1,2) v2] by (simp add: ds_decrypt_def)
qed

text \<open>
  (C18) The state a group is stored in can always be read back: decrypting an encrypted state under
  the same key gives the state, with its group, profiles, room policy and pending proposals.
\<close>

theorem ds_group_state_roundtrip:
  assumes "ds_codecs_correct env" "ds_state_ok env s" "ds_encrypt env rnd key s = Ok ct"
  shows "ds_decrypt env key ct = Ok s"
  using assms by (rule ds_decrypt_encrypt)


section \<open>A concrete environment\<close>

text \<open>
  For the witnesses: codecs with one encodable value each, a room policy that accepts everything
  and records the last role change, and the cipher of the crypto theory.
\<close>

definition only_ser :: "'a \<Rightarrow> 'a \<Rightarrow> unit + bytes" where
  "only_ser v x = (if x = v then Ok [] else Err ())"

definition only_de :: "'a \<Rightarrow> bytes \<Rightarrow> unit + 'a" where
  "only_de v bs = Ok v"

lemma only_codec_correct: "codec_correct (only_ser v) (only_de v)"
  by (simp add: codec_correct_def only_ser_def only_de_def)

definition order_map :: "('k::linorder \<rightharpoonup> 'v) \<Rightarrow> ('k \<times> 'v) list" where
  "order_map m = map (\<lambda>k. (k, the (m k))) (sorted_list_of_set (dom m))"

lemma order_map_iterates: "finite (dom m) \<Longrightarrow> iterates (order_map m) m"
  by (simp add: iterates_def order_map_def comp_def map_of_map_restrict fun_eq_iff restrict_map_def)
     (metis domIff option.collapse)

definition tiny_reference :: "u8 \<Rightarrow> qs_reference" where
  "tiny_reference k = \<lparr> qr_client_homeserver_domain = ''a'', qr_sealed_reference = [k] \<rparr>"

definition tiny_user :: "bytes \<Rightarrow> user_id" where
  "tiny_user bs = \<lparr> uid_uuid = bs, uid_domain = ''a'' \<rparr>"

definition tiny_byte :: "bytes \<Rightarrow> u8" where
  "tiny_byte bs = (case bs of [] \<Rightarrow> 0 | b # _ \<Rightarrow> b)"

definition tiny_aad :: "bytes \<Rightarrow> unit + aad_payload" where
  "tiny_aad bs = (case bs of
     [] \<Rightarrow> Ok (AadGroupOperation [])
   | k # ks \<Rightarrow>
       if k = 0 then Ok (AadGroupOperation (map (\<lambda>k. [k]) ks))
       else if k = 1 then Ok (AadJoinConnectionGroup
         \<lparr> jaad_encrypted_friendship_package = [], jaad_encrypted_user_profile_key = ks \<rparr>)
       else Err ())"

definition tiny_env :: "bool \<Rightarrow> staged_commit \<Rightarrow> (tiny_group, bytes, bytes) ds_env" where
  "tiny_env lossy template = mls_assist.extend (tiny_assist lossy template)
     \<lparr> env_apply_regular_proposals = (\<lambda>rs sender props. Ok (concat (map fst props))),
       env_room_unverified = (\<lambda>rs. rs), env_room_ser = (\<lambda>bs. Ok bs), env_room_de = (\<lambda>bs. Ok bs),
       env_room_verify = (\<lambda>bs. Ok bs), env_fallback_room = concat,
       env_aad_de = tiny_aad,
       env_qs_reference_de = (\<lambda>bs. Ok (tiny_reference (tiny_byte bs))),
       env_client_credential_de = (\<lambda>bs. Ok (tiny_user bs)),
       env_user_id_ser = (\<lambda>u. Ok (uid_uuid u)),
       env_air_component_de = (\<lambda>bs. Err ()),
       env_joiner_encrypt = (\<lambda>key ear. key @ ear),
       env_welcome_bundle_ser = (\<lambda>wb. Ok (concat (wel_secrets (wb_welcome wb)))),
       env_apq_welcome_bundle_ser = (\<lambda>wb. Ok []),
       env_commit_response_ser = (\<lambda>r. Ok (dcr_group_id r)), env_targeted_ser = (\<lambda>bs. Ok bs),
       env_profile_update_ser = (\<lambda>p. Ok (upk_user_profile_key p)),
       env_state_ser = (\<lambda>r. Err ()), env_state_de = (\<lambda>bs. Err ()),
       env_storage_ser = (\<lambda>r. Err ()), env_storage_de = (\<lambda>bs. Err ()),
       env_order_states = order_map, env_order_bytes = order_map,
       env_group_state_ser = (\<lambda>r. Err ()), env_group_state_de = (\<lambda>bs. Err ()),
       env_aes = plain_aes, env_aes_inv = plain_aes_inv \<rparr>"

lemma tiny_env_simps [simp]:
  "om_from_external (tiny_env l t) = om_from_external (tiny_assist l t)"
  "om_load (tiny_env l t) = om_load (tiny_assist l t)"
  "om_process_message (tiny_env l t) = om_process_message (tiny_assist l t)"
  "om_updater_changes (tiny_env l t) = om_updater_changes (tiny_assist l t)"
  "om_resolve_app_data_commit (tiny_env l t) = om_resolve_app_data_commit (tiny_assist l t)"
  "om_merge_commit (tiny_env l t) = om_merge_commit (tiny_assist l t)"
  "om_add_proposal (tiny_env l t) = om_add_proposal (tiny_assist l t)"
  "om_members (tiny_env l t) = om_members (tiny_assist l t)"
  "om_leaf (tiny_env l t) = om_leaf (tiny_assist l t)"
  "om_group_context (tiny_env l t) = om_group_context (tiny_assist l t)"
  "om_export_ratchet_tree (tiny_env l t) = om_export_ratchet_tree (tiny_assist l t)"
  "om_ext_commit_sender_index (tiny_env l t) = om_ext_commit_sender_index (tiny_assist l t)"
  "om_signature_scheme (tiny_env l t) = om_signature_scheme (tiny_assist l t)"
  "om_verify_group_info (tiny_env l t) = om_verify_group_info (tiny_assist l t)"
  "om_apq_info_de (tiny_env l t) = om_apq_info_de (tiny_assist l t)"
  "gid_ser (tiny_env l t) = gid_ser (tiny_assist l t)"
  "gi_ser (tiny_env l t) = gi_ser (tiny_assist l t)"
  "gi_de (tiny_env l t) = gi_de (tiny_assist l t)"
  "pgs_ser (tiny_env l t) = pgs_ser (tiny_assist l t)"
  "pgs_de (tiny_env l t) = pgs_de (tiny_assist l t)"
  "env_apply_regular_proposals (tiny_env l t) = (\<lambda>rs sender props. Ok (concat (map fst props)))"
  "env_aad_de (tiny_env l t) = tiny_aad"
  "env_qs_reference_de (tiny_env l t) = (\<lambda>bs. Ok (tiny_reference (tiny_byte bs)))"
  "env_client_credential_de (tiny_env l t) = (\<lambda>bs. Ok (tiny_user bs))"
  "env_user_id_ser (tiny_env l t) = (\<lambda>u. Ok (uid_uuid u))"
  "env_air_component_de (tiny_env l t) = (\<lambda>bs. Err ())"
  "env_joiner_encrypt (tiny_env l t) = (\<lambda>key ear. key @ ear)"
  "env_welcome_bundle_ser (tiny_env l t) = (\<lambda>wb. Ok (concat (wel_secrets (wb_welcome wb))))"
  "env_commit_response_ser (tiny_env l t) = (\<lambda>r. Ok (dcr_group_id r))"
  "env_profile_update_ser (tiny_env l t) = (\<lambda>p. Ok (upk_user_profile_key p))"
  by (simp_all add: tiny_env_def mls_assist.defs ds_env.defs)

definition tiny_ds_storage :: mem_storage where
  "tiny_ds_storage =
     \<lparr> past_states_bytes = [[1, 1] \<mapsto> [1, 0]], group_info_bytes = [[1, 1] \<mapsto> [1, 1, 4]],
       group_states = [[1, 1] \<mapsto> default_group_state\<lparr> context_bytes := [1, 4] \<rparr>] \<rparr>"

definition tiny_profile :: "u8 \<Rightarrow> member_profile" where
  "tiny_profile k = \<lparr> mp_leaf_index = ucast k, mp_client_queue_config = tiny_reference k,
     mp_activity_time = 0, mp_activity_epoch = 0, mp_encrypted_user_profile_key = [k] \<rparr>"

definition tiny_ds_state :: "(tiny_group, bytes, bytes) ds_group_state" where
  "tiny_ds_state = \<lparr> ds_room_state = [5], ds_group = tiny_state 1 4, ds_storage = tiny_ds_storage,
     ds_member_profiles = [(0, tiny_profile 0), (1, tiny_profile 1), (2, tiny_profile 2)],
     ds_proposals = [] \<rparr>"

definition tiny_codec_env :: "(tiny_group, bytes, bytes) ds_env" where
  "tiny_codec_env =
     (let raw = pgs_to_raw (default_group_state\<lparr> context_bytes := [1, 4] \<rparr>);
          storage = \<lparr> storage_bytes = [([1, 1], [1])], past_group_states_bytes = [([1, 1], [1, 0])],
            group_infos_bytes = [([1, 1], [1, 1, 4])] \<rparr>;
          v2 = \<lparr> v2_group_id = [1], v2_serialized_provider = [1], v2_room_state = [1, 5],
            v2_member_profiles = ds_member_profiles tiny_ds_state, v2_proposals = [] \<rparr>
      in (tiny_env False tiny_commit)
          \<lparr> env_state_ser := only_ser raw, env_state_de := only_de raw,
            env_storage_ser := only_ser storage, env_storage_de := only_de storage,
            env_group_state_ser := only_ser (EncV2 v2), env_group_state_de := only_de (EncV2 v2) \<rparr>)"

lemma tiny_codec_env_correct: "ds_codecs_correct tiny_codec_env"
  unfolding ds_codecs_correct_def
  by (intro conjI)
     (simp_all add: tiny_codec_env_def Let_def tiny_env_def mls_assist.defs ds_env.defs
        only_codec_correct plain_aes_correct order_map_iterates codec_correct_def[of "\<lambda>bs. Ok bs"])

lemma tiny_env_load: "Group_load tiny_codec_env st gid = Group_load (tiny_assist False tiny_commit) st gid"
  by (simp add: tiny_codec_env_def Let_def tiny_env_def mls_assist.defs ds_env.defs Group_load_def)

lemma tiny_ds_state_ok: "ds_state_ok tiny_codec_env tiny_ds_state"
proof -
  have "profiles_wf (ds_member_profiles tiny_ds_state)"
    by (auto simp: tiny_ds_state_def profiles_wf_def bt_ordered_def bt_keys_def tiny_profile_def)
  moreover have "storage_proper tiny_ds_storage"
    by (auto simp: storage_proper_def storage_wf_def tiny_ds_storage_def pgs_is_empty_def default_group_state_def)
  moreover have "Group_load (tiny_assist False tiny_commit) tiny_ds_storage [1] = Ok (Some (tiny_state 1 4))"
    by (simp add: Group_load_def read_group_info_def read_past_group_states_def codec_to_vec_def
        tiny_ds_storage_def codec_try_from_def tiny_gi_de_def tiny_state_def)
       (simp add: tiny_openmls_def)
  ultimately show ?thesis
    by (simp add: ds_state_ok_def tiny_env_load tiny_ds_state_def tiny_state_def)
       (simp add: tiny_context_def)
qed

theorem ds_group_state_roundtrip_witness:
  "\<exists>ct. ds_encrypt tiny_codec_env (Some [3]) [8] tiny_ds_state = Ok ct
     \<and> ds_decrypt tiny_codec_env [8] ct = Ok tiny_ds_state"
proof -
  obtain ct where ct: "ds_encrypt tiny_codec_env (Some [3]) [8] tiny_ds_state = Ok ct"
    by (simp add: ds_encrypt_def from_group_state_def tiny_codec_env_def Let_def tiny_env_def
        mls_assist.defs ds_env.defs tiny_ds_state_def tiny_ds_storage_def order_map_def
        storage_serialize_def codec_to_vec_def only_ser_def tiny_state_def tiny_context_def
        encrypt_def aead_encrypt_def plain_aes_def)
  with ds_group_state_roundtrip[OF tiny_codec_env_correct tiny_ds_state_ok ct] show ?thesis by blast
qed

end
