(* ===== verification/Ds_Group_Operation.thy ===== *)
theory Ds_Group_Operation
  imports Ds_Group_State
begin

text \<open>
  \<^verbatim>\<open>backend/src/ds/group_operation.rs\<close> and the errors of \<^verbatim>\<open>backend/src/errors/mod.rs\<close>: commits
  that add and remove users.  An operation that fails returns its error only: the handlers drop
  the in-memory state then.

  The facts: a Welcome is accepted exactly when it has one entry per added key package and no
  other; after an accepted operation the profiles are those of the remaining members plus one
  per added user; and what goes wrong in the code, stated as theorems: an external commit never
  passes, and added users without a profile key in the associated data get no profile.
\<close>

section \<open>Errors\<close>

datatype group_operation_error =
    GoLibraryError | GoInvalidMessage | GoWrongEpoch | GoProcessingError | GoMissingQueueConfig
  | GoIncompleteWelcome | GoMergeCommitError accept_error

fun group_operation_error_of :: "process_assisted_message_error \<Rightarrow> group_operation_error" where
  "group_operation_error_of InvalidAssistedMessage = GoInvalidMessage"
| "group_operation_error_of (GroupInfoValidation _) = GoInvalidMessage"
| "group_operation_error_of (PamLibraryError _) = GoProcessingError"
| "group_operation_error_of (ProcessMessageError (ValidationError ValidationLibraryError)) = GoProcessingError"
| "group_operation_error_of (ProcessMessageError (ValidationError WrongEpoch)) = GoWrongEpoch"
| "group_operation_error_of (ProcessMessageError (ValidationError OtherValidationError)) = GoInvalidMessage"
| "group_operation_error_of (ProcessMessageError OtherProcessMessageError) = GoProcessingError"
| "group_operation_error_of (AppDataUpdateError _) = GoProcessingError"

fun group_operation_error_of_apq :: "process_apq_assisted_message_error \<Rightarrow> group_operation_error" where
  "group_operation_error_of_apq ApqInvalidAssistedMessage = GoInvalidMessage"
| "group_operation_error_of_apq (ApqGroupInfoValidation _) = GoInvalidMessage"
| "group_operation_error_of_apq (ApqLibraryError _) = GoProcessingError"
| "group_operation_error_of_apq (ApqProcessMessageError (ApqValidation _)) = GoInvalidMessage"
| "group_operation_error_of_apq (ApqProcessMessageError (ApqProcessing (ValidationError WrongEpoch))) = GoWrongEpoch"
| "group_operation_error_of_apq (ApqProcessMessageError (ApqProcessing (ValidationError ValidationLibraryError))) = GoProcessingError"
| "group_operation_error_of_apq (ApqProcessMessageError (ApqProcessing _)) = GoInvalidMessage"
| "group_operation_error_of_apq (ApqProcessMessageError (ApqAppDataUpdate _)) = GoProcessingError"


section \<open>Welcomes and added users\<close>

record add_users_info =
  aui_welcome :: mls_welcome
  aui_encrypted_welcome_attribution_infos :: "encrypted_welcome_attribution_info list"

type_synonym added_user_info = "key_package \<times> encrypted_user_profile_key"

record add_users_state =
  aus_added_users :: "(added_user_info \<times> encrypted_welcome_attribution_info) list"
  aus_welcome :: mls_welcome

text \<open>\<^verbatim>\<open>ApqAddUsersInfo::split\<close>: both halves keep all attribution infos.\<close>

definition ApqAddUsersInfo_split :: "mls_welcome \<times> mls_welcome \<Rightarrow>
    encrypted_welcome_attribution_info list \<Rightarrow> add_users_info \<times> add_users_info" where
  "ApqAddUsersInfo_split w infos =
     (\<lparr> aui_welcome = fst w, aui_encrypted_welcome_attribution_infos = infos \<rparr>,
      \<lparr> aui_welcome = snd w, aui_encrypted_welcome_attribution_infos = infos \<rparr>)"

definition validate_welcome_only :: "staged_commit \<Rightarrow> mls_welcome \<Rightarrow> group_operation_error + unit" where
  "validate_welcome_only sc w =
     and_then (fold_res (\<lambda>kp remaining_welcomes.
         case kp_hash_ref kp of
           None \<Rightarrow> Err GoIncompleteWelcome
         | Some hash_ref \<Rightarrow>
             if hash_ref \<in> remaining_welcomes then Ok (remaining_welcomes - {hash_ref})
             else Err GoIncompleteWelcome)
       (sc_add_proposals sc) (set (joiners w))) (\<lambda>remaining_welcomes.
     ensure (remaining_welcomes = {}) GoIncompleteWelcome)"

definition validate_added_users :: "staged_commit \<Rightarrow> encrypted_user_profile_key list \<Rightarrow>
    add_users_info \<Rightarrow> group_operation_error + add_users_state" where
  "validate_added_users sc new_keys info =
     (let number_of_added_users = length (sc_add_proposals sc) in
      and_then (ensure (length (aui_encrypted_welcome_attribution_infos info) = number_of_added_users)
        GoInvalidMessage) (\<lambda>_.
      and_then (validate_welcome_only sc (aui_welcome info)) (\<lambda>_.
      Ok \<lparr> aus_added_users = zip (zip (sc_add_proposals sc) new_keys)
             (aui_encrypted_welcome_attribution_infos info),
           aus_welcome = aui_welcome info \<rparr>)))"


section \<open>Validation\<close>

datatype sender_index = SiMember leaf_index | SiExternal leaf_index

fun si_leaf_index :: "sender_index \<Rightarrow> leaf_index" where
  "si_leaf_index (SiMember i) = i"
| "si_leaf_index (SiExternal i) = i"

record t_commit_validation =
  tv_sender_index :: sender_index
  tv_added_users_state :: "add_users_state option"
  tv_external_sender_information :: "(encrypted_user_profile_key \<times> qs_reference) option"
  tv_removed_clients :: "leaf_index list"

definition commit_sender_index :: "sender \<Rightarrow> staged_commit \<Rightarrow> group_operation_error + sender_index" where
  "commit_sender_index sender sc =
     (case sender of
        Member leaf_index \<Rightarrow> Ok (SiMember leaf_index)
      | NewMemberCommit \<Rightarrow>
          (case sc_remove_proposals sc of
             [] \<Rightarrow> Err GoInvalidMessage
           | removed # _ \<Rightarrow> Ok (SiExternal removed))
      | External _ \<Rightarrow> Err GoInvalidMessage
      | NewMemberProposal \<Rightarrow> Err GoInvalidMessage)"

text \<open>The loop over the added users; \<open>pq_adds\<close> is the iterator over the PQ add proposals.\<close>

definition check_added_user :: "('pg, 'rt, 'rs, 'z) ds_env_scheme \<Rightarrow> user_id \<Rightarrow>
    added_user_info \<times> encrypted_welcome_attribution_info \<Rightarrow>
    key_package list option \<times> ('pg, 'rt, 'rs) ds_group_state \<Rightarrow>
    group_operation_error + key_package list option \<times> ('pg, 'rt, 'rs) ds_group_state" where
  "check_added_user env sender added st =
     (let kp = fst (fst added); (pq_adds, s) = st in
      and_then (map_err (\<lambda>_. GoInvalidMessage)
        (from_basic_credential env (ln_credential (kp_leaf_node kp)))) (\<lambda>added_credential.
      and_then (case pq_adds of
          None \<Rightarrow> Ok None
        | Some [] \<Rightarrow> Err GoInvalidMessage
        | Some (pq_kp # rest) \<Rightarrow>
            if ln_signature_key (kp_leaf_node kp) \<noteq> ln_signature_key (kp_leaf_node pq_kp)
            then Err GoInvalidMessage else Ok (Some rest)) (\<lambda>pq_adds.
      and_then (ok_or GoInvalidMessage
        (room_state_change_role env sender added_credential Regular s)) (\<lambda>s.
      Ok (pq_adds, s)))))"

definition validate_adds :: "('pg, 'rt, 'rs, 'z) ds_env_scheme \<Rightarrow> user_id \<Rightarrow> staged_commit \<Rightarrow>
    encrypted_user_profile_key list \<Rightarrow> add_users_info option \<Rightarrow> staged_commit option \<Rightarrow>
    ('pg, 'rt, 'rs) ds_group_state \<Rightarrow>
    group_operation_error + add_users_state option \<times> ('pg, 'rt, 'rs) ds_group_state" where
  "validate_adds env sender sc new_keys add_users_info_option pq_commit s =
     (if length (sc_add_proposals sc) = 0 then Ok (None, s)
      else
        and_then (ok_or GoInvalidMessage add_users_info_option) (\<lambda>info.
        and_then (validate_added_users sc new_keys info) (\<lambda>aus.
        and_then (fold_res (check_added_user env sender) (aus_added_users aus)
            (map_option sc_add_proposals pq_commit, s)) (\<lambda>(pq_adds, s).
        and_then (case pq_adds of
            Some (_ # _) \<Rightarrow> Err GoInvalidMessage
          | _ \<Rightarrow> Ok ()) (\<lambda>_.
        Ok (Some aus, s))))))"

definition QS_CLIENT_REFERENCE_EXTENSION_TYPE :: u16 where
  "QS_CLIENT_REFERENCE_EXTENSION_TYPE = 0xff00"

fun qs_extension :: "leaf_extension list \<Rightarrow> bytes option" where
  "qs_extension [] = None"
| "qs_extension (UnknownExtension t bs # es) =
     (if t = QS_CLIENT_REFERENCE_EXTENSION_TYPE then Some bs else qs_extension es)"
| "qs_extension (OtherExtension _ # es) = qs_extension es"

definition external_sender_info :: "('pg, 'rt, 'rs, 'z) ds_env_scheme \<Rightarrow> sender_index \<Rightarrow>
    staged_commit \<Rightarrow> ('pg, 'rt, 'rs) ds_group_state \<Rightarrow>
    group_operation_error + (encrypted_user_profile_key \<times> qs_reference) option" where
  "external_sender_info env si sc s =
     (case si of
        SiExternal original_index \<Rightarrow>
          and_then (ensure (length (sc_remove_proposals sc) \<noteq> 0) GoInvalidMessage) (\<lambda>_.
          and_then (ok_or GoInvalidMessage (bt_get (ds_member_profiles s) original_index)) (\<lambda>profile.
          and_then (ok_or GoInvalidMessage (sc_update_path_leaf_node sc)) (\<lambda>leaf.
          and_then (ok_or GoInvalidMessage (qs_extension (ln_extensions leaf))) (\<lambda>bs.
          and_then (map_err (\<lambda>_. GoInvalidMessage) (env_qs_reference_de env bs)) (\<lambda>config.
          Ok (Some (mp_encrypted_user_profile_key profile, config)))))))
      | SiMember _ \<Rightarrow> Ok None)"

definition check_removed_client :: "('pg, 'rt, 'rs, 'z) ds_env_scheme \<Rightarrow> user_id \<Rightarrow> sender_index \<Rightarrow>
    ('pg, 'rt, 'rs) ds_group_state option \<Rightarrow> leaf_index \<Rightarrow> ('pg, 'rt, 'rs) ds_group_state \<Rightarrow>
    group_operation_error + ('pg, 'rt, 'rs) ds_group_state" where
  "check_removed_client env sender si pq_state removed_index s =
     and_then (ensure (removed_index \<noteq> si_leaf_index si) GoInvalidMessage) (\<lambda>_.
     and_then (ok_or GoInvalidMessage (group_leaf env (ds_group s) removed_index)) (\<lambda>removed_leaf.
     and_then (case pq_state of
         None \<Rightarrow> Ok ()
       | Some pq \<Rightarrow>
           and_then (ok_or GoInvalidMessage (group_leaf env (ds_group pq) removed_index)) (\<lambda>pq_leaf.
           ensure (ln_signature_key removed_leaf = ln_signature_key pq_leaf) GoInvalidMessage)) (\<lambda>_.
     and_then (map_err (\<lambda>_. GoInvalidMessage)
       (from_basic_credential env (ln_credential removed_leaf))) (\<lambda>removed_credential.
     ok_or GoInvalidMessage (room_state_change_role env sender removed_credential Outsider s)))))"

definition validate_t_commit :: "('pg, 'rt, 'rs, 'z) ds_env_scheme \<Rightarrow> processed_message \<Rightarrow>
    add_users_info option \<Rightarrow> ('pg, 'rt, 'rs) ds_group_state option \<Rightarrow> staged_commit option \<Rightarrow>
    ('pg, 'rt, 'rs) ds_group_state \<Rightarrow>
    group_operation_error + t_commit_validation \<times> ('pg, 'rt, 'rs) ds_group_state" where
  "validate_t_commit env pm info pq_state pq_commit s =
     and_then (map_err (\<lambda>_. GoInvalidMessage) (env_aad_de env (pr_aad pm))) (\<lambda>aad.
     and_then (case aad of AadGroupOperation new_keys \<Rightarrow> Ok new_keys | _ \<Rightarrow> Err GoInvalidMessage) (\<lambda>new_keys.
     and_then (case pr_content pm of StagedCommitMessage sc \<Rightarrow> Ok sc | _ \<Rightarrow> Err GoInvalidMessage) (\<lambda>sc.
     and_then (commit_sender_index (pr_sender pm) sc) (\<lambda>si.
     and_then (ok_or GoInvalidMessage (leaf_credential env s (si_leaf_index si))) (\<lambda>sender.
     and_then (validate_adds env sender sc new_keys info pq_commit s) (\<lambda>(added_users_state, s).
     and_then (external_sender_info env si sc s) (\<lambda>external_sender_information.
     and_then (fold_res (check_removed_client env sender si pq_state) (removed_clients sc) s) (\<lambda>s.
     Ok (\<lparr> tv_sender_index = si, tv_added_users_state = added_users_state,
           tv_external_sender_information = external_sender_information,
           tv_removed_clients = removed_clients sc \<rparr>, s)))))))))"


section \<open>The operations\<close>

definition USER_EXPIRATION_DAYS :: int where
  "USER_EXPIRATION_DAYS = 90"

definition new_member_profile :: "('pg, 'rt, 'rs, 'z) ds_env_scheme \<Rightarrow> time \<Rightarrow>
    ('pg, 'rt, 'rs) ds_group_state \<Rightarrow> added_user_info \<times> encrypted_welcome_attribution_info \<Rightarrow>
    group_operation_error + member_profile" where
  "new_member_profile env now s added =
     (let kp = fst (fst added); key = snd (fst added) in
      and_then (ok_or GoInvalidMessage
        (find (\<lambda>m. m_signature_key m = ln_signature_key (kp_leaf_node kp))
          (om_members env (g_public_group (ds_group s))))) (\<lambda>member.
      and_then (ok_or GoMissingQueueConfig (qs_extension (ln_extensions (kp_leaf_node kp)))) (\<lambda>bs.
      and_then (map_err (\<lambda>_. GoMissingQueueConfig) (env_qs_reference_de env bs)) (\<lambda>config.
      Ok \<lparr> mp_leaf_index = m_index member, mp_client_queue_config = config, mp_activity_time = now,
           mp_activity_epoch = group_epoch_of env (ds_group s),
           mp_encrypted_user_profile_key = key \<rparr>))))"

definition update_membership_profiles :: "('pg, 'rt, 'rs, 'z) ds_env_scheme \<Rightarrow> time \<Rightarrow>
    (added_user_info \<times> encrypted_welcome_attribution_info) list \<Rightarrow> ('pg, 'rt, 'rs) ds_group_state \<Rightarrow>
    group_operation_error + ('pg, 'rt, 'rs) ds_group_state" where
  "update_membership_profiles env now added_users s =
     and_then (collect_res (new_member_profile env now s) added_users) (\<lambda>client_profiles.
     Ok (s\<lparr> ds_member_profiles := fold (\<lambda>p. bt_insert (mp_leaf_index p) p) client_profiles
              (ds_member_profiles s) \<rparr>))"

text \<open>The steps after the merge, shared by the plain and the APQ operation.\<close>

definition apply_t_validation :: "('pg, 'rt, 'rs, 'z) ds_env_scheme \<Rightarrow> time \<Rightarrow> t_commit_validation \<Rightarrow>
    ('pg, 'rt, 'rs) ds_group_state \<Rightarrow> group_operation_error + ('pg, 'rt, 'rs) ds_group_state" where
  "apply_t_validation env now tv s =
     (let s = remove_profiles (tv_removed_clients tv) s in
      and_then (case tv_added_users_state tv of
          Some aus \<Rightarrow> update_membership_profiles env now (aus_added_users aus) s
        | None \<Rightarrow> Ok s) (\<lambda>s.
      case tv_external_sender_information tv of
        Some (key, config) \<Rightarrow>
          (let i = si_leaf_index (tv_sender_index tv);
               client_profile = \<lparr> mp_leaf_index = i, mp_client_queue_config = config,
                 mp_activity_time = now, mp_activity_epoch = group_epoch_of env (ds_group s),
                 mp_encrypted_user_profile_key = key \<rparr>
           in Ok (s\<lparr> ds_member_profiles := bt_insert i client_profile (ds_member_profiles s) \<rparr>))
      | None \<Rightarrow> Ok s))"

definition process_group_operation :: "('pg, 'rt, 'rs, 'z) ds_env_scheme \<Rightarrow> time \<Rightarrow>
    assisted_message_in \<Rightarrow> add_users_info option \<Rightarrow> ('pg, 'rt, 'rs) ds_group_state \<Rightarrow>
    group_operation_error + (bytes \<times> add_users_state option) \<times> ('pg, 'rt, 'rs) ds_group_state" where
  "process_group_operation env now commit info s =
     and_then (map_err group_operation_error_of (process_assisted_message env (ds_group s) commit)) (\<lambda>processed.
     case processed_assisted_message processed of
       Commit pm gi \<Rightarrow>
         and_then (validate_t_commit env pm info None None s) (\<lambda>(tv, s).
         and_then (map_err GoMergeCommitError (accept_processed_message env now (Commit pm gi)
           (duration_days USER_EXPIRATION_DAYS) (ds_group s) (ds_storage s))) (\<lambda>(g, st).
         and_then (apply_t_validation env now tv (s\<lparr> ds_group := g, ds_storage := st \<rparr>)) (\<lambda>s.
         Ok ((serialized_mls_message processed, tv_added_users_state tv), s))))
     | _ \<Rightarrow> Err GoInvalidMessage)"

definition validate_pq_commit :: "processed_message \<Rightarrow> add_users_info option \<Rightarrow>
    group_operation_error + staged_commit \<times> mls_welcome option" where
  "validate_pq_commit pq_message pq_info =
     (case pr_content pq_message of
        StagedCommitMessage pq_commit \<Rightarrow>
          and_then (commit_sender_index (pr_sender pq_message) pq_commit) (\<lambda>si.
          and_then (fold_res (\<lambda>removed _. ensure (removed \<noteq> si_leaf_index si) GoInvalidMessage)
            (removed_clients pq_commit) ()) (\<lambda>_.
          and_then (if length (sc_add_proposals pq_commit) \<noteq> 0
            then and_then (ok_or GoInvalidMessage pq_info) (\<lambda>info.
                 and_then (validate_welcome_only pq_commit (aui_welcome info)) (\<lambda>_.
                 Ok (Some (aui_welcome info))))
            else Ok None) (\<lambda>pq_welcome.
          Ok (pq_commit, pq_welcome))))
      | _ \<Rightarrow> Err GoInvalidMessage)"

definition process_apq_group_operation :: "('pg, 'rt, 'rs, 'z) ds_env_scheme \<Rightarrow> time \<Rightarrow>
    assisted_message_in \<Rightarrow> assisted_message_in \<Rightarrow> add_users_info option \<Rightarrow> add_users_info option \<Rightarrow>
    ('pg, 'rt, 'rs) ds_group_state \<Rightarrow> ('pg, 'rt, 'rs) ds_group_state \<Rightarrow>
    group_operation_error + (bytes \<times> add_users_state option \<times> mls_welcome option)
      \<times> ('pg, 'rt, 'rs) ds_group_state \<times> ('pg, 'rt, 'rs) ds_group_state" where
  "process_apq_group_operation env now t_message pq_message t_info pq_info t_state pq_state =
     and_then (map_err group_operation_error_of_apq (process_apq_assisted_message env
         (ds_group t_state) (ds_group pq_state) t_message pq_message (\<lambda>_ _. True))) (\<lambda>processed.
     let m = apq_processed_assisted_message processed; apm = apam_processed_message m in
     and_then (validate_pq_commit (apq_pq_message apm) pq_info) (\<lambda>(pq_commit, pq_welcome).
     and_then (validate_t_commit env (apq_t_message apm) t_info (Some pq_state) (Some pq_commit) t_state)
       (\<lambda>(tv, t_state).
     and_then (map_err GoMergeCommitError (accept_apq_processed_message env now m
         (duration_days USER_EXPIRATION_DAYS) (ds_group t_state, ds_storage t_state)
         (ds_group pq_state, ds_storage pq_state))) (\<lambda>((t_g, t_st), (pq_g, pq_st)).
     and_then (apply_t_validation env now tv (t_state\<lparr> ds_group := t_g, ds_storage := t_st \<rparr>)) (\<lambda>t_state.
     Ok ((serialized_apq_message processed, tv_added_users_state tv, pq_welcome),
         t_state, pq_state\<lparr> ds_group := pq_g, ds_storage := pq_st \<rparr>))))))"

definition welcome_fan_out_message :: "('pg, 'rt, 'rs, 'z) ds_env_scheme \<Rightarrow> time \<Rightarrow> ear_key \<Rightarrow>
    mls_welcome \<Rightarrow> ('pg, 'rt, 'rs) ds_group_state \<Rightarrow>
    added_user_info \<times> encrypted_welcome_attribution_info \<Rightarrow> group_operation_error + ds_fan_out_message" where
  "welcome_fan_out_message env now ear_key w s added =
     (let kp = fst (fst added); attribution_info = snd added in
      and_then (ok_or GoMissingQueueConfig (qs_extension (ln_extensions (kp_leaf_node kp)))) (\<lambda>bs.
      and_then (map_err (\<lambda>_. GoMissingQueueConfig) (env_qs_reference_de env bs)) (\<lambda>config.
      and_then (map_err (\<lambda>_. GoLibraryError) (payload_of_welcome_bundle env now
          \<lparr> wb_welcome = w, wb_encrypted_attribution_info = attribution_info,
            wb_encrypted_joiner_info = env_joiner_encrypt env (kp_hpke_init_key kp) ear_key \<rparr>)) (\<lambda>payload.
      Ok \<lparr> fo_payload = QueueMessage payload, fo_client_reference = config,
           fo_suppress_notifications = False,
           fo_broadcast_to_all_client_queues = broadcast_to_all_client_queues env s \<rparr>))))"

definition generate_fan_out_messages :: "('pg, 'rt, 'rs, 'z) ds_env_scheme \<Rightarrow> time \<Rightarrow>
    (added_user_info \<times> encrypted_welcome_attribution_info) list \<Rightarrow> ear_key \<Rightarrow> mls_welcome \<Rightarrow>
    ('pg, 'rt, 'rs) ds_group_state \<Rightarrow> group_operation_error + ds_fan_out_message list" where
  "generate_fan_out_messages env now added_users ear_key w s =
     collect_res (welcome_fan_out_message env now ear_key w s) added_users"

definition apq_welcome_fan_out_message :: "('pg, 'rt, 'rs, 'z) ds_env_scheme \<Rightarrow> time \<Rightarrow> ear_key \<Rightarrow>
    mls_welcome \<Rightarrow> mls_welcome \<Rightarrow> ('pg, 'rt, 'rs) ds_group_state \<Rightarrow>
    added_user_info \<times> encrypted_welcome_attribution_info \<Rightarrow> group_operation_error + ds_fan_out_message" where
  "apq_welcome_fan_out_message env now ear_key t_welcome pq_welcome s added =
     (let kp = fst (fst added); attribution_info = snd added in
      and_then (ok_or GoMissingQueueConfig (qs_extension (ln_extensions (kp_leaf_node kp)))) (\<lambda>bs.
      and_then (map_err (\<lambda>_. GoMissingQueueConfig) (env_qs_reference_de env bs)) (\<lambda>config.
      and_then (map_err (\<lambda>_. GoLibraryError) (payload_of_apq_welcome_bundle env now
          \<lparr> awb_welcome = (t_welcome, pq_welcome), awb_encrypted_attribution_info = attribution_info,
            awb_encrypted_joiner_info = env_joiner_encrypt env (kp_hpke_init_key kp) ear_key \<rparr>)) (\<lambda>payload.
      Ok \<lparr> fo_payload = QueueMessage payload, fo_client_reference = config,
           fo_suppress_notifications = False,
           fo_broadcast_to_all_client_queues = broadcast_to_all_client_queues env s \<rparr>))))"

definition generate_apq_fan_out_messages :: "('pg, 'rt, 'rs, 'z) ds_env_scheme \<Rightarrow> time \<Rightarrow>
    (added_user_info \<times> encrypted_welcome_attribution_info) list \<Rightarrow> mls_welcome \<Rightarrow> mls_welcome \<Rightarrow>
    ear_key \<Rightarrow> ('pg, 'rt, 'rs) ds_group_state \<Rightarrow> group_operation_error + ds_fan_out_message list" where
  "generate_apq_fan_out_messages env now added_users t_welcome pq_welcome ear_key s =
     collect_res (apq_welcome_fan_out_message env now ear_key t_welcome pq_welcome s) added_users"

definition group_operation :: "('pg, 'rt, 'rs, 'z) ds_env_scheme \<Rightarrow> time \<Rightarrow> assisted_message_in \<Rightarrow>
    add_users_info option \<Rightarrow> ear_key \<Rightarrow> ('pg, 'rt, 'rs) ds_group_state \<Rightarrow>
    group_operation_error + (bytes \<times> ds_fan_out_message list) \<times> ('pg, 'rt, 'rs) ds_group_state" where
  "group_operation env now commit info ear_key s =
     and_then (process_group_operation env now commit info s) (\<lambda>((serialized, added_users_state), s).
     and_then (case added_users_state of
         Some aus \<Rightarrow> generate_fan_out_messages env now (aus_added_users aus) ear_key (aus_welcome aus) s
       | None \<Rightarrow> Ok []) (\<lambda>fan_out_messages.
     Ok ((serialized, fan_out_messages), s)))"

definition create_commit_response :: "('pg, 'rt, 'rs, 'z) ds_env_scheme \<Rightarrow> time \<Rightarrow> leaf_index \<Rightarrow> time \<Rightarrow>
    ('pg, 'rt, 'rs) ds_group_state \<Rightarrow> group_operation_error + ds_fan_out_message" where
  "create_commit_response env now sender_index timestamp s =
     and_then (map_err (\<lambda>_. GoLibraryError) (ds_commit_response env now
         (gc_group_id (gi_group_context (g_group_info (ds_group s))))
         (group_epoch_of env (ds_group s) - 1) timestamp)) (\<lambda>commit_response.
     and_then (ok_or GoInvalidMessage (bt_get (ds_member_profiles s) sender_index)) (\<lambda>profile.
     Ok \<lparr> fo_payload = QueueMessage commit_response,
          fo_client_reference = mp_client_queue_config profile,
          fo_suppress_notifications = True,
          fo_broadcast_to_all_client_queues = broadcast_to_all_client_queues env s \<rparr>))"


section \<open>Facts\<close>

lemma expect_staged_commit_iff [result_simps]:
  "(case c of StagedCommitMessage sc \<Rightarrow> f sc | _ \<Rightarrow> Err e) = Ok y \<longleftrightarrow>
     (\<exists>sc. c = StagedCommitMessage sc \<and> f sc = Ok y)"
  by (cases c) auto

lemma expect_proposal_iff [result_simps]:
  "(case c of ProposalMessage p \<Rightarrow> f p | _ \<Rightarrow> Err e) = Ok y \<longleftrightarrow>
     (\<exists>p. c = ProposalMessage p \<and> f p = Ok y)"
  by (cases c) auto

lemma expect_member_iff [result_simps]:
  "(case a of Member i \<Rightarrow> f i | _ \<Rightarrow> Err e) = Ok y \<longleftrightarrow> (\<exists>i. a = Member i \<and> f i = Ok y)"
  by (cases a) auto

lemma expect_non_commit_iff [result_simps]:
  "(case m of NonCommit pm \<Rightarrow> f pm | _ \<Rightarrow> Err e) = Ok y \<longleftrightarrow> (\<exists>pm. m = NonCommit pm \<and> f pm = Ok y)"
  by (cases m) auto

lemma expect_commit_iff [result_simps]:
  "(case m of Commit pm gi \<Rightarrow> f pm gi | _ \<Rightarrow> Err e) = Ok y \<longleftrightarrow>
     (\<exists>pm gi. m = Commit pm gi \<and> f pm gi = Ok y)"
  by (cases m) auto

lemma expect_group_operation_iff [result_simps]:
  "(case a of AadGroupOperation ks \<Rightarrow> Ok ks | _ \<Rightarrow> Err e) = Ok ks' \<longleftrightarrow> a = AadGroupOperation ks'"
  by (cases a) auto

lemma find_append:
  "find P (xs @ ys) = (case find P xs of Some x \<Rightarrow> Some x | None \<Rightarrow> find P ys)"
  by (induction xs) auto

lemma welcome_loop_Ok_iff:
  "fold_res (\<lambda>kp remaining.
       case kp_hash_ref kp of
         None \<Rightarrow> Err GoIncompleteWelcome
       | Some h \<Rightarrow> if h \<in> remaining then Ok (remaining - {h}) else Err GoIncompleteWelcome) kps R = Ok R'
   \<longleftrightarrow> (\<exists>refs. map kp_hash_ref kps = map Some refs \<and> distinct refs \<and> set refs \<subseteq> R \<and> R' = R - set refs)"
proof (induction kps arbitrary: R)
  case Nil
  then show ?case by auto
next
  case (Cons kp kps)
  show ?case
  proof (cases "kp_hash_ref kp")
    case None
    then show ?thesis by (auto simp: map_eq_Cons_conv Cons_eq_map_conv)
  next
    case (Some h)
    have iff: "(\<exists>refs. map kp_hash_ref kps = map Some refs \<and> distinct refs \<and> set refs \<subseteq> R - {h}
          \<and> R' = R - {h} - set refs) \<and> h \<in> R
      \<longleftrightarrow> (\<exists>refs. map kp_hash_ref (kp # kps) = map Some refs \<and> distinct refs \<and> set refs \<subseteq> R
          \<and> R' = R - set refs)" (is "?l \<longleftrightarrow> ?r")
    proof
      assume ?l
      then obtain refs where "map kp_hash_ref kps = map Some refs" "distinct refs"
        "set refs \<subseteq> R - {h}" "R' = R - {h} - set refs" "h \<in> R" by blast
      then show ?r using Some by (intro exI[of _ "h # refs"]) auto
    next
      assume ?r
      then obtain r refs where "map kp_hash_ref (kp # kps) = map Some (r # refs)" "distinct (r # refs)"
        "set (r # refs) \<subseteq> R" "R' = R - set (r # refs)" by (auto simp: Cons_eq_map_conv)
      then show ?l using Some by auto
    qed
    show ?thesis unfolding iff[symmetric] Cons.IH[symmetric] by (simp add: Some)
  qed
qed

lemma validate_welcome_only_iff:
  "validate_welcome_only sc w = Ok () \<longleftrightarrow>
     (\<exists>refs. map kp_hash_ref (sc_add_proposals sc) = map Some refs \<and> distinct refs
        \<and> set refs = set (joiners w))"
  by (auto simp: validate_welcome_only_def result_simps welcome_loop_Ok_iff)

lemma check_added_user_frame:
  "check_added_user env sender a (pq, s) = Ok (pq', s') \<Longrightarrow>
     ds_group s' = ds_group s \<and> ds_storage s' = ds_storage s
     \<and> ds_member_profiles s' = ds_member_profiles s \<and> ds_proposals s' = ds_proposals s"
  by (auto simp: check_added_user_def Let_def result_simps dest: room_state_change_role_frame)

lemma check_removed_client_frame:
  "check_removed_client env sender si pq i s = Ok s' \<Longrightarrow>
     ds_group s' = ds_group s \<and> ds_storage s' = ds_storage s
     \<and> ds_member_profiles s' = ds_member_profiles s \<and> ds_proposals s' = ds_proposals s"
  by (auto simp: check_removed_client_def result_simps dest: room_state_change_role_frame)

lemma check_removed_clients_Ok:
  assumes "fold_res (check_removed_client env sender si pq) is s = Ok s'"
  shows "ds_group s' = ds_group s \<and> ds_storage s' = ds_storage s
     \<and> ds_member_profiles s' = ds_member_profiles s \<and> ds_proposals s' = ds_proposals s
     \<and> si_leaf_index si \<notin> set is"
  using assms
proof (induction "is" arbitrary: s)
  case (Cons i "is")
  then obtain t where t: "check_removed_client env sender si pq i s = Ok t"
    and rest: "fold_res (check_removed_client env sender si pq) is t = Ok s'"
    by (auto simp: result_simps)
  from t have "i \<noteq> si_leaf_index si" by (auto simp: check_removed_client_def result_simps)
  with Cons.IH[OF rest] check_removed_client_frame[OF t] show ?case by simp
qed simp

lemma validate_adds_frame:
  assumes "validate_adds env sender sc keys info pqc s = Ok (aus, s')"
  shows "ds_group s' = ds_group s \<and> ds_storage s' = ds_storage s
     \<and> ds_member_profiles s' = ds_member_profiles s \<and> ds_proposals s' = ds_proposals s"
proof (cases "sc_add_proposals sc = []")
  case True
  then show ?thesis using assms by (simp add: validate_adds_def)
next
  case False
  with assms obtain us pq0 pq where
    "fold_res (check_added_user env sender) us (pq0, s) = Ok (pq, s')"
    by (auto simp: validate_adds_def result_simps)
  moreover have "ds_group (snd r') = ds_group s \<and> ds_storage (snd r') = ds_storage s
     \<and> ds_member_profiles (snd r') = ds_member_profiles s \<and> ds_proposals (snd r') = ds_proposals s"
    if "fold_res (check_added_user env sender) us r = Ok r'"
      "ds_group (snd r) = ds_group s \<and> ds_storage (snd r) = ds_storage s
       \<and> ds_member_profiles (snd r) = ds_member_profiles s \<and> ds_proposals (snd r) = ds_proposals s"
    for r r' us
    using that by (rule fold_res_invariant) (auto dest: check_added_user_frame)
  ultimately show ?thesis by fastforce
qed

text \<open>Which users a validated commit adds.\<close>

definition added_users :: "add_users_state option \<Rightarrow>
    (added_user_info \<times> encrypted_welcome_attribution_info) list" where
  "added_users aus = (case aus of None \<Rightarrow> [] | Some a \<Rightarrow> aus_added_users a)"

lemma validate_adds_added_users:
  assumes "validate_adds env sender sc keys info pqc s = Ok (aus, s')"
  shows "map (fst \<circ> fst) (added_users aus) = take (length keys) (sc_add_proposals sc)
    \<and> map (snd \<circ> fst) (added_users aus) = take (length (sc_add_proposals sc)) keys"
proof -
  have "added_users aus = zip (zip (sc_add_proposals sc) keys) infos
      \<and> length infos = length (sc_add_proposals sc)" if "infos = (case info of
        Some i \<Rightarrow> if sc_add_proposals sc = [] then [] else aui_encrypted_welcome_attribution_infos i
      | None \<Rightarrow> [])" for infos
    using assms that
    by (auto simp: validate_adds_def validate_added_users_def added_users_def result_simps Let_def
        split: if_splits option.splits)
  then obtain infos where eq: "added_users aus = zip (zip (sc_add_proposals sc) keys) infos"
    and len: "length infos = length (sc_add_proposals sc)" by blast
  have "map fst (added_users aus) = zip (sc_add_proposals sc) keys"
    unfolding eq by (simp add: map_fst_zip_take len)
  then have "map (fst \<circ> fst) (added_users aus) = map fst (zip (sc_add_proposals sc) keys)"
    "map (snd \<circ> fst) (added_users aus) = map snd (zip (sc_add_proposals sc) keys)"
    by (metis list.map_comp)+
  then show ?thesis by (simp add: map_fst_zip_take map_snd_zip_take min_def)
qed

lemma validate_t_commit_Ok:
  assumes "validate_t_commit env pm info pqs pqc s = Ok (tv, s')"
  obtains keys sc where "env_aad_de env (pr_aad pm) = Ok (AadGroupOperation keys)"
    "pr_content pm = StagedCommitMessage sc"
    "commit_sender_index (pr_sender pm) sc = Ok (tv_sender_index tv)"
    "tv_removed_clients tv = removed_clients sc"
    "si_leaf_index (tv_sender_index tv) \<notin> set (removed_clients sc)"
    "map (fst \<circ> fst) (added_users (tv_added_users_state tv)) = take (length keys) (sc_add_proposals sc)"
    "ds_group s' = ds_group s" "ds_storage s' = ds_storage s"
    "ds_member_profiles s' = ds_member_profiles s" "ds_proposals s' = ds_proposals s"
    "(\<forall>i. tv_sender_index tv = SiMember i \<longrightarrow> tv_external_sender_information tv = None)"
proof -
  from assms obtain keys sc sender t where
    aad: "env_aad_de env (pr_aad pm) = Ok (AadGroupOperation keys)"
    and sc: "pr_content pm = StagedCommitMessage sc"
    and si: "commit_sender_index (pr_sender pm) sc = Ok (tv_sender_index tv)"
    and removed: "tv_removed_clients tv = removed_clients sc"
    and adds: "validate_adds env sender sc keys info pqc s = Ok (tv_added_users_state tv, t)"
    and ext: "external_sender_info env (tv_sender_index tv) sc t = Ok (tv_external_sender_information tv)"
    and loop: "fold_res (check_removed_client env sender (tv_sender_index tv) pqs)
      (removed_clients sc) t = Ok s'"
    by (auto simp: validate_t_commit_def result_simps)
  have "\<forall>i. tv_sender_index tv = SiMember i \<longrightarrow> tv_external_sender_information tv = None"
    using ext by (auto simp: external_sender_info_def)
  with that[OF aad sc si removed] show ?thesis
    using check_removed_clients_Ok[OF loop] validate_adds_frame[OF adds]
      validate_adds_added_users[OF adds] by simp
qed

lemma commit_sender_index_external:
  "commit_sender_index sender sc = Ok (SiExternal i) \<longleftrightarrow>
     sender = NewMemberCommit \<and> sc_remove_proposals sc \<noteq> [] \<and> i = hd (sc_remove_proposals sc)"
  by (cases sender) (auto simp: commit_sender_index_def split: list.splits)

lemma commit_sender_index_member:
  "commit_sender_index sender sc = Ok (SiMember i) \<longleftrightarrow> sender = Member i"
  by (cases sender) (auto simp: commit_sender_index_def split: list.splits)

lemma validated_sender_is_member:
  assumes "validate_t_commit env pm info pqs pqc s = Ok (tv, s')"
    and "\<And>sc. pr_content pm = StagedCommitMessage sc \<Longrightarrow> staged_commit_wf sc"
  shows "\<exists>i. tv_sender_index tv = SiMember i \<and> pr_sender pm = Member i"
proof -
  obtain sc where sc: "pr_content pm = StagedCommitMessage sc"
    and si: "commit_sender_index (pr_sender pm) sc = Ok (tv_sender_index tv)"
    and kept: "si_leaf_index (tv_sender_index tv) \<notin> set (removed_clients sc)"
    using validate_t_commit_Ok[OF assms(1)] .
  show ?thesis
  proof (cases "tv_sender_index tv")
    case (SiMember i)
    then show ?thesis using si by (simp add: commit_sender_index_member)
  next
    case (SiExternal i)
    then have "i \<in> set (sc_remove_proposals sc)"
      using si by (simp add: commit_sender_index_external)
    then have "i \<in> set (removed_clients sc)"
      using assms(2)[OF sc] by (simp add: remove_proposals_removed)
    with kept SiExternal show ?thesis by simp
  qed
qed

lemma fold_insert_profiles:
  "bt_get (fold (\<lambda>p. bt_insert (mp_leaf_index p) p) ps m) k =
     (case find (\<lambda>p. mp_leaf_index p = k) (rev ps) of Some p \<Rightarrow> Some p | None \<Rightarrow> bt_get m k)"
  by (induction ps arbitrary: m) (auto simp: find_append split: option.splits)

lemma profiles_wf_insert_all [inv_intros]:
  "profiles_wf m \<Longrightarrow> profiles_wf (fold (\<lambda>p. bt_insert (mp_leaf_index p) p) ps m)"
  by (induction ps arbitrary: m) (auto intro: inv_intros)

lemma new_member_profile_cong: "ds_group s = ds_group t \<Longrightarrow> new_member_profile env now s = new_member_profile env now t"
  by (simp add: new_member_profile_def fun_eq_iff)

lemma apply_t_validation_member:
  assumes "apply_t_validation env now tv s = Ok s'" "tv_external_sender_information tv = None"
  obtains ps where
    "collect_res (new_member_profile env now s) (added_users (tv_added_users_state tv)) = Ok ps"
    "s' = s\<lparr> ds_member_profiles := fold (\<lambda>p. bt_insert (mp_leaf_index p) p) ps
              (fold bt_remove (tv_removed_clients tv) (ds_member_profiles s)) \<rparr>"
proof (cases "tv_added_users_state tv")
  case None
  then show ?thesis
    using assms that[of "[]"] by (simp add: apply_t_validation_def Let_def added_users_def remove_profiles_def)
next
  case (Some aus)
  have "new_member_profile env now (remove_profiles (tv_removed_clients tv) s)
      = new_member_profile env now s"
    by (rule new_member_profile_cong) simp
  moreover from Some assms obtain ps where
    "collect_res (new_member_profile env now (remove_profiles (tv_removed_clients tv) s))
       (aus_added_users aus) = Ok ps"
    and s': "s' = (remove_profiles (tv_removed_clients tv) s)\<lparr> ds_member_profiles :=
      fold (\<lambda>p. bt_insert (mp_leaf_index p) p) ps
        (ds_member_profiles (remove_profiles (tv_removed_clients tv) s)) \<rparr>"
    by (auto simp: apply_t_validation_def Let_def update_membership_profiles_def result_simps)
  ultimately have "collect_res (new_member_profile env now s) (added_users (tv_added_users_state tv)) = Ok ps"
    using Some by (simp add: added_users_def)
  then show ?thesis
    by (rule that) (simp add: s' remove_profiles_def)
qed


text \<open>
  The library's two views of the proposals of a commit agree, for the commits it stages itself
  and for those it resolves.
\<close>

definition library_commits_wf :: "('pg, 'rt, 'z) openmls_scheme \<Rightarrow> bool" where
  "library_commits_wf om =
     ((\<forall>g m pm sc. om_process_message om g m = Ok pm \<and> pr_content pm = StagedCommitMessage sc
         \<longrightarrow> staged_commit_wf sc)
      \<and> (\<forall>g m c pm sc. om_resolve_app_data_commit om g m c = Ok pm
         \<and> pr_content pm = StagedCommitMessage sc \<longrightarrow> staged_commit_wf sc))"

lemma processed_commit_wf:
  assumes "library_commits_wf om" "process_assisted_message om g am = Ok res"
    and "processed_assisted_message res = Commit pm gi" "pr_content pm = StagedCommitMessage sc"
  shows "staged_commit_wf sc"
proof -
  from assms(2,3) obtain msg pm0 where "om_process_message om (g_public_group g) msg = Ok pm0"
    and "resolve_app_data_commit_public om (g_public_group g) pm0 = Ok pm"
    by (auto simp: process_assisted_message_def result_simps
        split: protocol_message.splits content_type.splits)
  then have "om_process_message om (g_public_group g) msg = Ok pm
      \<or> (\<exists>c. om_resolve_app_data_commit om (g_public_group g) pm0 c = Ok pm)"
    by (auto simp: resolve_app_data_commit_public_def split: processed_message_content.splits)
  then show ?thesis
    using assms(1,4) unfolding library_commits_wf_def by blast
qed

lemma process_group_operation_Ok:
  assumes "library_commits_wf env"
    and "process_group_operation env now commit info s = Ok ((msg, aus), s')"
  obtains pm gi sc i keys ps where
    "process_assisted_message env (ds_group s) commit
       = Ok \<lparr> processed_assisted_message = Commit pm gi, serialized_mls_message = msg \<rparr>"
    "pr_content pm = StagedCommitMessage sc" "pr_sender pm = Member i" "i \<notin> set (removed_clients sc)"
    "env_aad_de env (pr_aad pm) = Ok (AadGroupOperation keys)"
    "map (fst \<circ> fst) (added_users aus) = take (length keys) (sc_add_proposals sc)"
    "accept_processed_message env now (Commit pm gi) (duration_days USER_EXPIRATION_DAYS)
       (ds_group s) (ds_storage s) = Ok (ds_group s', ds_storage s')"
    "list_all2 (\<lambda>a p. new_member_profile env now s' a = Ok p) (added_users aus) ps"
    "ds_member_profiles s' = fold (\<lambda>p. bt_insert (mp_leaf_index p) p) ps
       (fold bt_remove (removed_clients sc) (ds_member_profiles s))"
    "ds_proposals s' = ds_proposals s"
proof -
  from assms(2) obtain res pm gi tv t g st where
    res: "process_assisted_message env (ds_group s) commit = Ok res"
      "processed_assisted_message res = Commit pm gi" "serialized_mls_message res = msg"
    and tv: "validate_t_commit env pm info None None s = Ok (tv, t)"
    and acc: "accept_processed_message env now (Commit pm gi) (duration_days USER_EXPIRATION_DAYS)
       (ds_group t) (ds_storage t) = Ok (g, st)"
    and app: "apply_t_validation env now tv (t\<lparr> ds_group := g, ds_storage := st \<rparr>) = Ok s'"
    and aus: "aus = tv_added_users_state tv"
    by (auto simp: process_group_operation_def result_simps)
  obtain keys sc where aad: "env_aad_de env (pr_aad pm) = Ok (AadGroupOperation keys)"
    and sc: "pr_content pm = StagedCommitMessage sc"
    and removed: "tv_removed_clients tv = removed_clients sc"
    and kept: "si_leaf_index (tv_sender_index tv) \<notin> set (removed_clients sc)"
    and kps: "map (fst \<circ> fst) (added_users (tv_added_users_state tv)) = take (length keys) (sc_add_proposals sc)"
    and frame: "ds_group t = ds_group s" "ds_storage t = ds_storage s"
      "ds_member_profiles t = ds_member_profiles s" "ds_proposals t = ds_proposals s"
    and member: "\<forall>i. tv_sender_index tv = SiMember i \<longrightarrow> tv_external_sender_information tv = None"
    using validate_t_commit_Ok[OF tv] .
  obtain i where i: "tv_sender_index tv = SiMember i" "pr_sender pm = Member i"
    using validated_sender_is_member[OF tv] processed_commit_wf[OF assms(1) res(1,2)] by blast
  obtain ps where
    ps: "collect_res (new_member_profile env now (t\<lparr> ds_group := g, ds_storage := st \<rparr>)) (added_users aus) = Ok ps"
    and s': "s' = t\<lparr> ds_group := g, ds_storage := st, ds_member_profiles :=
        fold (\<lambda>p. bt_insert (mp_leaf_index p) p) ps
          (fold bt_remove (removed_clients sc) (ds_member_profiles t)) \<rparr>"
    using apply_t_validation_member[OF app] member i(1) by (auto simp: removed aus)
  have same: "new_member_profile env now (t\<lparr> ds_group := g, ds_storage := st \<rparr>) = new_member_profile env now s'"
    by (rule new_member_profile_cong) (simp add: s')
  have "res = \<lparr> processed_assisted_message = Commit pm gi, serialized_mls_message = msg \<rparr>"
    using res(2,3) by (cases res) simp
  with that[OF _ sc i(2) _ aad _ _ ps[unfolded same collect_res_Inr_iff]] show ?thesis
    using res(1) kept i(1) kps acc frame s' aus by simp
qed


section \<open>Properties\<close>

text \<open>
  A Welcome passes exactly if every added key package has a hash reference, no two added
  key packages share one, and the entries of the Welcome are these references.
\<close>

theorem welcome_matches_added_key_packages:
  "validate_welcome_only sc w = Ok () \<longleftrightarrow>
     (\<exists>refs. map kp_hash_ref (sc_add_proposals sc) = map Some refs \<and> distinct refs
        \<and> set refs = set (joiners w))"
  by (rule validate_welcome_only_iff)


text \<open>
  (C26) An external commit never passes as a group operation, although the code has a branch for
  it: the leaf it resyncs counts as its sender, that leaf is among the removed ones, and a commit
  that removes its sender is rejected.
\<close>

theorem external_group_operation_rejected:
  assumes "pr_content pm = StagedCommitMessage sc" "staged_commit_wf sc"
    and "pr_sender pm = NewMemberCommit"
  shows "\<exists>e. validate_t_commit env pm info pqs pqc s = Err e"
proof (cases "validate_t_commit env pm info pqs pqc s")
  case (Inr r)
  then obtain tv t where "validate_t_commit env pm info pqs pqc s = Ok (tv, t)" by (cases r) auto
  from validated_sender_is_member[OF this] assms show ?thesis by auto
qed blast



section \<open>Witnesses\<close>

definition tiny_swap :: staged_commit where
  "tiny_swap = tiny_commit\<lparr> sc_add_proposals := [tiny_key_package 2], sc_remove_proposals := [1],
     sc_queued_proposals := [\<lparr> qp_proposal = Add (tiny_key_package 2), qp_sender = Member 0 \<rparr>,
       \<lparr> qp_proposal = Remove 1, qp_sender = Member 0 \<rparr>] \<rparr>"

definition tiny_op_message :: "bytes \<Rightarrow> assisted_message_in" where
  "tiny_op_message aad =
     \<lparr> am_mls_message = PublicMessage ((tiny_message ContentCommit 1 4 0)\<lparr> pm_rest := aad \<rparr>),
       am_serialized_mls_message = [7],
       am_group_info_option = Some \<lparr> agi_extensions = [], agi_signature = [0] \<rparr> \<rparr>"

definition tiny_op_processed :: "staged_commit \<Rightarrow> bytes \<Rightarrow> processed_message" where
  "tiny_op_processed t aad = \<lparr> pr_sender = Member 0, pr_aad = aad, pr_credential = tiny_credential 0,
     pr_content = StagedCommitMessage (t\<lparr> sc_group_context := tiny_context (1, 5) \<rparr>) \<rparr>"

definition tiny_new_info :: group_info where
  "tiny_new_info = \<lparr> gi_group_context = tiny_context (1, 5), gi_rest = [] \<rparr>"

definition tiny_swap_info :: add_users_info where
  "tiny_swap_info = \<lparr> aui_welcome = \<lparr> wel_secrets = [[2]], wel_rest = [] \<rparr>,
     aui_encrypted_welcome_attribution_infos = [[6]] \<rparr>"

definition tiny_pair_state :: "(tiny_group, bytes, bytes) ds_group_state" where
  "tiny_pair_state = tiny_ds_state\<lparr> ds_member_profiles := [(0, tiny_profile 0), (1, tiny_profile 1)] \<rparr>"

lemma tiny_library_commits_wf: "staged_commit_wf t \<Longrightarrow> library_commits_wf (tiny_env l t)"
proof -
  assume wf: "staged_commit_wf t"
  have "staged_commit_wf sc" if "tiny_process_message t g m = Ok pm"
    "pr_content pm = StagedCommitMessage sc" for g m pm sc
    using that wf by (cases m) (auto simp: staged_commit_wf_def split: if_splits)
  moreover have "om_resolve_app_data_commit (tiny_env l t) g m c = Err ResolveAppDataCommitError" for g m c
    by (simp add: tiny_assist_def openmls.defs tiny_openmls_def)
  ultimately show ?thesis by (auto simp: library_commits_wf_def)
qed

lemma tiny_swap_wf: "staged_commit_wf tiny_swap"
  by (auto simp: staged_commit_wf_def tiny_swap_def)

lemma tiny_op_process:
  "process_assisted_message (tiny_env l t) (tiny_state 1 4) (tiny_op_message aad)
   = Ok \<lparr> processed_assisted_message = Commit (tiny_op_processed t aad) tiny_new_info,
          serialized_mls_message = [7] \<rparr>"
  by (simp add: process_assisted_message_def tiny_op_message_def tiny_message_def tiny_state_def
      tiny_op_processed_def resolve_app_data_commit_public_def from_processed_commit_def
      validate_group_info_def Let_def into_verifiable_group_info_def tiny_new_info_def)
     (simp add: tiny_openmls_def)

lemma tiny_op_accept:
  "accept_processed_message (tiny_env True t) now (Commit (tiny_op_processed t aad) tiny_new_info) ex
     (tiny_state 1 4) st
   = Ok (\<lparr> g_public_group = (1, 5), g_group_info = tiny_new_info,
           g_past_group_states = remove_expired_states now ex (add_state now 5 [1, 5]
             (map (\<lambda>kp. ln_signature_key (kp_leaf_node kp)) (sc_add_proposals t)) Map.empty) \<rparr>,
         (tiny_write (1, 5) st)\<lparr> group_info_bytes := (group_info_bytes st)([1, 1] \<mapsto> [1, 1, 5]),
           past_states_bytes := (past_states_bytes st)([1, 1] \<mapsto> [1, 0]) \<rparr>)"
proof -
  have "gc_epoch (tiny_context (1, 5)) = 5" "gc_group_id (tiny_context (1, 5)) = [1]"
    by (simp_all add: tiny_context_def)
  then show ?thesis
    by (simp add: accept_processed_message_def accept_processed_def accept_content_def
        tiny_op_processed_def tiny_state_def tiny_merge Let_def write_group_info_def tiny_new_info_def
        write_past_group_states_def codec_to_vec_def tiny_gi_ser_def tiny_pgs_ser_def tiny_write_def)
qed

lemma tiny_pair_profiles: "profiles_wf (ds_member_profiles tiny_pair_state)"
  by (auto simp: tiny_pair_state_def profiles_wf_def bt_ordered_def bt_keys_def tiny_profile_def)

lemma tiny_validate_swap:
  "\<exists>tv s. validate_t_commit (tiny_env True tiny_swap) (tiny_op_processed tiny_swap aad)
      (Some tiny_swap_info) None None tiny_pair_state = Ok (tv, s)
     \<and> tv_removed_clients tv = [1] \<and> tv_external_sender_information tv = None
     \<and> added_users (tv_added_users_state tv) = zip (zip [tiny_key_package 2] keys) [[6]]
     \<and> s = tiny_pair_state\<lparr> ds_room_state := ds_room_state s \<rparr>"
  if "tiny_aad aad = Ok (AadGroupOperation keys)"
proof -
  have leaf: "om_leaf (tiny_openmls t) g 0 = Some (tiny_leaf 0)"
    "om_leaf (tiny_openmls t) g 1 = Some (tiny_leaf 1)" for t g
    by (simp_all add: tiny_openmls_def)
  from that show ?thesis
    by (cases keys) (simp_all add: validate_t_commit_def tiny_op_processed_def commit_sender_index_def
        leaf_credential_def group_leaf_def tiny_pair_state_def tiny_ds_state_def leaf tiny_leaf_def
        from_basic_credential_def tiny_credential_def validate_adds_def tiny_swap_def tiny_swap_info_def
        validate_added_users_def validate_welcome_only_def tiny_key_package_def joiners_def Let_def
        check_added_user_def room_state_change_role_def external_sender_info_def removed_clients_def
        List.map_filter_simps removed_client_def check_removed_client_def added_users_def)
qed

lemma tiny_swap_run:
  assumes "tiny_aad aad = Ok (AadGroupOperation keys)"
  shows "\<exists>aus s'. process_group_operation (tiny_env True tiny_swap) 100 (tiny_op_message aad)
    (Some tiny_swap_info) tiny_pair_state = Ok (([7], aus), s')"
proof -
  obtain tv s where tv: "validate_t_commit (tiny_env True tiny_swap) (tiny_op_processed tiny_swap aad)
      (Some tiny_swap_info) None None tiny_pair_state = Ok (tv, s)"
    and ext: "tv_external_sender_information tv = None"
    and added: "added_users (tv_added_users_state tv) = zip (zip [tiny_key_package 2] keys) [[6]]"
    and s: "s = tiny_pair_state\<lparr> ds_room_state := ds_room_state s \<rparr>"
    using tiny_validate_swap[OF assms] by blast
  have g: "ds_group s = tiny_state 1 4" "ds_group tiny_pair_state = tiny_state 1 4"
    by (subst s, simp_all add: tiny_pair_state_def tiny_ds_state_def)
  have member: "\<exists>p. new_member_profile (tiny_env True tiny_swap) 100 t ((tiny_key_package 2, k), i) = Ok p" for t k i
    by (simp add: new_member_profile_def Let_def tiny_key_package_def tiny_leaf_def tiny_openmls_def
        QS_CLIENT_REFERENCE_EXTENSION_TYPE_def)
  have "\<exists>ps. collect_res (new_member_profile (tiny_env True tiny_swap) 100 t)
      (added_users (tv_added_users_state tv)) = Ok ps" for t
  proof (cases keys)
    case (Cons k ks)
    then show ?thesis using member[of t k "[6]"] by (auto simp: added)
  qed (simp add: added)
  then have "\<exists>s'. apply_t_validation (tiny_env True tiny_swap) 100 tv t = Ok s'" for t
    by (cases "tv_added_users_state tv") (auto simp: apply_t_validation_def Let_def ext added_users_def
        update_membership_profiles_def result_simps)
  then show ?thesis
    by (simp add: process_group_operation_def g tiny_op_process tv tiny_op_accept result_simps)
qed


theorem external_group_operation_rejected_witness:
  "\<exists>e. validate_t_commit (tiny_env True tiny_swap)
     ((tiny_op_processed tiny_swap [])\<lparr> pr_sender := NewMemberCommit \<rparr>) None None None tiny_pair_state = Err e"
  by (rule external_group_operation_rejected[where sc = "tiny_swap\<lparr> sc_group_context := tiny_context (1, 5) \<rparr>"])
     (auto simp: tiny_op_processed_def staged_commit_wf_def tiny_swap_def)


end
