(* ===== verification/Ds_Membership.thy ===== *)
theory Ds_Membership
  imports Ds_Group_Operation "HOL-Library.Multiset"
begin

text \<open>
  The other operations on a delivery-service group: resync by external commit
  (\<^verbatim>\<open>backend/src/ds/resync.rs\<close>), joining a connection group (\<^verbatim>\<open>join_connection_group.rs\<close>), leaving
  (\<^verbatim>\<open>self_remove.rs\<close>), deletion (\<^verbatim>\<open>delete_group.rs\<close>) and the update of a profile key
  (\<^verbatim>\<open>update_user_profile_key.rs\<close>).

  The facts: what each does to the profiles, that a resync moves the sender's profile to the leaf
  the group gives it, that a deletion request is accepted exactly when it removes everyone else,
  and that every operation keeps the invariant under which a state can be stored and reloaded.
\<close>

section \<open>Errors\<close>

datatype resync_client_error =
  RsInvalidMessage | RsProcessingError | RsMergeCommitError accept_error

datatype join_connection_group_error =
  JcInvalidMessage | JcProcessingError | JcNotAConnectionGroup | JcMergeCommitError accept_error

datatype group_deletion_error =
  GdInvalidMessage | GdProcessingError | GdMergeCommitError accept_error

datatype client_self_removal_error =
  SrInvalidMessage | SrProcessingError | SrWrongEpoch | SrMergeCommitError accept_error

datatype update_user_profile_key_error = UpkUnknownSender

fun self_removal_error_of :: "process_assisted_message_error \<Rightarrow> client_self_removal_error" where
  "self_removal_error_of InvalidAssistedMessage = SrInvalidMessage"
| "self_removal_error_of (GroupInfoValidation _) = SrInvalidMessage"
| "self_removal_error_of (PamLibraryError _) = SrProcessingError"
| "self_removal_error_of (ProcessMessageError (ValidationError ValidationLibraryError)) = SrProcessingError"
| "self_removal_error_of (ProcessMessageError (ValidationError WrongEpoch)) = SrWrongEpoch"
| "self_removal_error_of (ProcessMessageError (ValidationError OtherValidationError)) = SrInvalidMessage"
| "self_removal_error_of (ProcessMessageError OtherProcessMessageError) = SrProcessingError"
| "self_removal_error_of (AppDataUpdateError _) = SrProcessingError"


section \<open>Resync\<close>

text \<open>\<^verbatim>\<open>Iterator::position\<close> and \<^verbatim>\<open>Vec::swap_remove\<close>.\<close>

fun position :: "('a \<Rightarrow> bool) \<Rightarrow> 'a list \<Rightarrow> nat option" where
  "position P [] = None"
| "position P (x # xs) = (if P x then Some 0 else map_option Suc (position P xs))"

definition swap_remove :: "nat \<Rightarrow> 'a list \<Rightarrow> 'a list" where
  "swap_remove i xs = butlast (xs[i := last xs])"

definition change_removed_roles_to_outsider :: "('pg, 'rt, 'rs, 'z) ds_env_scheme \<Rightarrow> user_id \<Rightarrow>
    leaf_index list \<Rightarrow> ('pg, 'rt, 'rs) ds_group_state \<Rightarrow>
    resync_client_error + ('pg, 'rt, 'rs) ds_group_state" where
  "change_removed_roles_to_outsider env sender removed_indices s =
     fold_res (\<lambda>removed_index s.
       and_then (ok_or RsInvalidMessage (leaf_credential env s removed_index)) (\<lambda>removed.
       ok_or RsInvalidMessage (room_state_change_role env sender removed Outsider s)))
       removed_indices s"

definition rekey_sender_profile :: "leaf_index \<Rightarrow> leaf_index \<Rightarrow> ('pg, 'rt, 'rs) ds_group_state \<Rightarrow>
    ('pg, 'rt, 'rs) ds_group_state" where
  "rekey_sender_profile old_index new_index s =
     (if new_index = old_index then s
      else case bt_get (ds_member_profiles s) old_index of
        None \<Rightarrow> s
      | Some profile \<Rightarrow>
          s\<lparr> ds_member_profiles := bt_insert new_index (profile\<lparr> mp_leaf_index := new_index \<rparr>)
               (bt_remove old_index (ds_member_profiles s)) \<rparr>)"

definition resync_client :: "('pg, 'rt, 'rs, 'z) ds_env_scheme \<Rightarrow> time \<Rightarrow> assisted_message_in \<Rightarrow>
    leaf_index \<Rightarrow> ('pg, 'rt, 'rs) ds_group_state \<Rightarrow>
    resync_client_error + bytes \<times> ('pg, 'rt, 'rs) ds_group_state" where
  "resync_client env now external_commit sender_index s =
     and_then (map_err (\<lambda>_. RsProcessingError)
       (process_assisted_message env (ds_group s) external_commit)) (\<lambda>processed.
     case processed_assisted_message processed of
       Commit pm gi \<Rightarrow>
         and_then (case pr_content pm of StagedCommitMessage sc \<Rightarrow> Ok sc | _ \<Rightarrow> Err RsInvalidMessage) (\<lambda>sc.
         and_then (ensure (pr_sender pm = NewMemberCommit) RsInvalidMessage) (\<lambda>_.
         and_then (ensure (list_ex (\<lambda>removed. removed = sender_index) (sc_remove_proposals sc))
           RsInvalidMessage) (\<lambda>_.
         and_then (ok_or RsInvalidMessage (leaf_credential env s sender_index)) (\<lambda>sender.
         and_then (ok_or RsInvalidMessage
           (position (\<lambda>index. index = sender_index) (removed_clients sc))) (\<lambda>sender_index_pos.
         let removed_indices = swap_remove sender_index_pos (removed_clients sc) in
         and_then (change_removed_roles_to_outsider env sender removed_indices s) (\<lambda>s.
         and_then (map_err (\<lambda>_. RsInvalidMessage)
           (om_ext_commit_sender_index env (g_public_group (ds_group s)) sc)) (\<lambda>new_sender_index.
         and_then (map_err RsMergeCommitError (accept_processed_message env now (Commit pm gi)
           (duration_days USER_EXPIRATION_DAYS) (ds_group s) (ds_storage s))) (\<lambda>(g, st).
         Ok (serialized_mls_message processed,
             rekey_sender_profile sender_index new_sender_index
               (remove_profiles removed_indices (s\<lparr> ds_group := g, ds_storage := st \<rparr>)))))))))))
     | _ \<Rightarrow> Err RsInvalidMessage)"

definition apq_resync_client :: "('pg, 'rt, 'rs, 'z) ds_env_scheme \<Rightarrow> time \<Rightarrow> assisted_message_in \<Rightarrow>
    assisted_message_in \<Rightarrow> leaf_index \<Rightarrow> ('pg, 'rt, 'rs) ds_group_state \<Rightarrow>
    ('pg, 'rt, 'rs) ds_group_state \<Rightarrow>
    resync_client_error + bytes \<times> ('pg, 'rt, 'rs) ds_group_state \<times> ('pg, 'rt, 'rs) ds_group_state" where
  "apq_resync_client env now t_message pq_message t_sender_index t_state pq_state =
     and_then (map_err (\<lambda>_. RsProcessingError) (process_apq_assisted_message env (ds_group t_state)
         (ds_group pq_state) t_message pq_message (\<lambda>_ _. True))) (\<lambda>processed.
     let m = apq_processed_assisted_message processed;
         t_processed = apq_t_message (apam_processed_message m);
         pq_processed = apq_pq_message (apam_processed_message m) in
     and_then (case (pr_content t_processed, pr_content pq_processed) of
         (StagedCommitMessage t_sc, StagedCommitMessage pq_sc) \<Rightarrow> Ok (t_sc, pq_sc)
       | _ \<Rightarrow> Err RsInvalidMessage) (\<lambda>(t_sc, pq_sc).
     and_then (ensure (pr_sender t_processed = NewMemberCommit \<and> pr_sender pq_processed = NewMemberCommit)
       RsInvalidMessage) (\<lambda>_.
     and_then (ok_or RsInvalidMessage (sc_update_path_leaf_node t_sc)) (\<lambda>t_leaf.
     and_then (ok_or RsInvalidMessage (sc_update_path_leaf_node pq_sc)) (\<lambda>pq_leaf.
     and_then (ensure (ln_signature_key t_leaf = ln_signature_key pq_leaf) RsInvalidMessage) (\<lambda>_.
     and_then (ok_or RsInvalidMessage (leaf_credential env t_state t_sender_index)) (\<lambda>t_sender.
     let t_removed = sort (removed_clients t_sc); pq_removed = sort (removed_clients pq_sc) in
     and_then (ensure (t_removed = pq_removed) RsInvalidMessage) (\<lambda>_.
     and_then (ok_or RsInvalidMessage (position (\<lambda>index. index = t_sender_index) t_removed)) (\<lambda>pos.
     let t_removed = swap_remove pos t_removed in
     and_then (change_removed_roles_to_outsider env t_sender t_removed t_state) (\<lambda>t_state.
     and_then (map_err (\<lambda>_. RsInvalidMessage)
       (om_ext_commit_sender_index env (g_public_group (ds_group t_state)) t_sc)) (\<lambda>t_new.
     and_then (map_err (\<lambda>_. RsInvalidMessage)
       (om_ext_commit_sender_index env (g_public_group (ds_group pq_state)) pq_sc)) (\<lambda>pq_new.
     and_then (ensure (t_new = pq_new) RsInvalidMessage) (\<lambda>_.
     and_then (map_err RsMergeCommitError (accept_apq_processed_message env now m
         (duration_days USER_EXPIRATION_DAYS) (ds_group t_state, ds_storage t_state)
         (ds_group pq_state, ds_storage pq_state))) (\<lambda>((t_g, t_st), (pq_g, pq_st)).
     Ok (serialized_apq_message processed,
         rekey_sender_profile t_sender_index t_new
           (remove_profiles t_removed (t_state\<lparr> ds_group := t_g, ds_storage := t_st \<rparr>)),
         pq_state\<lparr> ds_group := pq_g, ds_storage := pq_st \<rparr>)))))))))))))))"


section \<open>Joining a connection group\<close>

definition join_connection_group :: "('pg, 'rt, 'rs, 'z) ds_env_scheme \<Rightarrow> time \<Rightarrow>
    assisted_message_in \<Rightarrow> qs_reference \<Rightarrow> ('pg, 'rt, 'rs) ds_group_state \<Rightarrow>
    join_connection_group_error + bytes \<times> ('pg, 'rt, 'rs) ds_group_state" where
  "join_connection_group env now external_commit qs_client_reference s =
     and_then (map_err (\<lambda>_. JcProcessingError)
       (process_assisted_message env (ds_group s) external_commit)) (\<lambda>processed.
     case processed_assisted_message processed of
       Commit pm gi \<Rightarrow>
         and_then (case pr_content pm of
             StagedCommitMessage sc \<Rightarrow>
               ensure (\<not> (length (sc_add_proposals sc) > 0 \<or> length (sc_update_proposals sc) > 0
                          \<or> length (sc_remove_proposals sc) > 0)) JcInvalidMessage
           | _ \<Rightarrow> Err JcInvalidMessage) (\<lambda>_.
         and_then (map_err (\<lambda>_. JcInvalidMessage) (env_aad_de env (pr_aad pm))) (\<lambda>aad.
         and_then (case aad of AadJoinConnectionGroup p \<Rightarrow> Ok p | _ \<Rightarrow> Err JcInvalidMessage) (\<lambda>aad_payload.
         and_then (ensure (\<not> length (ds_member_profiles s) > 1) JcNotAConnectionGroup) (\<lambda>_.
         and_then (map_err JcMergeCommitError (accept_processed_message env now (Commit pm gi)
           (duration_days USER_EXPIRATION_DAYS) (ds_group s) (ds_storage s))) (\<lambda>(g, st).
         let s = s\<lparr> ds_group := g, ds_storage := st \<rparr> in
         and_then (ok_or JcProcessingError (find (\<lambda>m. m_credential m = pr_credential pm)
           (om_members env (g_public_group g)))) (\<lambda>member.
         let sender = m_index member;
             member_profile = \<lparr> mp_leaf_index = sender, mp_client_queue_config = qs_client_reference,
               mp_activity_time = now, mp_activity_epoch = group_epoch_of env g,
               mp_encrypted_user_profile_key = jaad_encrypted_user_profile_key aad_payload \<rparr>
         in Ok (serialized_mls_message processed,
                s\<lparr> ds_member_profiles := bt_insert sender member_profile (ds_member_profiles s) \<rparr>)))))))
     | _ \<Rightarrow> Err JcInvalidMessage)"


section \<open>Leaving\<close>

definition self_remove_client_inner :: "('pg, 'rt, 'rs, 'z) ds_env_scheme \<Rightarrow> time \<Rightarrow>
    assisted_message_in \<Rightarrow> ('pg, 'rt, 'rs) ds_group_state \<Rightarrow>
    client_self_removal_error + (leaf_node \<times> bytes) \<times> ('pg, 'rt, 'rs) ds_group_state" where
  "self_remove_client_inner env now proposal_msg s =
     and_then (map_err self_removal_error_of
       (process_assisted_message env (ds_group s) proposal_msg)) (\<lambda>processed.
     and_then (case processed_assisted_message processed of
         NonCommit pm \<Rightarrow> Ok pm | _ \<Rightarrow> Err SrInvalidMessage) (\<lambda>pm.
     and_then (case pr_sender pm of Member i \<Rightarrow> Ok i | _ \<Rightarrow> Err SrInvalidMessage) (\<lambda>sender_index.
     and_then (case pr_content pm of ProposalMessage qp \<Rightarrow> Ok qp | _ \<Rightarrow> Err SrInvalidMessage) (\<lambda>qp.
     and_then (ensure (qp_proposal qp = SelfRemove) SrInvalidMessage) (\<lambda>_.
     and_then (map_err SrMergeCommitError (accept_processed_message env now (NonCommit pm)
       (duration_days USER_EXPIRATION_DAYS) (ds_group s) (ds_storage s))) (\<lambda>(g, st).
     let s = s\<lparr> ds_group := g, ds_storage := st,
               ds_proposals := ds_proposals s @ [serialized_mls_message processed] \<rparr> in
     and_then (ok_or SrInvalidMessage (group_leaf env g sender_index)) (\<lambda>sender_leaf.
     Ok ((sender_leaf, serialized_mls_message processed), s))))))))"

definition self_remove_client :: "('pg, 'rt, 'rs, 'z) ds_env_scheme \<Rightarrow> time \<Rightarrow> assisted_message_in \<Rightarrow>
    ('pg, 'rt, 'rs) ds_group_state \<Rightarrow>
    client_self_removal_error + bytes \<times> ('pg, 'rt, 'rs) ds_group_state" where
  "self_remove_client env now proposal_msg s =
     and_then (self_remove_client_inner env now proposal_msg s) (\<lambda>((sender_leaf, serialized), s).
     and_then (map_err (\<lambda>_. SrInvalidMessage)
       (from_basic_credential env (ln_credential sender_leaf))) (\<lambda>sender.
     and_then (ok_or SrInvalidMessage (room_state_change_role env sender sender Outsider s)) (\<lambda>s.
     Ok (serialized, s))))"

definition self_remove_client_without_room_state :: "('pg, 'rt, 'rs, 'z) ds_env_scheme \<Rightarrow> time \<Rightarrow>
    assisted_message_in \<Rightarrow> ('pg, 'rt, 'rs) ds_group_state \<Rightarrow>
    client_self_removal_error + bytes \<times> ('pg, 'rt, 'rs) ds_group_state" where
  "self_remove_client_without_room_state env now proposal_msg s =
     and_then (self_remove_client_inner env now proposal_msg s) (\<lambda>((_, serialized), s).
     Ok (serialized, s))"


section \<open>Deletion\<close>

datatype membership_check = CheckMemberProfiles | CheckRatchetTree

definition delete_group_inner :: "('pg, 'rt, 'rs, 'z) ds_env_scheme \<Rightarrow> assisted_message_in \<Rightarrow>
    membership_check \<Rightarrow> ('pg, 'rt, 'rs) ds_group_state \<Rightarrow>
    group_deletion_error + bytes \<times> ('pg, 'rt, 'rs) ds_group_state" where
  "delete_group_inner env commit check s =
     and_then (map_err (\<lambda>_. GdProcessingError)
       (process_assisted_message env (ds_group s) commit)) (\<lambda>processed.
     case processed_assisted_message processed of
       Commit pm gi \<Rightarrow>
         and_then (case pr_sender pm of Member i \<Rightarrow> Ok i | _ \<Rightarrow> Err GdInvalidMessage) (\<lambda>sender_index.
         and_then (case pr_content pm of
             StagedCommitMessage sc \<Rightarrow>
               and_then (ensure (\<not> (length (sc_add_proposals sc) > 0
                 \<or> length (sc_update_proposals sc) > 0)) GdInvalidMessage) (\<lambda>_.
               let removed = sort (removed_clients sc);
                   existing = (case check of
                     CheckMemberProfiles \<Rightarrow>
                       filter (\<lambda>index. index \<noteq> sender_index) (bt_keys (ds_member_profiles s))
                   | CheckRatchetTree \<Rightarrow>
                       filter (\<lambda>index. index \<noteq> sender_index)
                         (map m_index (om_members env (g_public_group (ds_group s)))))
               in ensure (removed = existing) GdInvalidMessage)
           | _ \<Rightarrow> Err GdInvalidMessage) (\<lambda>_.
         Ok (serialized_mls_message processed, s)))
     | _ \<Rightarrow> Err GdInvalidMessage)"

definition ds_delete_group where
  "ds_delete_group env commit = delete_group_inner env commit CheckMemberProfiles"

definition ds_delete_pq_group where
  "ds_delete_pq_group env commit = delete_group_inner env commit CheckRatchetTree"


section \<open>Profile keys\<close>

definition update_user_profile_key :: "time \<Rightarrow> leaf_index \<Rightarrow> encrypted_user_profile_key \<Rightarrow>
    ('pg, 'rt, 'rs) ds_group_state \<Rightarrow>
    update_user_profile_key_error + ('pg, 'rt, 'rs) ds_group_state" where
  "update_user_profile_key now sender_index key s =
     and_then (ok_or UpkUnknownSender (bt_get (ds_member_profiles s) sender_index)) (\<lambda>profile.
     Ok (s\<lparr> ds_member_profiles := bt_insert sender_index
              (profile\<lparr> mp_encrypted_user_profile_key := key, mp_activity_time := now \<rparr>)
              (ds_member_profiles s) \<rparr>))"


section \<open>Facts on the list operations\<close>

lemma position_SomeD: "position P xs = Some i \<Longrightarrow> i < length xs \<and> P (xs ! i)"
  by (induction xs arbitrary: i) (auto split: if_splits)

lemma mset_swap_remove:
  assumes "i < length xs"
  shows "mset (swap_remove i xs) = mset xs - {# xs ! i #}"
proof -
  have ne: "xs[i := last xs] \<noteq> []" using assms by auto
  have "last (xs[i := last xs]) = last xs" using assms by (cases "xs = []") (auto simp: last_list_update)
  then have "mset (xs[i := last xs]) = add_mset (last xs) (mset (swap_remove i xs))"
    using append_butlast_last_id[OF ne] by (metis mset_append mset.simps add_mset_add_single swap_remove_def)
  then show ?thesis using assms by (simp add: mset_update)
qed

lemma swap_remove_distinct:
  assumes "position (\<lambda>x. x = a) xs = Some i" "distinct xs"
  shows "set (swap_remove i xs) = set xs - {a}"
proof -
  have i: "i < length xs" "xs ! i = a" using position_SomeD[OF assms(1)] by auto
  have "mset_set (set xs - {a}) = mset_set (set xs) - mset_set {a}"
    using i by (intro mset_set_Diff) auto
  then have "mset xs - {# a #} = mset_set (set xs - {a})"
    using assms(2) by (simp add: mset_set_set)
  then have "set_mset (mset (swap_remove i xs)) = set xs - {a}"
    using mset_swap_remove[OF i(1)] i(2) by simp
  then show ?thesis by simp
qed


section \<open>Frames\<close>

lemma change_removed_roles_frame:
  assumes "change_removed_roles_to_outsider env sender is s = Ok s'"
  shows "ds_group s' = ds_group s \<and> ds_storage s' = ds_storage s
    \<and> ds_member_profiles s' = ds_member_profiles s \<and> ds_proposals s' = ds_proposals s"
  using assms unfolding change_removed_roles_to_outsider_def
  by (rule fold_res_invariant) (auto simp: result_simps dest: room_state_change_role_frame)

lemma rekey_sender_profile_simps [simp]:
  "ds_group (rekey_sender_profile old new s) = ds_group s"
  "ds_storage (rekey_sender_profile old new s) = ds_storage s"
  "ds_proposals (rekey_sender_profile old new s) = ds_proposals s"
  by (simp_all add: rekey_sender_profile_def split: option.splits)

lemma rekey_sender_profile_get:
  "bt_get (ds_member_profiles (rekey_sender_profile old new s)) k =
     (case bt_get (ds_member_profiles s) old of
        None \<Rightarrow> bt_get (ds_member_profiles s) k
      | Some p \<Rightarrow> if new = old then bt_get (ds_member_profiles s) k
          else if k = new then Some (p\<lparr> mp_leaf_index := new \<rparr>)
          else if k = old then None else bt_get (ds_member_profiles s) k)"
  by (simp add: rekey_sender_profile_def split: option.splits)

lemma profiles_wf_rekey [inv_intros]:
  "profiles_wf (ds_member_profiles s) \<Longrightarrow> profiles_wf (ds_member_profiles (rekey_sender_profile old new s))"
  by (auto simp: rekey_sender_profile_def intro!: inv_intros split: option.splits)

lemma resync_client_Ok:
  assumes "resync_client env now commit sender s = Ok (msg, s')"
  obtains pm gi sc pos t n where
    "process_assisted_message env (ds_group s) commit
       = Ok \<lparr> processed_assisted_message = Commit pm gi, serialized_mls_message = msg \<rparr>"
    "pr_content pm = StagedCommitMessage sc" "pr_sender pm = NewMemberCommit"
    "position (\<lambda>i. i = sender) (removed_clients sc) = Some pos"
    "om_ext_commit_sender_index env (g_public_group (ds_group s)) sc = Ok n"
    "accept_processed_message env now (Commit pm gi) (duration_days USER_EXPIRATION_DAYS)
       (ds_group s) (ds_storage s) = Ok (ds_group s', ds_storage s')"
    "ds_member_profiles s' = ds_member_profiles (rekey_sender_profile sender n
       (remove_profiles (swap_remove pos (removed_clients sc)) s))"
    "ds_proposals s' = ds_proposals s"
proof -
  from assms obtain res pm gi sc pos t n g st usr where
    res: "process_assisted_message env (ds_group s) commit = Ok res"
      "processed_assisted_message res = Commit pm gi" "serialized_mls_message res = msg"
    and a: "pr_content pm = StagedCommitMessage sc" "pr_sender pm = NewMemberCommit"
    and pos: "position (\<lambda>i. i = sender) (removed_clients sc) = Some pos"
    and t: "change_removed_roles_to_outsider env usr (swap_remove pos (removed_clients sc)) s = Ok t"
    and n: "om_ext_commit_sender_index env (g_public_group (ds_group t)) sc = Ok n"
    and acc: "accept_processed_message env now (Commit pm gi) (duration_days USER_EXPIRATION_DAYS)
       (ds_group t) (ds_storage t) = Ok (g, st)"
    and s': "s' = rekey_sender_profile sender n (remove_profiles (swap_remove pos (removed_clients sc))
       (t\<lparr> ds_group := g, ds_storage := st \<rparr>))"
    by (auto simp: resync_client_def result_simps Let_def)
  note frame = change_removed_roles_frame[OF t]
  have "res = \<lparr> processed_assisted_message = Commit pm gi, serialized_mls_message = msg \<rparr>"
    using res(2,3) by (cases res) simp
  moreover have "ds_member_profiles s' = ds_member_profiles (rekey_sender_profile sender n
       (remove_profiles (swap_remove pos (removed_clients sc)) s))"
    using frame unfolding s' by (simp add: rekey_sender_profile_def remove_profiles_def split: option.splits)
  ultimately show ?thesis
    using that[of pm gi sc pos n] res(1) a pos n acc frame by (simp add: s')
qed

lemma delete_group_inner_Ok:
  assumes "delete_group_inner env commit check s = Ok (msg, s')"
  obtains pm gi sc i where
    "process_assisted_message env (ds_group s) commit
       = Ok \<lparr> processed_assisted_message = Commit pm gi, serialized_mls_message = msg \<rparr>"
    "pr_content pm = StagedCommitMessage sc" "pr_sender pm = Member i"
    "sc_add_proposals sc = []" "sc_update_proposals sc = []"
    "sort (removed_clients sc) = filter (\<lambda>k. k \<noteq> i) (case check of
       CheckMemberProfiles \<Rightarrow> bt_keys (ds_member_profiles s)
     | CheckRatchetTree \<Rightarrow> map m_index (om_members env (g_public_group (ds_group s))))"
    "s' = s"
proof -
  from assms obtain res pm gi i sc where
    res: "process_assisted_message env (ds_group s) commit = Ok res"
      "processed_assisted_message res = Commit pm gi" "serialized_mls_message res = msg"
    and s': "s' = s"
    and rest: "pr_content pm = StagedCommitMessage sc" "pr_sender pm = Member i"
      "sc_add_proposals sc = []" "sc_update_proposals sc = []"
    and removed: "sort (removed_clients sc) = (case check of
         CheckMemberProfiles \<Rightarrow> filter (\<lambda>k. k \<noteq> i) (bt_keys (ds_member_profiles s))
       | CheckRatchetTree \<Rightarrow> filter (\<lambda>k. k \<noteq> i)
           (map m_index (om_members env (g_public_group (ds_group s)))))"
    by (auto simp: delete_group_inner_def result_simps Let_def)
  have "res = \<lparr> processed_assisted_message = Commit pm gi, serialized_mls_message = msg \<rparr>"
    using res(2,3) by (cases res) simp
  with res(1) have "process_assisted_message env (ds_group s) commit
      = Ok \<lparr> processed_assisted_message = Commit pm gi, serialized_mls_message = msg \<rparr>" by simp
  then show ?thesis using rest
    by (rule that) (use removed s' in \<open>simp_all split: membership_check.splits\<close>)
qed


section \<open>Properties\<close>

text \<open>
  A resync keeps the profiles in step with the group.  The message is an external commit that
  removes the sender's old leaf; afterwards the sender's profile is at the leaf the group assigns
  to the rejoined client, carrying that leaf's index, and at every other leaf the profile is gone
  if the commit removed it and unchanged otherwise.
\<close>

theorem resync_moves_sender_profile:
  assumes "profiles_wf (ds_member_profiles s)"
    and "resync_client env now commit sender s = Ok (msg, s')"
  shows "\<exists>pm gi sc n. process_assisted_message env (ds_group s) commit
        = Ok \<lparr> processed_assisted_message = Commit pm gi, serialized_mls_message = msg \<rparr>
    \<and> pr_content pm = StagedCommitMessage sc \<and> pr_sender pm = NewMemberCommit
    \<and> sender \<in> set (removed_clients sc)
    \<and> om_ext_commit_sender_index env (g_public_group (ds_group s)) sc = Ok n
    \<and> profiles_wf (ds_member_profiles s')
    \<and> (distinct (removed_clients sc) \<longrightarrow>
        (\<forall>p. bt_get (ds_member_profiles s) sender = Some p \<longrightarrow>
           bt_get (ds_member_profiles s') n = Some (p\<lparr> mp_leaf_index := n \<rparr>))
        \<and> (\<forall>k. k \<noteq> n \<longrightarrow> bt_get (ds_member_profiles s') k
             = (if k \<in> set (removed_clients sc) then None else bt_get (ds_member_profiles s) k)))"
proof -
  obtain pm gi sc pos n where
    op: "process_assisted_message env (ds_group s) commit
       = Ok \<lparr> processed_assisted_message = Commit pm gi, serialized_mls_message = msg \<rparr>"
      "pr_content pm = StagedCommitMessage sc" "pr_sender pm = NewMemberCommit"
    and pos: "position (\<lambda>i. i = sender) (removed_clients sc) = Some pos"
    and n: "om_ext_commit_sender_index env (g_public_group (ds_group s)) sc = Ok n"
    and profiles: "ds_member_profiles s' = ds_member_profiles (rekey_sender_profile sender n
       (remove_profiles (swap_remove pos (removed_clients sc)) s))"
    using resync_client_Ok[OF assms(2)] .
  have "sender \<in> set (removed_clients sc)"
    using position_SomeD[OF pos] by (auto simp: in_set_conv_nth)
  moreover have "profiles_wf (ds_member_profiles s')"
    unfolding profiles using assms(1) by (intro inv_intros)
  moreover have "(\<forall>p. bt_get (ds_member_profiles s) sender = Some p \<longrightarrow>
           bt_get (ds_member_profiles s') n = Some (p\<lparr> mp_leaf_index := n \<rparr>))
        \<and> (\<forall>k. k \<noteq> n \<longrightarrow> bt_get (ds_member_profiles s') k
             = (if k \<in> set (removed_clients sc) then None else bt_get (ds_member_profiles s) k))"
    if "distinct (removed_clients sc)"
    using calculation(1) profiles_wf_get[OF assms(1), of sender]
    by (auto simp: profiles rekey_sender_profile_get swap_remove_distinct[OF pos that]
        split: option.splits)
  ultimately show ?thesis using op n by blast
qed

text \<open>
  (C24) A request to delete a group passes only as a commit of a member that removes exactly the
  other members with a profile, each once, and adds or updates nobody; the operation itself leaves
  the group state as it is.
\<close>

theorem delete_removes_all_other_members:
  assumes "profiles_wf (ds_member_profiles s)"
    and "ds_delete_group env commit s = Ok (msg, s')"
  shows "\<exists>pm gi sc i. process_assisted_message env (ds_group s) commit
        = Ok \<lparr> processed_assisted_message = Commit pm gi, serialized_mls_message = msg \<rparr>
    \<and> pr_content pm = StagedCommitMessage sc \<and> pr_sender pm = Member i
    \<and> sc_add_proposals sc = [] \<and> sc_update_proposals sc = []
    \<and> distinct (removed_clients sc)
    \<and> set (removed_clients sc) = {k. k \<noteq> i \<and> bt_get (ds_member_profiles s) k \<noteq> None}
    \<and> s' = s"
proof -
  obtain pm gi sc i where
    op: "process_assisted_message env (ds_group s) commit
       = Ok \<lparr> processed_assisted_message = Commit pm gi, serialized_mls_message = msg \<rparr>"
      "pr_content pm = StagedCommitMessage sc" "pr_sender pm = Member i"
      "sc_add_proposals sc = []" "sc_update_proposals sc = []"
    and removed: "sort (removed_clients sc) = filter (\<lambda>k. k \<noteq> i) (bt_keys (ds_member_profiles s))"
    and s': "s' = s"
    using delete_group_inner_Ok[OF assms(2)[unfolded ds_delete_group_def], unfolded membership_check.case] .
  have "distinct (sort (removed_clients sc))"
    unfolding removed using bt_ordered_distinct[OF profiles_wf_ordered[OF assms(1)]] by simp
  moreover have "set (removed_clients sc) = {k. k \<noteq> i \<and> bt_get (ds_member_profiles s) k \<noteq> None}"
    using arg_cong[OF removed, of set] by (auto simp: bt_get_None_iff)
  ultimately show ?thesis using op s' by auto
qed


section \<open>Witnesses\<close>

definition tiny_resync :: staged_commit where
  "tiny_resync = tiny_commit\<lparr> sc_remove_proposals := [1],
     sc_queued_proposals := [\<lparr> qp_proposal = Remove 1, qp_sender = NewMemberCommit \<rparr>] \<rparr>"

definition tiny_external_message :: assisted_message_in where
  "tiny_external_message =
     \<lparr> am_mls_message = PublicMessage ((tiny_message ContentCommit 1 4 0)\<lparr> pm_sender := NewMemberCommit \<rparr>),
       am_serialized_mls_message = [7],
       am_group_info_option = Some \<lparr> agi_extensions = [], agi_signature = [0] \<rparr> \<rparr>"

lemma tiny_external_process:
  "process_assisted_message (tiny_env l tiny_resync) (tiny_state 1 4) tiny_external_message
   = Ok \<lparr> processed_assisted_message = Commit
            ((tiny_op_processed tiny_resync [])\<lparr> pr_sender := NewMemberCommit \<rparr>) tiny_new_info,
          serialized_mls_message = [7] \<rparr>"
  by (simp add: process_assisted_message_def tiny_external_message_def tiny_message_def tiny_state_def
      tiny_op_processed_def resolve_app_data_commit_public_def from_processed_commit_def
      validate_group_info_def Let_def into_verifiable_group_info_def tiny_new_info_def)
     (simp add: tiny_openmls_def tiny_resync_def tiny_commit_def tiny_leaf_def)

lemma tiny_resync_run:
  "\<exists>s'. resync_client (tiny_env True tiny_resync) 100 tiny_external_message 1 tiny_ds_state = Ok ([7], s')"
proof -
  have leaf: "om_leaf (tiny_openmls t) g 1 = Some (tiny_leaf 1)"
    "om_ext_commit_sender_index (tiny_openmls t) g sc = Ok 3" for t g sc
    by (simp_all add: tiny_openmls_def)
  have "accept_processed_message env now
      (Commit (pm\<lparr> pr_sender := x \<rparr>) gi) ex g st = accept_processed_message env now (Commit pm gi) ex g st"
    for env :: "(tiny_group, bytes, bytes) ds_env" and now pm x gi ex g st
    by (simp add: accept_processed_message_def accept_processed_def accept_content_def)
  moreover have "removed_clients (tiny_resync\<lparr> sc_group_context := c \<rparr>) = [1]" for c
    by (simp add: removed_clients_def tiny_resync_def List.map_filter_simps removed_client_def)
  moreover have "sc_remove_proposals tiny_resync = [1]" by (simp add: tiny_resync_def)
  moreover have "pr_content (tiny_op_processed tiny_resync []) =
      StagedCommitMessage (tiny_resync\<lparr> sc_group_context := tiny_context (1, 5) \<rparr>)"
    by (simp add: tiny_op_processed_def)
  moreover have "ds_group tiny_ds_state = tiny_state 1 4" by (simp add: tiny_ds_state_def)
  ultimately show ?thesis
    by (simp add: resync_client_def tiny_external_process leaf_credential_def group_leaf_def leaf
        tiny_leaf_def from_basic_credential_def tiny_credential_def swap_remove_def
        change_removed_roles_to_outsider_def tiny_op_accept)
qed

theorem resync_moves_sender_profile_witness:
  "\<exists>s'. resync_client (tiny_env True tiny_resync) 100 tiny_external_message 1 tiny_ds_state = Ok ([7], s')
     \<and> bt_get (ds_member_profiles s') 3 = Some ((tiny_profile 1)\<lparr> mp_leaf_index := 3 \<rparr>)
     \<and> bt_get (ds_member_profiles s') 1 = None"
proof -
  obtain s' where run: "resync_client (tiny_env True tiny_resync) 100 tiny_external_message 1 tiny_ds_state
      = Ok ([7], s')" using tiny_resync_run by blast
  have wf: "profiles_wf (ds_member_profiles tiny_ds_state)"
    using tiny_ds_state_ok by (simp add: ds_state_ok_def)
  have n: "om_ext_commit_sender_index (tiny_env l t) g sc = Ok 3" for l t g sc
    by (simp add: tiny_openmls_def)
  have g: "ds_group tiny_ds_state = tiny_state 1 4" by (simp add: tiny_ds_state_def)
  have removed: "removed_clients (tiny_resync\<lparr> sc_group_context := c \<rparr>) = [1]" for c
    by (simp add: removed_clients_def tiny_resync_def List.map_filter_simps removed_client_def)
  have p: "bt_get (ds_member_profiles tiny_ds_state) 1 = Some (tiny_profile 1)"
    by (simp add: tiny_ds_state_def bt_get_def)
  from resync_moves_sender_profile[OF wf run] show ?thesis
    using run p unfolding n g tiny_external_process
    by (auto simp: tiny_op_processed_def removed)
qed

definition tiny_farewell :: staged_commit where
  "tiny_farewell = tiny_commit\<lparr> sc_remove_proposals := [2, 1],
     sc_queued_proposals := [\<lparr> qp_proposal = Remove 2, qp_sender = Member 0 \<rparr>,
       \<lparr> qp_proposal = Remove 1, qp_sender = Member 0 \<rparr>] \<rparr>"

theorem delete_removes_all_other_members_witness:
  "ds_delete_group (tiny_env True tiny_farewell) (tiny_op_message []) tiny_ds_state = Ok ([7], tiny_ds_state)
   \<and> (\<exists>sc. set (removed_clients sc) = {k. k \<noteq> 0 \<and> bt_get (ds_member_profiles tiny_ds_state) k \<noteq> None})"
proof -
  have wf: "profiles_wf (ds_member_profiles tiny_ds_state)"
    using tiny_ds_state_ok by (simp add: ds_state_ok_def)
  have g: "ds_group tiny_ds_state = tiny_state 1 4" by (simp add: tiny_ds_state_def)
  have run: "ds_delete_group (tiny_env True tiny_farewell) (tiny_op_message []) tiny_ds_state
      = Ok ([7], tiny_ds_state)"
    by (simp add: ds_delete_group_def delete_group_inner_def g tiny_op_process)
       (simp add: tiny_op_processed_def tiny_farewell_def tiny_commit_def removed_clients_def
         List.map_filter_simps removed_client_def tiny_ds_state_def bt_keys_def word_le_nat_alt)
  from delete_removes_all_other_members[OF wf run] show ?thesis
    using run unfolding g tiny_op_process by (auto simp: tiny_op_processed_def)
qed

end
