(* ===== verification/Ds_Invariant.thy ===== *)
theory Ds_Invariant
  imports Ds_Membership
begin

text \<open>
  The invariant of a delivery-service group state, kept by every operation: the storage inside the
  state holds the group of the state under the id of its group info, the group is in the context
  its group info describes, and the profiles are ordered and stored under their own leaf.  It is
  what makes a stored state readable: the unwrap in \<open>into_group_state\<close> cannot fail for it.

  The hypothesis \<open>ds_env_ok\<close> collects the documented behaviour of the library and of the codecs.
\<close>

section \<open>The invariant\<close>

definition ds_env_ok :: "('pg, 'rt, 'rs, 'z) ds_env_scheme \<Rightarrow> bool" where
  "ds_env_ok env = (storage_backed env \<and> group_codecs_correct env \<and> ds_codecs_correct env)"

definition ds_inv :: "('pg, 'rt, 'rs, 'z) ds_env_scheme \<Rightarrow> ('pg, 'rt, 'rs) ds_group_state \<Rightarrow> bool" where
  "ds_inv env s =
     (ds_state_ok env s
      \<and> om_group_context env (g_public_group (ds_group s)) = gi_group_context (g_group_info (ds_group s)))"

lemma ds_env_okD:
  "ds_env_ok env \<Longrightarrow> storage_backed env" "ds_env_ok env \<Longrightarrow> group_codecs_correct env"
  "ds_env_ok env \<Longrightarrow> ds_codecs_correct env"
  by (simp_all add: ds_env_ok_def)

lemma ds_inv_profiles: "ds_inv env s \<Longrightarrow> profiles_wf (ds_member_profiles s)"
  by (simp add: ds_inv_def ds_state_ok_def)

text \<open>Room state, profiles and pending proposals can change freely as long as profiles stay in order.\<close>

lemma ds_inv_same_group:
  assumes "ds_inv env s" "ds_group s' = ds_group s" "ds_storage s' = ds_storage s"
    "profiles_wf (ds_member_profiles s')"
  shows "ds_inv env s'"
  using assms by (simp add: ds_inv_def ds_state_ok_def)

lemma ds_inv_readable:
  assumes "ds_env_ok env" "ds_inv env s" "ds_encrypt env rnd key s = Ok ct"
  shows "ds_decrypt env key ct = Ok s"
  using assms by (auto simp: ds_inv_def intro: ds_decrypt_encrypt ds_env_okD)


section \<open>What the operations have in common\<close>

text \<open>The group and storage of the new state come from accepting a commit in the old state.\<close>

lemma ds_inv_merge:
  assumes "ds_env_ok env" "ds_inv env s"
    and "accept_processed_message env now (Commit pm gi) ex (ds_group s) (ds_storage s)
      = Ok (ds_group s', ds_storage s')"
    and "pr_content pm = StagedCommitMessage sc" "gi_group_context gi = sc_group_context sc"
    and "profiles_wf (ds_member_profiles s')"
  shows "ds_inv env s'"
  using accept_commit_persisted[OF ds_env_okD(1,2)[OF assms(1)] assms(3-5)] assms(2,6)
  by (simp add: ds_inv_def ds_state_ok_def)

lemma ds_inv_commit:
  assumes "ds_env_ok env" "ds_inv env s"
    and "process_assisted_message env (ds_group s) m = Ok res"
    and "processed_assisted_message res = Commit pm gi"
    and "accept_processed_message env now (Commit pm gi) ex (ds_group s) (ds_storage s)
      = Ok (ds_group s', ds_storage s')"
    and "profiles_wf (ds_member_profiles s')"
  shows "ds_inv env s'"
  using processed_commit_context[OF assms(3,4)] ds_inv_merge[OF assms(1,2,5) _ _ assms(6)] by blast

lemma ds_inv_apq_commit:
  assumes "ds_env_ok env" "ds_inv env t" "ds_inv env pq"
    and "process_apq_assisted_message env (ds_group t) (ds_group pq) tm pqm eq = Ok res"
    and "accept_apq_processed_message env now (apq_processed_assisted_message res) ex
        (ds_group t, ds_storage t) (ds_group pq, ds_storage pq)
      = Ok ((ds_group t', ds_storage t'), (ds_group pq', ds_storage pq'))"
    and "profiles_wf (ds_member_profiles t')" "profiles_wf (ds_member_profiles pq')"
  shows "ds_inv env t' \<and> ds_inv env pq'"
proof -
  let ?m = "apq_processed_assisted_message res"
  from assms(5) have
    "accept_processed_message env now (Commit (apq_t_message (apam_processed_message ?m))
       (apam_t_group_info ?m)) ex (ds_group t) (ds_storage t) = Ok (ds_group t', ds_storage t')"
    "accept_processed_message env now (Commit (apq_pq_message (apam_processed_message ?m))
       (apam_pq_group_info ?m)) ex (ds_group pq) (ds_storage pq) = Ok (ds_group pq', ds_storage pq')"
    by (auto simp: accept_apq_processed_message_def result_simps)
  with process_apq_assisted_message_context[OF assms(4)] show ?thesis
    using ds_inv_merge[OF assms(1)] assms(2,3,6,7) by blast
qed


section \<open>Creation\<close>

lemma ds_inv_new:
  assumes "ds_env_ok env" "Group_new env vgi rt empty_storage = Ok (g, st)"
  shows "ds_inv env (DsGroupState_new now st g key qc rs)"
proof -
  have "storage_proper empty_storage"
    by (simp add: storage_proper_def storage_wf_def empty_storage_def)
  with Group_new_load[OF ds_env_okD(1,2)[OF assms(1)] assms(2)] show ?thesis
    using profiles_wf_new[of now st g key qc rs]
    by (simp add: ds_inv_def ds_state_ok_def DsGroupState_new_def Let_def)
qed


section \<open>Every operation keeps the invariant\<close>

lemma apply_t_validation_frame:
  assumes "apply_t_validation env now tv s = Ok s'" "profiles_wf (ds_member_profiles s)"
  shows "ds_group s' = ds_group s \<and> ds_storage s' = ds_storage s \<and> profiles_wf (ds_member_profiles s')"
  using assms
  by (auto simp: apply_t_validation_def Let_def update_membership_profiles_def result_simps
      intro!: inv_intros split: option.splits)

lemma ds_inv_process_group_operation:
  assumes "ds_env_ok env" "ds_inv env s"
    and "process_group_operation env now commit info s = Ok (r, s')"
  shows "ds_inv env s'"
proof -
  from assms(3) obtain res pm gi tv t g st where
    res: "process_assisted_message env (ds_group s) commit = Ok res"
      "processed_assisted_message res = Commit pm gi"
    and tv: "validate_t_commit env pm info None None s = Ok (tv, t)"
    and acc: "accept_processed_message env now (Commit pm gi) (duration_days USER_EXPIRATION_DAYS)
       (ds_group t) (ds_storage t) = Ok (g, st)"
    and app: "apply_t_validation env now tv (t\<lparr> ds_group := g, ds_storage := st \<rparr>) = Ok s'"
    by (auto simp: process_group_operation_def result_simps)
  have frame: "ds_group t = ds_group s" "ds_storage t = ds_storage s"
      "ds_member_profiles t = ds_member_profiles s"
    using validate_t_commit_Ok[OF tv] by blast+
  have "ds_group s' = g \<and> ds_storage s' = st \<and> profiles_wf (ds_member_profiles s')"
    using apply_t_validation_frame[OF app] ds_inv_profiles[OF assms(2)] frame by simp
  with ds_inv_commit[OF assms(1,2) res] acc frame show ?thesis by simp
qed

lemma ds_inv_process_apq_group_operation:
  assumes "ds_env_ok env" "ds_inv env t" "ds_inv env pq"
    and "process_apq_group_operation env now tm pqm ti pqi t pq = Ok (r, t', pq')"
  shows "ds_inv env t' \<and> ds_inv env pq'"
proof -
  from assms(4) obtain res v w tv u tg tst pqg pqst where
    res: "process_apq_assisted_message env (ds_group t) (ds_group pq) tm pqm (\<lambda>_ _. True) = Ok res"
    and tv: "validate_t_commit env v ti (Some pq) (Some w) t = Ok (tv, u)"
    and acc: "accept_apq_processed_message env now (apq_processed_assisted_message res)
        (duration_days USER_EXPIRATION_DAYS) (ds_group u, ds_storage u) (ds_group pq, ds_storage pq)
      = Ok ((tg, tst), (pqg, pqst))"
    and app: "apply_t_validation env now tv (u\<lparr> ds_group := tg, ds_storage := tst \<rparr>) = Ok t'"
    and pq': "pq' = pq\<lparr> ds_group := pqg, ds_storage := pqst \<rparr>"
    by (auto simp: process_apq_group_operation_def result_simps Let_def)
  have frame: "ds_group u = ds_group t" "ds_storage u = ds_storage t"
      "ds_member_profiles u = ds_member_profiles t"
    using validate_t_commit_Ok[OF tv] by blast+
  have "ds_group t' = tg \<and> ds_storage t' = tst \<and> profiles_wf (ds_member_profiles t')"
    using apply_t_validation_frame[OF app] ds_inv_profiles[OF assms(2)] frame by simp
  with ds_inv_apq_commit[OF assms(1-3) res, where t' = t' and pq' = pq'] acc frame pq' show ?thesis
    using ds_inv_profiles[OF assms(3)] by simp
qed

lemma ds_inv_group_operation:
  assumes "ds_env_ok env" "ds_inv env s" "group_operation env now commit info key s = Ok (r, s')"
  shows "ds_inv env s'"
  using assms(3) ds_inv_process_group_operation[OF assms(1,2)]
  by (auto simp: group_operation_def result_simps)

lemma ds_inv_resync_client:
  assumes "ds_env_ok env" "ds_inv env s" "resync_client env now commit sender s = Ok (msg, s')"
  shows "ds_inv env s'"
proof -
  obtain pm gi sc pos t n where
    res: "process_assisted_message env (ds_group s) commit
       = Ok \<lparr> processed_assisted_message = Commit pm gi, serialized_mls_message = msg \<rparr>"
    and acc: "accept_processed_message env now (Commit pm gi) (duration_days USER_EXPIRATION_DAYS)
       (ds_group s) (ds_storage s) = Ok (ds_group s', ds_storage s')"
    and profiles: "ds_member_profiles s' = ds_member_profiles (rekey_sender_profile sender n
       (remove_profiles (swap_remove pos (removed_clients sc)) s))"
    using resync_client_Ok[OF assms(3)] .
  have "profiles_wf (ds_member_profiles s')"
    unfolding profiles using ds_inv_profiles[OF assms(2)] by (intro inv_intros)
  with ds_inv_commit[OF assms(1,2) res _ acc] show ?thesis by simp
qed

lemma ds_inv_apq_resync_client:
  assumes "ds_env_ok env" "ds_inv env t" "ds_inv env pq"
    and "apq_resync_client env now tm pqm sender t pq = Ok (msg, t', pq')"
  shows "ds_inv env t' \<and> ds_inv env pq'"
proof -
  from assms(4) obtain res usr rm u n tg tst pqg pqst where
    res: "process_apq_assisted_message env (ds_group t) (ds_group pq) tm pqm (\<lambda>_ _. True) = Ok res"
    and u: "change_removed_roles_to_outsider env usr rm t = Ok u"
    and acc: "accept_apq_processed_message env now (apq_processed_assisted_message res)
        (duration_days USER_EXPIRATION_DAYS) (ds_group u, ds_storage u) (ds_group pq, ds_storage pq)
      = Ok ((tg, tst), (pqg, pqst))"
    and t': "t' = rekey_sender_profile sender n
        (remove_profiles rm (u\<lparr> ds_group := tg, ds_storage := tst \<rparr>))"
    and pq': "pq' = pq\<lparr> ds_group := pqg, ds_storage := pqst \<rparr>"
    by (auto simp: apq_resync_client_def result_simps Let_def)
  note frame = change_removed_roles_frame[OF u]
  have "profiles_wf (ds_member_profiles t')"
    unfolding t' using ds_inv_profiles[OF assms(2)] frame by (intro inv_intros) simp
  with ds_inv_apq_commit[OF assms(1-3) res, where t' = t' and pq' = pq'] acc frame t' pq' show ?thesis
    using ds_inv_profiles[OF assms(3)] by simp
qed

lemma ds_inv_join_connection_group:
  assumes "ds_env_ok env" "ds_inv env s" "join_connection_group env now commit qs s = Ok (msg, s')"
  shows "ds_inv env s'"
proof -
  from assms(3) obtain res pm gi g st i p where
    res: "process_assisted_message env (ds_group s) commit = Ok res"
      "processed_assisted_message res = Commit pm gi"
    and acc: "accept_processed_message env now (Commit pm gi) (duration_days USER_EXPIRATION_DAYS)
       (ds_group s) (ds_storage s) = Ok (g, st)"
    and s': "s' = s\<lparr> ds_group := g, ds_storage := st,
        ds_member_profiles := bt_insert i p (ds_member_profiles s) \<rparr>" "mp_leaf_index p = i"
    by (auto simp: join_connection_group_def result_simps Let_def)
  have "profiles_wf (ds_member_profiles s')"
    using ds_inv_profiles[OF assms(2)] s' by (auto intro: inv_intros)
  with ds_inv_commit[OF assms(1,2) res] acc s' show ?thesis by simp
qed

lemma ds_inv_self_remove_client_inner:
  assumes "ds_env_ok env" "ds_inv env s" "self_remove_client_inner env now m s = Ok (r, s')"
  shows "ds_inv env s'"
proof -
  from assms(3) obtain pm qp g st msg where
    acc: "accept_processed_message env now (NonCommit pm) (duration_days USER_EXPIRATION_DAYS)
       (ds_group s) (ds_storage s) = Ok (g, st)"
    and qp: "pr_content pm = ProposalMessage qp"
    and s': "s' = s\<lparr> ds_group := g, ds_storage := st, ds_proposals := ds_proposals s @ [msg] \<rparr>"
    by (auto simp: self_remove_client_inner_def result_simps Let_def)
  from accept_proposal_persisted[OF ds_env_okD(1,2)[OF assms(1)] acc qp] assms(2)
  show ?thesis by (simp add: ds_inv_def ds_state_ok_def s')
qed

lemma ds_inv_self_remove_client:
  assumes "ds_env_ok env" "ds_inv env s" "self_remove_client env now m s = Ok (r, s')"
  shows "ds_inv env s'"
proof -
  from assms(3) obtain leaf usr t where
    inner: "self_remove_client_inner env now m s = Ok ((leaf, r), t)"
    and role: "room_state_change_role env usr usr Outsider t = Some s'"
    by (auto simp: self_remove_client_def result_simps)
  have t: "ds_inv env t" by (rule ds_inv_self_remove_client_inner[OF assms(1,2) inner])
  with ds_inv_profiles[OF t] room_state_change_role_frame[OF role] show ?thesis
    by (auto intro: ds_inv_same_group)
qed

lemma ds_inv_self_remove_client_without_room_state:
  assumes "ds_env_ok env" "ds_inv env s" "self_remove_client_without_room_state env now m s = Ok (r, s')"
  shows "ds_inv env s'"
  using assms(3) ds_inv_self_remove_client_inner[OF assms(1,2)]
  by (auto simp: self_remove_client_without_room_state_def result_simps)

lemma ds_inv_delete_group:
  "ds_inv env s \<Longrightarrow> ds_delete_group env m s = Ok (r, s') \<Longrightarrow> ds_inv env s'"
  "ds_inv env s \<Longrightarrow> ds_delete_pq_group env m s = Ok (r, s') \<Longrightarrow> ds_inv env s'"
  by (auto simp: ds_delete_group_def ds_delete_pq_group_def elim: delete_group_inner_Ok)

lemma ds_inv_update_user_profile_key:
  assumes "ds_inv env s" "update_user_profile_key now i key s = Ok s'"
  shows "ds_inv env s'"
proof -
  from assms(2) obtain p where p: "bt_get (ds_member_profiles s) i = Some p"
    and s': "s' = s\<lparr> ds_member_profiles := bt_insert i
      (p\<lparr> mp_encrypted_user_profile_key := key, mp_activity_time := now \<rparr>) (ds_member_profiles s) \<rparr>"
    by (auto simp: update_user_profile_key_def result_simps)
  have "profiles_wf (ds_member_profiles s')"
    using ds_inv_profiles[OF assms(1)] p by (auto simp: s' intro!: inv_intros dest: profiles_wf_get)
  with assms(1) show ?thesis by (intro ds_inv_same_group[OF assms(1)]) (simp_all add: s')
qed

lemma ds_inv_clear_proposals: "ds_inv env s \<Longrightarrow> ds_inv env (s\<lparr> ds_proposals := [] \<rparr>)"
  by (simp add: ds_inv_def ds_state_ok_def)

lemma ds_inv_insert_profile:
  "ds_inv env s \<Longrightarrow> mp_leaf_index p = i \<Longrightarrow>
     ds_inv env (s\<lparr> ds_member_profiles := bt_insert i p (ds_member_profiles s) \<rparr>)"
  by (rule ds_inv_same_group) (auto intro: inv_intros dest: ds_inv_profiles)

end
