(* ===== verification/Service_Base.thy ===== *)
theory Service_Base
  imports Air_Prelude
begin

text \<open>
  What the request handlers of the backend share: the status a call fails with, fields of decoded
  protobuf messages, and handlers as actions on the state of the service.

  A status is its code and its details; the human-readable message is left out.  A field of a
  request is absent, present but rejected by its conversion (\<^verbatim>\<open>protos/src/*/convert.rs\<close>), or a
  value; both failures become the status \<open>InvalidArgument\<close>, as in \<^verbatim>\<open>protos/src/validation.rs\<close>.

  An attempt returns a result and the new state, also when it fails: what a failed request has
  already sent or written stays; an action fails with a status.  The rules in \<open>action_rules\<close> carry an invariant, or a field no step
  writes, through a composed action.  The locale \<open>invariant_system\<close> is the contract of an invariant:
  it holds at the start and every step keeps it; the services interpret it.
\<close>

named_theorems action_simps \<open>running actions\<close>
named_theorems action_rules \<open>actions that keep an invariant\<close>
named_theorems keep_rules \<open>attempts that keep an invariant\<close>
named_theorems panic_simps \<open>results that are not a panic\<close>


section \<open>Status\<close>

text \<open>The last code is not one of gRPC's: the handler panics.\<close>

datatype code =
    InvalidArgument | NotFound | AlreadyExists | FailedPrecondition | ResourceExhausted
  | Unauthenticated | PermissionDenied | Internal | Unknown | Unavailable | Panicked

datatype status_details_code =
    DetailUnspecified | VersionUnsupported | WrongEpochCode | GenerationCollisionCode
  | AttachmentTooLargeCode | UnknownTokenKeyIdCode | TokenQuotaExceededCode

datatype status_detail =
    NoDetail
  | WrongEpochDetail
  | GenerationCollision "int list"
  | VersionUnsupportedDetail "string option" string
  | AttachmentTooLarge u64 u64
  | TokenQuotaExceeded u64 u32

record status =
  st_code :: code
  st_details :: "(status_details_code \<times> status_detail) option"

definition plain_status :: "code \<Rightarrow> status" where
  "plain_status c = \<lparr> st_code = c, st_details = None \<rparr>"

abbreviation invalid_argument :: status where "invalid_argument \<equiv> plain_status InvalidArgument"
abbreviation not_found :: status where "not_found \<equiv> plain_status NotFound"
abbreviation internal :: status where "internal \<equiv> plain_status Internal"
abbreviation panicked :: status where "panicked \<equiv> plain_status Panicked"
abbreviation unauthenticated :: status where "unauthenticated \<equiv> plain_status Unauthenticated"
abbreviation failed_precondition :: status where
  "failed_precondition \<equiv> plain_status FailedPrecondition"
abbreviation resource_exhausted :: status where
  "resource_exhausted \<equiv> plain_status ResourceExhausted"

definition status_with_details :: "code \<Rightarrow> status_details_code \<Rightarrow> status_detail \<Rightarrow> status" where
  "status_with_details c dc d = \<lparr> st_code = c, st_details = Some (dc, d) \<rparr>"


section \<open>Fields\<close>

datatype 'a field = Missing | Malformed | Field 'a

fun get_field :: "'a field \<Rightarrow> status + 'a" where
  "get_field Missing = Err invalid_argument"
| "get_field Malformed = Err invalid_argument"
| "get_field (Field x) = Ok x"

text \<open>An optional field: absent is fine, a value that does not convert is not.\<close>

fun get_optional :: "'a field \<Rightarrow> status + 'a option" where
  "get_optional Missing = Ok None"
| "get_optional Malformed = Err invalid_argument"
| "get_optional (Field x) = Ok (Some x)"

lemma get_field_Ok_iff [result_simps]: "get_field f = Ok x \<longleftrightarrow> f = Field x"
  by (cases f) auto

lemma get_field_Err_iff [result_simps]:
  "get_field f = Err e \<longleftrightarrow> e = invalid_argument \<and> (f = Missing \<or> f = Malformed)"
  by (cases f) auto

lemma get_optional_Ok_iff [result_simps]:
  "get_optional f = Ok y \<longleftrightarrow> f = (case y of None \<Rightarrow> Missing | Some x \<Rightarrow> Field x)"
  by (cases f) (auto split: option.splits)


section \<open>The client's version\<close>

text \<open>
  \<^verbatim>\<open>backend/src/version.rs\<close>.  The metadata of a request carries a version, which may not parse; the
  requirement of the server is its text and the predicate it stands for.
\<close>

definition failed_version_precondition :: "string option \<Rightarrow> string \<Rightarrow> status" where
  "failed_version_precondition client_version req =
     status_with_details FailedPrecondition VersionUnsupported
       (VersionUnsupportedDetail client_version req)"

definition verify_version :: "string option \<Rightarrow> (string \<Rightarrow> bool) \<Rightarrow> string field option \<Rightarrow>
    status + string option" where
  "verify_version version_req version_matches client_metadata =
     (case version_req of
        None \<Rightarrow> Ok (case client_metadata of Some (Field v) \<Rightarrow> Some v | _ \<Rightarrow> None)
      | Some req \<Rightarrow>
          (case client_metadata of
             Some (Field v) \<Rightarrow>
               if version_matches v then Ok (Some v)
               else Err (failed_version_precondition (Some v) req)
           | _ \<Rightarrow> Err (failed_version_precondition None req)))"


section \<open>Actions\<close>

type_synonym ('s, 'e, 'a) attempt = "'s \<Rightarrow> ('e + 'a) \<times> 's"
type_synonym ('s, 'a) action = "('s, status, 'a) attempt"

definition return_with :: "'a \<Rightarrow> ('s, 'e, 'a) attempt" where
  "return_with x s = (Ok x, s)"

definition try_with :: "'e + 'a \<Rightarrow> ('s, 'e, 'a) attempt" where
  "try_with r s = (r, s)"

definition fail_with :: "'e \<Rightarrow> ('s, 'e, 'a) attempt" where
  "fail_with e s = (Err e, s)"

definition andThen :: "('s, 'e, 'a) attempt \<Rightarrow> ('a \<Rightarrow> ('s, 'e, 'b) attempt) \<Rightarrow>
    ('s, 'e, 'b) attempt" where
  "andThen m f s = (case m s of (Err e, s') \<Rightarrow> (Err e, s') | (Ok x, s') \<Rightarrow> f x s')"

definition modify_with :: "('s \<Rightarrow> 's) \<Rightarrow> ('s, 'e, unit) attempt" where
  "modify_with f s = (Ok (), f s)"

definition read_with :: "('s \<Rightarrow> 'a) \<Rightarrow> ('s, 'e, 'a) attempt" where
  "read_with f s = (Ok (f s), s)"

definition converting :: "('e \<Rightarrow> 'e') \<Rightarrow> ('s, 'e, 'a) attempt \<Rightarrow> ('s, 'e', 'a) attempt" where
  "converting h m s = (case m s of (r, s') \<Rightarrow> (map_err h r, s'))"

text \<open>The failure of an attempt is logged and dropped.\<close>

definition ignoring :: "('s, 'e, 'a) attempt \<Rightarrow> ('s, 'e', unit) attempt" where
  "ignoring m s = (Ok (), snd (m s))"

fun for_each :: "('b \<Rightarrow> ('s, 'e, unit) attempt) \<Rightarrow> 'b list \<Rightarrow> ('s, 'e, unit) attempt" where
  "for_each f [] = return_with ()"
| "for_each f (x # xs) = andThen (f x) (\<lambda>_. for_each f xs)"

text \<open>
  A database transaction: what the body wrote to the database is kept only if the body succeeds,
  what it sent stays.  \<open>restore old new\<close> puts the database of \<open>old\<close> into \<open>new\<close>.
\<close>

definition transaction :: "('s \<Rightarrow> 's \<Rightarrow> 's) \<Rightarrow> ('s, 'e, 'a) attempt \<Rightarrow> ('s, 'e, 'a) attempt" where
  "transaction restore body s =
     (case body s of (Ok x, s') \<Rightarrow> (Ok x, s') | (Err e, s') \<Rightarrow> (Err e, restore s s'))"

lemma action_apply [action_simps]:
  "return_with x s = (Ok x, s)" "try_with r s = (r, s)" "fail_with e s = (Err e, s)"
  "modify_with f s = (Ok (), f s)" "read_with g s = (Ok (g s), s)"
  by (simp_all add: return_with_def try_with_def fail_with_def modify_with_def read_with_def)

lemma andThen_apply [action_simps]:
  "m s = (Ok x, s') \<Longrightarrow> andThen m f s = f x s'"
  "m s = (Err e, s') \<Longrightarrow> andThen m f s = (Err e, s')"
  by (simp_all add: andThen_def)

lemma andThen_try [action_simps]:
  "andThen (try_with (Ok x)) f = f x" "andThen (try_with (Err e)) f = fail_with e"
  by (simp_all add: fun_eq_iff andThen_def action_apply)

lemma andThen_Ok_iff [action_simps]:
  "andThen m f s = (Ok y, t) \<longleftrightarrow> (\<exists>x s'. m s = (Ok x, s') \<and> f x s' = (Ok y, t))"
  by (auto simp: andThen_def split: sum.splits prod.splits)

lemma andThen_Err_iff [action_simps]:
  "andThen m f s = (Err e, t) \<longleftrightarrow>
     m s = (Err e, t) \<or> (\<exists>x s'. m s = (Ok x, s') \<and> f x s' = (Err e, t))"
  by (auto simp: andThen_def split: sum.splits prod.splits)

lemma transaction_Ok_iff [action_simps]:
  "transaction r m s = (Ok y, t) \<longleftrightarrow> m s = (Ok y, t)"
  by (auto simp: transaction_def split: sum.splits prod.splits)

lemma transaction_Err_iff [action_simps]:
  "transaction r m s = (Err e, t) \<longleftrightarrow> (\<exists>s'. m s = (Err e, s') \<and> t = r s s')"
  by (auto simp: transaction_def split: sum.splits prod.splits)

lemma converting_Ok_iff [action_simps]: "converting h m s = (Ok x, t) \<longleftrightarrow> m s = (Ok x, t)"
  by (auto simp: converting_def result_simps split: prod.splits)

lemma converting_Err_iff [action_simps]:
  "converting h m s = (Err e, t) \<longleftrightarrow> (\<exists>e'. m s = (Err e', t) \<and> e = h e')"
  by (auto simp: converting_def result_simps split: prod.splits)


section \<open>Invariants of actions\<close>

text \<open>
  From a state with the invariant, the action ends in one, does not panic, and what it returns has
  the given property.
\<close>

definition avoids :: "'e \<Rightarrow> 'e + 'a \<Rightarrow> bool" where
  "avoids e r = (r \<noteq> Err e)"

abbreviation no_panic :: "status + 'a \<Rightarrow> bool" where
  "no_panic \<equiv> avoids panicked"

definition upholds :: "('s \<Rightarrow> bool) \<Rightarrow> ('s, 'a) action \<Rightarrow> ('a \<Rightarrow> bool) \<Rightarrow> bool" where
  "upholds I m Q =
     (\<forall>s. I s \<longrightarrow> I (snd (m s)) \<and> no_panic (fst (m s)) \<and> (\<forall>x. fst (m s) = Ok x \<longrightarrow> Q x))"

lemma upholdsI:
  "(\<And>s. I s \<Longrightarrow> I (snd (m s))) \<Longrightarrow> (\<And>s. I s \<Longrightarrow> no_panic (fst (m s))) \<Longrightarrow>
   (\<And>s x. I s \<Longrightarrow> fst (m s) = Ok x \<Longrightarrow> Q x) \<Longrightarrow> upholds I m Q"
  by (simp add: upholds_def)

lemma upholdsD:
  assumes "upholds I m Q" "I s" "m s = (r, t)"
  shows "I t" "r \<noteq> Err panicked" "r = Ok x \<Longrightarrow> Q x"
  using assms unfolding upholds_def avoids_def by (metis fst_conv snd_conv)+

lemma upholds_weaken: "upholds I m P \<Longrightarrow> (\<And>x. P x \<Longrightarrow> Q x) \<Longrightarrow> upholds I m Q"
  by (auto simp: upholds_def)

lemma upholds_return [action_rules]: "Q x \<Longrightarrow> upholds I (return_with x) Q"
  by (simp add: upholds_def action_simps avoids_def)

lemma upholds_try [action_rules]:
  "no_panic r \<Longrightarrow> (\<And>x. r = Ok x \<Longrightarrow> Q x) \<Longrightarrow> upholds I (try_with r) Q"
  by (simp add: upholds_def action_simps)

lemma upholds_modify: "(\<And>s. I s \<Longrightarrow> I (f s)) \<Longrightarrow> Q () \<Longrightarrow> upholds I (modify_with f) Q"
  by (simp add: upholds_def action_simps avoids_def)

lemma upholds_read: "(\<And>s. I s \<Longrightarrow> Q (g s)) \<Longrightarrow> upholds I (read_with g) Q"
  by (simp add: upholds_def action_simps avoids_def)

lemma upholds_andThen:
  assumes "upholds I m P" "\<And>x. P x \<Longrightarrow> upholds I (f x) Q"
  shows "upholds I (andThen m f) Q"
  unfolding upholds_def
proof (intro allI impI)
  fix s
  assume "I s"
  obtain r s' where m: "m s = (r, s')" by (cases "m s")
  note post = upholdsD[OF assms(1) \<open>I s\<close> m]
  show "I (snd (andThen m f s)) \<and> no_panic (fst (andThen m f s))
      \<and> (\<forall>x. fst (andThen m f s) = Ok x \<longrightarrow> Q x)"
  proof (cases r)
    case (Inl e)
    with m post show ?thesis by (simp add: action_simps avoids_def)
  next
    case (Inr x)
    with m have "andThen m f s = f x s'" by (simp add: action_simps)
    moreover have "upholds I (f x) Q" by (rule assms(2)) (rule post(3)[OF Inr])
    ultimately show ?thesis using post(1) by (auto simp: upholds_def)
  qed
qed

lemma upholds_then [action_rules]:
  "upholds I m (\<lambda>_. True) \<Longrightarrow> (\<And>x. upholds I (f x) Q) \<Longrightarrow> upholds I (andThen m f) Q"
  by (rule upholds_andThen)

lemma upholds_try_then [action_rules]:
  "no_panic r \<Longrightarrow> (\<And>x. r = Ok x \<Longrightarrow> upholds I (f x) Q) \<Longrightarrow> upholds I (andThen (try_with r) f) Q"
  by (rule upholds_andThen[where P = "\<lambda>x. r = Ok x"]) (auto intro: upholds_try)

lemma upholds_return_then [action_rules]:
  "upholds I (f x) Q \<Longrightarrow> upholds I (andThen (return_with x) f) Q"
  by (rule upholds_andThen[where P = "\<lambda>y. y = x"]) (auto intro: upholds_return)

lemma upholds_prod [action_rules]:
  "(\<And>a b. x = (a, b) \<Longrightarrow> upholds I (f a b) Q) \<Longrightarrow> upholds I (case x of (a, b) \<Rightarrow> f a b) Q"
  by (cases x) simp

lemma upholds_option [action_rules]:
  "(x = None \<Longrightarrow> upholds I n Q) \<Longrightarrow> (\<And>y. x = Some y \<Longrightarrow> upholds I (f y) Q) \<Longrightarrow>
   upholds I (case x of None \<Rightarrow> n | Some y \<Rightarrow> f y) Q"
  by (cases x) simp_all

lemma upholds_transaction:
  "upholds I m Q \<Longrightarrow> (\<And>s s'. I s \<Longrightarrow> I s' \<Longrightarrow> I (r s s')) \<Longrightarrow> upholds I (transaction r m) Q"
  unfolding upholds_def transaction_def avoids_def
  by (auto split: sum.splits prod.splits; metis fst_conv snd_conv)

text \<open>Which results can be a given error.\<close>

lemma plain_status_inject [simp]: "plain_status a = plain_status b \<longleftrightarrow> a = b"
  by (simp add: plain_status_def)

lemma status_with_details_plain [simp]: "status_with_details c dc d \<noteq> plain_status b"
  by (simp add: status_with_details_def plain_status_def)

lemma avoids_Ok [panic_simps]: "avoids a (Ok x)"
  by (simp add: avoids_def)

lemma avoids_Err [panic_simps]: "avoids a (Err e) \<longleftrightarrow> e \<noteq> a"
  by (simp add: avoids_def)

lemma avoids_field [panic_simps]: "a \<noteq> invalid_argument \<Longrightarrow> avoids a (get_field f)"
  by (cases f) (auto simp: avoids_def)

lemma avoids_optional [panic_simps]: "a \<noteq> invalid_argument \<Longrightarrow> avoids a (get_optional f)"
  by (cases f) (auto simp: avoids_def)

lemma avoids_ok_or [panic_simps]: "avoids a (ok_or e y) \<longleftrightarrow> (y = None \<longrightarrow> e \<noteq> a)"
  by (cases y) (auto simp: avoids_def)

lemma avoids_ensure [panic_simps]: "avoids a (ensure b e) \<longleftrightarrow> b \<or> e \<noteq> a"
  by (auto simp: avoids_def ensure_def)

lemma avoids_map_ok [panic_simps]: "avoids a (map_ok h r) \<longleftrightarrow> avoids a r"
  by (cases r) (auto simp: avoids_def)

lemma avoids_and_then [panic_simps]:
  "avoids a (and_then r h) \<longleftrightarrow> avoids a r \<and> (\<forall>x. r = Ok x \<longrightarrow> avoids a (h x))"
  by (cases r) (auto simp: avoids_def)

lemma avoids_map_err [panic_simps]: "avoids a (map_err h r) \<longleftrightarrow> (\<forall>e. r = Err e \<longrightarrow> h e \<noteq> a)"
  by (cases r) (auto simp: avoids_def)

lemma avoids_fold_res: "(\<And>x s. avoids a (f x s)) \<Longrightarrow> avoids a (fold_res f xs s)"
  by (induction xs arbitrary: s) (auto simp: panic_simps)

lemma avoids_collect_res: "(\<And>x. avoids a (f x)) \<Longrightarrow> avoids a (collect_res f xs)"
  by (induction xs) (auto simp: panic_simps)

lemma verify_version_no_panic [panic_simps]: "no_panic (verify_version req matches cm)"
  by (auto simp: verify_version_def failed_version_precondition_def avoids_def
      split: option.split field.split)

lemma verify_version_unrestricted [simp]:
  "verify_version None matches cm = Ok (case cm of Some (Field v) \<Rightarrow> Some v | _ \<Rightarrow> None)"
  by (simp add: verify_version_def)

text \<open>A field of the state that an action does not write.\<close>

definition frames :: "('s \<Rightarrow> 'x) \<Rightarrow> ('s, 'e, 'a) attempt \<Rightarrow> bool" where
  "frames g m = (\<forall>s. g (snd (m s)) = g s)"

lemma framesD: "frames g m \<Longrightarrow> m s = (r, s') \<Longrightarrow> g s' = g s"
  unfolding frames_def by (metis snd_conv)

lemma frames_pure [action_rules]:
  "frames g (return_with x)" "frames g (try_with r)" "frames g (fail_with e)" "frames g (read_with h)"
  by (simp_all add: frames_def action_simps)

lemma frames_andThen [action_rules]:
  "frames g m \<Longrightarrow> (\<And>x. frames g (f x)) \<Longrightarrow> frames g (andThen m f)"
  by (auto simp: frames_def andThen_def split: sum.splits prod.splits; metis snd_conv)

lemma frames_modify: "(\<And>s. g (f s) = g s) \<Longrightarrow> frames g (modify_with f)"
  by (simp add: frames_def action_simps)

lemma frames_prod [action_rules]:
  "(\<And>a b. frames g (f a b)) \<Longrightarrow> frames g (case x of (a, b) \<Rightarrow> f a b)"
  by (cases x) simp

lemma frames_converting [action_rules]: "frames g m \<Longrightarrow> frames g (converting h m)"
  by (auto simp: frames_def converting_def split: prod.splits; metis snd_conv)

lemma frames_ignoring [action_rules]: "frames g m \<Longrightarrow> frames g (ignoring m)"
  by (simp add: frames_def ignoring_def)

lemma frames_for_each [action_rules]: "(\<And>x. frames g (f x)) \<Longrightarrow> frames g (for_each f xs)"
  by (induction xs) (auto intro: action_rules)

lemma frames_cases [action_rules]:
  "(c \<Longrightarrow> frames g m) \<Longrightarrow> (\<not> c \<Longrightarrow> frames g n) \<Longrightarrow> frames g (if c then m else n)"
  "(x = None \<Longrightarrow> frames g m) \<Longrightarrow> (\<And>y. x = Some y \<Longrightarrow> frames g (k y)) \<Longrightarrow>
     frames g (case x of None \<Rightarrow> m | Some y \<Rightarrow> k y)"
  by (auto split: option.split)

lemma frames_transaction: "(\<And>s s'. g s' = g s \<Longrightarrow> g (r s s') = g s) \<Longrightarrow> frames g m \<Longrightarrow> frames g (transaction r m)"
  by (auto simp: frames_def transaction_def split: sum.splits prod.splits) (metis snd_conv)+

text \<open>An invariant that an attempt keeps, whether it succeeds or not.\<close>

definition keeps :: "('s \<Rightarrow> bool) \<Rightarrow> ('s, 'e, 'a) attempt \<Rightarrow> bool" where
  "keeps I m = (\<forall>s. I s \<longrightarrow> I (snd (m s)))"

lemma keepsI: "(\<And>s. I s \<Longrightarrow> I (snd (m s))) \<Longrightarrow> keeps I m"
  by (simp add: keeps_def)

lemma keepsD: "keeps I m \<Longrightarrow> I s \<Longrightarrow> I (snd (m s))"
  by (simp add: keeps_def)

lemma keeps_pure [keep_rules]:
  "keeps I (return_with x)" "keeps I (try_with r)" "keeps I (fail_with e)" "keeps I (read_with h)"
  by (simp_all add: keeps_def action_simps)

lemma keeps_modify: "(\<And>s. I s \<Longrightarrow> I (f s)) \<Longrightarrow> keeps I (modify_with f)"
  by (simp add: keeps_def action_simps)

lemma keeps_andThen [keep_rules]:
  assumes "keeps I m" "\<And>x. keeps I (f x)"
  shows "keeps I (andThen m f)"
proof (rule keepsI)
  fix s
  assume s: "I s"
  obtain r s' where m: "m s = (r, s')" by (cases "m s")
  with keepsD[OF assms(1) s] have "I s'" by simp
  then show "I (snd (andThen m f s))"
    using keepsD[OF assms(2)] m by (auto simp: andThen_def split: sum.split)
qed

lemma keeps_converting [keep_rules]: "keeps I m \<Longrightarrow> keeps I (converting h m)"
  by (auto simp: keeps_def converting_def split: prod.splits; metis snd_conv)

lemma keeps_ignoring [keep_rules]: "keeps I m \<Longrightarrow> keeps I (ignoring m)"
  by (simp add: keeps_def ignoring_def)

lemma keeps_for_each [keep_rules]: "(\<And>x. keeps I (f x)) \<Longrightarrow> keeps I (for_each f xs)"
  by (induction xs) (auto intro: keep_rules)

lemma keeps_cases [keep_rules]:
  "(c \<Longrightarrow> keeps I m) \<Longrightarrow> (\<not> c \<Longrightarrow> keeps I n) \<Longrightarrow> keeps I (if c then m else n)"
  "(x = None \<Longrightarrow> keeps I m) \<Longrightarrow> (\<And>y. x = Some y \<Longrightarrow> keeps I (k y)) \<Longrightarrow>
     keeps I (case x of None \<Rightarrow> m | Some y \<Rightarrow> k y)"
  "(\<And>a b. p = (a, b) \<Longrightarrow> keeps I (l a b)) \<Longrightarrow> keeps I (case p of (a, b) \<Rightarrow> l a b)"
  "(\<And>e. r = Err e \<Longrightarrow> keeps I (u e)) \<Longrightarrow> (\<And>y. r = Ok y \<Longrightarrow> keeps I (v y)) \<Longrightarrow>
     keeps I (case r of Err e \<Rightarrow> u e | Ok y \<Rightarrow> v y)"
  by (auto split: option.split prod.split sum.split)

lemma keeps_transaction:
  "keeps I m \<Longrightarrow> (\<And>s s'. I s \<Longrightarrow> I s' \<Longrightarrow> I (r s s')) \<Longrightarrow> keeps I (transaction r m)"
  unfolding keeps_def transaction_def by (auto split: sum.splits prod.splits; metis snd_conv)

text \<open>A failed action has not written the field.\<close>

definition undoes :: "('s \<Rightarrow> 'x) \<Rightarrow> ('s, 'e, 'a) attempt \<Rightarrow> bool" where
  "undoes g m = (\<forall>s e t. m s = (Err e, t) \<longrightarrow> g t = g s)"

definition never_fails :: "('s, 'e, 'a) attempt \<Rightarrow> bool" where
  "never_fails m = (\<forall>s e t. m s \<noteq> (Err e, t))"

lemma undoes_frames: "frames g m \<Longrightarrow> undoes g m"
  unfolding undoes_def by (auto dest: framesD)

lemma undoes_transaction: "(\<And>s s'. g (r s s') = g s) \<Longrightarrow> undoes g (transaction r m)"
  by (auto simp: undoes_def transaction_Err_iff)

lemma undoes_after: "frames g m \<Longrightarrow> (\<And>x. undoes g (f x)) \<Longrightarrow> undoes g (andThen m f)"
  unfolding undoes_def by (auto simp: andThen_Err_iff dest: framesD; metis framesD)

lemma undoes_before: "undoes g m \<Longrightarrow> (\<And>x. never_fails (f x)) \<Longrightarrow> undoes g (andThen m f)"
  unfolding undoes_def never_fails_def by (auto simp: andThen_Err_iff)

lemma undoes_prod: "(\<And>a b. undoes g (f a b)) \<Longrightarrow> undoes g (case x of (a, b) \<Rightarrow> f a b)"
  by (cases x) simp

lemma never_fails_simps:
  "never_fails (return_with x)" "never_fails (modify_with f)"
  "never_fails m \<Longrightarrow> (\<And>x. never_fails (h x)) \<Longrightarrow> never_fails (andThen m h)"
  "(\<And>a b. never_fails (k a b)) \<Longrightarrow> never_fails (case y of (a, b) \<Rightarrow> k a b)"
  by (auto simp: never_fails_def action_simps split: prod.splits)


section \<open>Reachable states\<close>

inductive reachable :: "('s \<Rightarrow> bool) \<Rightarrow> ('s \<Rightarrow> 's \<Rightarrow> bool) \<Rightarrow> 's \<Rightarrow> bool"
  for start :: "'s \<Rightarrow> bool" and step :: "'s \<Rightarrow> 's \<Rightarrow> bool"
where
  reach_start: "start s \<Longrightarrow> reachable start step s"
| reach_step: "reachable start step s \<Longrightarrow> step s t \<Longrightarrow> reachable start step t"

locale invariant_system =
  fixes start :: "'s \<Rightarrow> bool" and step :: "'s \<Rightarrow> 's \<Rightarrow> bool" and inv :: "'s \<Rightarrow> bool"
  assumes start_inv: "start s \<Longrightarrow> inv s"
    and step_inv: "inv s \<Longrightarrow> step s t \<Longrightarrow> inv t"
begin

lemma reachable_inv: "reachable start step s \<Longrightarrow> inv s"
  by (induction rule: reachable.induct) (auto intro: start_inv step_inv)

end

end
