(* ===== verification/Collision_Tags.thy ===== *)
theory Collision_Tags
  imports Service_Base
begin

text \<open>
  The collision tags of \<^verbatim>\<open>backend/src/ds/collision_tags.rs\<close>: a client attaches to a message tags
  that stand for the ratchet generations it used, and the delivery service accepts a tag once per
  group and epoch.  The table \<^verbatim>\<open>ds_collision_tag\<close> is the set of its rows; its foreign key needs the
  group to have a row in \<^verbatim>\<open>encrypted_group\<close>.  Epochs and tags are \<^verbatim>\<open>BIGINT\<close>s, so an epoch is read
  as a signed number.

  The outcomes of the database calls are arguments.  Shown: when exactly a request is accepted and
  that it changes the table in one piece or not at all, and that an accepted tag is not accepted
  again before its epoch is out of the retained window, whatever happens in between.
\<close>

type_synonym uuid = bytes
type_synonym collision_table = "(uuid \<times> int \<times> int) set"

definition MAX_COLLISION_TAGS_PER_REQUEST :: nat where
  "MAX_COLLISION_TAGS_PER_REQUEST = 30"

datatype collision_tag_error =
  CtDatabase | CtCollision "int list" | CtDuplicateTag int | CtTooManyTags | CtNoTags

text \<open>\<^verbatim>\<open>tags.windows(2).find(|w| w[0] == w[1])\<close>\<close>

fun first_repeated :: "'a list \<Rightarrow> 'a option" where
  "first_repeated (x # y # xs) = (if x = y then Some x else first_repeated (y # xs))"
| "first_repeated _ = None"

definition CollisionTags_try_from :: "int list \<Rightarrow> collision_tag_error + int list" where
  "CollisionTags_try_from request_tags =
     (let tags = sort request_tags in
      case first_repeated tags of
        Some t \<Rightarrow> Err (CtDuplicateTag t)
      | None \<Rightarrow>
          if tags = [] then Err CtNoTags
          else if length tags > MAX_COLLISION_TAGS_PER_REQUEST then Err CtTooManyTags
          else Ok tags)"

fun collision_tag_status :: "collision_tag_error \<Rightarrow> status" where
  "collision_tag_status CtDatabase = internal"
| "collision_tag_status (CtCollision tags) =
     status_with_details AlreadyExists GenerationCollisionCode (GenerationCollision tags)"
| "collision_tag_status (CtDuplicateTag _) = invalid_argument"
| "collision_tag_status CtTooManyTags = invalid_argument"
| "collision_tag_status CtNoTags = invalid_argument"

text \<open>Which of the calls \<^verbatim>\<open>begin\<close>, the query, and \<^verbatim>\<open>commit\<close> or \<^verbatim>\<open>rollback\<close> succeed.\<close>

record collision_io =
  cio_begin :: bool
  cio_query :: bool
  cio_end :: bool

text \<open>
  One statement inserts the tags that are new and returns the others; the transaction is committed
  only if there are none.  The database leaves their order open; the model keeps that of the
  request.
\<close>

definition check_and_insert :: "collision_io \<Rightarrow> uuid set \<Rightarrow> uuid \<Rightarrow> int \<Rightarrow> int list \<Rightarrow>
    collision_table \<Rightarrow> (collision_tag_error + unit) \<times> collision_table" where
  "check_and_insert io groups group_id epoch request_tags table =
     (case CollisionTags_try_from request_tags of
        Err e \<Rightarrow> (Err e, table)
      | Ok tags \<Rightarrow>
          if \<not> cio_begin io then (Err CtDatabase, table)
          else if \<not> cio_query io \<or> group_id \<notin> groups then (Err CtDatabase, table)
          else
            let collisions = filter (\<lambda>t. (group_id, epoch, t) \<in> table) tags;
                inserted = table \<union> (\<lambda>t. (group_id, epoch, t)) ` set tags
            in if collisions = []
               then if cio_end io then (Ok (), inserted) else (Err CtDatabase, table)
               else if cio_end io then (Err (CtCollision collisions), table)
               else (Err CtDatabase, table))"

text \<open>The cutoff is computed in \<^verbatim>\<open>i64\<close>.\<close>

definition delete_old :: "uuid \<Rightarrow> u64 \<Rightarrow> u64 \<Rightarrow> collision_table \<Rightarrow> collision_table" where
  "delete_old group_id current_epoch max_past_epochs table =
     {(g, e, t) \<in> table. \<not> (g = group_id \<and> e < sint (current_epoch - max_past_epochs))}"


section \<open>Facts\<close>

lemma first_repeated_sorted:
  "sorted xs \<Longrightarrow> first_repeated xs = None \<longleftrightarrow> distinct (xs :: 'a::linorder list)"
  by (induction xs rule: first_repeated.induct) (auto simp: order.antisym)

lemma CollisionTags_try_from_Ok_iff:
  "CollisionTags_try_from ts = Ok tags \<longleftrightarrow>
     tags = sort ts \<and> distinct ts \<and> ts \<noteq> [] \<and> length ts \<le> MAX_COLLISION_TAGS_PER_REQUEST"
proof -
  have "first_repeated (sort ts) = None \<longleftrightarrow> distinct ts"
    using first_repeated_sorted[OF sorted_sort] by simp
  moreover have "sort ts = [] \<longleftrightarrow> ts = []"
    by (metis length_0_conv length_sort)
  ultimately show ?thesis
    by (auto simp: CollisionTags_try_from_def Let_def not_less split: option.splits)
qed

lemma check_and_insert_cases:
  obtains (accepted) "check_and_insert io groups g e ts table
       = (Ok (), table \<union> (\<lambda>t. (g, e, t)) ` set ts)"
      "\<forall>t \<in> set ts. (g, e, t) \<notin> table" "ts \<noteq> []" "distinct ts"
      "length ts \<le> MAX_COLLISION_TAGS_PER_REQUEST"
      "g \<in> groups" "cio_begin io" "cio_query io" "cio_end io"
    | (refused) err where "check_and_insert io groups g e ts table = (Err err, table)"
proof (cases "check_and_insert io groups g e ts table")
  case (Pair r table')
  show ?thesis
  proof (cases r)
    case (Inl err)
    then have "table' = table"
      using Pair by (auto simp: check_and_insert_def Let_def split: sum.splits if_splits)
    then show ?thesis using Pair Inl refused by simp
  next
    case (Inr u)
    have tags: "distinct ts" "ts \<noteq> []" "length ts \<le> MAX_COLLISION_TAGS_PER_REQUEST"
      and io: "g \<in> groups" "cio_begin io" "cio_query io" "cio_end io"
      and new: "filter (\<lambda>t. (g, e, t) \<in> table) (sort ts) = []"
      and table': "table' = table \<union> (\<lambda>t. (g, e, t)) ` set ts"
      using Pair Inr by (auto simp: check_and_insert_def Let_def CollisionTags_try_from_Ok_iff
          split: sum.splits if_splits)
    have "\<forall>t \<in> set ts. (g, e, t) \<notin> table"
      using new by (simp add: filter_empty_conv)
    then show ?thesis using accepted Pair Inr tags io table' by simp
  qed
qed

lemma check_and_insert_mono:
  "table \<subseteq> snd (check_and_insert io groups g e ts table)"
  by (rule check_and_insert_cases[of io groups g e ts table]) auto


section \<open>Properties\<close>

text \<open>
  A request is accepted exactly if it brings between one and thirty distinct tags, none of them
  known for this group and epoch, the group exists and the database answers; then all of its tags
  are recorded.  Otherwise the table is left as it was.
\<close>

theorem collision_tags_all_or_nothing:
  "(fst (check_and_insert io groups g e ts table) = Ok () \<longleftrightarrow>
      ts \<noteq> [] \<and> distinct ts \<and> length ts \<le> MAX_COLLISION_TAGS_PER_REQUEST
      \<and> set ts \<inter> {t. (g, e, t) \<in> table} = {}
      \<and> g \<in> groups \<and> cio_begin io \<and> cio_query io \<and> cio_end io)
   \<and> snd (check_and_insert io groups g e ts table) =
      (if fst (check_and_insert io groups g e ts table) = Ok ()
       then table \<union> (\<lambda>t. (g, e, t)) ` set ts else table)"
proof -
  have ok: "check_and_insert io groups g e ts table = (Ok (), table \<union> (\<lambda>t. (g, e, t)) ` set ts)"
    if "ts \<noteq> []" "distinct ts" "length ts \<le> MAX_COLLISION_TAGS_PER_REQUEST"
      "set ts \<inter> {t. (g, e, t) \<in> table} = {}" "g \<in> groups" "cio_begin io" "cio_query io" "cio_end io"
  proof -
    have "filter (\<lambda>t. (g, e, t) \<in> table) (sort ts) = []"
      using that(4) by (auto simp: filter_empty_conv)
    moreover have "CollisionTags_try_from ts = Ok (sort ts)"
      using that by (simp add: CollisionTags_try_from_Ok_iff)
    ultimately show ?thesis using that by (simp add: check_and_insert_def)
  qed
  show ?thesis
  proof (cases rule: check_and_insert_cases[of io groups g e ts table])
    case accepted
    then show ?thesis by auto
  next
    case (refused err)
    then show ?thesis using ok by auto
  qed
qed

text \<open>What happens to the table over time: requests to record tags, and cleanups after a commit.\<close>

datatype tag_event =
  SendTags collision_io "uuid set" uuid int "int list" | Cleanup uuid u64 u64

fun tag_step :: "tag_event \<Rightarrow> collision_table \<Rightarrow> collision_table" where
  "tag_step (SendTags io groups g e ts) table = snd (check_and_insert io groups g e ts table)"
| "tag_step (Cleanup g current past) table = delete_old g current past table"

text \<open>A cleanup that leaves the epoch \<open>e\<close> of group \<open>g\<close> inside the retained window.\<close>

fun retains :: "uuid \<Rightarrow> int \<Rightarrow> tag_event \<Rightarrow> bool" where
  "retains g e (SendTags _ _ _ _ _) = True"
| "retains g e (Cleanup g' current past) = (g' = g \<longrightarrow> sint (current - past) \<le> e)"

lemma retained_tag_stays:
  "(g, e, t) \<in> table \<Longrightarrow> retains g e ev \<Longrightarrow> (g, e, t) \<in> tag_step ev table"
  using check_and_insert_mono by (cases ev) (fastforce simp: delete_old_def)+

lemma retained_tag_stays_all:
  "(g, e, t) \<in> table \<Longrightarrow> list_all (retains g e) evs \<Longrightarrow> (g, e, t) \<in> fold tag_step evs table"
  by (induction evs arbitrary: table) (auto intro: retained_tag_stays)

text \<open>
  (C21) No generation is accepted twice: once a request with a tag has been accepted, every later
  request with that tag for the same group and epoch is refused, whatever other requests and
  cleanups come in between, as long as the cleanups retain the epoch.
\<close>

theorem no_tag_accepted_twice:
  assumes "fst (check_and_insert io groups g e ts table) = Ok ()" "t \<in> set ts" "t \<in> set ts'"
    and "list_all (retains g e) evs"
  shows "\<exists>err. check_and_insert io' groups' g e ts'
      (fold tag_step evs (snd (check_and_insert io groups g e ts table)))
    = (Err err, fold tag_step evs (snd (check_and_insert io groups g e ts table)))"
proof (cases rule: check_and_insert_cases[of io groups g e ts table])
  case accepted
  then have "(g, e, t) \<in> snd (check_and_insert io groups g e ts table)"
    using assms(2) by simp
  from retained_tag_stays_all[OF this assms(4)] show ?thesis
    by (cases rule: check_and_insert_cases[of io' groups' g e ts'
          "fold tag_step evs (snd (check_and_insert io groups g e ts table))"])
       (use assms(3) in auto)
next
  case (refused err)
  then show ?thesis using assms(1) by simp
qed

text \<open>
  The cleanup keeps the table bounded: for an epoch below \<open>2\<^sup>63\<close> it removes exactly the group's
  rows with an epoch before the window, and nothing of other groups; in the first epochs the cutoff
  is negative and it removes nothing.
\<close>

theorem delete_old_window:
  assumes "uint current < 2 ^ 63" "uint past < 2 ^ 63"
  shows "delete_old g current past table =
    {(g', e, t) \<in> table. g' = g \<longrightarrow> uint current - uint past \<le> e}"
proof -
  have "current - past = word_of_int (uint current - uint past)"
    by (simp only: wi_hom_sub[symmetric] word_of_int_uint)
  moreover have "sint (word_of_int (uint current - uint past) :: u64) = uint current - uint past"
    using assms uint_ge_0[of past] uint_ge_0[of current] by (intro sint_word_of_int_64) linarith+
  ultimately have "sint (current - past) = uint current - uint past" by (simp only:)
  then show ?thesis by (auto simp: delete_old_def)
qed


section \<open>Witnesses\<close>

definition all_io :: collision_io where
  "all_io = \<lparr> cio_begin = True, cio_query = True, cio_end = True \<rparr>"

theorem no_tag_accepted_twice_witness:
  "\<exists>err. check_and_insert all_io {[1]} [1] 4 [7]
      (fold tag_step [Cleanup [1] 9 5, SendTags all_io {[2]} [2] 4 [7]]
        (snd (check_and_insert all_io {[1]} [1] 4 [8, 7] {})))
    = (Err err, fold tag_step [Cleanup [1] 9 5, SendTags all_io {[2]} [2] 4 [7]]
        (snd (check_and_insert all_io {[1]} [1] 4 [8, 7] {})))"
proof (rule no_tag_accepted_twice)
  show "fst (check_and_insert all_io {[1]} [1] 4 [8, 7] {}) = Ok ()"
    by (simp add: check_and_insert_def CollisionTags_try_from_def all_io_def
        MAX_COLLISION_TAGS_PER_REQUEST_def)
  show "list_all (retains [1] 4) [Cleanup [1] 9 5, SendTags all_io {[2]} [2] 4 [7]]"
    by simp
qed simp_all

theorem delete_old_window_witness:
  "([1], 3, 7) \<notin> delete_old [1] 9 5 {([1], 3, 7), ([1], 4, 7), ([2], 3, 7)}
   \<and> ([1], 4, 7) \<in> delete_old [1] 9 5 {([1], 3, 7), ([1], 4, 7), ([2], 3, 7)}"
  by (subst (1 2) delete_old_window) simp_all

end
