(* ===== verification/Signed_Request.thy ===== *)
theory Signed_Request
  imports Service_Base
begin

text \<open>
  Signed requests: the labelled signatures of \<^verbatim>\<open>common/src/crypto/signatures/signable.rs\<close> and the
  wrapper of \<^verbatim>\<open>protos/src/signed.rs\<close>, which cuts the payload's bytes out of the protobuf message and
  verifies the signature over exactly these bytes.

  Third-party functions are arguments: the signature scheme, the length-prefixed encoding of a byte
  string (\<^verbatim>\<open>VLBytes\<close>), and, in the record \<open>prost\<close>, the reading of a field key, of a varint and the
  skipping of a field's value.  The scan over the message is a loop that only ends because these
  functions consume input, so it is a partial function and its termination a theorem.
\<close>

section \<open>Labelled signatures\<close>

definition SIGN_LABEL_PREFIX :: string where
  "SIGN_LABEL_PREFIX = ''Air Protocol''"

definition utf8 :: "string \<Rightarrow> bytes" where
  "utf8 s = map (\<lambda>c. of_nat (of_char c)) s"

record sign_content =
  sc_label :: bytes
  sc_content :: bytes

definition SignContent_from :: "string \<Rightarrow> bytes \<Rightarrow> sign_content" where
  "SignContent_from label content = \<lparr> sc_label = utf8 (SIGN_LABEL_PREFIX @ label), sc_content = content \<rparr>"

text \<open>The derived TLS encoding: the two variable-length byte strings one after the other.\<close>

definition serialize_sign_content :: "(bytes \<Rightarrow> 'te + bytes) \<Rightarrow> sign_content \<Rightarrow> 'te + bytes" where
  "serialize_sign_content vl c =
     and_then (vl (sc_label c)) (\<lambda>l. and_then (vl (sc_content c)) (\<lambda>b. Ok (l @ b)))"

datatype signature_error = SigLibraryError | VerificationFailure

definition sign_payload :: "(bytes \<Rightarrow> 'te + bytes) \<Rightarrow> ('sk \<Rightarrow> bytes \<Rightarrow> 'se + bytes) \<Rightarrow> 'sk \<Rightarrow> string \<Rightarrow>
    'te + bytes \<Rightarrow> signature_error + bytes" where
  "sign_payload vl sign_with signing_key label unsigned_payload =
     and_then (map_err (\<lambda>_. SigLibraryError) unsigned_payload) (\<lambda>payload.
     and_then (map_err (\<lambda>_. SigLibraryError)
       (serialize_sign_content vl (SignContent_from label payload))) (\<lambda>content.
     map_err (\<lambda>_. SigLibraryError) (sign_with signing_key content)))"

definition verify_payload :: "(bytes \<Rightarrow> 'te + bytes) \<Rightarrow> ('pk \<Rightarrow> bytes \<Rightarrow> bytes \<Rightarrow> bool) \<Rightarrow> 'pk \<Rightarrow> string \<Rightarrow>
    'te + bytes \<Rightarrow> bytes \<Rightarrow> signature_error + unit" where
  "verify_payload vl verify_with key label unsigned_payload signature =
     and_then (map_err (\<lambda>_. SigLibraryError) unsigned_payload) (\<lambda>payload.
     and_then (map_err (\<lambda>_. SigLibraryError)
       (serialize_sign_content vl (SignContent_from label payload))) (\<lambda>content.
     ensure (verify_with key content signature) VerificationFailure))"


section \<open>Scanning a message\<close>

datatype wire_type = Varint | SixtyFourBit | LengthDelimited | StartGroup | EndGroup | ThirtyTwoBit

datatype decode_error = DecodeError | DuplicatePayload

record prost =
  decode_key :: "bytes \<Rightarrow> decode_error + u32 \<times> wire_type \<times> bytes"
  skip_field :: "wire_type \<Rightarrow> u32 \<Rightarrow> bytes \<Rightarrow> decode_error + bytes"
  decode_varint :: "bytes \<Rightarrow> decode_error + u64 \<times> bytes"

definition field_content :: "('z) prost_scheme \<Rightarrow> wire_type \<Rightarrow> bytes \<Rightarrow> decode_error + bytes" where
  "field_content pr wt span =
     (case wt of
        LengthDelimited \<Rightarrow>
          and_then (decode_varint pr span) (\<lambda>(len, _).
          Ok (drop (length span - unat len) span))
      | _ \<Rightarrow> Ok span)"

partial_function (option) extract_loop :: "('z) prost_scheme \<Rightarrow> bytes \<Rightarrow> u32 \<Rightarrow> bytes \<Rightarrow>
    bytes option \<Rightarrow> (decode_error + bytes option) option" where
  "extract_loop pr raw tag cur found =
     (if cur = [] then Some (Ok found)
      else case decode_key pr cur of
        Inl e \<Rightarrow> Some (Err e)
      | Inr k \<Rightarrow>
          (case skip_field pr (fst (snd k)) (fst k) (snd (snd k)) of
             Inl e \<Rightarrow> Some (Err e)
           | Inr rest \<Rightarrow>
               if fst k \<noteq> tag then extract_loop pr raw tag rest found
               else if found \<noteq> None then Some (Err DuplicatePayload)
               else
                 (case field_content pr (fst (snd k))
                     (take (length raw - length rest - (length raw - length (snd (snd k))))
                       (drop (length raw - length (snd (snd k))) raw)) of
                    Inl e \<Rightarrow> Some (Err e)
                  | Inr v \<Rightarrow> extract_loop pr raw tag rest (Some v))))"

definition extract_field :: "('z) prost_scheme \<Rightarrow> bytes \<Rightarrow> u32 \<Rightarrow> (decode_error + bytes option) option" where
  "extract_field pr raw tag = extract_loop pr raw tag raw None"


section \<open>The wrapper\<close>

record 'r signed_request =
  sr_request :: 'r
  sr_payload_bytes :: "bytes option"

definition SignedRequest_new :: "'r \<Rightarrow> bytes \<Rightarrow> 'r signed_request" where
  "SignedRequest_new request payload_bytes =
     \<lparr> sr_request = request, sr_payload_bytes = Some payload_bytes \<rparr>"

text \<open>\<^verbatim>\<open>merge\<close>: the payload is captured before the request itself is decoded.\<close>

definition SignedRequest_merge :: "('z) prost_scheme \<Rightarrow> ('r \<Rightarrow> bytes \<Rightarrow> decode_error + 'r) \<Rightarrow> u32 \<Rightarrow>
    bytes \<Rightarrow> 'r signed_request \<Rightarrow> (decode_error + 'r signed_request) option" where
  "SignedRequest_merge pr merge_request tag raw sr =
     (case extract_field pr raw tag of
        None \<Rightarrow> None
      | Some (Inl e) \<Rightarrow> Some (Err e)
      | Some (Inr found) \<Rightarrow>
          Some (and_then (case found of
              None \<Rightarrow> Ok sr
            | Some payload_bytes \<Rightarrow>
                if sr_payload_bytes sr \<noteq> None then Err DuplicatePayload
                else Ok (sr\<lparr> sr_payload_bytes := Some payload_bytes \<rparr>)) (\<lambda>sr.
            and_then (merge_request (sr_request sr) raw) (\<lambda>request.
            Ok (sr\<lparr> sr_request := request \<rparr>)))))"

definition SignedRequest_unsigned_payload :: "'r signed_request \<Rightarrow> unit + bytes" where
  "SignedRequest_unsigned_payload sr = ok_or () (sr_payload_bytes sr)"

definition SignedRequest_verify :: "(bytes \<Rightarrow> unit + bytes) \<Rightarrow> ('pk \<Rightarrow> bytes \<Rightarrow> bytes \<Rightarrow> bool) \<Rightarrow> string \<Rightarrow>
    ('r \<Rightarrow> bytes option) \<Rightarrow> 'pk \<Rightarrow> 'r signed_request \<Rightarrow> signature_error + 'r" where
  "SignedRequest_verify vl verify_with label signature key sr =
     and_then (verify_payload vl verify_with key label (SignedRequest_unsigned_payload sr)
       (unwrap_or [] (signature (sr_request sr)))) (\<lambda>_.
     Ok (sr_request sr))"


section \<open>What the protobuf library promises\<close>

text \<open>Reading a key consumes a byte at least, and skipping a value gives a suffix of the input.\<close>

definition prost_consumes :: "('z) prost_scheme \<Rightarrow> bool" where
  "prost_consumes pr =
     ((\<forall>bs t w r. decode_key pr bs = Ok (t, w, r) \<longrightarrow> length r < length bs)
      \<and> (\<forall>w t bs r. skip_field pr w t bs = Ok r \<longrightarrow> length r \<le> length bs))"

text \<open>
  The library reads back what it writes: \<open>enc_key\<close> writes a field key, and \<open>wf_value w v c\<close> says that
  \<open>v\<close> is the encoding of a value of wire type \<open>w\<close> whose content is \<open>c\<close> (for a length-delimited one
  the part after the length, otherwise the whole).
\<close>

definition prost_reads :: "('z) prost_scheme \<Rightarrow> (u32 \<Rightarrow> wire_type \<Rightarrow> bytes) \<Rightarrow>
    (wire_type \<Rightarrow> bytes \<Rightarrow> bytes \<Rightarrow> bool) \<Rightarrow> bool" where
  "prost_reads pr enc_key wf_value =
     ((\<forall>t w. enc_key t w \<noteq> [])
      \<and> (\<forall>t w r. decode_key pr (enc_key t w @ r) = Ok (t, w, r))
      \<and> (\<forall>w v c t r. wf_value w v c \<longrightarrow> skip_field pr w t (v @ r) = Ok r)
      \<and> (\<forall>w v c. wf_value w v c \<longrightarrow> field_content pr w v = Ok c))"

lemma prost_readsD:
  assumes "prost_reads pr enc_key wf_value"
  shows "enc_key t w \<noteq> []" "decode_key pr (enc_key t w @ r) = Ok (t, w, r)"
    "wf_value w v c \<Longrightarrow> skip_field pr w t (v @ r) = Ok r"
    "wf_value w v c \<Longrightarrow> field_content pr w v = Ok c"
  using assms unfolding prost_reads_def by blast+


text \<open>A length-prefixed byte string can be told apart from what follows it.\<close>

definition prefix_free :: "(bytes \<Rightarrow> 'te + bytes) \<Rightarrow> bool" where
  "prefix_free vl =
     (\<forall>a b x y s t. vl a = Ok x \<and> vl b = Ok y \<and> x @ s = y @ t \<longrightarrow> a = b \<and> s = t)"

lemma prefix_freeD:
  "prefix_free vl \<Longrightarrow> vl a = Ok x \<Longrightarrow> vl b = Ok y \<Longrightarrow> x @ s = y @ t \<Longrightarrow> a = b \<and> s = t"
  unfolding prefix_free_def by blast


section \<open>The scan\<close>

lemma extract_loop_returns:
  assumes "prost_consumes pr"
  shows "\<exists>r. extract_loop pr raw tag cur found = Some r"
proof (induction "length cur" arbitrary: cur found rule: less_induct)
  case less
  show ?case
  proof (cases "cur = [] \<or> (\<exists>e. decode_key pr cur = Inl e)")
    case True
    then show ?thesis by (subst extract_loop.simps) auto
  next
    case False
    then obtain t w r where key: "decode_key pr cur = Inr (t, w, r)" and cur: "cur \<noteq> []"
      by (cases "decode_key pr cur") auto
    show ?thesis
    proof (cases "skip_field pr w t r")
      case (Inl e)
      with key cur show ?thesis by (subst extract_loop.simps) simp
    next
      case (Inr rest)
      have "length r < length cur" "length rest \<le> length r"
        using assms key Inr unfolding prost_consumes_def by blast+
      then have "\<exists>x. extract_loop pr raw tag rest found' = Some x" for found'
        by (intro less) simp
      with key cur Inr show ?thesis by (subst extract_loop.simps) (simp split: sum.split)
    qed
  qed
qed

text \<open>A message as the list of its fields: tag, wire type, encoded value and its content.\<close>

type_synonym wire_field = "u32 \<times> wire_type \<times> bytes \<times> bytes"

definition encode_fields :: "(u32 \<Rightarrow> wire_type \<Rightarrow> bytes) \<Rightarrow> wire_field list \<Rightarrow> bytes" where
  "encode_fields enc_key fs = concat (map (\<lambda>(t, w, v, c). enc_key t w @ v) fs)"

definition contents_of :: "u32 \<Rightarrow> wire_field list \<Rightarrow> bytes list" where
  "contents_of tag fs = map (\<lambda>(t, w, v, c). c) (filter (\<lambda>(t, w, v, c). t = tag) fs)"

lemma extract_loop_fields:
  assumes reads: "prost_reads pr enc_key wf_value"
    and wf: "list_all (\<lambda>(t, w, v, c). wf_value w v c) fs"
    and raw: "raw = pre @ encode_fields enc_key fs"
  shows "extract_loop pr raw tag (encode_fields enc_key fs) found =
    Some (case contents_of tag fs of
        [] \<Rightarrow> Ok found
      | c # cs \<Rightarrow> if found = None \<and> cs = [] then Ok (Some c) else Err DuplicatePayload)"
  using wf raw
proof (induction fs arbitrary: found pre)
  case Nil
  then show ?case by (subst extract_loop.simps) (simp add: encode_fields_def contents_of_def)
next
  case (Cons f fs)
  obtain t w v c where f: "f = (t, w, v, c)" by (cases f)
  let ?rest = "encode_fields enc_key fs"
  have wf: "wf_value w v c" "list_all (\<lambda>(t, w, v, c). wf_value w v c) fs"
    using Cons.prems(1) f by auto
  have cur: "encode_fields enc_key (f # fs) = enc_key t w @ v @ ?rest"
    by (simp add: encode_fields_def f)
  have raw': "raw = (pre @ enc_key t w @ v) @ ?rest"
    using Cons.prems(2) cur by simp
  note IH = Cons.IH[OF wf(2) raw']
  have span: "take (length raw - length ?rest - (length raw - length (v @ ?rest)))
      (drop (length raw - length (v @ ?rest)) raw) = v"
    using raw' by simp
  have step: "extract_loop pr raw tag (encode_fields enc_key (f # fs)) found =
      (if t \<noteq> tag then extract_loop pr raw tag ?rest found
       else if found \<noteq> None then Some (Err DuplicatePayload)
       else extract_loop pr raw tag ?rest (Some c))"
    using span prost_readsD(1)[OF reads, of t w] prost_readsD(2)[OF reads, of t w "v @ ?rest"]
      prost_readsD(3)[OF reads wf(1), of t ?rest] prost_readsD(4)[OF reads wf(1)]
    by (subst extract_loop.simps) (simp add: cur)
  show ?case
    using IH[of found] IH[of "Some c"] unfolding step
    by (cases "contents_of tag fs") (auto simp: contents_of_def f)
qed

lemma extract_field_fields:
  assumes "prost_reads pr enc_key wf_value" "list_all (\<lambda>(t, w, v, c). wf_value w v c) fs"
  shows "extract_field pr (encode_fields enc_key fs) tag =
    Some (case contents_of tag fs of
        [] \<Rightarrow> Ok None
      | c # cs \<Rightarrow> if cs = [] then Ok (Some c) else Err DuplicatePayload)"
  using extract_loop_fields[OF assms, of "encode_fields enc_key fs" "[]" tag None]
  by (simp add: extract_field_def split: list.splits)


section \<open>Properties\<close>

text \<open>(C32) The scan for the payload always returns, whatever the bytes of the message.\<close>

theorem extract_field_terminates:
  assumes "prost_consumes pr"
  shows "\<exists>r. extract_field pr raw tag = Some r"
  unfolding extract_field_def by (rule extract_loop_returns[OF assms])


text \<open>
  A signature is bound to the type of the payload and to its bytes: the signed string of a
  label and content determines both, and a request without captured payload bytes never verifies.
\<close>

theorem signature_binds_label_and_payload:
  assumes "prefix_free vl"
    and "serialize_sign_content vl (SignContent_from l1 p1) = Ok bs"
    and "serialize_sign_content vl (SignContent_from l2 p2) = Ok bs"
  shows "l1 = l2 \<and> p1 = p2
    \<and> SignedRequest_verify vl verify_with l1 signature key \<lparr> sr_request = r, sr_payload_bytes = None \<rparr>
        = Err SigLibraryError"
proof -
  let ?u = "\<lambda>l. utf8 (SIGN_LABEL_PREFIX @ l)"
  from assms(2,3) obtain a b c d where
    vl: "vl (?u l1) = Ok a" "vl p1 = Ok b" "vl (?u l2) = Ok c" "vl p2 = Ok d" and eq: "a @ b = c @ d"
    by (auto simp: serialize_sign_content_def SignContent_from_def result_simps)
  have labels: "?u l1 = ?u l2" and bd: "b @ [] = d @ []"
    using prefix_freeD[OF assms(1) vl(1,3) eq] by auto
  have "p1 = p2" using prefix_freeD[OF assms(1) vl(2,4) bd] by simp
  moreover have "inj (\<lambda>c. of_nat (of_char c) :: u8)"
  proof (rule injI)
    fix c d :: char
    assume "of_nat (of_char c) = (of_nat (of_char d) :: u8)"
    then have "(of_char c :: nat) mod 256 = of_char d mod 256"
      by (simp add: word_unat_eq_iff unat_of_nat)
    then show "c = d" by (simp add: nat_of_char_less_256 inj_eq)
  qed
  then have "l1 = l2"
    using labels by (simp add: utf8_def inj_map_eq_map)
  ultimately show ?thesis
    by (simp add: SignedRequest_verify_def verify_payload_def SignedRequest_unsigned_payload_def)
qed


section \<open>Witnesses\<close>

text \<open>
  A wire format with a byte for the wire type and four for the tag; a length-delimited value has one
  byte of length, the values of the other wire types are empty.
\<close>

definition tiny_enc_key :: "u32 \<Rightarrow> wire_type \<Rightarrow> bytes" where
  "tiny_enc_key t w = (case w of Varint \<Rightarrow> 0 | SixtyFourBit \<Rightarrow> 1 | LengthDelimited \<Rightarrow> 2
     | StartGroup \<Rightarrow> 3 | EndGroup \<Rightarrow> 4 | ThirtyTwoBit \<Rightarrow> 5) # be_bytes 4 (unat t)"

definition tiny_decode_key :: "bytes \<Rightarrow> decode_error + u32 \<times> wire_type \<times> bytes" where
  "tiny_decode_key bs =
     (if length bs < 5 then Err DecodeError
      else Ok (of_nat (from_be_bytes (take 4 (tl bs))),
        (if hd bs = 0 then Varint else if hd bs = 1 then SixtyFourBit else if hd bs = 2 then LengthDelimited
         else if hd bs = 3 then StartGroup else if hd bs = 4 then EndGroup else ThirtyTwoBit),
        drop 5 bs))"

definition tiny_prost :: prost where
  "tiny_prost = \<lparr> decode_key = tiny_decode_key,
     skip_field = (\<lambda>w t bs. if w = LengthDelimited
       then (case bs of [] \<Rightarrow> Err DecodeError | n # r \<Rightarrow> if length r < unat n then Err DecodeError
               else Ok (drop (unat n) r))
       else Ok bs),
     decode_varint = (\<lambda>bs. case bs of [] \<Rightarrow> Err DecodeError | n # r \<Rightarrow> Ok (of_nat (unat n), r)) \<rparr>"

definition tiny_wf_value :: "wire_type \<Rightarrow> bytes \<Rightarrow> bytes \<Rightarrow> bool" where
  "tiny_wf_value w v c = (if w = LengthDelimited then v = of_nat (length c) # c \<and> length c < 256
     else v = [] \<and> c = [])"

lemma tiny_prost_consumes: "prost_consumes tiny_prost"
  by (auto simp: prost_consumes_def tiny_prost_def tiny_decode_key_def split: list.splits if_splits)

lemma tiny_prost_reads: "prost_reads tiny_prost tiny_enc_key tiny_wf_value"
proof -
  have key: "tiny_decode_key (tiny_enc_key t w @ r) = Ok (t, w, r)" for t w r
  proof -
    have "from_be_bytes (be_bytes 4 (unat t)) = unat t"
      by (rule from_be_be_bytes) simp
    then show ?thesis
      by (cases w) (simp_all add: tiny_decode_key_def tiny_enc_key_def)
  qed
  have byte: "unat (ucast b :: u64) = unat b" for b :: u8
    by (simp add: unsigned_ucast_eq take_bit_nat_eq_self_iff) (rule order.strict_trans[OF unat_u8_bound], simp)
  have "field_content tiny_prost w v = Ok c" if "tiny_wf_value w v c" for w v c
    using that by (cases w) (simp_all add: tiny_wf_value_def field_content_def tiny_prost_def byte unat_of_nat)
  moreover have "skip_field tiny_prost w t (v @ r) = Ok r" if "tiny_wf_value w v c" for w v c t r
    using that by (cases w) (simp_all add: tiny_wf_value_def tiny_prost_def unat_of_nat)
  moreover have "tiny_enc_key t w \<noteq> []" for t w by (simp add: tiny_enc_key_def)
  moreover have "decode_key tiny_prost (tiny_enc_key t w @ r) = Ok (t, w, r)" for t w r
    using key by (simp add: tiny_prost_def)
  ultimately show ?thesis unfolding prost_reads_def by blast
qed

theorem extract_field_terminates_witness:
  "prost_consumes tiny_prost \<and> (\<exists>r. extract_field tiny_prost [2, 0, 0, 0, 1, 1, 9, 255] 1 = Some r)"
  using tiny_prost_consumes extract_field_terminates[OF tiny_prost_consumes] by blast


definition tiny_vl :: "bytes \<Rightarrow> unit + bytes" where
  "tiny_vl bs = (if length bs < 256 then Ok (of_nat (length bs) # bs) else Err ())"

lemma tiny_vl_prefix_free: "prefix_free tiny_vl"
proof -
  have "a = b \<and> s = t" if "tiny_vl a = Ok x" "tiny_vl b = Ok y" "x @ s = y @ t" for a b x y s t
  proof -
    from that have len: "length a < 256" "length b < 256"
      and eq: "(of_nat (length a) :: u8) # a @ s = of_nat (length b) # b @ t"
      by (auto simp: tiny_vl_def split: if_splits)
    from eq have "unat (of_nat (length a) :: u8) = unat (of_nat (length b) :: u8)" by simp
    with len have "length a = length b" by (simp add: unat_of_nat)
    with eq show ?thesis by simp
  qed
  then show ?thesis unfolding prefix_free_def by blast
qed

theorem signature_binds_label_and_payload_witness:
  "SignedRequest_verify tiny_vl (\<lambda>k m s. True) ''A'' (\<lambda>r. None) ()
     \<lparr> sr_request = (), sr_payload_bytes = None \<rparr> = Err SigLibraryError"
proof -
  have "serialize_sign_content tiny_vl (SignContent_from ''A'' [1])
      = Ok (13 # utf8 ''Air ProtocolA'' @ [1, 1])"
    by (simp add: serialize_sign_content_def SignContent_from_def SIGN_LABEL_PREFIX_def utf8_def tiny_vl_def)
  from signature_binds_label_and_payload[OF tiny_vl_prefix_free this this, THEN conjunct2, THEN conjunct2]
  show ?thesis .
qed

end
