(* ===== verification/Rate_Limiter.thy ===== *)
theory Rate_Limiter
  imports Air_Prelude
begin

text \<open>
  The rate limiter of \<^verbatim>\<open>backend/src/rate_limiter\<close>: allowances with a counter and a window
  (\<^verbatim>\<open>mod.rs\<close>), the storage interface the limiter is generic in, its in-memory implementation
  (the test module of \<^verbatim>\<open>mod.rs\<close>) and its Postgres implementation (\<^verbatim>\<open>provider.rs\<close>) over the table
  \<^verbatim>\<open>allowance_record\<close>, whose primary key is \<^verbatim>\<open>key_value\<close>.

  The storage interface is the locale \<open>allowance_storage\<close>.  Its law, that a lookup after a
  \<^verbatim>\<open>set\<close> returns what was set, is what makes the limit hold; the in-memory storage is an
  interpretation.  The Postgres storage breaks the law on the second \<^verbatim>\<open>set\<close> of a key.

  The clock is an argument: each read of \<^verbatim>\<open>Utc::now()\<close> in the code is one component of
  \<open>readings\<close>.  SHA-256 and \<^verbatim>\<open>round_subsecs\<close> are third-party functions and arguments too.  A failed
  database connection is not modelled.
\<close>

section \<open>Keys\<close>

text \<open>What is hashed: every part after its length as a big-endian \<^verbatim>\<open>u32\<close>.\<close>

definition rl_key_part :: "bytes \<Rightarrow> bytes" where
  "rl_key_part part = be_bytes 4 (length part mod 2 ^ 32) @ part"

definition rl_key_input :: "bytes \<Rightarrow> bytes \<Rightarrow> bytes list \<Rightarrow> bytes" where
  "rl_key_input service_name rpc_name custom =
     concat (map rl_key_part ([service_name, rpc_name] @ custom))"

definition RlKey_new :: "(bytes \<Rightarrow> bytes) \<Rightarrow> bytes \<Rightarrow> bytes \<Rightarrow> bytes list \<Rightarrow> bytes" where
  "RlKey_new sha256 service_name rpc_name custom = sha256 (rl_key_input service_name rpc_name custom)"


section \<open>Allowances\<close>

record rl_config =
  max_requests :: u64
  time_window :: duration

record allowance =
  remaining :: u64
  valid_until :: time

text \<open>The clock readings one request makes: on creation, on the expiry check, on the reset.\<close>

record readings =
  now_new :: time
  now_check :: time
  now_reset :: time

definition Allowance_new :: "(time \<Rightarrow> time) \<Rightarrow> time \<Rightarrow> rl_config \<Rightarrow> allowance" where
  "Allowance_new round_subsecs now config =
     \<lparr> remaining = max_requests config, valid_until = round_subsecs now + time_window config \<rparr>"

definition Allowance_reset :: "time \<Rightarrow> rl_config \<Rightarrow> allowance \<Rightarrow> allowance" where
  "Allowance_reset now config a =
     a\<lparr> remaining := max_requests config, valid_until := now + time_window config \<rparr>"

definition Allowance_allowed :: "readings \<Rightarrow> rl_config \<Rightarrow> allowance \<Rightarrow> bool \<times> allowance" where
  "Allowance_allowed clock config a =
     (let a = (if valid_until a < now_check clock then Allowance_reset (now_reset clock) config a
               else a)
      in if remaining a = 0 then (False, a)
         else (True, a\<lparr> remaining := remaining a - 1 \<rparr>))"


section \<open>The limiter over a storage\<close>

definition RateLimiter_allowed ::
    "('s \<Rightarrow> 'k \<Rightarrow> allowance option) \<Rightarrow> ('k \<Rightarrow> allowance \<Rightarrow> 's \<Rightarrow> 's) \<Rightarrow> (time \<Rightarrow> time) \<Rightarrow>
     rl_config \<Rightarrow> 'k \<Rightarrow> readings \<Rightarrow> 's \<Rightarrow> bool \<times> 's" where
  "RateLimiter_allowed get set_allowance round_subsecs config key clock storage =
     (let a = (case get storage key of Some a \<Rightarrow> a
               | None \<Rightarrow> Allowance_new round_subsecs (now_new clock) config);
          (ok, a') = Allowance_allowed clock config a
      in if ok then (True, set_allowance key a' storage) else (False, storage))"

text \<open>A sequence of requests for one key: the decisions and the final storage.\<close>

fun RateLimiter_run ::
    "('s \<Rightarrow> 'k \<Rightarrow> allowance option) \<Rightarrow> ('k \<Rightarrow> allowance \<Rightarrow> 's \<Rightarrow> 's) \<Rightarrow> (time \<Rightarrow> time) \<Rightarrow>
     rl_config \<Rightarrow> 'k \<Rightarrow> readings list \<Rightarrow> 's \<Rightarrow> bool list \<times> 's" where
  "RateLimiter_run get set_allowance rnd config key [] s = ([], s)"
| "RateLimiter_run get set_allowance rnd config key (c # cs) s =
     (let (ok, s') = RateLimiter_allowed get set_allowance rnd config key c s;
          (oks, s'') = RateLimiter_run get set_allowance rnd config key cs s'
      in (ok # oks, s''))"

lemma Allowance_allowed_in_window:
  "now_check c \<le> valid_until a \<Longrightarrow>
   Allowance_allowed c config a =
     (if remaining a = 0 then (False, a) else (True, a\<lparr> remaining := remaining a - 1 \<rparr>))"
  by (simp add: Allowance_allowed_def)

lemma Allowance_new_allowed:
  "max_requests config \<noteq> 0 \<Longrightarrow>
   \<exists>a. Allowance_allowed c config (Allowance_new rnd t config) = (True, a)
     \<and> remaining a = max_requests config - 1"
  by (auto simp: Allowance_allowed_def Allowance_new_def Allowance_reset_def)

lemma unat_pred_u64: "(w :: u64) \<noteq> 0 \<Longrightarrow> unat (w - 1) = unat w - 1"
  by (simp add: unat_minus_one)


section \<open>The storage contract\<close>

locale allowance_storage =
  fixes load_allowance :: "'s \<Rightarrow> 'k \<Rightarrow> allowance option"
    and store_allowance :: "'k \<Rightarrow> allowance \<Rightarrow> 's \<Rightarrow> 's"
  assumes load_store:
    "load_allowance (store_allowance k a s) k' = (if k' = k then Some a else load_allowance s k')"
begin

text \<open>A stored allowance that has not expired grants exactly what it has left.\<close>

lemma run_stored:
  assumes "load_allowance s key = Some a" "\<forall>c \<in> set cs. now_check c \<le> valid_until a"
  shows "fst (RateLimiter_run load_allowance store_allowance rnd config key cs s) =
    replicate (min (length cs) (unat (remaining a))) True
    @ replicate (length cs - unat (remaining a)) False"
  using assms
proof (induction cs arbitrary: s a)
  case Nil
  then show ?case by simp
next
  case (Cons c cs)
  show ?case
  proof (cases "remaining a = 0")
    case True
    with Cons show ?thesis
      by (simp add: RateLimiter_allowed_def Allowance_allowed_in_window Let_def case_prod_beta)
  next
    case False
    let ?a = "a\<lparr> remaining := remaining a - 1 \<rparr>"
    have "fst (RateLimiter_run load_allowance store_allowance rnd config key cs
        (store_allowance key ?a s)) =
      replicate (min (length cs) (unat (remaining ?a))) True
      @ replicate (length cs - unat (remaining ?a)) False"
      using Cons.prems by (intro Cons.IH) (auto simp: load_store)
    moreover obtain n where "unat (remaining a) = Suc n"
      using False by (metis not0_implies_Suc unat_eq_0)
    ultimately show ?thesis
      using Cons.prems False
      by (simp add: RateLimiter_allowed_def Allowance_allowed_in_window Let_def unat_pred_u64
          case_prod_beta)
  qed
qed

lemma run_fresh:
  assumes "load_allowance s key = None"
    and "\<forall>c' \<in> set (c # cs). now_check c' \<le> rnd (now_new c) + time_window config"
  shows "fst (RateLimiter_run load_allowance store_allowance rnd config key (c # cs) s) =
    replicate (min (length (c # cs)) (unat (max_requests config))) True
    @ replicate (length (c # cs) - unat (max_requests config)) False"
proof (cases "max_requests config = 0")
  case True
  from assms(2) have "fst (RateLimiter_run load_allowance store_allowance rnd config key (c # cs) s)
      = False # fst (RateLimiter_run load_allowance store_allowance rnd config key cs s)"
    using assms(1) True
    by (simp add: RateLimiter_allowed_def Allowance_allowed_def Allowance_new_def
        Allowance_reset_def Let_def case_prod_beta)
  moreover have "fst (RateLimiter_run load_allowance store_allowance rnd config key cs s)
      = replicate (length cs) False" for cs
    using assms(1) True
    by (induction cs) (simp_all add: RateLimiter_allowed_def Allowance_allowed_def
        Allowance_new_def Allowance_reset_def Let_def case_prod_beta)
  ultimately show ?thesis using True by simp
next
  case False
  let ?a = "(Allowance_new rnd (now_new c) config)\<lparr> remaining := max_requests config - 1 \<rparr>"
  have "RateLimiter_allowed load_allowance store_allowance rnd config key c s
      = (True, store_allowance key ?a s)"
    using assms False
    by (simp add: RateLimiter_allowed_def Allowance_allowed_def Allowance_new_def Let_def)
  moreover have "fst (RateLimiter_run load_allowance store_allowance rnd config key cs
      (store_allowance key ?a s)) =
    replicate (min (length cs) (unat (remaining ?a))) True
    @ replicate (length cs - unat (remaining ?a)) False"
    using assms(2) by (intro run_stored) (auto simp: load_store Allowance_new_def)
  moreover obtain n where "unat (max_requests config) = Suc n"
    using False by (metis not0_implies_Suc unat_eq_0)
  ultimately show ?thesis
    using False by (simp add: unat_pred_u64 case_prod_beta)
qed

end


section \<open>The in-memory storage\<close>

type_synonym 'k in_memory_storage = "'k \<rightharpoonup> allowance"

definition InMemoryStorage_get :: "'k in_memory_storage \<Rightarrow> 'k \<Rightarrow> allowance option" where
  "InMemoryStorage_get data key = data key"

definition InMemoryStorage_set :: "'k \<Rightarrow> allowance \<Rightarrow> 'k in_memory_storage \<Rightarrow> 'k in_memory_storage" where
  "InMemoryStorage_set key a data = data(key \<mapsto> a)"

interpretation in_memory: allowance_storage InMemoryStorage_get InMemoryStorage_set
  by unfold_locales (simp add: InMemoryStorage_get_def InMemoryStorage_set_def)


section \<open>The Postgres storage\<close>

text \<open>A row of \<^verbatim>\<open>allowance_record\<close>: \<^verbatim>\<open>bigint\<close> is a signed 64-bit integer.\<close>

record allowance_row =
  row_remaining :: int
  row_valid_until :: time

type_synonym 'k allowance_record = "'k \<rightharpoonup> allowance_row"

datatype pg_error = UniqueViolation

definition Allowance_load :: "'k allowance_record \<Rightarrow> 'k \<Rightarrow> allowance option" where
  "Allowance_load table key =
     map_option (\<lambda>r. \<lparr> remaining = word_of_int (row_remaining r), valid_until = row_valid_until r \<rparr>)
       (table key)"

text \<open>A plain \<^verbatim>\<open>INSERT\<close>: a second row for a primary key is an error and changes nothing.\<close>

definition Allowance_store :: "(time \<Rightarrow> time) \<Rightarrow> 'k \<Rightarrow> allowance \<Rightarrow> 'k allowance_record \<Rightarrow>
    pg_error + 'k allowance_record" where
  "Allowance_store round_subsecs key a table =
     (case table key of
        Some _ \<Rightarrow> Err UniqueViolation
      | None \<Rightarrow> Ok (table(key \<mapsto> \<lparr> row_remaining = sint (remaining a),
                                  row_valid_until = round_subsecs (valid_until a) \<rparr>)))"

definition Allowance_delete_expired :: "time \<Rightarrow> 'k allowance_record \<Rightarrow> 'k allowance_record" where
  "Allowance_delete_expired now table =
     (\<lambda>key. case table key of Some r \<Rightarrow> (if row_valid_until r < now then None else Some r)
            | None \<Rightarrow> None)"

definition RlPostgresStorage_get :: "'k allowance_record \<Rightarrow> 'k \<Rightarrow> allowance option" where
  "RlPostgresStorage_get table key = Allowance_load table key"

text \<open>An error of the store is logged and dropped.\<close>

definition RlPostgresStorage_set :: "(time \<Rightarrow> time) \<Rightarrow> 'k \<Rightarrow> allowance \<Rightarrow> 'k allowance_record \<Rightarrow>
    'k allowance_record" where
  "RlPostgresStorage_set round_subsecs key a table =
     (case Allowance_store round_subsecs key a table of Ok table' \<Rightarrow> table' | Err _ \<Rightarrow> table)"

lemma load_stored_row:
  "table key = None \<Longrightarrow> round_subsecs (valid_until a) = valid_until a \<Longrightarrow>
   Allowance_load (RlPostgresStorage_set round_subsecs key a table) key = Some a"
  by (simp add: Allowance_load_def RlPostgresStorage_set_def Allowance_store_def)

lemma set_existing_row:
  "table key = Some r \<Longrightarrow> RlPostgresStorage_set round_subsecs key a table = table"
  by (simp add: RlPostgresStorage_set_def Allowance_store_def)

text \<open>A row that still has a request left is never touched again and always grants one.\<close>

lemma pg_run_existing_row:
  assumes "table key = Some r" "word_of_int (row_remaining r) \<noteq> (0 :: u64)" "max_requests config \<noteq> 0"
  shows "RateLimiter_run RlPostgresStorage_get (RlPostgresStorage_set rnd) rnd' config key cs table
    = (replicate (length cs) True, table)"
  using assms
  by (induction cs) (simp_all add: RateLimiter_allowed_def Allowance_allowed_def
      RlPostgresStorage_get_def Allowance_load_def Allowance_reset_def set_existing_row Let_def)


section \<open>Key inputs are unambiguous\<close>

definition part_fits :: "bytes \<Rightarrow> bool" where
  "part_fits part = (length part < 2 ^ 32)"

lemma rl_key_part_inject:
  assumes "part_fits p" "part_fits q" "rl_key_part p @ rest = rl_key_part q @ rest'"
  shows "p = q \<and> rest = rest'"
proof -
  have less: "length p < 256 ^ 4" "length q < 256 ^ 4" using assms(1,2) by (simp_all add: part_fits_def)
  have "be_bytes 4 (length p) @ p @ rest = be_bytes 4 (length q) @ q @ rest'"
    using assms by (simp add: rl_key_part_def part_fits_def)
  then have "be_bytes 4 (length p) = be_bytes 4 (length q)" and eq: "p @ rest = q @ rest'"
    by simp_all
  then have "length p = length q"
    using less by (metis from_be_be_bytes)
  with eq show ?thesis by simp
qed

lemma rl_key_parts_inject:
  "list_all part_fits ps \<Longrightarrow> list_all part_fits qs \<Longrightarrow>
   concat (map rl_key_part ps) = concat (map rl_key_part qs) \<Longrightarrow> ps = qs"
proof (induction ps arbitrary: qs)
  case Nil
  then show ?case by (cases qs) (auto simp: rl_key_part_def dest: arg_cong[where f = length])
next
  case (Cons p ps)
  then obtain q qs' where qs: "qs = q # qs'"
    by (cases qs) (auto simp: rl_key_part_def dest: arg_cong[where f = length])
  then have "p = q \<and> concat (map rl_key_part ps) = concat (map rl_key_part qs')"
    using Cons.prems by (intro rl_key_part_inject) auto
  with Cons qs show ?case by simp
qed


section \<open>Properties\<close>

text \<open>
  (C22) Within one window a limiter over the in-memory storage grants exactly the first
  \<^verbatim>\<open>max_requests\<close> requests for a fresh key and refuses all later ones, whatever the order and
  spacing of the requests.
\<close>

theorem rate_limit_enforced:
  assumes "InMemoryStorage_get storage key = None"
    and "\<forall>c' \<in> set (c # cs). now_check c' \<le> rnd (now_new c) + time_window config"
  shows "fst (RateLimiter_run InMemoryStorage_get InMemoryStorage_set rnd config key (c # cs) storage) =
    replicate (min (length (c # cs)) (unat (max_requests config))) True
    @ replicate (length (c # cs) - unat (max_requests config)) False"
  using assms by (rule in_memory.run_fresh)

theorem rate_limit_enforced_witness:
  "fst (RateLimiter_run InMemoryStorage_get InMemoryStorage_set id
      \<lparr> max_requests = 2, time_window = 100 \<rparr> ''k''
      [\<lparr> now_new = 0, now_check = 1, now_reset = 2 \<rparr>, \<lparr> now_new = 10, now_check = 11, now_reset = 12 \<rparr>,
       \<lparr> now_new = 20, now_check = 21, now_reset = 22 \<rparr>] Map.empty) = [True, True, False]"
  by (subst rate_limit_enforced)
     (simp_all add: InMemoryStorage_get_def)

text \<open>
  (C23) Over the Postgres storage the limiter never refuses: with a limit of at least two, every
  request of every sequence is granted, at any times, because the first grant inserts the row
  and every later \<^verbatim>\<open>INSERT\<close> for the key violates the primary key and is dropped, so the counter
  never falls below one less than the limit.
\<close>

theorem pg_rate_limit_never_refuses:
  assumes "2 \<le> max_requests config" "table key = None"
  shows "fst (RateLimiter_run RlPostgresStorage_get (RlPostgresStorage_set rnd) rnd config key cs table)
    = replicate (length cs) True"
proof (cases cs)
  case Nil
  then show ?thesis by simp
next
  case (Cons c cs')
  have max: "max_requests config \<noteq> 0" "max_requests config - 1 \<noteq> 0"
    using assms(1) by (auto simp: word_le_nat_alt)
  obtain a where a: "Allowance_allowed c config (Allowance_new rnd (now_new c) config) = (True, a)"
      "remaining a = max_requests config - 1"
    using Allowance_new_allowed[OF max(1)] by blast
  let ?r = "\<lparr> row_remaining = sint (remaining a), row_valid_until = rnd (valid_until a) \<rparr>"
  have "RateLimiter_allowed RlPostgresStorage_get (RlPostgresStorage_set rnd) rnd config key c table
      = (True, table(key \<mapsto> ?r))"
    using assms(2) a(1)
    by (simp add: RateLimiter_allowed_def RlPostgresStorage_get_def Allowance_load_def
        RlPostgresStorage_set_def Allowance_store_def)
  moreover have "RateLimiter_run RlPostgresStorage_get (RlPostgresStorage_set rnd) rnd config key cs'
      (table(key \<mapsto> ?r)) = (replicate (length cs') True, table(key \<mapsto> ?r))"
    using max a(2) by (intro pg_run_existing_row[where r = ?r]) simp_all
  ultimately show ?thesis using Cons by simp
qed

theorem pg_rate_limit_never_refuses_witness:
  "fst (RateLimiter_run RlPostgresStorage_get (RlPostgresStorage_set id) id
      \<lparr> max_requests = 100, time_window = 3600 \<rparr> ''k''
      (replicate 1000 \<lparr> now_new = 0, now_check = 0, now_reset = 0 \<rparr>) Map.empty) = replicate 1000 True"
  using pg_rate_limit_never_refuses[where config = "\<lparr> max_requests = 100, time_window = 3600 \<rparr>"
      and table = Map.empty and key = "''k''" and rnd = id
      and cs = "replicate 1000 \<lparr> now_new = 0, now_check = 0, now_reset = 0 \<rparr>"]
  by (simp only: length_replicate) simp

text \<open>
  The byte string hashed into a rate-limit key determines the service name, the method name
  and every custom part: no two different requests share a hash input, even when the
  concatenations of their parts agree.
\<close>

theorem rl_key_input_injective:
  assumes "list_all part_fits (s # r # c)" "list_all part_fits (s' # r' # c')"
  shows "(rl_key_input s r c = rl_key_input s' r' c') = (s = s' \<and> r = r' \<and> c = c')"
  using rl_key_parts_inject[OF assms] by (auto simp: rl_key_input_def)

theorem rl_key_input_injective_witness:
  "rl_key_input [1] [2, 3] [] \<noteq> rl_key_input [1, 2] [3] []"
  by (subst rl_key_input_injective) (simp_all add: part_fits_def)

end
