(* ===== verification/Ds_Service.thy ===== *)
theory Ds_Service
  imports Ds_Invariant Collision_Tags Signed_Request Rate_Limiter
begin

text \<open>
  The delivery service around a group state: its database and memory, loading and storing of states,
  the fan-out, and the frame every changing request runs in (\<^verbatim>\<open>backend/src/ds/grpc.rs\<close> up to the
  handlers, \<^verbatim>\<open>mod.rs\<close>, \<^verbatim>\<open>process.rs\<close>, \<^verbatim>\<open>group_state/persistence.rs\<close>, \<^verbatim>\<open>version.rs\<close>, and the status
  conversions of \<^verbatim>\<open>errors/mod.rs\<close>).

  The state has the tables the service writes, the reserved group ids it holds in memory, and the
  messages handed to the queueing service.  Which database calls of a request succeed, its random
  nonces, fresh ids and its clock reading are the argument \<open>io\<close>.  Requests run one after the other:
  the row lock taken on loading keeps two updates of a group apart.
\<close>

section \<open>Parameters\<close>

record qualified_group_id =
  qg_uuid :: uuid
  qg_domain :: string

text \<open>
  The configuration of the service and the third-party code it calls beyond that of a group state:
  the derived TLS codec of a qualified group id and of a client credential (user id and verifying
  key), the signature scheme, the version requirement with the semver library's test, the encoding of
  ratchet trees, group infos and room states for responses, the authentication service's lookup of a
  user's verifying key, and the hash and rounding of the rate limiter.
\<close>

record ('pg, 'rt, 'rs) ds_service = "('pg, 'rt, 'rs) ds_env" +
  sv_own_domain :: string
  sv_qgid_de :: "group_id \<Rightarrow> unit + qualified_group_id"
  sv_qgid_ser :: "qualified_group_id \<Rightarrow> group_id"
  sv_client_credential :: "bytes \<Rightarrow> unit + user_id \<times> bytes"
  sv_vl :: "bytes \<Rightarrow> unit + bytes"
  sv_verify_signature :: "bytes \<Rightarrow> bytes \<Rightarrow> bytes \<Rightarrow> bool"
  sv_version_req :: "string option"
  sv_version_matches :: "string \<Rightarrow> bool"
  sv_tree_out :: "'rt \<Rightarrow> unit + bytes"
  sv_group_info_out :: "group_info \<Rightarrow> unit + bytes"
  sv_room_out :: "bytes \<Rightarrow> unit + bytes"
  sv_as_verifying_key :: "user_id \<Rightarrow> unit + bytes option"
  sv_sha256 :: "bytes \<Rightarrow> bytes"
  sv_round :: "time \<Rightarrow> time"

record ds_io =
  io_acquire :: bool
  io_begin :: bool
  io_load :: bool
  io_load_pq :: bool
  io_update :: bool
  io_update_pq :: bool
  io_store :: bool
  io_store_pq :: bool
  io_commit :: bool
  io_cleanup :: bool
  io_dispatch :: bool
  io_tags :: collision_io
  io_nonce :: "bytes option"
  io_nonce_pq :: "bytes option"
  io_uuids :: "uuid list"
  io_now :: time
  io_clock :: readings


section \<open>State\<close>

record group_row =
  gr_ciphertext :: aead_ciphertext
  gr_last_used :: time
  gr_deleted_queues :: "bytes list"

record ds_state =
  db_groups :: "uuid \<rightharpoonup> group_row"
  db_tags :: collision_table
  db_allowances :: "bytes allowance_record"
  reserved_group_ids :: "uuid set"
  sent :: "ds_fan_out_message list"

text \<open>What a rolled-back transaction takes back: only group rows are written inside one.\<close>

definition restore_db :: "ds_state \<Rightarrow> ds_state \<Rightarrow> ds_state" where
  "restore_db old new = new\<lparr> db_groups := db_groups old \<rparr>"

definition group_store :: "uuid \<Rightarrow> group_row \<Rightarrow> ds_state \<Rightarrow> ds_state" where
  "group_store group_id row s =
     (if db_groups s group_id = None then s\<lparr> db_groups := (db_groups s)(group_id \<mapsto> row) \<rparr> else s)"

definition group_update :: "uuid \<Rightarrow> group_row \<Rightarrow> ds_state \<Rightarrow> ds_state" where
  "group_update group_id row s =
     (if db_groups s group_id = None then s else s\<lparr> db_groups := (db_groups s)(group_id \<mapsto> row) \<rparr>)"

text \<open>\<^verbatim>\<open>DELETE\<close> with the cascade to the collision tags; no handler calls it.\<close>

definition group_delete :: "uuid \<Rightarrow> ds_state \<Rightarrow> ds_state" where
  "group_delete group_id s = s\<lparr> db_groups := (db_groups s)(group_id := None),
     db_tags := {(g, e, t) \<in> db_tags s. g \<noteq> group_id} \<rparr>"

definition new_and_store :: "bool \<Rightarrow> time \<Rightarrow> uuid \<Rightarrow> aead_ciphertext \<Rightarrow> (ds_state, unit) action" where
  "new_and_store ok now group_id ct =
     andThen (try_with (ensure ok internal)) (\<lambda>_.
     modify_with (group_store group_id
       \<lparr> gr_ciphertext = ct, gr_last_used = now, gr_deleted_queues = [] \<rparr>))"


section \<open>Reserved group ids\<close>

definition reserve_group_id :: "uuid \<Rightarrow> ds_state \<Rightarrow> bool \<times> ds_state" where
  "reserve_group_id group_id s =
     (group_id \<notin> reserved_group_ids s,
      s\<lparr> reserved_group_ids := insert group_id (reserved_group_ids s) \<rparr>)"

definition claim_reserved_group_id :: "uuid \<Rightarrow> ds_state \<Rightarrow> uuid option \<times> ds_state" where
  "claim_reserved_group_id group_id s =
     (if group_id \<in> reserved_group_ids s
      then (Some group_id, s\<lparr> reserved_group_ids := reserved_group_ids s - {group_id} \<rparr>)
      else (None, s))"

text \<open>
  The loop draws random ids until one is not reserved.  The draws are a list; the result is
  \<open>None\<close> if none of them is free.
\<close>

fun request_uuid :: "uuid list \<Rightarrow> ds_state \<Rightarrow> (uuid \<times> uuid list \<times> ds_state) option" where
  "request_uuid [] s = None"
| "request_uuid (u # us) s =
     (case reserve_group_id u s of
        (True, s') \<Rightarrow> Some (u, us, s')
      | (False, s') \<Rightarrow> request_uuid us s')"

definition ds_request_group_id :: "('pg, 'rt, 'rs, 'z) ds_service_scheme \<Rightarrow> uuid list \<Rightarrow> ds_state \<Rightarrow>
    (qualified_group_id \<times> uuid list \<times> ds_state) option" where
  "ds_request_group_id sv us s =
     map_option (\<lambda>(u, us, s). (\<lparr> qg_uuid = u, qg_domain = sv_own_domain sv \<rparr>, us, s)) (request_uuid us s)"


section \<open>Status conversions\<close>

definition wrong_epoch_status :: status where
  "wrong_epoch_status = status_with_details InvalidArgument WrongEpochCode WrongEpochDetail"

fun accept_status :: "accept_error \<Rightarrow> status" where
  "accept_status Todo = panicked"
| "accept_status (MergeCommit _) = internal"

fun group_operation_status :: "group_operation_error \<Rightarrow> status" where
  "group_operation_status GoMissingQueueConfig = invalid_argument"
| "group_operation_status GoIncompleteWelcome = invalid_argument"
| "group_operation_status GoWrongEpoch = wrong_epoch_status"
| "group_operation_status (GoMergeCommitError e) = accept_status e"
| "group_operation_status _ = internal"

fun join_connection_group_status :: "join_connection_group_error \<Rightarrow> status" where
  "join_connection_group_status JcProcessingError = internal"
| "join_connection_group_status (JcMergeCommitError e) = accept_status e"
| "join_connection_group_status _ = invalid_argument"

fun group_deletion_status :: "group_deletion_error \<Rightarrow> status" where
  "group_deletion_status GdInvalidMessage = invalid_argument"
| "group_deletion_status GdProcessingError = internal"
| "group_deletion_status (GdMergeCommitError e) = accept_status e"

fun self_removal_status :: "client_self_removal_error \<Rightarrow> status" where
  "self_removal_status SrInvalidMessage = invalid_argument"
| "self_removal_status SrProcessingError = internal"
| "self_removal_status SrWrongEpoch = wrong_epoch_status"
| "self_removal_status (SrMergeCommitError e) = accept_status e"

fun resync_status :: "resync_client_error \<Rightarrow> status" where
  "resync_status RsInvalidMessage = invalid_argument"
| "resync_status RsProcessingError = internal"
| "resync_status (RsMergeCommitError e) = accept_status e"

fun update_profile_key_status :: "update_user_profile_key_error \<Rightarrow> status" where
  "update_profile_key_status UpkUnknownSender = invalid_argument"

fun decryption_status :: "ds_group_state_decryption_error \<Rightarrow> status" where
  "decryption_status MissingGroupPanic = panicked"
| "decryption_status _ = internal"

text \<open>The client metadata is its version field.\<close>

definition verify_client_version :: "('pg, 'rt, 'rs, 'z) ds_service_scheme \<Rightarrow> string field option \<Rightarrow>
    status + string option" where
  "verify_client_version sv client_metadata =
     verify_version (sv_version_req sv) (sv_version_matches sv) client_metadata"


section \<open>Loading and storing\<close>

definition load_group_state :: "('pg, 'rt, 'rs, 'z) ds_service_scheme \<Rightarrow> bool \<Rightarrow> qualified_group_id \<Rightarrow>
    ear_key \<Rightarrow> (ds_state, group_row \<times> ('pg, 'rt, 'rs) ds_group_state) action" where
  "load_group_state sv ok qgid ear_key =
     andThen (try_with (ensure ok internal)) (\<lambda>_.
     andThen (read_with (\<lambda>s. db_groups s (qg_uuid qgid))) (\<lambda>row.
     andThen (try_with (ok_or not_found row)) (\<lambda>group_data.
     andThen (try_with (map_err decryption_status (ds_decrypt sv ear_key (gr_ciphertext group_data))))
       (\<lambda>group_state.
     return_with (group_data, group_state)))))"

definition load_group_state_immutable :: "('pg, 'rt, 'rs, 'z) ds_service_scheme \<Rightarrow> ds_io \<Rightarrow>
    qualified_group_id \<Rightarrow> ear_key \<Rightarrow> (ds_state, ('pg, 'rt, 'rs) ds_group_state) action" where
  "load_group_state_immutable sv io qgid ear_key =
     andThen (try_with (ensure (io_acquire io) internal)) (\<lambda>_.
     andThen (load_group_state sv (io_load io) qgid ear_key) (\<lambda>(_, group_state).
     return_with group_state))"

definition load_group_state_immutable_pair :: "('pg, 'rt, 'rs, 'z) ds_service_scheme \<Rightarrow> ds_io \<Rightarrow>
    qualified_group_id \<Rightarrow> qualified_group_id option \<Rightarrow> ear_key \<Rightarrow>
    (ds_state, ('pg, 'rt, 'rs) ds_group_state \<times> ('pg, 'rt, 'rs) ds_group_state option) action" where
  "load_group_state_immutable_pair sv io qgid pq_qgid ear_key =
     andThen (try_with (ensure (io_begin io) internal)) (\<lambda>_.
     andThen (load_group_state sv (io_load io) qgid ear_key) (\<lambda>(_, group_state).
     case pq_qgid of
       None \<Rightarrow> return_with (group_state, None)
     | Some pq \<Rightarrow>
         andThen (load_group_state sv (io_load_pq io) pq ear_key) (\<lambda>(_, pq_group_state).
         return_with (group_state, Some pq_group_state))))"

definition encrypt_and_persist :: "('pg, 'rt, 'rs, 'z) ds_service_scheme \<Rightarrow> bool \<Rightarrow> bytes option \<Rightarrow> uuid \<Rightarrow>
    group_row \<Rightarrow> ('pg, 'rt, 'rs) ds_group_state \<Rightarrow> ear_key \<Rightarrow> (ds_state, unit) action" where
  "encrypt_and_persist sv ok n group_id group_data group_state ear_key =
     andThen (try_with (map_err (\<lambda>_. internal) (ds_encrypt sv n ear_key group_state))) (\<lambda>ct.
     andThen (try_with (ensure ok internal)) (\<lambda>_.
     modify_with (group_update group_id (group_data\<lparr> gr_ciphertext := ct \<rparr>))))"


section \<open>Fan-out\<close>

text \<open>
  Each message is dispatched once; a failed dispatch is logged and forgotten.  Up to 128 run at the
  same time, so between clients the order is not fixed; the model keeps the order of dispatch.
\<close>

definition send_all :: "ds_fan_out_message list \<Rightarrow> (ds_state, unit) action" where
  "send_all ms = modify_with (\<lambda>s. s\<lparr> sent := sent s @ ms \<rparr>)"

definition fan_out_message :: "ds_fan_out_payload \<Rightarrow> qs_reference list \<Rightarrow> bool \<Rightarrow> bool \<Rightarrow>
    (ds_state, time) action" where
  "fan_out_message payload clients suppress_notifications broadcast =
     andThen (send_all (map (\<lambda>c. \<lparr> fo_payload = payload, fo_client_reference = c,
         fo_suppress_notifications = suppress_notifications,
         fo_broadcast_to_all_client_queues = broadcast \<rparr>) clients)) (\<lambda>_.
     return_with (payload_timestamp payload))"

definition fan_out_message_without_notifications :: "ds_fan_out_payload \<Rightarrow> qs_reference list \<Rightarrow> bool \<Rightarrow>
    (ds_state, time) action" where
  "fan_out_message_without_notifications payload clients broadcast =
     fan_out_message payload clients True broadcast"


section \<open>Verification of the sender\<close>

record 'p ds_request =
  rq_payload :: "'p option"
  rq_signature :: "bytes option"

definition validated_qgid :: "('pg, 'rt, 'rs, 'z) ds_service_scheme \<Rightarrow> qualified_group_id \<Rightarrow>
    status + qualified_group_id" where
  "validated_qgid sv qgid =
     (if qg_domain qgid = sv_own_domain sv then Ok qgid else Err invalid_argument)"

definition message_qgid :: "('pg, 'rt, 'rs, 'z) ds_service_scheme \<Rightarrow> assisted_message_in \<Rightarrow>
    status + qualified_group_id" where
  "message_qgid sv message =
     and_then (map_err (\<lambda>_. invalid_argument) (sv_qgid_de sv (am_group_id message))) (validated_qgid sv)"

definition request_verify :: "('pg, 'rt, 'rs, 'z) ds_service_scheme \<Rightarrow> string \<Rightarrow>
    'p ds_request signed_request \<Rightarrow> bytes \<Rightarrow> status + unit" where
  "request_verify sv label request key =
     map_ok (\<lambda>_. ()) (map_err (\<lambda>_. unauthenticated)
       (SignedRequest_verify (sv_vl sv) (sv_verify_signature sv) label rq_signature key request))"

definition sender_client_credential :: "('pg, 'rt, 'rs, 'z) ds_service_scheme \<Rightarrow>
    ('pg, 'rt, 'rs) ds_group_state \<Rightarrow> leaf_index \<Rightarrow> status + user_id \<times> bytes" where
  "sender_client_credential sv group_state sender_index =
     and_then (ok_or invalid_argument (group_leaf sv (ds_group group_state) sender_index)) (\<lambda>leaf.
     map_err (\<lambda>_. invalid_argument)
       (sv_client_credential sv (cred_serialized_content (ln_credential leaf))))"

definition message_sender_index :: "leaf_index option \<Rightarrow> assisted_message_in \<Rightarrow> status + leaf_index" where
  "message_sender_index sender_index message =
     (case sender_index of
        Some i \<Rightarrow> Ok i
      | None \<Rightarrow>
          and_then (ok_or invalid_argument (am_sender message)) (\<lambda>sender.
          case sender of Member i \<Rightarrow> Ok i | _ \<Rightarrow> Err invalid_argument))"

definition resolve_and_verify :: "('pg, 'rt, 'rs, 'z) ds_service_scheme \<Rightarrow> string \<Rightarrow>
    'p ds_request signed_request \<Rightarrow> assisted_message_in \<Rightarrow> ('pg, 'rt, 'rs) ds_group_state \<Rightarrow>
    leaf_index option \<Rightarrow> status + leaf_index" where
  "resolve_and_verify sv label request message group_state sender_index =
     and_then (message_sender_index sender_index message) (\<lambda>sender_index.
     and_then (sender_client_credential sv group_state sender_index) (\<lambda>(_, key).
     and_then (request_verify sv label request key) (\<lambda>_.
     Ok sender_index)))"


section \<open>The frames of changing requests\<close>

definition MAX_PAST_EPOCHS :: u64 where
  "MAX_PAST_EPOCHS = 5"

definition cleanup_tags :: "ds_io \<Rightarrow> uuid \<Rightarrow> u64 \<Rightarrow> (ds_state, unit) action" where
  "cleanup_tags io group_id new_epoch =
     modify_with (\<lambda>s. if io_cleanup io
       then s\<lparr> db_tags := delete_old group_id new_epoch MAX_PAST_EPOCHS (db_tags s) \<rparr> else s)"

definition update_group_state_without_verification :: "('pg, 'rt, 'rs, 'z) ds_service_scheme \<Rightarrow> ds_io \<Rightarrow>
    qualified_group_id \<Rightarrow> ear_key \<Rightarrow>
    (('pg, 'rt, 'rs) ds_group_state \<Rightarrow> (ds_state, 't \<times> ('pg, 'rt, 'rs) ds_group_state) action) \<Rightarrow>
    (ds_state, 't) action" where
  "update_group_state_without_verification sv io qgid ear_key f =
     andThen (transaction restore_db
       (andThen (try_with (ensure (io_begin io) internal)) (\<lambda>_.
        andThen (load_group_state sv (io_load io) qgid ear_key) (\<lambda>(group_data, group_state).
        andThen (f group_state) (\<lambda>(value, group_state).
        andThen (encrypt_and_persist sv (io_update io) (io_nonce io) (qg_uuid qgid) group_data
          group_state ear_key) (\<lambda>_.
        andThen (try_with (ensure (io_commit io) internal)) (\<lambda>_.
        return_with (value, group_epoch_of sv (ds_group group_state)))))))))
       (\<lambda>(value, new_epoch).
     andThen (cleanup_tags io (qg_uuid qgid) new_epoch) (\<lambda>_.
     return_with value))"

text \<open>What a handler of a verified request is given.\<close>

record ('pg, 'rt, 'rs) leaf_verification_data =
  vd_ear_key :: ear_key
  vd_group_state :: "('pg, 'rt, 'rs) ds_group_state"
  vd_sender_index :: leaf_index
  vd_message :: assisted_message_in

definition update_group_state :: "('pg, 'rt, 'rs, 'z) ds_service_scheme \<Rightarrow> ds_io \<Rightarrow> string \<Rightarrow>
    'p ds_request signed_request \<Rightarrow> ear_key field \<Rightarrow> assisted_message_in field \<Rightarrow> leaf_index option \<Rightarrow>
    (('pg, 'rt, 'rs) leaf_verification_data \<Rightarrow> (ds_state, 't \<times> ('pg, 'rt, 'rs) ds_group_state) action) \<Rightarrow>
    (ds_state, 't) action" where
  "update_group_state sv io label request key_field message_field sender_index f =
     andThen (try_with (get_field key_field)) (\<lambda>ear_key.
     andThen (try_with (get_field message_field)) (\<lambda>message.
     andThen (try_with (message_qgid sv message)) (\<lambda>qgid.
     update_group_state_without_verification sv io qgid ear_key (\<lambda>group_state.
       andThen (try_with (resolve_and_verify sv label request message group_state sender_index)) (\<lambda>sender_index.
       f \<lparr> vd_ear_key = ear_key, vd_group_state = group_state, vd_sender_index = sender_index,
           vd_message = message \<rparr>)))))"

record ('pg, 'rt, 'rs) apq_verification_data =
  avd_t_group_state :: "('pg, 'rt, 'rs) ds_group_state"
  avd_pq_group_state :: "('pg, 'rt, 'rs) ds_group_state"
  avd_t_message :: assisted_message_in
  avd_pq_message :: assisted_message_in
  avd_t_sender_index :: leaf_index
  avd_ear_key :: ear_key

record 't apq_fan_out =
  afo_payload :: qs_queue_message_payload
  afo_destination_clients :: "qs_reference list"
  afo_individual :: "ds_fan_out_message list"
  afo_value :: 't

definition apq_senders_agree :: "('pg, 'rt, 'rs, 'z) ds_service_scheme \<Rightarrow> leaf_index option \<Rightarrow>
    assisted_message_in \<Rightarrow> leaf_index \<Rightarrow> ('pg, 'rt, 'rs) ds_group_state \<Rightarrow>
    ('pg, 'rt, 'rs) ds_group_state \<Rightarrow> status + unit" where
  "apq_senders_agree sv sender_index pq_message t_sender_index t_group_state pq_group_state =
     and_then (message_sender_index sender_index pq_message) (\<lambda>pq_sender_index.
     and_then (ensure (t_sender_index = pq_sender_index) invalid_argument) (\<lambda>_.
     and_then (ok_or invalid_argument (group_leaf sv (ds_group t_group_state) t_sender_index)) (\<lambda>t_sender.
     and_then (ok_or invalid_argument (group_leaf sv (ds_group pq_group_state) pq_sender_index)) (\<lambda>pq_sender.
     ensure (ln_signature_key t_sender = ln_signature_key pq_sender) invalid_argument))))"

definition update_apq_group_state :: "('pg, 'rt, 'rs, 'z) ds_service_scheme \<Rightarrow> ds_io \<Rightarrow> string \<Rightarrow>
    'p ds_request signed_request \<Rightarrow> ear_key field \<Rightarrow> (assisted_message_in \<times> assisted_message_in) field \<Rightarrow>
    leaf_index option \<Rightarrow>
    (('pg, 'rt, 'rs) apq_verification_data \<Rightarrow>
      status + 't apq_fan_out \<times> ('pg, 'rt, 'rs) ds_group_state \<times> ('pg, 'rt, 'rs) ds_group_state) \<Rightarrow>
    (ds_state, 't) action" where
  "update_apq_group_state sv io label request key_field messages_field sender_index f =
     andThen (try_with (get_field key_field)) (\<lambda>ear_key.
     andThen (try_with (get_field messages_field)) (\<lambda>(t_message, pq_message).
     andThen (try_with (message_qgid sv t_message)) (\<lambda>t_qgid.
     andThen (try_with (message_qgid sv pq_message)) (\<lambda>pq_qgid.
     andThen (transaction restore_db
       (andThen (try_with (ensure (io_begin io) internal)) (\<lambda>_.
        andThen (load_group_state sv (io_load io) t_qgid ear_key) (\<lambda>(t_data, t_state).
        andThen (try_with (resolve_and_verify sv label request t_message t_state sender_index)) (\<lambda>t_sender_index.
        andThen (load_group_state sv (io_load_pq io) pq_qgid ear_key) (\<lambda>(pq_data, pq_state).
        andThen (try_with (apq_senders_agree sv sender_index pq_message t_sender_index t_state pq_state)) (\<lambda>_.
        andThen (return_with (broadcast_to_all_client_queues sv t_state)) (\<lambda>broadcast.
        andThen (try_with (f \<lparr> avd_t_group_state = t_state, avd_pq_group_state = pq_state,
            avd_t_message = t_message, avd_pq_message = pq_message,
            avd_t_sender_index = t_sender_index, avd_ear_key = ear_key \<rparr>)) (\<lambda>(fan_out, t_state, pq_state).
        andThen (encrypt_and_persist sv (io_update io) (io_nonce io) (qg_uuid t_qgid) t_data t_state ear_key) (\<lambda>_.
        andThen (encrypt_and_persist sv (io_update_pq io) (io_nonce_pq io) (qg_uuid pq_qgid) pq_data pq_state
          ear_key) (\<lambda>_.
        andThen (try_with (ensure (io_commit io) internal)) (\<lambda>_.
        return_with (fan_out, broadcast, group_epoch_of sv (ds_group t_state))))))))))))))
       (\<lambda>(fan_out, broadcast, t_new_epoch).
     andThen (fan_out_message_without_notifications (QueueMessage (afo_payload fan_out))
       (afo_destination_clients fan_out) broadcast) (\<lambda>_.
     andThen (send_all (afo_individual fan_out)) (\<lambda>_.
     andThen (cleanup_tags io (qg_uuid t_qgid) t_new_epoch) (\<lambda>_.
     return_with (afo_value fan_out)))))))))"

end
