(* ===== verification/Common_Types.thy ===== *)
theory Common_Types
  imports Air_Prelude
begin

text \<open>
  Small types of the common crate: time stamps and expiration data (\<^verbatim>\<open>common/src/time.rs\<close>), the
  textual form of domains and group ids (\<^verbatim>\<open>identifiers/mod.rs\<close>), usernames (\<^verbatim>\<open>identifiers/username.rs\<close>)
  and the proof of work (\<^verbatim>\<open>pow/mod.rs\<close>).

  The facts: a time stamp survives its eight-byte encoding exactly when it fits; a username is
  accepted exactly when it has the documented form; a group id is parsed back from what it prints;
  the search for a nonce returns the least one that verifies, and runs forever if there is none.

  Rounding to microseconds, the parser and printer of UUIDs and hosts, and Argon2 are parameters.
\<close>

section \<open>Time\<close>

datatype timestamp_error = TimeStampInvalidInput

datatype timestamp_codec_error = TsEndOfStream | TsInvalidInput

definition timestamp_to_i64 :: "time \<Rightarrow> timestamp_error + 64 word" where
  "timestamp_to_i64 t =
     (if - (2 ^ 63) \<le> t \<and> t < 2 ^ 63 then Ok (word_of_int t) else Err TimeStampInvalidInput)"

definition timestamp_from_i64 :: "64 word \<Rightarrow> time" where
  "timestamp_from_i64 w = sint w"

definition timestamp_tls_serialize :: "time \<Rightarrow> timestamp_codec_error + bytes" where
  "timestamp_tls_serialize t =
     and_then (map_err (\<lambda>_. TsInvalidInput) (timestamp_to_i64 t)) (\<lambda>w.
     Ok (be_bytes 8 (unat w)))"

definition timestamp_tls_deserialize_bytes :: "bytes \<Rightarrow> timestamp_codec_error + time \<times> bytes" where
  "timestamp_tls_deserialize_bytes bs =
     and_then (ensure (8 \<le> length bs) TsEndOfStream) (\<lambda>_.
     Ok (timestamp_from_i64 (of_nat (from_be_bytes (take 8 bs))), drop 8 bs))"

definition timestamp_has_expired :: "time \<Rightarrow> time \<Rightarrow> duration \<Rightarrow> bool" where
  "timestamp_has_expired now t expiration = (now - expiration \<ge> t)"

definition timestamp_is_between :: "time \<Rightarrow> time \<Rightarrow> time \<Rightarrow> bool" where
  "timestamp_is_between t start end' = (t \<ge> start \<and> t \<le> end')"

record expiration_data =
  not_before :: time
  not_after :: time

definition duration_minutes :: "int \<Rightarrow> duration" where
  "duration_minutes m = m * 60 * 10 ^ 9"

definition ExpirationData_new :: "(time \<Rightarrow> time) \<Rightarrow> time \<Rightarrow> duration \<Rightarrow> expiration_data" where
  "ExpirationData_new round_subsecs now lifetime =
     (let start = round_subsecs now - duration_minutes 15
      in \<lparr> not_before = start, not_after = start + lifetime \<rparr>)"

definition ExpirationData_now :: "(time \<Rightarrow> time) \<Rightarrow> time \<Rightarrow> duration \<Rightarrow> expiration_data" where
  "ExpirationData_now round_subsecs now lifetime =
     (let start = round_subsecs now
      in \<lparr> not_before = start, not_after = start + lifetime \<rparr>)"

definition ExpirationData_validate :: "(time \<Rightarrow> time) \<Rightarrow> time \<Rightarrow> expiration_data \<Rightarrow> bool" where
  "ExpirationData_validate round_subsecs now e =
     timestamp_is_between (round_subsecs now) (not_before e) (not_after e)"


section \<open>Domains and group ids\<close>

datatype host = Domain string | Ipv4 string | Ipv6 string

datatype fqdn_error = NotADomainName | UrlError

text \<open>A parsed domain; the length test counts bytes, here characters of an ASCII string.\<close>

definition Fqdn_from_str :: "(string \<Rightarrow> unit + host) \<Rightarrow> string \<Rightarrow> fqdn_error + host" where
  "Fqdn_from_str parse_host s =
     and_then (ensure (\<not> length s > 100) NotADomainName) (\<lambda>_.
     and_then (map_err (\<lambda>_. UrlError) (parse_host s)) (\<lambda>h.
     case h of Domain d \<Rightarrow> Ok (Domain d) | _ \<Rightarrow> Err NotADomainName))"

datatype qualified_group_id_error = QgFqdnError fqdn_error | InvalidQualifiedGroupId

definition split_at :: "char \<Rightarrow> string \<Rightarrow> string list" where
  "split_at c s = foldr (\<lambda>x parts. if x = c then [] # parts else (x # hd parts) # tl parts) s [[]]"

definition qgid_display :: "(bytes \<Rightarrow> string) \<Rightarrow> (host \<Rightarrow> string) \<Rightarrow> bytes \<times> host \<Rightarrow> string" where
  "qgid_display show_uuid show_host q = show_uuid (fst q) @ ''@'' @ show_host (snd q)"

definition qgid_from_str :: "(string \<Rightarrow> unit + bytes) \<Rightarrow> (string \<Rightarrow> unit + host) \<Rightarrow> string \<Rightarrow>
    qualified_group_id_error + bytes \<times> host" where
  "qgid_from_str parse_uuid parse_host s =
     (let parts = split_at CHR ''@'' s in
      and_then (ok_or InvalidQualifiedGroupId (if parts = [] then None else Some (hd parts))) (\<lambda>group_id.
      and_then (map_err (\<lambda>_. InvalidQualifiedGroupId) (parse_uuid group_id)) (\<lambda>group_id.
      and_then (ok_or InvalidQualifiedGroupId (if length parts < 2 then None else Some (parts ! 1))) (\<lambda>domain.
      and_then (map_err QgFqdnError (Fqdn_from_str parse_host domain)) (\<lambda>owning_domain.
      and_then (ensure (\<not> length parts > 2) InvalidQualifiedGroupId) (\<lambda>_.
      Ok (group_id, owning_domain)))))))"


section \<open>Usernames\<close>

definition MIN_USERNAME_LENGTH :: nat where "MIN_USERNAME_LENGTH = 5"
definition MAX_USERNAME_LENGTH :: nat where "MAX_USERNAME_LENGTH = 63"
definition USERNAME_CHARSET :: string where
  "USERNAME_CHARSET = ''-0123456789abcdefghijklmnopqrstuvwxyz''"

datatype username_validation_error =
  TooShort | TooLong | InvalidCharacter | ConsecutiveDashes | LeadingDigit

fun windows2 :: "'a list \<Rightarrow> ('a \<times> 'a) list" where
  "windows2 (x # y # zs) = (x, y) # windows2 (y # zs)"
| "windows2 _ = []"

definition is_ascii_digit :: "char \<Rightarrow> bool" where
  "is_ascii_digit c = (of_char c \<in> {48..57 :: nat})"

text \<open>The string as the list of its bytes.\<close>

definition username_validate :: "string \<Rightarrow> username_validation_error + unit" where
  "username_validate plaintext =
     and_then (ensure (\<not> length plaintext < MIN_USERNAME_LENGTH) TooShort) (\<lambda>_.
     and_then (ensure (\<not> length plaintext > MAX_USERNAME_LENGTH) TooLong) (\<lambda>_.
     and_then (fold_res (\<lambda>c _. ensure (c \<in> set USERNAME_CHARSET) InvalidCharacter) plaintext ()) (\<lambda>_.
     and_then (fold_res (\<lambda>(a, b) _. ensure (\<not> (a = CHR ''-'' \<and> b = CHR ''-'')) ConsecutiveDashes)
       (windows2 plaintext) ()) (\<lambda>_.
     case plaintext of
       [] \<Rightarrow> Ok ()
     | c # _ \<Rightarrow> ensure (\<not> is_ascii_digit c) LeadingDigit))))"

record username =
  un_plaintext :: string

definition Username_new :: "string \<Rightarrow> username_validation_error + username" where
  "Username_new plaintext =
     and_then (username_validate plaintext) (\<lambda>_. Ok \<lparr> un_plaintext = plaintext \<rparr>)"

definition calculate_hash :: "(bytes \<Rightarrow> bytes \<Rightarrow> unit + bytes) \<Rightarrow> (string \<Rightarrow> bytes) \<Rightarrow> username \<Rightarrow>
    unit + bytes" where
  "calculate_hash argon2 as_bytes u =
     argon2 (as_bytes (un_plaintext u)) (as_bytes ''user handle salt'')"


section \<open>Proof of work\<close>

record pow_config =
  pc_argon2 :: "bytes \<Rightarrow> bytes \<Rightarrow> bytes"
  pc_threshold :: u64

text \<open>\<open>None\<close> is the failed assertion.\<close>

definition PoWConfig_new :: "(bytes \<Rightarrow> bytes \<Rightarrow> bytes) \<Rightarrow> u64 \<Rightarrow> pow_config option" where
  "PoWConfig_new argon2 difficulty =
     (if difficulty > 0 then Some \<lparr> pc_argon2 = argon2, pc_threshold = (-1) div difficulty \<rparr> else None)"

definition verify_nonce :: "bytes \<Rightarrow> u64 \<Rightarrow> bytes \<Rightarrow> pow_config \<Rightarrow> bool" where
  "verify_nonce data n salt cfg =
     (let input = data @ be_bytes 8 (unat n); hash8 = take 8 (pc_argon2 cfg input salt)
      in of_nat (from_be_bytes hash8) \<le> pc_threshold cfg)"

partial_function (option) find_nonce_from :: "bytes \<Rightarrow> bytes \<Rightarrow> pow_config \<Rightarrow> u64 \<Rightarrow> u64 option option" where
  "find_nonce_from data salt cfg n =
     (if verify_nonce data n salt cfg then Some (Some n) else find_nonce_from data salt cfg (n + 1))"

definition find_nonce :: "bytes \<Rightarrow> bytes \<Rightarrow> pow_config \<Rightarrow> u64 option option" where
  "find_nonce data salt cfg = find_nonce_from data salt cfg 0"


section \<open>Facts\<close>

lemma i64_cover: "unat (word_of_int t :: 64 word) < 256 ^ 8"
  using unat_u64_bound[of "word_of_int t"] by simp

lemma sint_64_bounds: "- (2 ^ 63) \<le> sint (w :: 64 word) \<and> sint w < 2 ^ 63"
  using sint_range_size[of w] by (simp add: word_size)

lemma windows2_dashes:
  "(\<exists>p \<in> set (windows2 s). p = (c, c)) \<longleftrightarrow> sublist [c, c] s"
  by (induction s rule: windows2.induct) (auto simp: sublist_Cons_right sublist_Nil_right)

lemma fold_res_ensure_iff:
  "fold_res (\<lambda>x _. ensure (P x) e) xs () = Ok () \<longleftrightarrow> list_all P xs"
  by (induction xs) (auto simp: result_simps)

lemma fold_res_ensure_pair_iff:
  "fold_res (\<lambda>(a, b) _. ensure (P a b) e) xs () = Ok () \<longleftrightarrow> list_all (\<lambda>(a, b). P a b) xs"
  by (induction xs) (auto simp: result_simps)

lemma split_at_none: "c \<notin> set s \<Longrightarrow> split_at c s = [s]"
  by (induction s) (auto simp: split_at_def)

lemma split_at_ne: "split_at c s \<noteq> []"
  by (induction s) (auto simp: split_at_def)

lemma split_at_append: "c \<notin> set s \<Longrightarrow> split_at c (s @ c # t) = s # split_at c t"
  by (induction s) (auto simp: split_at_def)

lemma find_nonce_from_least:
  assumes "verify_nonce data m salt cfg" "n \<le> m" "\<And>k. n \<le> k \<Longrightarrow> k < m \<Longrightarrow> \<not> verify_nonce data k salt cfg"
  shows "find_nonce_from data salt cfg n = Some (Some m)"
  using assms
proof (induction "unat m - unat n" arbitrary: n)
  case 0
  then have "n = m" by (simp add: word_le_nat_alt word_unat_eq_iff)
  with 0 show ?case by (subst find_nonce_from.simps) simp
next
  case (Suc d)
  then have less: "n < m" by (simp add: word_less_nat_alt)
  have succ: "unat (n + 1) = unat n + 1"
  proof -
    have "unat m < 18446744073709551616" by simp
    then have "unat n + 1 < 18446744073709551616" using less unfolding word_less_nat_alt by linarith
    then show ?thesis by (simp add: unat_word_ariths(1) del: Suc_eq_plus1)
  qed
  have "find_nonce_from data salt cfg (n + 1) = Some (Some m)"
    using Suc succ less by (intro Suc.hyps(1)) (auto simp: word_le_nat_alt word_less_nat_alt)
  moreover have "\<not> verify_nonce data n salt cfg" using Suc.prems less by simp
  ultimately show ?case by (subst find_nonce_from.simps) simp
qed

lemma find_nonce_from_verifies:
  "find_nonce_from data salt cfg n = Some r \<Longrightarrow> \<exists>m. r = Some m \<and> verify_nonce data m salt cfg"
  by (rule find_nonce_from.raw_induct[where P = "\<lambda>data salt cfg n r. \<exists>m. r = Some m \<and> verify_nonce data m salt cfg"])
     (auto split: if_splits)

lemma ascii_digit_iff: "is_ascii_digit c \<longleftrightarrow> c \<in> set ''0123456789''"
proof -
  have "is_ascii_digit c \<longleftrightarrow> c \<in> char_of ` {48..57 :: nat}"
    by (auto simp: is_ascii_digit_def image_iff) (metis atLeastAtMost_iff char_of_char)
  also have "{48..57 :: nat} = {48, 49, 50, 51, 52, 53, 54, 55, 56, 57}" by (simp add: atLeastAtMost_insertL[symmetric] numeral_eq_Suc atLeastAtMostSuc_conv)
  finally show ?thesis by (simp add: char_of_def bit_Suc_0_iff)
qed


section \<open>Properties\<close>

text \<open>
  Decoding a time stamp and encoding it are inverse to each other: some bytes decode to a time
  with a rest exactly when they are the encoding of that time followed by the rest.
\<close>

theorem timestamp_codec_inverse:
  "timestamp_tls_deserialize_bytes bs = Ok (t, rest)
     \<longleftrightarrow> (\<exists>enc. timestamp_tls_serialize t = Ok enc \<and> bs = enc @ rest)"
proof
  assume "timestamp_tls_deserialize_bytes bs = Ok (t, rest)"
  then have len: "8 \<le> length bs" and t: "t = sint (of_nat (from_be_bytes (take 8 bs)) :: 64 word)"
    and rest: "rest = drop 8 bs"
    by (auto simp: timestamp_tls_deserialize_bytes_def timestamp_from_i64_def result_simps)
  let ?n = "from_be_bytes (take 8 bs)"
  have "?n < 256 ^ 8" using from_be_bytes_bound[of "take 8 bs"] len by simp
  then have "unat (of_nat ?n :: 64 word) = ?n" by (intro unat_of_nat_usize) simp
  moreover have "be_bytes 8 ?n = take 8 bs"
    using be_from_be_bytes[of "take 8 bs"] len by (simp add: min_absorb2)
  ultimately have "timestamp_tls_serialize t = Ok (take 8 bs)"
    using sint_64_bounds[of "of_nat ?n"]
    by (simp add: timestamp_tls_serialize_def timestamp_to_i64_def t)
  then show "\<exists>enc. timestamp_tls_serialize t = Ok enc \<and> bs = enc @ rest" using rest by auto
next
  assume "\<exists>enc. timestamp_tls_serialize t = Ok enc \<and> bs = enc @ rest"
  then obtain w where range: "- (2 ^ 63) \<le> t" "t < 2 ^ 63" and w: "w = (word_of_int t :: 64 word)"
    and bs: "bs = be_bytes 8 (unat w) @ rest"
    by (auto simp: timestamp_tls_serialize_def timestamp_to_i64_def result_simps split: if_splits)
  have "from_be_bytes (be_bytes 8 (unat w)) = unat w"
    using i64_cover[of t] by (intro from_be_be_bytes) (simp add: w)
  then show "timestamp_tls_deserialize_bytes bs = Ok (t, rest)"
    using sint_word_of_int_64[OF range]
    by (simp add: timestamp_tls_deserialize_bytes_def timestamp_from_i64_def bs w)
qed

text \<open>
  A username is accepted exactly when it has 5 to 63 characters, all of them dashes, digits or
  lower-case letters, no two dashes in a row, and does not start with a digit.
\<close>

theorem username_accepted_iff:
  "Username_new s = Ok u \<longleftrightarrow>
     u = \<lparr> un_plaintext = s \<rparr> \<and> length s \<in> {5..63} \<and> set s \<subseteq> set USERNAME_CHARSET
     \<and> sublist ''--'' s = False \<and> hd s \<notin> set ''0123456789''"
proof -
  have dashes: "list_all (\<lambda>(a, b). \<not> (a = CHR ''-'' \<and> b = CHR ''-'')) (windows2 s)
      \<longleftrightarrow> sublist ''--'' s = False"
    using windows2_dashes[of s "CHR ''-''"] by (auto simp: list_all_iff)
  have charset: "list_all (\<lambda>c. c \<in> set USERNAME_CHARSET) s \<longleftrightarrow> set s \<subseteq> set USERNAME_CHARSET"
    by (auto simp: list_all_iff)
  have first: "(case s of [] \<Rightarrow> Ok () | c # _ \<Rightarrow> ensure (\<not> is_ascii_digit c) LeadingDigit) = Ok ()
      \<longleftrightarrow> s = [] \<or> hd s \<notin> set ''0123456789''"
    by (cases s) (simp_all only: list.case list.sel ensure_Inr_iff ascii_digit_iff simp_thms list.distinct)
  have "Username_new s = Ok u \<longleftrightarrow> u = \<lparr> un_plaintext = s \<rparr> \<and> 5 \<le> length s \<and> length s \<le> 63
      \<and> set s \<subseteq> set USERNAME_CHARSET \<and> sublist ''--'' s = False
      \<and> (s = [] \<or> hd s \<notin> set ''0123456789'')"
    unfolding Username_new_def username_validate_def MIN_USERNAME_LENGTH_def MAX_USERNAME_LENGTH_def
      dashes[symmetric] charset[symmetric] first[symmetric]
    by (auto simp: result_simps fold_res_ensure_iff fold_res_ensure_pair_iff)
  then show ?thesis by (cases s) auto
qed

text \<open>
  (C33) The search for a nonce returns the least nonce that verifies, and it returns at all exactly
  when some nonce verifies; the absent nonce of its result type never comes back.
\<close>

theorem find_nonce_least:
  "find_nonce data salt cfg =
     (if \<exists>n. verify_nonce data n salt cfg then Some (Some (LEAST n. verify_nonce data n salt cfg))
      else None)"
proof (cases "\<exists>n. verify_nonce data n salt cfg")
  case True
  then have "verify_nonce data (LEAST n. verify_nonce data n salt cfg) salt cfg"
    by (auto intro: LeastI)
  then show ?thesis
    using True find_nonce_from_least[where n = 0] not_less_Least unfolding find_nonce_def by fastforce
next
  case False
  then show ?thesis
    using find_nonce_from_verifies[of data salt cfg 0] unfolding find_nonce_def
    by (cases "find_nonce_from data salt cfg 0") auto
qed

text \<open>
  A group id is parsed back from what it prints, for a printer and parser of UUIDs and domains
  that are inverse to each other, print no at-sign, and keep a domain to a hundred characters.
\<close>

theorem qgid_display_from_str:
  assumes "parse_uuid (show_uuid u) = Ok u" "CHR ''@'' \<notin> set (show_uuid u)"
    and "parse_host (show_host (Domain d)) = Ok (Domain d)" "CHR ''@'' \<notin> set (show_host (Domain d))"
    and "length (show_host (Domain d)) \<le> 100"
  shows "qgid_from_str parse_uuid parse_host (qgid_display show_uuid show_host (u, Domain d))
    = Ok (u, Domain d)"
proof -
  have "split_at CHR ''@'' (qgid_display show_uuid show_host (u, Domain d))
      = [show_uuid u, show_host (Domain d)]"
    using split_at_append[OF assms(2)] split_at_none[OF assms(4)] by (simp add: qgid_display_def)
  with assms show ?thesis by (simp add: qgid_from_str_def Fqdn_from_str_def Let_def)
qed

theorem qgid_display_from_str_witness:
  "qgid_from_str (\<lambda>s. Ok [of_nat (length s)]) (\<lambda>s. Ok (Domain s))
     (qgid_display (\<lambda>u. ''7e'') (\<lambda>h. case h of Domain d \<Rightarrow> d | _ \<Rightarrow> []) ([2], Domain ''air.ms''))
   = Ok ([2], Domain ''air.ms'')"
  by (rule qgid_display_from_str) simp_all

end
