(* ===== verification/Attachments.thy ===== *)
theory Attachments
  imports Service_Base Collision_Tags Common_Types
begin

text \<open>
  \<^verbatim>\<open>backend/src/ds/attachments.rs\<close>: the signed URLs and upload policies the delivery service hands out
  for its object storage, with the settings of \<^verbatim>\<open>backend/src/settings.rs\<close>.

  The AWS crates are the parameter \<open>s3\<close>: building a presigning configuration, presigning a request,
  deriving and applying the signing key.  The textual forms of an id and of dates are parameters too;
  a policy is kept as the list of its conditions, its base64-encoded JSON text is the function
  \<open>s3_policy_text\<close>.
\<close>

section \<open>Settings and parameters\<close>

datatype storage_object_type = UnspecifiedObject | Attachment | GroupProfile | UserProfile | DebugLogs

record storage_paths =
  attachments_path :: string
  group_profiles_path :: string
  user_profiles_path :: string

definition default_storage_paths :: storage_paths where
  "default_storage_paths = \<lparr> attachments_path = ''attachments'', group_profiles_path = ''group-profiles'',
     user_profiles_path = ''user-profiles'' \<rparr>"

record storage_settings =
  ss_endpoint :: string
  ss_region :: string
  ss_access_key_id :: string
  ss_secret_access_key :: string
  ss_bucket :: string
  ss_debug_logs_bucket :: string
  ss_upload_expiration :: duration
  ss_download_expiration :: duration
  ss_download_debug_logs_expiration :: duration
  ss_max_attachment_size :: u64
  ss_use_post_policy :: bool
  ss_require_content_length :: bool
  ss_storage_paths :: storage_paths

text \<open>The conditions of an upload policy, in the order of the source.\<close>

datatype policy_condition =
    BucketIs string
  | KeyIs string
  | ContentLengthRange u64 u64
  | XAmzCredential string
  | XAmzAlgorithm string
  | XAmzDate string

record policy =
  po_expiration :: time
  po_conditions :: "policy_condition list"

record presigned_request =
  pq_uri :: string
  pq_headers :: "(string \<times> string) list"

record 'cfg s3 =
  s3_build_config :: "time \<Rightarrow> duration \<Rightarrow> unit + 'cfg"
  s3_presign_put :: "string \<Rightarrow> string \<Rightarrow> u64 option \<Rightarrow> 'cfg \<Rightarrow> unit + presigned_request"
  s3_presign_get :: "string \<Rightarrow> string \<Rightarrow> 'cfg \<Rightarrow> unit + presigned_request"
  s3_signing_key :: "string \<Rightarrow> time \<Rightarrow> string \<Rightarrow> string \<Rightarrow> bytes"
  s3_calculate_signature :: "bytes \<Rightarrow> string \<Rightarrow> string"
  s3_policy_text :: "policy \<Rightarrow> string"
  s3_show_uuid :: "uuid \<Rightarrow> string"
  s3_show_date :: "time \<Rightarrow> string"
  s3_show_date_time :: "time \<Rightarrow> string"
  s3_round :: "time \<Rightarrow> time"


section \<open>Buckets and keys\<close>

definition select_bucket :: "storage_settings \<Rightarrow> storage_object_type \<Rightarrow> string" where
  "select_bucket settings object_type =
     (if object_type = DebugLogs then ss_debug_logs_bucket settings else ss_bucket settings)"

definition trim_end_matches :: "char \<Rightarrow> string \<Rightarrow> string" where
  "trim_end_matches c s = rev (dropWhile (\<lambda>x. x = c) (rev s))"

fun storage_key :: "(uuid \<Rightarrow> string) \<Rightarrow> storage_paths \<Rightarrow> uuid \<Rightarrow> storage_object_type \<Rightarrow> string" where
  "storage_key as_simple paths object_id DebugLogs = as_simple object_id"
| "storage_key as_simple paths object_id GroupProfile =
     trim_end_matches CHR ''/'' (group_profiles_path paths) @ ''/'' @ as_simple object_id"
| "storage_key as_simple paths object_id UserProfile =
     trim_end_matches CHR ''/'' (user_profiles_path paths) @ ''/'' @ as_simple object_id"
| "storage_key as_simple paths object_id _ =
     trim_end_matches CHR ''/'' (attachments_path paths) @ ''/'' @ as_simple object_id"


section \<open>Errors\<close>

datatype provision_object_error =
    PoNoStorageConfigured | PoDuration | PoPresigning | PoSdk | ContentLengthRequired
  | DataTooLarge u64 u64

fun provision_object_status :: "provision_object_error \<Rightarrow> status" where
  "provision_object_status ContentLengthRequired = invalid_argument"
| "provision_object_status (DataTooLarge max_size actual_size) =
     status_with_details InvalidArgument VersionUnsupported (AttachmentTooLarge max_size actual_size)"
| "provision_object_status _ = internal"

datatype get_attachment_url_error = GaNoStorageConfigured | GaDuration | GaPresigning | GaSdk

fun get_attachment_url_status :: "get_attachment_url_error \<Rightarrow> status" where
  "get_attachment_url_status _ = internal"


section \<open>Uploads\<close>

record signed_post_policy =
  spp_base64 :: string
  spp_signature :: string

record provision_attachment_response =
  par_object_id :: uuid
  par_upload_url_expiration :: expiration_data
  par_upload_url :: string
  par_upload_headers :: "(string \<times> string) list"
  par_post_policy :: "signed_post_policy option"

text \<open>Converting a negative duration fails.\<close>

definition to_std :: "'e \<Rightarrow> duration \<Rightarrow> 'e + duration" where
  "to_std e d = and_then (ensure (0 \<le> d) e) (\<lambda>_. Ok d)"

definition create_signed_put :: "'cfg s3 \<Rightarrow> storage_settings \<Rightarrow> uuid \<Rightarrow> expiration_data \<Rightarrow> u64 option \<Rightarrow>
    storage_object_type \<Rightarrow> provision_object_error + provision_attachment_response" where
  "create_signed_put s3 settings object_id expiration content_length object_type =
     and_then (to_std PoDuration (not_after expiration - not_before expiration)) (\<lambda>duration.
     and_then (map_err (\<lambda>_. PoPresigning) (s3_build_config s3 (not_before expiration) duration)) (\<lambda>config.
     let bucket = select_bucket settings object_type;
         key = storage_key (s3_show_uuid s3) (ss_storage_paths settings) object_id object_type in
     and_then (case content_length of
         Some n \<Rightarrow>
           and_then (ensure (\<not> ss_max_attachment_size settings < n)
             (DataTooLarge (ss_max_attachment_size settings) n)) (\<lambda>_. Ok (Some n))
       | None \<Rightarrow>
           and_then (ensure (\<not> ss_require_content_length settings) ContentLengthRequired) (\<lambda>_. Ok None))
       (\<lambda>request_length.
     and_then (map_err (\<lambda>_. PoSdk) (s3_presign_put s3 bucket key request_length config)) (\<lambda>request.
     Ok \<lparr> par_object_id = object_id, par_upload_url_expiration = expiration,
          par_upload_url = pq_uri request, par_upload_headers = pq_headers request,
          par_post_policy = None \<rparr>))))"

definition upload_policy :: "'cfg s3 \<Rightarrow> storage_settings \<Rightarrow> uuid \<Rightarrow> expiration_data \<Rightarrow>
    storage_object_type \<Rightarrow> policy" where
  "upload_policy s3 settings object_id expiration object_type =
     \<lparr> po_expiration = not_after expiration,
       po_conditions =
         [BucketIs (select_bucket settings object_type),
          KeyIs (storage_key (s3_show_uuid s3) (ss_storage_paths settings) object_id object_type),
          ContentLengthRange 0 (ss_max_attachment_size settings),
          XAmzCredential (ss_access_key_id settings @ ''/'' @ s3_show_date s3 (not_before expiration) @ ''/''
            @ ss_region settings @ ''/s3/aws4_request''),
          XAmzAlgorithm ''AWS4-HMAC-SHA256'',
          XAmzDate (s3_show_date_time s3 (not_before expiration))] \<rparr>"

definition create_signed_post :: "'cfg s3 \<Rightarrow> storage_settings \<Rightarrow> uuid \<Rightarrow> expiration_data \<Rightarrow>
    storage_object_type \<Rightarrow> provision_attachment_response" where
  "create_signed_post s3 settings object_id expiration object_type =
     (let policy_base64 = s3_policy_text s3 (upload_policy s3 settings object_id expiration object_type);
          signing_key = s3_signing_key s3 (ss_secret_access_key settings) (not_before expiration)
            (ss_region settings) ''s3'';
          signature = s3_calculate_signature s3 signing_key policy_base64;
          upload_url = ss_endpoint settings @ ''/'' @ ss_bucket settings
      in \<lparr> par_object_id = object_id, par_upload_url_expiration = expiration,
           par_upload_url = upload_url, par_upload_headers = [],
           par_post_policy = Some \<lparr> spp_base64 = policy_base64, spp_signature = signature \<rparr> \<rparr>)"

definition provision_object :: "'cfg s3 \<Rightarrow> storage_settings option \<Rightarrow> time \<Rightarrow> uuid \<Rightarrow> storage_object_type \<Rightarrow>
    u64 option \<Rightarrow> bool \<Rightarrow> provision_object_error + provision_attachment_response" where
  "provision_object s3 storage now object_id object_type content_length use_post_policy =
     and_then (ok_or PoNoStorageConfigured storage) (\<lambda>settings.
     let expiration = ExpirationData_now (s3_round s3) now (ss_upload_expiration settings) in
     if ss_use_post_policy settings \<and> use_post_policy
     then Ok (create_signed_post s3 settings object_id expiration object_type)
     else create_signed_put s3 settings object_id expiration
       (case content_length of Some n \<Rightarrow> if n > 0 then Some n else None | None \<Rightarrow> None) object_type)"


section \<open>Downloads\<close>

record get_attachment_url_response =
  gar_download_url_expiration :: expiration_data
  gar_download_url :: string
  gar_download_headers :: "(string \<times> string) list"

definition get_object_url :: "'cfg s3 \<Rightarrow> storage_settings option \<Rightarrow> time \<Rightarrow> uuid \<Rightarrow> storage_object_type \<Rightarrow>
    get_attachment_url_error + get_attachment_url_response" where
  "get_object_url s3 storage now object_id object_type =
     and_then (ok_or GaNoStorageConfigured storage) (\<lambda>settings.
     let download_expiration = (if object_type = DebugLogs then ss_download_debug_logs_expiration settings
           else ss_download_expiration settings);
         expiration = ExpirationData_now (s3_round s3) now download_expiration in
     and_then (to_std GaDuration (not_after expiration - not_before expiration)) (\<lambda>duration.
     and_then (map_err (\<lambda>_. GaPresigning) (s3_build_config s3 (not_before expiration) duration)) (\<lambda>config.
     let bucket = select_bucket settings object_type;
         key = storage_key (s3_show_uuid s3) (ss_storage_paths settings) object_id object_type in
     and_then (map_err (\<lambda>_. GaSdk) (s3_presign_get s3 bucket key config)) (\<lambda>request.
     Ok \<lparr> gar_download_url_expiration = expiration, gar_download_url = pq_uri request,
          gar_download_headers = pq_headers request \<rparr>))))"


section \<open>Facts\<close>

text \<open>
  An upload policy signed for debug logs names the bucket of the debug logs, and the URL it comes
  with is that of the other bucket: a storage that checks the policy refuses the upload unless the
  two buckets have one name.
\<close>

lemma debug_logs_post_bucket:
  "BucketIs (ss_debug_logs_bucket settings)
     \<in> set (po_conditions (upload_policy s3 settings object_id expiration DebugLogs))"
  "par_upload_url (create_signed_post s3 settings object_id expiration DebugLogs)
     = ss_endpoint settings @ ''/'' @ ss_bucket settings"
  by (simp_all add: upload_policy_def select_bucket_def create_signed_post_def Let_def)

lemma too_large_reports_version:
  "st_details (provision_object_status (DataTooLarge m a)) = Some (VersionUnsupported, AttachmentTooLarge m a)"
  by (simp add: status_with_details_def)


section \<open>Properties\<close>


definition tiny_s3 :: "unit s3" where
  "tiny_s3 = \<lparr> s3_build_config = \<lambda>_ _. Ok (),
     s3_presign_put = \<lambda>bucket key len _. Ok \<lparr> pq_uri = bucket @ ''/'' @ key, pq_headers = [] \<rparr>,
     s3_presign_get = \<lambda>bucket key _. Ok \<lparr> pq_uri = bucket @ ''/'' @ key, pq_headers = [] \<rparr>,
     s3_signing_key = \<lambda>_ _ _ _. [], s3_calculate_signature = \<lambda>_ _. [], s3_policy_text = \<lambda>_. [],
     s3_show_uuid = \<lambda>u. ''id'', s3_show_date = \<lambda>_. [], s3_show_date_time = \<lambda>_. [], s3_round = \<lambda>t. t \<rparr>"

definition tiny_settings :: storage_settings where
  "tiny_settings = \<lparr> ss_endpoint = ''host'', ss_region = ''r'', ss_access_key_id = ''a'',
     ss_secret_access_key = ''s'', ss_bucket = ''main'', ss_debug_logs_bucket = ''logs'',
     ss_upload_expiration = 60, ss_download_expiration = 60, ss_download_debug_logs_expiration = 60,
     ss_max_attachment_size = 10, ss_use_post_policy = True, ss_require_content_length = True,
     ss_storage_paths = default_storage_paths \<rparr>"


end
