(* ===== verification/Ds_Handlers.thy ===== *)
theory Ds_Handlers
  imports Ds_Service Attachments
begin

text \<open>
  The request handlers of the delivery service (\<^verbatim>\<open>backend/src/ds/grpc.rs\<close>, \<^verbatim>\<open>create_group.rs\<close>), one
  definition per RPC.  A request is the record of its fields; each handler has the checks, the calls
  on the group state, the writes and the fan-outs of the source, in its order.  The clock is read
  once per request.
\<close>

section \<open>Requests\<close>

record base_payload =
  pl_client_metadata :: "string field option"
  pl_ear_key :: "ear_key field"

record message_payload = base_payload +
  pl_message :: "assisted_message_in field"

record resync_payload = message_payload +
  pl_sender :: "leaf_index field"

record send_message_payload = resync_payload +
  pl_suppress_notifications :: "bool option"
  pl_collision_tags :: "int list option"

record group_operation_payload = message_payload +
  pl_add_users_info :: "add_users_info field"
  pl_qs_client_reference :: "qs_reference field"
  pl_encrypted_user_profile_key :: "encrypted_user_profile_key field"

record apq_payload = base_payload +
  apl_messages :: "(assisted_message_in \<times> assisted_message_in) field"

record apq_resync_payload = apq_payload +
  apl_sender :: "leaf_index field"

record apq_group_operation_payload = apq_payload +
  apl_add_users_info :: "((mls_welcome \<times> mls_welcome) \<times> encrypted_welcome_attribution_info list) field"
  apl_qs_client_reference :: "qs_reference field"
  apl_encrypted_user_profile_key :: "encrypted_user_profile_key field"

record update_profile_key_payload = base_payload +
  upl_group_id :: "qualified_group_id field"
  upl_sender :: "leaf_index field"
  upl_encrypted_user_profile_key :: "encrypted_user_profile_key field"

record targeted_application_message =
  tam_message :: "assisted_message_in field"
  tam_recipient :: "leaf_index field"

record targeted_payload = base_payload +
  tpl_sender :: "leaf_index field"
  tpl_message_type :: "targeted_application_message option"
  tpl_collision_tags :: "int list option"

text \<open>A group info field holds an MLS message, \<open>None\<close> if it is of another kind.\<close>

record 'rt group_session_data =
  gsd_qgid :: "qualified_group_id field"
  gsd_ear_key :: "ear_key field"
  gsd_group_info :: "verifiable_group_info option field"
  gsd_ratchet_tree :: "'rt field"

record 'rt create_group_payload = "'rt group_session_data" +
  cg_client_metadata :: "string field option"
  cg_encrypted_user_profile_key :: "encrypted_user_profile_key field"
  cg_creator_client_reference :: "qs_reference field"
  cg_room_state :: "bytes field"

record 'rt create_apq_group_payload =
  ca_client_metadata :: "string field option"
  ca_encrypted_user_profile_key :: "encrypted_user_profile_key field"
  ca_creator_client_reference :: "qs_reference field"
  ca_room_state :: "bytes field"
  ca_t_group_data :: "'rt group_session_data option"
  ca_pq_group_data :: "'rt group_session_data option"

record welcome_info_payload = base_payload +
  wpl_sender :: "signature_key option"
  wpl_qgid :: "qualified_group_id field"
  wpl_epoch :: "group_epoch option"

record external_commit_info_request = base_payload +
  er_qgid :: "qualified_group_id field"
  er_pq_qgid :: "qualified_group_id field"

record join_connection_group_request = base_payload +
  jr_external_commit :: "assisted_message_in field"
  jr_qs_client_reference :: "qs_reference field"

record object_payload = base_payload +
  opl_object_type :: storage_object_type
  opl_group_id :: "qualified_group_id field"
  opl_sender :: "leaf_index field"
  opl_user_id :: "user_id field"

record provision_attachment_payload = object_payload +
  opl_content_length :: "64 word"
  opl_use_post_policy :: bool

record get_attachment_url_payload = object_payload +
  opl_object_id :: "uuid option"

text \<open>What most signed requests start with: a signature, a payload, an accepted version.\<close>

definition signed_payload :: "('pg, 'rt, 'rs, 'z) ds_service_scheme \<Rightarrow> ('p \<Rightarrow> string field option) \<Rightarrow>
    'p ds_request signed_request \<Rightarrow> (ds_state, 'p) action" where
  "signed_payload sv metadata request =
     andThen (try_with (ok_or invalid_argument (rq_signature (sr_request request)))) (\<lambda>_.
     andThen (try_with (ok_or invalid_argument (rq_payload (sr_request request)))) (\<lambda>payload.
     andThen (try_with (verify_client_version sv (metadata payload))) (\<lambda>_.
     return_with payload)))"


section \<open>Group ids and creation\<close>

record request_group_id_response =
  rgr_group_id :: qualified_group_id
  rgr_pq_group_id :: "qualified_group_id option"
  rgr_group_profile_provisioning :: "provision_attachment_response option"

text \<open>\<open>i64\<close> to \<open>u64\<close>\<close>

definition nonnegative :: "64 word \<Rightarrow> status + u64" where
  "nonnegative w = and_then (ensure (0 \<le> sint w) invalid_argument) (\<lambda>_. Ok w)"

definition group_profile_provisioning :: "'cfg s3 \<Rightarrow> storage_settings option \<Rightarrow> time \<Rightarrow> uuid \<Rightarrow>
    64 word option \<Rightarrow> status + provision_attachment_response option" where
  "group_profile_provisioning s3 storage now object_id group_profile_size =
     (case group_profile_size of
        None \<Rightarrow> Ok None
      | Some n \<Rightarrow>
          and_then (nonnegative n) (\<lambda>content_length.
          case provision_object s3 storage now object_id GroupProfile (Some content_length) False of
            Ok response \<Rightarrow> Ok (Some response)
          | Err PoNoStorageConfigured \<Rightarrow> Ok None
          | Err _ \<Rightarrow> Err internal))"

text \<open>The outer option: whether the draws of random ids sufficed.\<close>

definition request_group_id :: "('pg, 'rt, 'rs, 'z) ds_service_scheme \<Rightarrow> 'cfg s3 \<Rightarrow>
    storage_settings option \<Rightarrow> ds_io \<Rightarrow> uuid \<Rightarrow> string field option \<Rightarrow> bool \<Rightarrow> 64 word option \<Rightarrow>
    ds_state \<Rightarrow> ((status + request_group_id_response) \<times> ds_state) option" where
  "request_group_id sv s3 storage io object_id client_metadata request_pq group_profile_size s =
     (case verify_client_version sv client_metadata of
        Err e \<Rightarrow> Some (Err e, s)
      | Ok _ \<Rightarrow>
          Option.bind (ds_request_group_id sv (io_uuids io) s) (\<lambda>(qgid, us, s).
          Option.bind (if request_pq
              then map_option (\<lambda>(pq, us, s). (Some pq, s)) (ds_request_group_id sv us s)
              else Some (None, s)) (\<lambda>(pq_qgid, s).
          Some (and_then (group_profile_provisioning s3 storage (io_now io) object_id group_profile_size)
            (\<lambda>provisioning.
            Ok \<lparr> rgr_group_id = qgid, rgr_pq_group_id = pq_qgid,
                 rgr_group_profile_provisioning = provisioning \<rparr>), s))))"

definition claim_group_id :: "uuid \<Rightarrow> (ds_state, uuid) action" where
  "claim_group_id group_id s =
     (let (claimed, s') = claim_reserved_group_id group_id s in (ok_or invalid_argument claimed, s'))"

definition create_group_rl_config :: rl_config where
  "create_group_rl_config = \<lparr> max_requests = 100, time_window = 3600 * 10 ^ 9 \<rparr>"

definition check_rate_limit :: "('pg, 'rt, 'rs, 'z) ds_service_scheme \<Rightarrow> ds_io \<Rightarrow> user_id \<Rightarrow>
    (ds_state, unit) action" where
  "check_rate_limit sv io user s =
     (let key = RlKey_new (sv_sha256 sv) (utf8 ''ds'') (utf8 ''reserve_group_id'')
            [utf8 ''user_uuid'', uid_uuid user];
          (allowed, table) = RateLimiter_allowed RlPostgresStorage_get
            (RlPostgresStorage_set (sv_round sv)) (sv_round sv) create_group_rl_config key (io_clock io)
            (db_allowances s)
      in (ensure allowed resource_exhausted, s\<lparr> db_allowances := table \<rparr>))"

definition get_group_info :: "verifiable_group_info option field \<Rightarrow> status + verifiable_group_info" where
  "get_group_info f = and_then (get_field f) (ok_or invalid_argument)"

definition get_room_state :: "('pg, 'rt, 'rs, 'z) ds_service_scheme \<Rightarrow> bytes field \<Rightarrow> status + 'rs" where
  "get_room_state sv f =
     and_then (get_field f) (\<lambda>room_state. map_err (\<lambda>_. invalid_argument) (env_room_verify sv room_state))"

definition sole_member :: "('pg, 'rt, 'rs, 'z) ds_service_scheme \<Rightarrow> ('pg, 'rt) mls_group \<Rightarrow> status + member" where
  "sole_member sv g =
     (case om_members sv (g_public_group g) of [m] \<Rightarrow> Ok m | _ \<Rightarrow> Err invalid_argument)"

definition extract_credential :: "('pg, 'rt, 'rs, 'z) ds_service_scheme \<Rightarrow> ('pg, 'rt) mls_group \<Rightarrow>
    status + user_id \<times> bytes" where
  "extract_credential sv g =
     and_then (sole_member sv g) (\<lambda>m.
     map_err (\<lambda>_. invalid_argument)
       (sv_client_credential sv (cred_serialized_content (m_credential m))))"

definition sole_member_signature_key :: "('pg, 'rt, 'rs, 'z) ds_service_scheme \<Rightarrow> ('pg, 'rt) mls_group \<Rightarrow>
    status + signature_key" where
  "sole_member_signature_key sv g = map_ok m_signature_key (sole_member sv g)"

definition verify_signing_key :: "('pg, 'rt, 'rs, 'z) ds_service_scheme \<Rightarrow> ('pg, 'rt) mls_group \<Rightarrow>
    ('pg, 'rt) mls_group \<Rightarrow> status + unit" where
  "verify_signing_key sv t_group pq_group =
     and_then (sole_member_signature_key sv t_group) (\<lambda>t_key.
     and_then (sole_member_signature_key sv pq_group) (\<lambda>pq_key.
     ensure (t_key = pq_key) invalid_argument))"

definition create_group :: "('pg, 'rt, 'rs, 'z) ds_service_scheme \<Rightarrow> ds_io \<Rightarrow>
    'rt create_group_payload ds_request signed_request \<Rightarrow> (ds_state, unit) action" where
  "create_group sv io request =
     andThen (try_with (ok_or invalid_argument (rq_payload (sr_request request)))) (\<lambda>payload.
     andThen (try_with (verify_client_version sv (cg_client_metadata payload))) (\<lambda>_.
     andThen (try_with (and_then (get_field (gsd_qgid payload)) (validated_qgid sv))) (\<lambda>qgid.
     andThen (try_with (get_field (gsd_ear_key payload))) (\<lambda>ear_key.
     andThen (claim_group_id (qg_uuid qgid)) (\<lambda>reserved_group_id.
     andThen (try_with (get_group_info (gsd_group_info payload))) (\<lambda>group_info.
     andThen (try_with (get_field (gsd_ratchet_tree payload))) (\<lambda>ratchet_tree.
     andThen (try_with (map_err (\<lambda>_. internal) (Group_new sv group_info ratchet_tree empty_storage)))
       (\<lambda>(g, provider).
     andThen (try_with (extract_credential sv g)) (\<lambda>(user, _).
     andThen (check_rate_limit sv io user) (\<lambda>_.
     andThen (try_with (get_field (cg_encrypted_user_profile_key payload))) (\<lambda>key.
     andThen (try_with (get_field (cg_creator_client_reference payload))) (\<lambda>reference.
     andThen (try_with (get_room_state sv (cg_room_state payload))) (\<lambda>room_state.
     andThen (try_with (map_err (\<lambda>_. internal) (ds_encrypt sv (io_nonce io) ear_key
       (DsGroupState_new (io_now io) provider g key reference room_state)))) (\<lambda>ct.
     new_and_store (io_store io) (io_now io) reserved_group_id ct))))))))))))))"

definition extract_group_state :: "('pg, 'rt, 'rs, 'z) ds_service_scheme \<Rightarrow> time \<Rightarrow>
    'rt group_session_data \<Rightarrow> encrypted_user_profile_key \<Rightarrow> qs_reference \<Rightarrow> 'rs \<Rightarrow>
    status + qualified_group_id \<times> ('pg, 'rt, 'rs) ds_group_state \<times> ear_key" where
  "extract_group_state sv now data key reference room_state =
     and_then (and_then (get_field (gsd_qgid data)) (validated_qgid sv)) (\<lambda>qgid.
     and_then (get_field (gsd_ear_key data)) (\<lambda>ear_key.
     and_then (get_group_info (gsd_group_info data)) (\<lambda>group_info.
     and_then (get_field (gsd_ratchet_tree data)) (\<lambda>ratchet_tree.
     and_then (map_err (\<lambda>_. internal) (Group_new sv group_info ratchet_tree empty_storage)) (\<lambda>(g, provider).
     Ok (qgid, DsGroupState_new now provider g key reference room_state, ear_key))))))"

definition create_apq_group :: "('pg, 'rt, 'rs, 'z) ds_service_scheme \<Rightarrow> ds_io \<Rightarrow>
    'rt create_apq_group_payload ds_request signed_request \<Rightarrow> (ds_state, unit) action" where
  "create_apq_group sv io request =
     andThen (try_with (ok_or invalid_argument (rq_payload (sr_request request)))) (\<lambda>payload.
     andThen (try_with (verify_client_version sv (ca_client_metadata payload))) (\<lambda>_.
     andThen (try_with (get_field (ca_encrypted_user_profile_key payload))) (\<lambda>key.
     andThen (try_with (get_field (ca_creator_client_reference payload))) (\<lambda>reference.
     andThen (try_with (get_room_state sv (ca_room_state payload))) (\<lambda>room_state.
     andThen (try_with (ok_or invalid_argument (ca_t_group_data payload))) (\<lambda>t_data.
     andThen (try_with (extract_group_state sv (io_now io) t_data key reference room_state))
       (\<lambda>(t_qgid, t_state, ear_key).
     andThen (try_with (extract_credential sv (ds_group t_state))) (\<lambda>(user, verifying_key).
     andThen (check_rate_limit sv io user) (\<lambda>_.
     andThen (try_with (request_verify sv ''CreateApqGroupPayload'' request verifying_key)) (\<lambda>_.
     andThen (try_with (ok_or invalid_argument (ca_pq_group_data payload))) (\<lambda>pq_data.
     andThen (try_with (extract_group_state sv (io_now io) pq_data key reference room_state))
       (\<lambda>(pq_qgid, pq_state, _).
     andThen (try_with (verify_signing_key sv (ds_group t_state) (ds_group pq_state))) (\<lambda>_.
     andThen (claim_group_id (qg_uuid t_qgid)) (\<lambda>t_id.
     andThen (claim_group_id (qg_uuid pq_qgid)) (\<lambda>pq_id.
     andThen (try_with (map_err (\<lambda>_. internal) (ds_encrypt sv (io_nonce io) ear_key t_state))) (\<lambda>t_ct.
     andThen (try_with (map_err (\<lambda>_. internal) (ds_encrypt sv (io_nonce_pq io) ear_key pq_state))) (\<lambda>pq_ct.
     transaction restore_db
       (andThen (try_with (ensure (io_begin io) internal)) (\<lambda>_.
        andThen (new_and_store (io_store io) (io_now io) t_id t_ct) (\<lambda>_.
        andThen (new_and_store (io_store_pq io) (io_now io) pq_id pq_ct) (\<lambda>_.
        try_with (ensure (io_commit io) internal))))))))))))))))))))))"

section \<open>Reading\<close>

record welcome_info_response =
  wir_ratchet_tree :: bytes
  wir_encrypted_user_profile_keys :: "encrypted_user_profile_key list"
  wir_room_state :: bytes
  wir_indexed_keys :: "(leaf_index \<times> encrypted_user_profile_key) list"

definition tls_out :: "unit + 'a \<Rightarrow> status + 'a" where
  "tls_out r = map_err (\<lambda>_. invalid_argument) r"

definition indexed_keys :: "('pg, 'rt, 'rs) ds_group_state \<Rightarrow>
    (leaf_index \<times> encrypted_user_profile_key) list" where
  "indexed_keys s = map (\<lambda>(index, profile). (index, mp_encrypted_user_profile_key profile)) (ds_member_profiles s)"

definition welcome_info_handler :: "('pg, 'rt, 'rs, 'z) ds_service_scheme \<Rightarrow> ds_io \<Rightarrow>
    welcome_info_payload ds_request signed_request \<Rightarrow> (ds_state, welcome_info_response) action" where
  "welcome_info_handler sv io request =
     andThen (try_with (ok_or invalid_argument (rq_payload (sr_request request)))) (\<lambda>payload.
     andThen (try_with (ok_or invalid_argument (wpl_sender payload))) (\<lambda>sender_key.
     andThen (try_with (request_verify sv ''WelcomeInfoPayload'' request sender_key)) (\<lambda>_.
     andThen (try_with (verify_client_version sv (pl_client_metadata payload))) (\<lambda>_.
     andThen (try_with (and_then (get_field (wpl_qgid payload)) (validated_qgid sv))) (\<lambda>qgid.
     andThen (try_with (get_field (pl_ear_key payload))) (\<lambda>ear_key.
     andThen (load_group_state_immutable sv io qgid ear_key) (\<lambda>group_state.
     andThen (try_with (ok_or invalid_argument (wpl_epoch payload))) (\<lambda>epoch.
     andThen (try_with (ok_or not_found (welcome_info group_state epoch sender_key))) (\<lambda>tree.
     andThen (try_with (tls_out (sv_tree_out sv tree))) (\<lambda>tree.
     andThen (try_with (tls_out (sv_room_out sv (env_room_unverified sv (ds_room_state group_state))))) (\<lambda>room.
     return_with \<lparr> wir_ratchet_tree = tree,
       wir_encrypted_user_profile_keys = encrypted_user_profile_keys group_state,
       wir_room_state = room, wir_indexed_keys = indexed_keys group_state \<rparr>)))))))))))"

record external_commit_info_response =
  ecr_group_info :: bytes
  ecr_ratchet_tree :: bytes
  ecr_encrypted_user_profile_keys :: "encrypted_user_profile_key list"
  ecr_room_state :: bytes
  ecr_proposals :: "bytes list"
  ecr_indexed_keys :: "(leaf_index \<times> encrypted_user_profile_key) list"
  ecr_pq_group_info :: "bytes option"
  ecr_pq_ratchet_tree :: "bytes option"
  ecr_pq_proposals :: "bytes list"

text \<open>\<^verbatim>\<open>Option::map(..).transpose()\<close>\<close>

definition transpose_opt :: "('a \<Rightarrow> 'e + 'b) \<Rightarrow> 'a option \<Rightarrow> 'e + 'b option" where
  "transpose_opt f x = (case x of None \<Rightarrow> Ok None | Some a \<Rightarrow> map_ok Some (f a))"

definition external_commit_info_handler :: "('pg, 'rt, 'rs, 'z) ds_service_scheme \<Rightarrow> ds_io \<Rightarrow>
    external_commit_info_request \<Rightarrow> (ds_state, external_commit_info_response) action" where
  "external_commit_info_handler sv io request =
     andThen (try_with (verify_client_version sv (pl_client_metadata request))) (\<lambda>_.
     andThen (try_with (get_field (er_qgid request))) (\<lambda>qgid.
     andThen (try_with (get_field (pl_ear_key request))) (\<lambda>ear_key.
     andThen (try_with (get_optional (er_pq_qgid request))) (\<lambda>pq_qgid.
     andThen (load_group_state_immutable_pair sv io qgid pq_qgid ear_key) (\<lambda>(group_state, pq_group_state).
     let info = external_commit_info sv group_state;
         pq_info = map_option (external_commit_info sv) pq_group_state in
     andThen (try_with (tls_out (sv_group_info_out sv (eci_group_info info)))) (\<lambda>group_info.
     andThen (try_with (tls_out (sv_tree_out sv (eci_ratchet_tree info)))) (\<lambda>tree.
     andThen (try_with (tls_out (sv_room_out sv (env_room_unverified sv (eci_room_state info))))) (\<lambda>room.
     andThen (try_with (tls_out (transpose_opt (\<lambda>i. sv_group_info_out sv (eci_group_info i)) pq_info))) (\<lambda>pq_group_info.
     andThen (try_with (tls_out (transpose_opt (\<lambda>i. sv_tree_out sv (eci_ratchet_tree i)) pq_info))) (\<lambda>pq_tree.
     return_with \<lparr> ecr_group_info = group_info, ecr_ratchet_tree = tree,
       ecr_encrypted_user_profile_keys = eci_encrypted_user_profile_keys info,
       ecr_room_state = room, ecr_proposals = eci_proposals info,
       ecr_indexed_keys = indexed_keys group_state,
       ecr_pq_group_info = pq_group_info, ecr_pq_ratchet_tree = pq_tree,
       ecr_pq_proposals = (case pq_info of Some i \<Rightarrow> eci_proposals i | None \<Rightarrow> []) \<rparr>))))))))))"

definition connection_group_info_handler :: "('pg, 'rt, 'rs, 'z) ds_service_scheme \<Rightarrow> ds_io \<Rightarrow>
    external_commit_info_request \<Rightarrow> (ds_state, external_commit_info_response) action" where
  "connection_group_info_handler sv io request =
     andThen (try_with (verify_client_version sv (pl_client_metadata request))) (\<lambda>_.
     andThen (try_with (get_field (er_qgid request))) (\<lambda>qgid.
     andThen (try_with (get_field (pl_ear_key request))) (\<lambda>ear_key.
     andThen (load_group_state_immutable sv io qgid ear_key) (\<lambda>group_state.
     let info = external_commit_info sv group_state in
     andThen (try_with (tls_out (sv_group_info_out sv (eci_group_info info)))) (\<lambda>group_info.
     andThen (try_with (tls_out (sv_tree_out sv (eci_ratchet_tree info)))) (\<lambda>tree.
     andThen (try_with (tls_out (sv_room_out sv (env_room_unverified sv (eci_room_state info))))) (\<lambda>room.
     return_with \<lparr> ecr_group_info = group_info, ecr_ratchet_tree = tree,
       ecr_encrypted_user_profile_keys = eci_encrypted_user_profile_keys info,
       ecr_room_state = room, ecr_proposals = eci_proposals info,
       ecr_indexed_keys = indexed_keys group_state,
       ecr_pq_group_info = None, ecr_pq_ratchet_tree = None, ecr_pq_proposals = [] \<rparr>)))))))"


section \<open>Changing a group\<close>

definition clear_proposals :: "('pg, 'rt, 'rs) ds_group_state \<Rightarrow> ('pg, 'rt, 'rs) ds_group_state" where
  "clear_proposals s = s\<lparr> ds_proposals := [] \<rparr>"

definition mls_payload :: "time \<Rightarrow> bytes \<Rightarrow> ds_fan_out_payload" where
  "mls_payload now msg = QueueMessage (payload_of_mls_message now msg)"

definition join_connection_group_handler :: "('pg, 'rt, 'rs, 'z) ds_service_scheme \<Rightarrow> ds_io \<Rightarrow>
    join_connection_group_request \<Rightarrow> (ds_state, time) action" where
  "join_connection_group_handler sv io request =
     andThen (try_with (verify_client_version sv (pl_client_metadata request))) (\<lambda>_.
     andThen (try_with (get_field (jr_external_commit request))) (\<lambda>external_commit.
     andThen (try_with (message_qgid sv external_commit)) (\<lambda>qgid.
     andThen (try_with (get_field (pl_ear_key request))) (\<lambda>ear_key.
     update_group_state_without_verification sv io qgid ear_key (\<lambda>group_state.
       andThen (try_with (get_field (jr_qs_client_reference request))) (\<lambda>reference.
       let clients = destination_clients group_state in
       andThen (try_with (map_err join_connection_group_status
         (join_connection_group sv (io_now io) external_commit reference group_state))) (\<lambda>(msg, group_state).
       andThen (fan_out_message_without_notifications (mls_payload (io_now io) msg) clients True) (\<lambda>timestamp.
       return_with (timestamp, clear_proposals group_state)))))))))"

text \<open>What resync, self-removal and deletion do with a verified request.\<close>

definition fan_out_change :: "('pg, 'rt, 'rs, 'z) ds_service_scheme \<Rightarrow> ds_io \<Rightarrow>
    (('pg, 'rt, 'rs) leaf_verification_data \<Rightarrow> status + bytes \<times> ('pg, 'rt, 'rs) ds_group_state) \<Rightarrow>
    ('pg, 'rt, 'rs) leaf_verification_data \<Rightarrow> (ds_state, time \<times> ('pg, 'rt, 'rs) ds_group_state) action" where
  "fan_out_change sv io change vd =
     (let clients = other_destination_clients (vd_group_state vd) (vd_sender_index vd);
          broadcast = broadcast_to_all_client_queues sv (vd_group_state vd) in
      andThen (try_with (change vd)) (\<lambda>(msg, group_state).
      andThen (fan_out_message_without_notifications (mls_payload (io_now io) msg) clients broadcast)
        (\<lambda>timestamp.
      return_with (timestamp, group_state))))"

definition resync_handler :: "('pg, 'rt, 'rs, 'z) ds_service_scheme \<Rightarrow> ds_io \<Rightarrow>
    resync_payload ds_request signed_request \<Rightarrow> (ds_state, time) action" where
  "resync_handler sv io request =
     andThen (try_with (ok_or invalid_argument (rq_payload (sr_request request)))) (\<lambda>payload.
     andThen (try_with (verify_client_version sv (pl_client_metadata payload))) (\<lambda>_.
     andThen (try_with (get_field (pl_sender payload))) (\<lambda>sender_index.
     update_group_state sv io ''ResyncPayload'' request (pl_ear_key payload) (pl_message payload)
       (Some sender_index) (\<lambda>vd.
       andThen (try_with (ensure (\<not> is_apq sv (vd_group_state vd)) failed_precondition)) (\<lambda>_.
       fan_out_change sv io (\<lambda>vd. map_ok (\<lambda>(msg, s). (msg, clear_proposals s)) (map_err resync_status
         (resync_client sv (io_now io) (vd_message vd) (vd_sender_index vd) (vd_group_state vd)))) vd)))))"

definition self_remove_handler :: "('pg, 'rt, 'rs, 'z) ds_service_scheme \<Rightarrow> ds_io \<Rightarrow>
    message_payload ds_request signed_request \<Rightarrow> (ds_state, time) action" where
  "self_remove_handler sv io request =
     andThen (signed_payload sv pl_client_metadata request) (\<lambda>payload.
     update_group_state sv io ''SelfRemovePayload'' request (pl_ear_key payload) (pl_message payload) None
       (fan_out_change sv io (\<lambda>vd. map_err self_removal_status
         (self_remove_client sv (io_now io) (vd_message vd) (vd_group_state vd)))))"

definition delete_group_handler :: "('pg, 'rt, 'rs, 'z) ds_service_scheme \<Rightarrow> ds_io \<Rightarrow>
    message_payload ds_request signed_request \<Rightarrow> (ds_state, time) action" where
  "delete_group_handler sv io request =
     andThen (signed_payload sv pl_client_metadata request) (\<lambda>payload.
     update_group_state sv io ''DeleteGroupPayload'' request (pl_ear_key payload) (pl_message payload) None
       (fan_out_change sv io (\<lambda>vd. map_ok (\<lambda>(msg, s). (msg, clear_proposals s)) (map_err group_deletion_status
         (ds_delete_group sv (vd_message vd) (vd_group_state vd))))))"

text \<open>A client can repair its own profile by sending both parts of it.\<close>

definition recover_profile :: "('pg, 'rt, 'rs, 'z) ds_service_scheme \<Rightarrow> time \<Rightarrow> qs_reference field \<Rightarrow>
    encrypted_user_profile_key field \<Rightarrow> leaf_index \<Rightarrow> ('pg, 'rt, 'rs) ds_group_state \<Rightarrow>
    status + ('pg, 'rt, 'rs) ds_group_state" where
  "recover_profile sv now ref_field key_field sender_index s =
     (if ref_field = Missing \<or> key_field = Missing then Ok s
      else
        and_then (get_field ref_field) (\<lambda>reference.
        and_then (get_field key_field) (\<lambda>key.
        Ok (s\<lparr> ds_member_profiles := bt_insert sender_index
             \<lparr> mp_leaf_index = sender_index, mp_client_queue_config = reference,
               mp_activity_time = now, mp_activity_epoch = group_epoch_of sv (ds_group s),
               mp_encrypted_user_profile_key = key \<rparr> (ds_member_profiles s) \<rparr>))))"

definition group_operation_step :: "('pg, 'rt, 'rs, 'z) ds_service_scheme \<Rightarrow> time \<Rightarrow>
    group_operation_payload \<Rightarrow> ('pg, 'rt, 'rs) leaf_verification_data \<Rightarrow>
    status + (qs_reference list \<times> ds_fan_out_payload \<times> ds_fan_out_message list \<times> bool)
      \<times> ('pg, 'rt, 'rs) ds_group_state" where
  "group_operation_step sv now payload vd =
     and_then (recover_profile sv now (pl_qs_client_reference payload)
       (pl_encrypted_user_profile_key payload) (vd_sender_index vd) (vd_group_state vd)) (\<lambda>s.
     and_then (get_optional (pl_add_users_info payload)) (\<lambda>info.
     let clients = other_destination_clients s (vd_sender_index vd);
         broadcast = broadcast_to_all_client_queues sv s in
     and_then (map_err group_operation_status (group_operation sv now (vd_message vd) info (vd_ear_key vd) s))
       (\<lambda>((msg, individual), s).
     let s = clear_proposals s; fan_out_payload = mls_payload now msg in
     and_then (map_err group_operation_status
       (create_commit_response sv now (vd_sender_index vd) (payload_timestamp fan_out_payload) s)) (\<lambda>response.
     Ok ((clients, fan_out_payload, individual @ [response], broadcast), s)))))"

definition group_operation_handler :: "('pg, 'rt, 'rs, 'z) ds_service_scheme \<Rightarrow> ds_io \<Rightarrow>
    group_operation_payload ds_request signed_request \<Rightarrow> (ds_state, time) action" where
  "group_operation_handler sv io request =
     andThen (signed_payload sv pl_client_metadata request) (\<lambda>payload.
     andThen (update_group_state sv io ''GroupOperationPayload'' request (pl_ear_key payload)
       (pl_message payload) None (\<lambda>vd. try_with (group_operation_step sv (io_now io) payload vd)))
       (\<lambda>(clients, fan_out_payload, individual, broadcast).
     andThen (fan_out_message_without_notifications fan_out_payload clients broadcast) (\<lambda>timestamp.
     andThen (send_all individual) (\<lambda>_.
     return_with timestamp))))"

definition update_profile_key_handler :: "('pg, 'rt, 'rs, 'z) ds_service_scheme \<Rightarrow> ds_io \<Rightarrow>
    update_profile_key_payload ds_request signed_request \<Rightarrow> (ds_state, unit) action" where
  "update_profile_key_handler sv io request =
     andThen (signed_payload sv pl_client_metadata request) (\<lambda>payload.
     andThen (try_with (get_field (pl_ear_key payload))) (\<lambda>ear_key.
     andThen (try_with (and_then (get_field (upl_group_id payload)) (validated_qgid sv))) (\<lambda>qgid.
     andThen (try_with (get_field (upl_sender payload))) (\<lambda>sender_index.
     update_group_state_without_verification sv io qgid ear_key (\<lambda>group_state.
       andThen (try_with (sender_client_credential sv group_state sender_index)) (\<lambda>(_, key).
       andThen (try_with (request_verify sv ''UpdateProfileKeyPayload'' request key)) (\<lambda>_.
       andThen (try_with (get_field (upl_encrypted_user_profile_key payload))) (\<lambda>profile_key.
       andThen (try_with (map_err (\<lambda>_. internal) (payload_of_profile_update sv (io_now io)
         \<lparr> upk_group_id = sv_qgid_ser sv qgid, upk_sender_index = sender_index,
           upk_user_profile_key = profile_key \<rparr>))) (\<lambda>queue_payload.
       andThen (try_with (map_err update_profile_key_status
         (update_user_profile_key (io_now io) sender_index profile_key group_state))) (\<lambda>group_state.
       andThen (fan_out_message_without_notifications (QueueMessage queue_payload)
         (other_destination_clients group_state sender_index)
         (broadcast_to_all_client_queues sv group_state)) (\<lambda>_.
       return_with ((), group_state))))))))))))"


section \<open>Changing a pair of groups\<close>

definition apq_broadcast :: "time \<Rightarrow> bytes \<Rightarrow> qs_reference list \<Rightarrow> ds_fan_out_message list \<Rightarrow> time apq_fan_out" where
  "apq_broadcast now msg clients individual =
     \<lparr> afo_payload = apq_mls_message now msg, afo_destination_clients = clients,
       afo_individual = individual, afo_value = now \<rparr>"

definition apq_resync_handler :: "('pg, 'rt, 'rs, 'z) ds_service_scheme \<Rightarrow> ds_io \<Rightarrow>
    apq_resync_payload ds_request signed_request \<Rightarrow> (ds_state, time) action" where
  "apq_resync_handler sv io request =
     andThen (try_with (ok_or invalid_argument (rq_payload (sr_request request)))) (\<lambda>payload.
     andThen (try_with (verify_client_version sv (pl_client_metadata payload))) (\<lambda>_.
     andThen (try_with (get_field (apl_sender payload))) (\<lambda>sender_index.
     update_apq_group_state sv io ''ApqResyncPayload'' request (pl_ear_key payload) (apl_messages payload)
       (Some sender_index) (\<lambda>vd.
       let clients = other_destination_clients (avd_t_group_state vd) (avd_t_sender_index vd) in
       and_then (map_err resync_status (apq_resync_client sv (io_now io) (avd_t_message vd) (avd_pq_message vd)
         (avd_t_sender_index vd) (avd_t_group_state vd) (avd_pq_group_state vd))) (\<lambda>(msg, t, pq).
       Ok (apq_broadcast (io_now io) msg clients [], clear_proposals t, clear_proposals pq))))))"

definition apq_self_remove_handler :: "('pg, 'rt, 'rs, 'z) ds_service_scheme \<Rightarrow> ds_io \<Rightarrow>
    apq_payload ds_request signed_request \<Rightarrow> (ds_state, time) action" where
  "apq_self_remove_handler sv io request =
     andThen (signed_payload sv pl_client_metadata request) (\<lambda>payload.
     update_apq_group_state sv io ''ApqSelfRemovePayload'' request (pl_ear_key payload)
       (apl_messages payload) None (\<lambda>vd.
       let clients = other_destination_clients (avd_t_group_state vd) (avd_t_sender_index vd) in
       and_then (map_err self_removal_status (self_remove_client_without_room_state sv (io_now io)
         (avd_pq_message vd) (avd_pq_group_state vd))) (\<lambda>(pq_msg, pq).
       and_then (map_err self_removal_status (self_remove_client sv (io_now io) (avd_t_message vd)
         (avd_t_group_state vd))) (\<lambda>(t_msg, t).
       Ok (apq_broadcast (io_now io) (combine_apq t_msg pq_msg) clients [], t, pq)))))"

definition apq_delete_group_handler :: "('pg, 'rt, 'rs, 'z) ds_service_scheme \<Rightarrow> ds_io \<Rightarrow>
    apq_payload ds_request signed_request \<Rightarrow> (ds_state, time) action" where
  "apq_delete_group_handler sv io request =
     andThen (signed_payload sv pl_client_metadata request) (\<lambda>payload.
     update_apq_group_state sv io ''ApqDeleteGroupPayload'' request (pl_ear_key payload)
       (apl_messages payload) None (\<lambda>vd.
       let clients = other_destination_clients (avd_t_group_state vd) (avd_t_sender_index vd) in
       and_then (map_err group_deletion_status (ds_delete_pq_group sv (avd_pq_message vd)
         (avd_pq_group_state vd))) (\<lambda>(pq_msg, pq).
       and_then (map_err group_deletion_status (ds_delete_group sv (avd_t_message vd)
         (avd_t_group_state vd))) (\<lambda>(t_msg, t).
       Ok (apq_broadcast (io_now io) (combine_apq t_msg pq_msg) clients [],
           clear_proposals t, clear_proposals pq)))))"

definition apq_group_operation_step :: "('pg, 'rt, 'rs, 'z) ds_service_scheme \<Rightarrow> time \<Rightarrow>
    apq_group_operation_payload \<Rightarrow> ('pg, 'rt, 'rs) apq_verification_data \<Rightarrow>
    status + time apq_fan_out \<times> ('pg, 'rt, 'rs) ds_group_state \<times> ('pg, 'rt, 'rs) ds_group_state" where
  "apq_group_operation_step sv now payload vd =
     and_then (recover_profile sv now (apl_qs_client_reference payload)
       (apl_encrypted_user_profile_key payload) (avd_t_sender_index vd) (avd_t_group_state vd)) (\<lambda>t.
     and_then (get_optional (apl_add_users_info payload)) (\<lambda>info.
     let halves = map_option (\<lambda>(w, infos). ApqAddUsersInfo_split w infos) info;
         clients = other_destination_clients t (avd_t_sender_index vd) in
     and_then (map_err group_operation_status (process_apq_group_operation sv now (avd_t_message vd)
       (avd_pq_message vd) (map_option fst halves) (map_option snd halves) t (avd_pq_group_state vd)))
       (\<lambda>((msg, added, pq_welcome), t, pq).
     and_then (case (added, pq_welcome) of
         (Some aus, Some pq_w) \<Rightarrow> map_err group_operation_status (generate_apq_fan_out_messages sv now
           (aus_added_users aus) (aus_welcome aus) pq_w (avd_ear_key vd) t)
       | (None, None) \<Rightarrow> Ok []
       | _ \<Rightarrow> Err invalid_argument) (\<lambda>individual.
     let t = clear_proposals t; pq = clear_proposals pq in
     and_then (map_err group_operation_status (create_commit_response sv now (avd_t_sender_index vd) now t))
       (\<lambda>response.
     Ok (apq_broadcast now msg clients (individual @ [response]), t, pq))))))"

definition apq_group_operation_handler :: "('pg, 'rt, 'rs, 'z) ds_service_scheme \<Rightarrow> ds_io \<Rightarrow>
    apq_group_operation_payload ds_request signed_request \<Rightarrow> (ds_state, time) action" where
  "apq_group_operation_handler sv io request =
     andThen (signed_payload sv pl_client_metadata request) (\<lambda>payload.
     update_apq_group_state sv io ''ApqGroupOperationPayload'' request (pl_ear_key payload)
       (apl_messages payload) None (apq_group_operation_step sv (io_now io) payload))"


section \<open>Messages\<close>

definition check_collision_tags :: "ds_io \<Rightarrow> uuid \<Rightarrow> group_epoch \<Rightarrow> int list option \<Rightarrow>
    (ds_state, unit) action" where
  "check_collision_tags io group_id epoch tags s =
     (case tags of
        None \<Rightarrow> (Ok (), s)
      | Some ts \<Rightarrow>
          (let (r, table) = check_and_insert (io_tags io) (dom (db_groups s)) group_id (sint epoch) ts (db_tags s)
           in (map_err collision_tag_status r, s\<lparr> db_tags := table \<rparr>)))"

definition send_message_handler :: "('pg, 'rt, 'rs, 'z) ds_service_scheme \<Rightarrow> ds_io \<Rightarrow>
    send_message_payload ds_request signed_request \<Rightarrow> (ds_state, time) action" where
  "send_message_handler sv io request =
     andThen (signed_payload sv pl_client_metadata request) (\<lambda>payload.
     andThen (try_with (get_field (pl_sender payload))) (\<lambda>sender_index.
     andThen (try_with (get_field (pl_ear_key payload))) (\<lambda>ear_key.
     andThen (try_with (get_field (pl_message payload))) (\<lambda>message.
     andThen (try_with (message_qgid sv message)) (\<lambda>qgid.
     andThen (load_group_state_immutable sv io qgid ear_key) (\<lambda>group_state.
     andThen (try_with (sender_client_credential sv group_state sender_index)) (\<lambda>(_, key).
     andThen (try_with (request_verify sv ''SendMessagePayload'' request key)) (\<lambda>_.
     andThen (check_collision_tags io (qg_uuid qgid) (am_epoch message) (pl_collision_tags payload)) (\<lambda>_.
     fan_out_message (mls_payload (io_now io) (am_serialized_mls_message message))
       (other_destination_clients group_state sender_index)
       (unwrap_or False (pl_suppress_notifications payload))
       (broadcast_to_all_client_queues sv group_state))))))))))"

definition targeted_message_handler :: "('pg, 'rt, 'rs, 'z) ds_service_scheme \<Rightarrow> ds_io \<Rightarrow>
    targeted_payload ds_request signed_request \<Rightarrow> (ds_state, time) action" where
  "targeted_message_handler sv io request =
     andThen (signed_payload sv pl_client_metadata request) (\<lambda>payload.
     andThen (try_with (get_field (tpl_sender payload))) (\<lambda>sender_index.
     andThen (try_with (get_field (pl_ear_key payload))) (\<lambda>ear_key.
     andThen (try_with (ok_or invalid_argument (tpl_message_type payload))) (\<lambda>req.
     andThen (try_with (get_field (tam_message req))) (\<lambda>message.
     andThen (try_with (get_field (tam_recipient req))) (\<lambda>recipient_index.
     andThen (try_with (message_qgid sv message)) (\<lambda>qgid.
     andThen (load_group_state_immutable sv io qgid ear_key) (\<lambda>group_state.
     andThen (try_with (sender_client_credential sv group_state sender_index)) (\<lambda>(_, key).
     andThen (try_with (request_verify sv ''TargetedMessagePayload'' request key)) (\<lambda>_.
     andThen (check_collision_tags io (qg_uuid qgid) (am_epoch message) (tpl_collision_tags payload)) (\<lambda>_.
     andThen (try_with (ok_or invalid_argument (qs_client_ref_by_index group_state recipient_index))) (\<lambda>client.
     andThen (try_with (map_err (\<lambda>_. internal)
       (targeted_message_payload sv (io_now io) (am_serialized_mls_message message)))) (\<lambda>queue_payload.
     andThen (send_all [\<lparr> fo_payload = QueueMessage queue_payload, fo_client_reference = client,
         fo_suppress_notifications = False,
         fo_broadcast_to_all_client_queues = broadcast_to_all_client_queues sv group_state \<rparr>]) (\<lambda>_.
     andThen (try_with (ensure (io_dispatch io) internal)) (\<lambda>_.
     return_with (qm_timestamp queue_payload))))))))))))))))"


section \<open>Attachments\<close>

text \<open>The payload can be signed by a member of a group or, for debug logs, by a user.\<close>

definition object_signer :: "('pg, 'rt, 'rs, 'z) ds_service_scheme \<Rightarrow> ds_io \<Rightarrow> ('x) object_payload_scheme \<Rightarrow>
    (ds_state, bytes) action" where
  "object_signer sv io payload =
     (if opl_object_type payload = DebugLogs
      then
        andThen (try_with (get_field (opl_user_id payload))) (\<lambda>user.
        andThen (try_with (map_err (\<lambda>_. internal) (sv_as_verifying_key sv user))) (\<lambda>key.
        try_with (ok_or not_found key)))
      else
        andThen (try_with (get_field (pl_ear_key payload))) (\<lambda>ear_key.
        andThen (try_with (and_then (get_field (opl_group_id payload)) (validated_qgid sv))) (\<lambda>qgid.
        andThen (try_with (get_field (opl_sender payload))) (\<lambda>sender_index.
        andThen (load_group_state_immutable sv io qgid ear_key) (\<lambda>group_state.
        andThen (try_with (sender_client_credential sv group_state sender_index)) (\<lambda>(_, key).
        return_with key))))))"

definition provision_attachment_handler :: "('pg, 'rt, 'rs, 'z) ds_service_scheme \<Rightarrow> 'cfg s3 \<Rightarrow>
    storage_settings option \<Rightarrow> ds_io \<Rightarrow> uuid \<Rightarrow> provision_attachment_payload ds_request signed_request \<Rightarrow>
    (ds_state, provision_attachment_response) action" where
  "provision_attachment_handler sv s3 storage io object_id request =
     andThen (signed_payload sv pl_client_metadata request) (\<lambda>payload.
     andThen (object_signer sv io payload) (\<lambda>key.
     andThen (try_with (request_verify sv ''ProvisionAttachmentPayload'' request key)) (\<lambda>_.
     andThen (try_with (nonnegative (opl_content_length payload))) (\<lambda>content_length.
     try_with (map_err provision_object_status (provision_object s3 storage (io_now io) object_id
       (opl_object_type payload) (Some content_length) (opl_use_post_policy payload)))))))"

definition get_attachment_url_handler :: "('pg, 'rt, 'rs, 'z) ds_service_scheme \<Rightarrow> 'cfg s3 \<Rightarrow>
    storage_settings option \<Rightarrow> ds_io \<Rightarrow> get_attachment_url_payload ds_request signed_request \<Rightarrow>
    (ds_state, get_attachment_url_response) action" where
  "get_attachment_url_handler sv s3 storage io request =
     andThen (signed_payload sv pl_client_metadata request) (\<lambda>payload.
     andThen (object_signer sv io payload) (\<lambda>key.
     andThen (try_with (request_verify sv ''GetAttachmentPayload'' request key)) (\<lambda>_.
     andThen (try_with (ok_or invalid_argument (opl_object_id payload))) (\<lambda>object_id.
     try_with (map_err get_attachment_url_status
       (get_object_url s3 storage (io_now io) object_id (opl_object_type payload)))))))"

end
