(* ===== verification/Ds_Example.thy ===== *)
theory Ds_Example
  imports Ds_Handlers
begin

text \<open>
  A concrete delivery service for the witnesses: the group library, codecs and room policy of
  \<open>Ds_Group_State\<close>, with codecs that encode one given group state, a cipher with one-byte keys that
  rejects the wrong key, and a signature scheme that accepts everything.  It is used nowhere else.
\<close>

definition keyed_aes :: aes_enc where
  "keyed_aes key n msg aad = (if length key = 1 then Some (key @ msg) else None)"

definition keyed_aes_inv :: aes_dec where
  "keyed_aes_inv key n ct aad = (if length key = 1 \<and> take 1 ct = key then Some (drop 1 ct) else None)"

definition tiny_service :: "staged_commit \<Rightarrow> (tiny_group, bytes, bytes) ds_group_state \<Rightarrow>
    (tiny_group, bytes, bytes) ds_service" where
  "tiny_service template st =
     (let raw = pgs_to_raw (the (group_states (ds_storage st) [1, 1]));
          storage = \<lparr> storage_bytes = [([1, 1], [1])],
            past_group_states_bytes = order_map (past_states_bytes (ds_storage st)),
            group_infos_bytes = order_map (group_info_bytes (ds_storage st)) \<rparr>;
          v2 = \<lparr> v2_group_id = [1], v2_serialized_provider = [1], v2_room_state = 1 # ds_room_state st,
            v2_member_profiles = ds_member_profiles st, v2_proposals = ds_proposals st \<rparr>
      in ds_env.extend ((tiny_env False template)
          \<lparr> env_state_ser := only_ser raw, env_state_de := only_de raw,
            env_storage_ser := only_ser storage, env_storage_de := only_de storage,
            env_group_state_ser := only_ser (EncV2 v2), env_group_state_de := only_de (EncV2 v2),
            env_aes := keyed_aes, env_aes_inv := keyed_aes_inv \<rparr>)
          (ds_service.fields ''a'' (\<lambda>gid. Ok \<lparr> qg_uuid = gid, qg_domain = ''a'' \<rparr>) qg_uuid
            (\<lambda>bs. Ok (tiny_user bs, bs)) (\<lambda>bs. Ok bs) (\<lambda>_ _ _. True) None (\<lambda>_. True)
            (\<lambda>tree. Ok tree) (\<lambda>gi. Ok []) (\<lambda>room. Ok room) (\<lambda>u. Ok None) (\<lambda>bs. bs) (\<lambda>t. t)))"

lemma tiny_service_simps [simp]:
  "om_from_external (tiny_service t st) = om_from_external (tiny_openmls t)"
  "om_load (tiny_service t st) = om_load (tiny_openmls t)"
  "om_process_message (tiny_service t st) = tiny_process_message t"
  "om_resolve_app_data_commit (tiny_service t st) = om_resolve_app_data_commit (tiny_openmls t)"
  "om_updater_changes (tiny_service t st) = om_updater_changes (tiny_openmls t)"
  "om_merge_commit (tiny_service t st) = om_merge_commit (tiny_openmls t)"
  "om_add_proposal (tiny_service t st) = om_add_proposal (tiny_openmls t)"
  "om_members (tiny_service t st) = om_members (tiny_openmls t)"
  "om_leaf (tiny_service t st) = om_leaf (tiny_openmls t)"
  "om_group_context (tiny_service t st) = tiny_context"
  "om_export_ratchet_tree (tiny_service t st) = om_export_ratchet_tree (tiny_openmls t)"
  "om_verify_group_info (tiny_service t st) = om_verify_group_info (tiny_openmls t)"
  "om_signature_scheme (tiny_service t st) = om_signature_scheme (tiny_openmls t)"
  "om_apq_info_de (tiny_service t st) = om_apq_info_de (tiny_openmls t)"
  "gid_ser (tiny_service t st) = (\<lambda>gid. Ok gid)"
  "gi_ser (tiny_service t st) = tiny_gi_ser" "gi_de (tiny_service t st) = tiny_gi_de"
  "pgs_ser (tiny_service t st) = tiny_pgs_ser False" "pgs_de (tiny_service t st) = (\<lambda>bs. Ok Map.empty)"
  "env_air_component_de (tiny_service t st) = (\<lambda>bs. Err ())"
  "env_targeted_ser (tiny_service t st) = (\<lambda>bs. Ok bs)"
  "env_room_verify (tiny_service t st) = (\<lambda>bs. Ok bs)"
  "env_room_unverified (tiny_service t st) = (\<lambda>bs. bs)"
  "env_room_ser (tiny_service t st) = (\<lambda>bs. Ok bs)"
  "env_order_states (tiny_service t st) = order_map" "env_order_bytes (tiny_service t st) = order_map"
  "env_aes (tiny_service t st) = keyed_aes" "env_aes_inv (tiny_service t st) = keyed_aes_inv"
  "sv_own_domain (tiny_service t st) = ''a''"
  "sv_qgid_de (tiny_service t st) = (\<lambda>gid. Ok \<lparr> qg_uuid = gid, qg_domain = ''a'' \<rparr>)"
  "sv_client_credential (tiny_service t st) = (\<lambda>bs. Ok (tiny_user bs, bs))"
  "sv_vl (tiny_service t st) = (\<lambda>bs. Ok bs)" "sv_verify_signature (tiny_service t st) = (\<lambda>_ _ _. True)"
  "sv_version_req (tiny_service t st) = None" "sv_round (tiny_service t st) = (\<lambda>t. t)"
  by (simp_all add: tiny_service_def Let_def tiny_env_def tiny_assist_def openmls.defs mls_assist.defs ds_env.defs
      ds_service.defs tiny_openmls_def)

lemma tiny_service_env_ok: "ds_env_ok (tiny_service t st)"
proof -
  have "storage_backed (tiny_service t st)"
    using tiny_storage_backed[of False t]
    unfolding storage_backed_def tiny_service_simps tiny_assist_simps .
  moreover have "group_codecs_correct (tiny_service t st)"
    using tiny_codecs[of t] by (simp add: group_codecs_correct_def)
  moreover have "aead_correct keyed_aes keyed_aes_inv"
    by (auto simp: aead_correct_def keyed_aes_def keyed_aes_inv_def split: if_splits)
  then have "ds_codecs_correct (tiny_service t st)"
    unfolding ds_codecs_correct_def
    by (intro conjI)
       (simp_all add: order_map_iterates only_codec_correct codec_correct_def[of "\<lambda>bs. Ok bs"],
        simp_all add: tiny_service_def Let_def tiny_env_def mls_assist.defs ds_env.defs ds_service.defs
          only_codec_correct codec_correct_def[of "\<lambda>bs. Ok bs"])
  ultimately show ?thesis by (simp add: ds_env_ok_def)
qed

lemma keyed_aes_wrong_key: "keyed_aes key n msg aad = Some ct \<Longrightarrow> key' \<noteq> key \<Longrightarrow> keyed_aes_inv key' n ct aad = None"
  by (auto simp: keyed_aes_def keyed_aes_inv_def split: if_splits)

text \<open>A stored state, and its encryption under the key \<open>[8]\<close>.\<close>

definition tiny_row :: group_row where
  "tiny_row = \<lparr> gr_ciphertext = \<lparr> ciphertext = [8], nonce = [3] \<rparr>, gr_last_used = 0, gr_deleted_queues = [] \<rparr>"

lemma tiny_encrypt:
  "ds_encrypt (tiny_service t tiny_ds_state) (Some [3]) [8] tiny_ds_state = Ok (gr_ciphertext tiny_row)"
  by (simp add: ds_encrypt_def from_group_state_def tiny_service_def Let_def tiny_env_def
      mls_assist.defs ds_env.defs ds_service.defs tiny_ds_state_def tiny_ds_storage_def order_map_def
      storage_serialize_def codec_to_vec_def only_ser_def tiny_state_def tiny_context_def
      encrypt_def aead_encrypt_def keyed_aes_def tiny_row_def)

lemma tiny_inv: "ds_inv (tiny_service t tiny_ds_state) tiny_ds_state"
proof -
  have "Group_load (tiny_service t tiny_ds_state) st gid = Group_load (tiny_assist False tiny_commit) st gid" for st gid
    by (simp add: Group_load_def) (simp add: tiny_openmls_def)
  then show ?thesis
    using tiny_ds_state_ok unfolding ds_inv_def ds_state_ok_def tiny_env_load
    by (simp add: tiny_ds_state_def tiny_state_def)
qed

lemma tiny_decrypt:
  "ds_decrypt (tiny_service t tiny_ds_state) [8] (gr_ciphertext tiny_row) = Ok tiny_ds_state"
  using tiny_service_env_ok tiny_inv tiny_encrypt by (rule ds_inv_readable)

definition tiny_db :: ds_state where
  "tiny_db = \<lparr> db_groups = [[1] \<mapsto> tiny_row], db_tags = {}, db_allowances = Map.empty,
     reserved_group_ids = {}, sent = [] \<rparr>"

definition tiny_io :: ds_io where
  "tiny_io = \<lparr> io_acquire = True, io_begin = True, io_load = True, io_load_pq = True, io_update = True,
     io_update_pq = True, io_store = True, io_store_pq = True, io_commit = True, io_cleanup = True,
     io_dispatch = True, io_tags = \<lparr> cio_begin = True, cio_query = True, cio_end = True \<rparr>,
     io_nonce = Some [3], io_nonce_pq = Some [3], io_uuids = [[1], [2]], io_now = 50,
     io_clock = \<lparr> now_new = 50, now_check = 50, now_reset = 50 \<rparr> \<rparr>"

definition tiny_request :: "'p \<Rightarrow> 'p ds_request signed_request" where
  "tiny_request payload = \<lparr> sr_request = \<lparr> rq_payload = Some payload, rq_signature = Some [] \<rparr>,
     sr_payload_bytes = Some [0] \<rparr>"

lemma tiny_verify [simp]: "request_verify (tiny_service t st) label (tiny_request p) key = Ok ()"
  by (simp add: request_verify_def SignedRequest_verify_def verify_payload_def tiny_request_def
      SignedRequest_unsigned_payload_def serialize_sign_content_def SignContent_from_def)

lemma tiny_signed_payload [simp]:
  "signed_payload (tiny_service t st) md (tiny_request p) s = (Ok p, s)"
  by (simp add: signed_payload_def tiny_request_def verify_client_version_def action_simps)

lemma tiny_load [simp]:
  assumes "qg_uuid q = [1]" "db_groups s [1] = Some tiny_row"
  shows "load_group_state (tiny_service t tiny_ds_state) True q [8] s = (Ok (tiny_row, tiny_ds_state), s)"
  using assms by (simp add: load_group_state_def andThen_def action_apply tiny_decrypt)

text \<open>A service whose groups have one member, and the state of the group created in it.\<close>

definition tiny_created :: "(tiny_group, bytes, bytes) ds_group_state" where
  "tiny_created = DsGroupState_new 50 ((tiny_write (1, 0) empty_storage)
      \<lparr> group_info_bytes := [[1, 1] \<mapsto> [1, 1, 0]], past_states_bytes := [[1, 1] \<mapsto> [1, 0]] \<rparr>)
     (tiny_state 1 0) [9] (tiny_reference 0) [5]"

definition tiny_new_service :: "(tiny_group, bytes, bytes) ds_service" where
  "tiny_new_service = (tiny_service tiny_commit tiny_created)\<lparr> om_members := \<lambda>g.
     [\<lparr> m_index = 0, m_signature_key = [0], m_credential = tiny_credential 0 \<rparr>] \<rparr>"

definition tiny_create :: "bytes create_group_payload" where
  "tiny_create = \<lparr> gsd_qgid = Field \<lparr> qg_uuid = [1], qg_domain = ''a'' \<rparr>, gsd_ear_key = Field [8],
     gsd_group_info = Field (Some \<lparr> vgi_group_context = tiny_context (1, 0), vgi_extensions = [],
       vgi_confirmation_tag = [], vgi_signer = 0, vgi_signature = [] \<rparr>),
     gsd_ratchet_tree = Field [1, 0], cg_client_metadata = None, cg_encrypted_user_profile_key = Field [9],
     cg_creator_client_reference = Field (tiny_reference 0), cg_room_state = Field [5] \<rparr>"

definition tiny_empty :: ds_state where
  "tiny_empty = \<lparr> db_groups = Map.empty, db_tags = {}, db_allowances = Map.empty,
     reserved_group_ids = {}, sent = [] \<rparr>"

lemma tiny_create_encrypt:
  "ds_encrypt tiny_new_service (Some [3]) [8] tiny_created = Ok (gr_ciphertext tiny_row)"
  by (simp add: tiny_new_service_def ds_encrypt_def from_group_state_def tiny_service_def Let_def tiny_env_def
      mls_assist.defs ds_env.defs ds_service.defs tiny_created_def DsGroupState_new_def tiny_write_def empty_storage_def
      order_map_def storage_serialize_def codec_to_vec_def only_ser_def tiny_state_def tiny_context_def
      encrypt_def aead_encrypt_def keyed_aes_def tiny_row_def)

lemma tiny_create_run:
  "\<exists>s. create_group tiny_new_service tiny_io (tiny_request tiny_create)
       (tiny_empty\<lparr> reserved_group_ids := {[1]} \<rparr>) = (Ok (), s) \<and> db_groups s [1] = Some (tiny_row\<lparr> gr_last_used := 50 \<rparr>)"
proof -
  have new: "Group_new tiny_new_service \<lparr> vgi_group_context = tiny_context (1, 0), vgi_extensions = [],
       vgi_confirmation_tag = [], vgi_signer = 0, vgi_signature = [] \<rparr> [1, 0] empty_storage
     = Ok (tiny_state 1 0, (tiny_write (1, 0) empty_storage)
         \<lparr> group_info_bytes := [[1, 1] \<mapsto> [1, 1, 0]], past_states_bytes := [[1, 1] \<mapsto> [1, 0]] \<rparr>)"
    by (simp add: Group_new_def tiny_new_service_def write_group_info_def write_past_group_states_def codec_to_vec_def
        tiny_gi_ser_def tiny_pgs_ser_def Let_def)
       (simp add: tiny_openmls_def tiny_write_def empty_storage_def tiny_state_def tiny_context_def Let_def tiny_group_of_def)
  have io: "io_nonce tiny_io = Some [3]" "io_now tiny_io = 50" "io_store tiny_io" by (simp_all add: tiny_io_def)
  have cred: "extract_credential tiny_new_service g = Ok (tiny_user [0], [0])" for g
    by (simp add: extract_credential_def sole_member_def tiny_new_service_def tiny_credential_def)
  have rl: "\<exists>table. check_rate_limit tiny_new_service tiny_io u s = (Ok (), s\<lparr> db_allowances := table \<rparr>)"
    if "db_allowances s = Map.empty" for u s
    using that by (auto simp: check_rate_limit_def RateLimiter_allowed_def RlPostgresStorage_get_def Allowance_load_def
        Allowance_allowed_def Allowance_new_def create_group_rl_config_def tiny_io_def tiny_new_service_def Let_def)
  have room: "get_room_state tiny_new_service (Field [5]) = Ok [5]"
    by (simp add: get_room_state_def tiny_new_service_def)
  have qg: "validated_qgid tiny_new_service \<lparr> qg_uuid = [1], qg_domain = ''a'' \<rparr>
      = Ok \<lparr> qg_uuid = [1], qg_domain = ''a'' \<rparr>" "verify_client_version tiny_new_service None = Ok None"
    by (simp_all add: validated_qgid_def tiny_new_service_def verify_client_version_def)
  obtain table where rl': "check_rate_limit tiny_new_service tiny_io (tiny_user [0])
      (tiny_empty\<lparr> reserved_group_ids := {} \<rparr>) = (Ok (), tiny_empty\<lparr> reserved_group_ids := {}, db_allowances := table \<rparr>)"
    using rl[of "tiny_empty\<lparr> reserved_group_ids := {} \<rparr>"] by (auto simp: tiny_empty_def)
  show ?thesis
    by (simp add: create_group_def tiny_create_def tiny_request_def andThen_try qg get_group_info_def)
       (simp add: andThen_def action_apply claim_group_id_def claim_reserved_group_id_def new cred rl' room
          tiny_created_def[symmetric] io tiny_create_encrypt new_and_store_def,
        simp add: group_store_def tiny_empty_def tiny_row_def)
qed

end
