(* ===== verification/Ds_System.thy ===== *)
theory Ds_System
  imports Ds_Example
begin

text \<open>
  The delivery service as a whole: its requests as steps on its state, from the empty database on.

  Shown for every reachable state: each stored row is readable under exactly one key and decrypts
  to a group state with the invariant of \<open>Ds_Invariant\<close>, and no request panics, neither in the
  unwrap of a loaded group nor in the unimplemented branches of \<^verbatim>\<open>accept_processed_message\<close>.  And a
  failed request leaves the stored groups as they were.

  The hypothesis \<open>sv_ok\<close> adds to that on the group state that decrypting under another key fails.
\<close>

section \<open>No unimplemented branch is reached\<close>

lemma accept_no_todo:
  assumes "accept_processed_message env now pam ex g st = Err Todo"
    and "pam = NonCommit pm \<or> pam = Commit pm gi"
  shows "pr_content pm \<noteq> StagedCommitMessage sc" "pr_content pm \<noteq> ProposalMessage qp"
  using assms
  by (auto simp: accept_processed_message_def accept_processed_def accept_content_def Let_def result_simps)

lemma validate_t_commit_staged:
  "validate_t_commit env pm info pq pqc s = Ok r \<Longrightarrow> \<exists>sc. pr_content pm = StagedCommitMessage sc"
  by (auto simp: validate_t_commit_def result_simps)

lemma validate_pq_commit_staged:
  "validate_pq_commit pm info = Ok r \<Longrightarrow> \<exists>sc. pr_content pm = StagedCommitMessage sc"
  by (auto simp: validate_pq_commit_def result_simps split: processed_message_content.splits)

lemma validate_adds_avoids: "avoids (GoMergeCommitError e) (validate_adds env u sc ks info pqc s)"
  by (auto simp: validate_adds_def validate_added_users_def validate_welcome_only_def check_added_user_def
      panic_simps Let_def intro!: avoids_fold_res split: option.splits list.splits prod.splits)

lemma validate_t_commit_avoids: "avoids (GoMergeCommitError e) (validate_t_commit env pm info pq pqc s)"
  by (auto simp: validate_t_commit_def external_sender_info_def check_removed_client_def
      commit_sender_index_def panic_simps validate_adds_avoids intro!: avoids_fold_res
      split: option.splits list.splits sender.splits sender_index.splits aad_payload.splits
        processed_message_content.splits)

lemma validate_pq_commit_avoids: "avoids (GoMergeCommitError e) (validate_pq_commit pm info)"
  by (auto simp: validate_pq_commit_def commit_sender_index_def validate_welcome_only_def panic_simps
      intro!: avoids_fold_res split: option.splits list.splits sender.splits processed_message_content.splits)

lemma apply_t_validation_avoids: "avoids (GoMergeCommitError e) (apply_t_validation env now tv s)"
  by (auto simp: apply_t_validation_def update_membership_profiles_def new_member_profile_def panic_simps
      Let_def intro!: avoids_collect_res split: option.splits)

lemma group_operation_error_avoids: "group_operation_error_of e \<noteq> GoMergeCommitError a"
  "group_operation_error_of_apq e' \<noteq> GoMergeCommitError a"
  by (cases e rule: group_operation_error_of.cases; simp)
     (cases e' rule: group_operation_error_of_apq.cases; simp)

lemma process_group_operation_avoids:
  "avoids (GoMergeCommitError Todo) (process_group_operation env now commit info s)"
  unfolding process_group_operation_def
  by (auto simp: panic_simps group_operation_error_avoids validate_t_commit_avoids
      apply_t_validation_avoids split: processed_assisted_message.splits
      dest: validate_t_commit_staged accept_no_todo(1))

lemma process_apq_group_operation_avoids:
  "avoids (GoMergeCommitError Todo) (process_apq_group_operation env now tm pqm ti pqi t pq)"
  unfolding process_apq_group_operation_def accept_apq_processed_message_def Let_def
  by (auto simp: panic_simps group_operation_error_avoids validate_t_commit_avoids
      validate_pq_commit_avoids apply_t_validation_avoids result_simps
      dest: validate_t_commit_staged validate_pq_commit_staged accept_no_todo(1))

text \<open>So none of the group operations ends in the status of a panic.\<close>

lemma group_operation_status_panicked [simp]:
  "group_operation_status e = panicked \<longleftrightarrow> e = GoMergeCommitError Todo"
  by (cases e rule: group_operation_status.cases) (auto simp: wrong_epoch_status_def elim: accept_status.elims)

lemma resync_status_panicked [simp]: "resync_status e = panicked \<longleftrightarrow> e = RsMergeCommitError Todo"
  by (cases e) (auto elim: accept_status.elims)

lemma self_removal_status_panicked [simp]: "self_removal_status e = panicked \<longleftrightarrow> e = SrMergeCommitError Todo"
  by (cases e) (auto simp: wrong_epoch_status_def elim: accept_status.elims)

lemma group_deletion_status_panicked [simp]:
  "group_deletion_status e = panicked \<longleftrightarrow> e = GdMergeCommitError Todo"
  by (cases e) (auto elim: accept_status.elims)

lemma join_connection_group_status_panicked [simp]:
  "join_connection_group_status e = panicked \<longleftrightarrow> e = JcMergeCommitError Todo"
  by (cases e rule: join_connection_group_status.cases) (auto elim: accept_status.elims)

lemma update_profile_key_status_panicked [simp]: "update_profile_key_status e \<noteq> panicked"
  by (cases e) simp

lemma group_operation_avoids:
  "avoids (GoMergeCommitError Todo) (group_operation env now commit info key s)"
  by (auto simp: group_operation_def panic_simps process_group_operation_avoids
      generate_fan_out_messages_def welcome_fan_out_message_def Let_def intro!: avoids_collect_res
      split: option.splits)

lemma generate_apq_avoids:
  "avoids (GoMergeCommitError Todo) (generate_apq_fan_out_messages env now us w1 w2 key s)"
  by (auto simp: generate_apq_fan_out_messages_def apq_welcome_fan_out_message_def panic_simps Let_def
      intro!: avoids_collect_res)

lemma create_commit_response_avoids:
  "avoids (GoMergeCommitError Todo) (create_commit_response env now i t s)"
  by (auto simp: create_commit_response_def panic_simps)

lemma change_removed_roles_avoids:
  "avoids (RsMergeCommitError e) (change_removed_roles_to_outsider env u is s)"
  by (auto simp: change_removed_roles_to_outsider_def panic_simps intro!: avoids_fold_res)

lemma resync_client_avoids: "avoids (RsMergeCommitError Todo) (resync_client env now m i s)"
  unfolding resync_client_def Let_def
  by (auto simp: panic_simps change_removed_roles_avoids result_simps dest: accept_no_todo(1)
      split: processed_assisted_message.splits processed_message_content.splits)

lemma apq_resync_client_avoids: "avoids (RsMergeCommitError Todo) (apq_resync_client env now tm pqm i t pq)"
  unfolding apq_resync_client_def accept_apq_processed_message_def Let_def
  by (auto simp: panic_simps change_removed_roles_avoids result_simps dest: accept_no_todo(1)
      split: processed_message_content.splits)

lemma join_connection_group_avoids: "avoids (JcMergeCommitError Todo) (join_connection_group env now m r s)"
  unfolding join_connection_group_def Let_def
  by (auto simp: panic_simps result_simps dest: accept_no_todo(1)
      split: processed_assisted_message.splits processed_message_content.splits aad_payload.splits)

lemma self_removal_error_avoids: "self_removal_error_of e \<noteq> SrMergeCommitError a"
  by (cases e rule: self_removal_error_of.cases) simp_all

lemma self_remove_inner_avoids: "avoids (SrMergeCommitError Todo) (self_remove_client_inner env now m s)"
  unfolding self_remove_client_inner_def Let_def
  by (auto simp: panic_simps result_simps self_removal_error_avoids dest: accept_no_todo(2)
      split: processed_assisted_message.splits processed_message_content.splits sender.splits)

lemma self_remove_client_avoids:
  "avoids (SrMergeCommitError Todo) (self_remove_client env now m s)"
  "avoids (SrMergeCommitError Todo) (self_remove_client_without_room_state env now m s)"
  by (auto simp: self_remove_client_def self_remove_client_without_room_state_def panic_simps
      self_remove_inner_avoids)

lemma delete_group_avoids:
  "avoids (GdMergeCommitError e) (ds_delete_group env m s)"
  "avoids (GdMergeCommitError e) (ds_delete_pq_group env m s)"
  by (auto simp: ds_delete_group_def ds_delete_pq_group_def delete_group_inner_def panic_simps Let_def
      split: processed_assisted_message.splits processed_message_content.splits sender.splits)

lemmas operations_avoid = process_apq_group_operation_avoids group_operation_avoids generate_apq_avoids
  create_commit_response_avoids resync_client_avoids apq_resync_client_avoids join_connection_group_avoids
  self_remove_client_avoids delete_group_avoids

lemmas operations_avoid_simps = operations_avoid[unfolded avoids_def]


section \<open>Stored rows\<close>

text \<open>Decrypting under another key fails: what authenticated encryption is for.\<close>

definition wrong_key_fails :: "aes_enc \<Rightarrow> aes_dec \<Rightarrow> bool" where
  "wrong_key_fails enc dec =
     (\<forall>key key' n msg aad ct. enc key n msg aad = Some ct \<and> key' \<noteq> key \<longrightarrow> dec key' n ct aad = None)"

definition sv_ok :: "('pg, 'rt, 'rs, 'z) ds_service_scheme \<Rightarrow> bool" where
  "sv_ok sv = (ds_env_ok sv \<and> wrong_key_fails (env_aes sv) (env_aes_inv sv))"

definition row_ok :: "('pg, 'rt, 'rs, 'z) ds_service_scheme \<Rightarrow> group_row \<Rightarrow> bool" where
  "row_ok sv row =
     (\<exists>key st. ds_inv sv st \<and> (\<forall>k. ds_decrypt sv k (gr_ciphertext row) =
        (if k = key then Ok st else Err (DsDecryption DecryptionError))))"

definition store_ok :: "('pg, 'rt, 'rs, 'z) ds_service_scheme \<Rightarrow> ds_state \<Rightarrow> bool" where
  "store_ok sv s = (\<forall>g row. db_groups s g = Some row \<longrightarrow> row_ok sv row)"

lemma row_okD:
  assumes "row_ok sv row"
  shows "ds_decrypt sv k (gr_ciphertext row) = Err e \<Longrightarrow> e = DsDecryption DecryptionError"
    and "ds_decrypt sv k (gr_ciphertext row) = Ok st \<Longrightarrow> ds_inv sv st"
proof -
  from assms obtain key st' where inv: "ds_inv sv st'"
    and dec: "ds_decrypt sv k (gr_ciphertext row)
      = (if k = key then Ok st' else Err (DsDecryption DecryptionError))"
    unfolding row_ok_def by blast
  show "ds_decrypt sv k (gr_ciphertext row) = Err e \<Longrightarrow> e = DsDecryption DecryptionError"
    and "ds_decrypt sv k (gr_ciphertext row) = Ok st \<Longrightarrow> ds_inv sv st"
    using inv dec by (auto split: if_splits)
qed

lemma store_ok_same: "store_ok sv s \<Longrightarrow> db_groups t = db_groups s \<Longrightarrow> store_ok sv t"
  by (simp add: store_ok_def)

lemma encrypted_row_ok:
  assumes "sv_ok sv" "ds_inv sv st" "ds_encrypt sv n key st = Ok ct" "gr_ciphertext row = ct"
  shows "row_ok sv row"
proof -
  from assms(3) obtain v2 bs where
    aes: "env_aes sv key (nonce ct) bs [] = Some (ciphertext ct)"
    by (auto simp: ds_encrypt_def encrypt_def aead_encrypt_def result_simps)
  have "ds_decrypt sv k ct = Err (DsDecryption DecryptionError)" if "k \<noteq> key" for k
  proof -
    have "env_aes_inv sv k (nonce ct) (ciphertext ct) [] = None"
      using assms(1) aes that unfolding sv_ok_def wrong_key_fails_def by blast
    then show ?thesis
      by (simp add: ds_decrypt_def decrypt_def aead_decrypt_def aead_decrypt_with_aad_def)
  qed
  moreover have "ds_decrypt sv key ct = Ok st"
    using assms(1-3) by (intro ds_inv_readable) (auto simp: sv_ok_def)
  ultimately show ?thesis using assms(2,4) unfolding row_ok_def by auto
qed

lemma store_ok_store:
  "store_ok sv s \<Longrightarrow> row_ok sv row \<Longrightarrow> store_ok sv (group_store g row s)"
  "store_ok sv s \<Longrightarrow> row_ok sv row \<Longrightarrow> store_ok sv (group_update g row s)"
  by (auto simp: store_ok_def group_store_def group_update_def)

lemma restore_db_groups [simp]: "db_groups (restore_db s t) = db_groups s"
  by (simp add: restore_db_def)

lemma upholds_same_groups:
  assumes "frames db_groups m" "\<And>s. no_panic (fst (m s))"
  shows "upholds (store_ok sv) m (\<lambda>_. True)"
  by (rule upholdsI)
     (use assms in \<open>auto simp: frames_def elim: store_ok_same\<close>)

lemma upholds_transaction_then:
  assumes "upholds (store_ok sv) m (\<lambda>_. True)" "\<And>x. upholds (store_ok sv) (f x) Q"
  shows "upholds (store_ok sv) (andThen (transaction restore_db m) f) Q"
  using assms by (intro upholds_then upholds_transaction) (auto elim: store_ok_same)

lemma load_upholds:
  assumes "sv_ok sv"
  shows "upholds (store_ok sv) (load_group_state sv ok qgid key) (\<lambda>(row, st). ds_inv sv st)"
proof (rule upholdsI)
  fix s
  assume ok: "store_ok sv s"
  then show "store_ok sv (snd (load_group_state sv ok qgid key s))"
    by (simp add: load_group_state_def andThen_def action_simps split: sum.splits prod.splits)
  have row: "ds_decrypt sv key (gr_ciphertext row) = Err e \<Longrightarrow> decryption_status e = internal"
    and inv: "ds_decrypt sv key (gr_ciphertext row) = Ok st \<Longrightarrow> ds_inv sv st"
    if "db_groups s (qg_uuid qgid) = Some row" for row e st
  proof -
    have "row_ok sv row" using ok that by (simp add: store_ok_def)
    then show "ds_decrypt sv key (gr_ciphertext row) = Err e \<Longrightarrow> decryption_status e = internal"
      and "ds_decrypt sv key (gr_ciphertext row) = Ok st \<Longrightarrow> ds_inv sv st"
      using row_okD[of sv row key] by auto
  qed
  have cases: "load_group_state sv ok qgid key s =
    (if \<not> ok then (Err internal, s)
     else case db_groups s (qg_uuid qgid) of
       None \<Rightarrow> (Err not_found, s)
     | Some row \<Rightarrow>
         (case ds_decrypt sv key (gr_ciphertext row) of
            Err e \<Rightarrow> (Err (decryption_status e), s) | Ok st \<Rightarrow> (Ok (row, st), s)))"
    by (simp add: load_group_state_def andThen_def action_simps split: option.split sum.split)
  show "no_panic (fst (load_group_state sv ok qgid key s))"
    unfolding cases using row by (auto simp: avoids_def split: option.split sum.split)
  show "case x of (row, st) \<Rightarrow> ds_inv sv st" if "fst (load_group_state sv ok qgid key s) = Ok x" for x
    using that inv unfolding cases by (auto split: if_splits option.splits sum.splits)
qed

lemma persist_upholds:
  assumes "sv_ok sv" "ds_inv sv st"
  shows "upholds (store_ok sv) (encrypt_and_persist sv ok n g row st key) (\<lambda>_. True)"
  unfolding encrypt_and_persist_def
  by (intro action_rules upholds_modify)
     (auto simp: panic_simps result_simps intro!: store_ok_store encrypted_row_ok[OF assms])

lemma new_and_store_upholds:
  assumes "sv_ok sv" "ds_inv sv st" "ds_encrypt sv n key st = Ok ct"
  shows "upholds (store_ok sv) (new_and_store ok now g ct) (\<lambda>_. True)"
  unfolding new_and_store_def
  by (intro action_rules upholds_modify)
     (auto simp: panic_simps intro!: store_ok_store encrypted_row_ok[OF assms])

lemma send_upholds:
  "upholds (store_ok sv) (send_all ms) (\<lambda>_. True)"
  "upholds (store_ok sv) (fan_out_message p cs a b) (\<lambda>_. True)"
  "upholds (store_ok sv) (fan_out_message_without_notifications p cs b) (\<lambda>_. True)"
  "upholds (store_ok sv) (cleanup_tags io g e) (\<lambda>_. True)"
  by (auto simp: send_all_def fan_out_message_def fan_out_message_without_notifications_def
      cleanup_tags_def intro!: action_rules upholds_modify elim: store_ok_same)

text \<open>A step on a group state that keeps its invariant keeps that of the store.\<close>

lemma update_unverified_upholds:
  assumes "sv_ok sv"
    and "\<And>st. ds_inv sv st \<Longrightarrow> upholds (store_ok sv) (f st) (\<lambda>(v, st'). ds_inv sv st')"
  shows "upholds (store_ok sv) (update_group_state_without_verification sv io qgid key f) (\<lambda>_. True)"
  unfolding update_group_state_without_verification_def
  by (intro upholds_transaction_then upholds_try_then upholds_andThen[OF load_upholds[OF assms(1)]]
      upholds_prod upholds_andThen[OF assms(2)] upholds_then[OF persist_upholds[OF assms(1)]]
      upholds_then[OF send_upholds(4)] upholds_return TrueI)
     (auto simp: panic_simps)

lemma verification_no_panic [panic_simps]:
  "no_panic (validated_qgid sv q)" "no_panic (message_qgid sv m)"
  "no_panic (request_verify sv label request key)" "no_panic (sender_client_credential sv st i)"
  "no_panic (message_sender_index si m)" "no_panic (resolve_and_verify sv label request m st si)"
  "no_panic (verify_client_version sv cm)" "no_panic (apq_senders_agree sv si m i st st')"
proof -
  show q: "no_panic (validated_qgid sv q)" for q by (simp add: validated_qgid_def panic_simps)
  show "no_panic (message_qgid sv m)" by (simp add: message_qgid_def panic_simps q)
  show r: "no_panic (request_verify sv label request key)" for key
    by (simp add: request_verify_def panic_simps)
  show c: "no_panic (sender_client_credential sv st i)" for i
    by (simp add: sender_client_credential_def panic_simps)
  show i: "no_panic (message_sender_index si m)" for m
    by (auto simp: message_sender_index_def panic_simps split: option.split sender.split)
  show "no_panic (resolve_and_verify sv label request m st si)"
    by (auto simp: resolve_and_verify_def panic_simps r c i)
  show "no_panic (verify_client_version sv cm)"
    by (simp add: verify_client_version_def panic_simps)
  show "no_panic (apq_senders_agree sv si m j st st')" for j st'
    by (auto simp: apq_senders_agree_def panic_simps i)
qed

lemma update_upholds:
  assumes "sv_ok sv"
    and "\<And>vd. ds_inv sv (vd_group_state vd) \<Longrightarrow> upholds (store_ok sv) (f vd) (\<lambda>(v, st). ds_inv sv st)"
  shows "upholds (store_ok sv) (update_group_state sv io label request kf mf si f) (\<lambda>_. True)"
  unfolding update_group_state_def
  by (intro upholds_try_then update_unverified_upholds assms) (simp_all add: panic_simps)

lemma update_apq_upholds:
  assumes "sv_ok sv"
    and "\<And>vd. no_panic (f vd)"
    and "\<And>vd v t pq. f vd = Ok (v, t, pq) \<Longrightarrow> ds_inv sv (avd_t_group_state vd) \<Longrightarrow>
      ds_inv sv (avd_pq_group_state vd) \<Longrightarrow> ds_inv sv t \<and> ds_inv sv pq"
  shows "upholds (store_ok sv) (update_apq_group_state sv io label request kf mf si f) (\<lambda>_. True)"
  unfolding update_apq_group_state_def
  by (intro upholds_try_then upholds_transaction_then upholds_prod upholds_return_then
      upholds_andThen[OF load_upholds[OF assms(1)]] upholds_then[OF persist_upholds[OF assms(1)]]
      upholds_then[OF send_upholds(1)] upholds_then[OF send_upholds(3)] upholds_then[OF send_upholds(4)]
      upholds_return TrueI)
     (auto simp: panic_simps assms(2) elim: store_ok_same dest: assms(3))


section \<open>Handlers keep the store and do not panic\<close>

lemma clear_proposals_inv: "ds_inv sv st \<Longrightarrow> ds_inv sv (clear_proposals st)"
  by (simp add: clear_proposals_def ds_inv_clear_proposals)

lemma signed_payload_upholds: "upholds (store_ok sv) (signed_payload sv md request) (\<lambda>_. True)"
  unfolding signed_payload_def by (intro action_rules) (simp_all add: panic_simps)

lemma fan_out_change_upholds:
  assumes "no_panic (change vd)" "\<And>msg st. change vd = Ok (msg, st) \<Longrightarrow> ds_inv sv st"
  shows "upholds (store_ok sv) (fan_out_change sv io change vd) (\<lambda>(v, st). ds_inv sv st)"
  unfolding fan_out_change_def Let_def
  by (intro upholds_try_then upholds_prod upholds_then[OF send_upholds(3)] upholds_return)
     (auto simp: assms)

lemma join_upholds:
  assumes "sv_ok sv"
  shows "upholds (store_ok sv) (join_connection_group_handler sv io request) (\<lambda>_. True)"
  unfolding join_connection_group_handler_def Let_def
  by (intro upholds_try_then update_unverified_upholds[OF assms] upholds_prod
      upholds_then[OF send_upholds(3)] upholds_return)
     (use assms in \<open>auto simp: panic_simps result_simps sv_ok_def operations_avoid_simps
        intro: clear_proposals_inv ds_inv_join_connection_group\<close>)

lemma resync_upholds:
  assumes "sv_ok sv"
  shows "upholds (store_ok sv) (resync_handler sv io request) (\<lambda>_. True)"
  unfolding resync_handler_def
  by (intro upholds_try_then update_upholds[OF assms] fan_out_change_upholds)
     (use assms in \<open>auto simp: panic_simps result_simps sv_ok_def operations_avoid_simps
        intro: clear_proposals_inv ds_inv_resync_client\<close>)

lemma self_remove_upholds:
  assumes "sv_ok sv"
  shows "upholds (store_ok sv) (self_remove_handler sv io request) (\<lambda>_. True)"
  unfolding self_remove_handler_def
  by (intro upholds_then[OF signed_payload_upholds] update_upholds[OF assms] fan_out_change_upholds)
     (use assms in \<open>auto simp: panic_simps result_simps sv_ok_def operations_avoid_simps
        intro: ds_inv_self_remove_client\<close>)

lemma delete_upholds:
  assumes "sv_ok sv"
  shows "upholds (store_ok sv) (delete_group_handler sv io request) (\<lambda>_. True)"
  unfolding delete_group_handler_def
  by (intro upholds_then[OF signed_payload_upholds] update_upholds[OF assms] fan_out_change_upholds)
     (use assms in \<open>auto simp: panic_simps result_simps operations_avoid_simps
        intro: clear_proposals_inv ds_inv_delete_group(1)\<close>)

lemma recover_profile_inv:
  assumes "recover_profile sv now rf kf i st = Ok st'" "ds_inv sv st"
  shows "ds_inv sv st'"
  using assms by (auto simp: recover_profile_def result_simps split: if_splits intro!: ds_inv_insert_profile)

lemma recover_profile_no_panic: "no_panic (recover_profile sv now rf kf i st)"
  by (simp add: recover_profile_def panic_simps)

lemma group_operation_step_no_panic: "no_panic (group_operation_step sv now payload vd)"
  by (auto simp: group_operation_step_def panic_simps Let_def recover_profile_no_panic operations_avoid_simps)

lemma group_operation_upholds:
  assumes "sv_ok sv"
  shows "upholds (store_ok sv) (group_operation_handler sv io request) (\<lambda>_. True)"
  unfolding group_operation_handler_def
proof (intro upholds_then[OF signed_payload_upholds] upholds_then[OF update_upholds[OF assms]]
    upholds_try upholds_prod upholds_then[OF send_upholds(3)] upholds_then[OF send_upholds(1)] upholds_return TrueI)
  fix payload and vd :: "('a, 'b, 'c) leaf_verification_data" and x
  assume inv: "ds_inv sv (vd_group_state vd)"
    and step: "group_operation_step sv (io_now io) payload vd = Ok x"
  obtain out st' where x: "x = (out, st')" by (cases x)
  from step obtain st info r st2 where
    "recover_profile sv (io_now io) (pl_qs_client_reference payload) (pl_encrypted_user_profile_key payload)
       (vd_sender_index vd) (vd_group_state vd) = Ok st"
    "group_operation sv (io_now io) (vd_message vd) info (vd_ear_key vd) st = Ok (r, st2)"
    "st' = clear_proposals st2"
    by (auto simp: group_operation_step_def result_simps Let_def x)
  then have "ds_inv sv st'"
    using assms inv by (auto simp: sv_ok_def intro!: clear_proposals_inv
        dest: recover_profile_inv ds_inv_group_operation)
  then show "case x of (v, st) \<Rightarrow> ds_inv sv st" by (simp add: x)
qed (rule group_operation_step_no_panic)

lemma update_profile_key_upholds:
  assumes "sv_ok sv"
  shows "upholds (store_ok sv) (update_profile_key_handler sv io request) (\<lambda>_. True)"
  unfolding update_profile_key_handler_def
  by (intro upholds_then[OF signed_payload_upholds] upholds_try_then update_unverified_upholds[OF assms]
      upholds_prod upholds_then[OF send_upholds(3)] upholds_return)
     (auto simp: panic_simps result_simps intro: ds_inv_update_user_profile_key)

lemma apq_resync_upholds:
  assumes "sv_ok sv"
  shows "upholds (store_ok sv) (apq_resync_handler sv io request) (\<lambda>_. True)"
  unfolding apq_resync_handler_def Let_def
  by (intro upholds_try_then update_apq_upholds[OF assms])
     (use assms in \<open>auto simp: panic_simps result_simps sv_ok_def operations_avoid_simps
        intro!: clear_proposals_inv dest: ds_inv_apq_resync_client[rotated -1]\<close>)

lemma apq_self_remove_upholds:
  assumes "sv_ok sv"
  shows "upholds (store_ok sv) (apq_self_remove_handler sv io request) (\<lambda>_. True)"
  unfolding apq_self_remove_handler_def Let_def
  by (intro upholds_then[OF signed_payload_upholds] update_apq_upholds[OF assms])
     (use assms in \<open>auto simp: panic_simps result_simps sv_ok_def operations_avoid_simps
        dest: ds_inv_self_remove_client[rotated -1] ds_inv_self_remove_client_without_room_state[rotated -1]\<close>)

lemma apq_delete_upholds:
  assumes "sv_ok sv"
  shows "upholds (store_ok sv) (apq_delete_group_handler sv io request) (\<lambda>_. True)"
  unfolding apq_delete_group_handler_def Let_def
  by (intro upholds_then[OF signed_payload_upholds] update_apq_upholds[OF assms])
     (auto simp: panic_simps result_simps operations_avoid_simps intro!: clear_proposals_inv
        dest: ds_inv_delete_group[rotated -1])

lemma apq_group_operation_step_no_panic: "no_panic (apq_group_operation_step sv now payload vd)"
  by (auto simp: apq_group_operation_step_def panic_simps Let_def recover_profile_no_panic
      operations_avoid_simps split: option.split)

lemma apq_group_operation_step_inv:
  assumes "sv_ok sv" "apq_group_operation_step sv now payload vd = Ok (v, t, pq)"
    and "ds_inv sv (avd_t_group_state vd)" "ds_inv sv (avd_pq_group_state vd)"
  shows "ds_inv sv t \<and> ds_inv sv pq"
proof -
  from assms(2) obtain t1 ti pqi r t2 pq2 where
    rec: "recover_profile sv now (apl_qs_client_reference payload) (apl_encrypted_user_profile_key payload)
       (avd_t_sender_index vd) (avd_t_group_state vd) = Ok t1"
    and op: "process_apq_group_operation sv now (avd_t_message vd) (avd_pq_message vd) ti pqi t1
       (avd_pq_group_state vd) = Ok (r, t2, pq2)"
    and out: "t = clear_proposals t2" "pq = clear_proposals pq2"
    by (auto simp: apq_group_operation_step_def result_simps Let_def)
  have "ds_inv sv t1" using rec assms(3) by (rule recover_profile_inv)
  then have "ds_inv sv t2 \<and> ds_inv sv pq2"
    using ds_inv_process_apq_group_operation[OF _ _ assms(4) op] assms(1) by (simp add: sv_ok_def)
  then show ?thesis by (simp add: out clear_proposals_inv)
qed

lemma apq_group_operation_upholds:
  assumes "sv_ok sv"
  shows "upholds (store_ok sv) (apq_group_operation_handler sv io request) (\<lambda>_. True)"
  unfolding apq_group_operation_handler_def
  by (intro upholds_then[OF signed_payload_upholds] update_apq_upholds[OF assms]
      apq_group_operation_step_no_panic apq_group_operation_step_inv[OF assms])

text \<open>Creation.\<close>

lemma claim_upholds: "upholds (store_ok sv) (claim_group_id g) (\<lambda>_. True)"
  by (rule upholds_same_groups)
     (auto simp: frames_def claim_group_id_def claim_reserved_group_id_def panic_simps)

lemma rate_limit_upholds: "upholds (store_ok sv) (check_rate_limit sv' io u) (\<lambda>_. True)"
  by (rule upholds_same_groups)
     (auto simp: frames_def check_rate_limit_def panic_simps Let_def split: prod.split)

lemma creation_no_panic [panic_simps]:
  "no_panic (get_group_info f)" "no_panic (get_room_state sv rf)" "no_panic (extract_credential sv g)"
  "no_panic (verify_signing_key sv g g')" "no_panic (extract_group_state sv now d k r rs)"
  by (auto simp: get_group_info_def get_room_state_def extract_credential_def sole_member_def
      verify_signing_key_def sole_member_signature_key_def extract_group_state_def panic_simps
      split: list.split)

lemma created_inv:
  "sv_ok sv \<Longrightarrow> Group_new sv gi rt empty_storage = Ok (g, st) \<Longrightarrow>
     ds_inv sv (DsGroupState_new now st g k r rs)"
  "sv_ok sv \<Longrightarrow> extract_group_state sv now d k r rs = Ok (q, s, key) \<Longrightarrow> ds_inv sv s"
  by (auto simp: sv_ok_def extract_group_state_def result_simps intro: ds_inv_new)

lemma create_group_upholds:
  assumes "sv_ok sv"
  shows "upholds (store_ok sv) (create_group sv io request) (\<lambda>_. True)"
  unfolding create_group_def
  by (intro upholds_try_then upholds_prod upholds_then[OF claim_upholds] upholds_then[OF rate_limit_upholds]
      new_and_store_upholds[OF assms])
     (auto simp: panic_simps result_simps intro!: created_inv(1)[OF assms])

lemma create_apq_group_upholds:
  assumes "sv_ok sv"
  shows "upholds (store_ok sv) (create_apq_group sv io request) (\<lambda>_. True)"
  unfolding create_apq_group_def
  by (intro upholds_try_then upholds_prod upholds_then[OF claim_upholds] upholds_then[OF rate_limit_upholds]
      upholds_transaction upholds_then[OF new_and_store_upholds[OF assms]] upholds_try TrueI)
     (auto simp: panic_simps result_simps elim: store_ok_same dest: created_inv(2)[OF assms])

text \<open>Reading and sending.\<close>

lemma load_then:
  assumes "sv_ok sv" "\<And>row st. upholds (store_ok sv) (f (row, st)) Q"
  shows "upholds (store_ok sv) (andThen (load_group_state sv ok q k) f) Q"
  by (rule upholds_andThen[OF load_upholds[OF assms(1)]]) (auto simp: assms(2))

lemma load_immutable_upholds:
  assumes "sv_ok sv"
  shows "upholds (store_ok sv) (load_group_state_immutable sv io q k) (\<lambda>_. True)"
    and "upholds (store_ok sv) (load_group_state_immutable_pair sv io q pq k) (\<lambda>_. True)"
proof -
  show "upholds (store_ok sv) (load_group_state_immutable sv io q k) (\<lambda>_. True)"
    unfolding load_group_state_immutable_def
    by (intro upholds_try_then load_then[OF assms] upholds_prod upholds_return TrueI) (simp_all add: panic_simps)
  show "upholds (store_ok sv) (load_group_state_immutable_pair sv io q pq k) (\<lambda>_. True)"
    unfolding load_group_state_immutable_pair_def
    by (cases pq; simp only: option.case;
        intro upholds_try_then load_then[OF assms] upholds_prod upholds_return TrueI)
       (simp_all add: panic_simps)
qed

lemma tls_out_no_panic [panic_simps]: "no_panic (tls_out r)"
  by (simp add: tls_out_def panic_simps)

lemma collision_tag_status_no_panic: "collision_tag_status e \<noteq> panicked"
  by (cases e) simp_all

lemma tags_upholds: "upholds (store_ok sv) (check_collision_tags io g e ts) (\<lambda>_. True)"
  by (rule upholds_same_groups)
     (auto simp: frames_def check_collision_tags_def panic_simps collision_tag_status_no_panic Let_def
       split: option.split prod.split)

lemma send_message_upholds:
  assumes "sv_ok sv"
  shows "upholds (store_ok sv) (send_message_handler sv io request) (\<lambda>_. True)"
  unfolding send_message_handler_def
  by (intro upholds_then[OF signed_payload_upholds] upholds_try_then upholds_prod
      upholds_then[OF load_immutable_upholds(1)[OF assms]] upholds_then[OF tags_upholds] send_upholds)
     (simp_all add: panic_simps)

lemma targeted_message_upholds:
  assumes "sv_ok sv"
  shows "upholds (store_ok sv) (targeted_message_handler sv io request) (\<lambda>_. True)"
  unfolding targeted_message_handler_def
  by (intro upholds_then[OF signed_payload_upholds] upholds_try_then upholds_prod
      upholds_then[OF load_immutable_upholds(1)[OF assms]] upholds_then[OF tags_upholds]
      upholds_then[OF send_upholds(1)] upholds_return TrueI)
     (simp_all add: panic_simps)

lemma reading_upholds:
  assumes "sv_ok sv"
  shows "upholds (store_ok sv) (welcome_info_handler sv io wreq) (\<lambda>_. True)"
    and "upholds (store_ok sv) (external_commit_info_handler sv io ereq) (\<lambda>_. True)"
    and "upholds (store_ok sv) (connection_group_info_handler sv io creq) (\<lambda>_. True)"
  unfolding welcome_info_handler_def external_commit_info_handler_def connection_group_info_handler_def Let_def
  by (intro upholds_try_then upholds_prod upholds_then[OF load_immutable_upholds(1)[OF assms]]
      upholds_then[OF load_immutable_upholds(2)[OF assms]] upholds_return TrueI; simp add: panic_simps)+


section \<open>The service as a transition system\<close>

definition outcome :: "('s, 'a) action \<Rightarrow> 's \<Rightarrow> status option" where
  "outcome m s = (case fst (m s) of Err e \<Rightarrow> Some e | Ok _ \<Rightarrow> None)"

text \<open>
  A request: the state before, the status it fails with (none if it succeeds), the state after.  The
  remaining RPCs, for attachments, only read the state.
\<close>

inductive ds_step :: "('pg, 'rt, 'rs, 'z) ds_service_scheme \<Rightarrow> ds_state \<Rightarrow> status option \<Rightarrow> ds_state \<Rightarrow> bool"
  for sv
where
  "ds_request_group_id sv us s = Some (q, us', t) \<Longrightarrow> ds_step sv s None t"
| "m = create_group sv io request \<Longrightarrow> ds_step sv s (outcome m s) (snd (m s))"
| "m = create_apq_group sv io request \<Longrightarrow> ds_step sv s (outcome m s) (snd (m s))"
| "m = welcome_info_handler sv io request \<Longrightarrow> ds_step sv s (outcome m s) (snd (m s))"
| "m = external_commit_info_handler sv io request \<Longrightarrow> ds_step sv s (outcome m s) (snd (m s))"
| "m = connection_group_info_handler sv io request \<Longrightarrow> ds_step sv s (outcome m s) (snd (m s))"
| "m = join_connection_group_handler sv io request \<Longrightarrow> ds_step sv s (outcome m s) (snd (m s))"
| "m = resync_handler sv io request \<Longrightarrow> ds_step sv s (outcome m s) (snd (m s))"
| "m = apq_resync_handler sv io request \<Longrightarrow> ds_step sv s (outcome m s) (snd (m s))"
| "m = self_remove_handler sv io request \<Longrightarrow> ds_step sv s (outcome m s) (snd (m s))"
| "m = apq_self_remove_handler sv io request \<Longrightarrow> ds_step sv s (outcome m s) (snd (m s))"
| "m = send_message_handler sv io request \<Longrightarrow> ds_step sv s (outcome m s) (snd (m s))"
| "m = delete_group_handler sv io request \<Longrightarrow> ds_step sv s (outcome m s) (snd (m s))"
| "m = apq_delete_group_handler sv io request \<Longrightarrow> ds_step sv s (outcome m s) (snd (m s))"
| "m = group_operation_handler sv io request \<Longrightarrow> ds_step sv s (outcome m s) (snd (m s))"
| "m = apq_group_operation_handler sv io request \<Longrightarrow> ds_step sv s (outcome m s) (snd (m s))"
| "m = update_profile_key_handler sv io request \<Longrightarrow> ds_step sv s (outcome m s) (snd (m s))"
| "m = targeted_message_handler sv io request \<Longrightarrow> ds_step sv s (outcome m s) (snd (m s))"

definition ds_start :: "ds_state \<Rightarrow> bool" where
  "ds_start s = (db_groups s = Map.empty \<and> db_tags s = {} \<and> reserved_group_ids s = {} \<and> sent s = [])"

lemma upholds_step:
  "upholds I m Q \<Longrightarrow> I s \<Longrightarrow> I (snd (m s)) \<and> outcome m s \<noteq> Some panicked"
  by (auto simp: upholds_def outcome_def avoids_def split: sum.splits)

lemmas handlers_uphold = create_group_upholds create_apq_group_upholds reading_upholds join_upholds
  resync_upholds apq_resync_upholds self_remove_upholds apq_self_remove_upholds send_message_upholds
  delete_upholds apq_delete_upholds group_operation_upholds apq_group_operation_upholds
  update_profile_key_upholds targeted_message_upholds

lemma request_uuid_groups: "request_uuid us s = Some (u, us', t) \<Longrightarrow> db_groups t = db_groups s"
  by (induction us arbitrary: s) (auto simp: reserve_group_id_def split: bool.splits)

lemma request_group_id_groups:
  "ds_request_group_id sv us s = Some (q, us', t) \<Longrightarrow> db_groups t = db_groups s"
  by (auto simp: ds_request_group_id_def dest: request_uuid_groups)

lemma ds_step_store_ok:
  assumes "sv_ok sv" "ds_step sv s r t" "store_ok sv s"
  shows "store_ok sv t \<and> r \<noteq> Some panicked"
proof -
  note steps = handlers_uphold[OF assms(1), THEN upholds_step, OF assms(3)]
  from assms(2) show ?thesis
    by (cases rule: ds_step.cases) (use assms(3) in \<open>auto simp: steps dest: request_group_id_groups
      elim: store_ok_same\<close>)
qed

interpretation ds: invariant_system ds_start "\<lambda>s t. \<exists>r. ds_step sv s r t" "\<lambda>s. sv_ok sv \<longrightarrow> store_ok sv s"
  for sv :: "('pg, 'rt, 'rs, 'z) ds_service_scheme"
  by unfold_locales (auto simp: ds_start_def store_ok_def dest: ds_step_store_ok)



section \<open>A failed request leaves the stored groups alone\<close>

lemma group_frames [action_rules]:
  "frames db_groups (send_all ms)" "frames db_groups (fan_out_message p cs a b)"
  "frames db_groups (fan_out_message_without_notifications p cs b)" "frames db_groups (cleanup_tags io g e)"
  "frames db_groups (claim_group_id g)" "frames db_groups (check_rate_limit sv io u)"
  "frames db_groups (check_collision_tags io g e' ts)" "frames db_groups (load_group_state sv ok q k)"
  "frames db_groups (load_group_state_immutable sv io q k)"
  "frames db_groups (load_group_state_immutable_pair sv io q pq k)"
  "frames db_groups (signed_payload sv md request)"
proof -
  show l: "frames db_groups (load_group_state sv ok q k)" for ok q k
    unfolding load_group_state_def by (intro action_rules)
  show "frames db_groups (load_group_state_immutable sv io q k)"
    unfolding load_group_state_immutable_def by (intro action_rules l)
  show "frames db_groups (load_group_state_immutable_pair sv io q pq k)"
    unfolding load_group_state_immutable_pair_def
    by (cases pq; simp only: option.case; intro action_rules l)
  show "frames db_groups (signed_payload sv md request)"
    unfolding signed_payload_def by (intro action_rules)
  show m: "frames db_groups (send_all ms)" for ms
    unfolding send_all_def by (intro frames_modify) simp
  show f: "frames db_groups (fan_out_message p cs a b)" for a
    unfolding fan_out_message_def by (intro action_rules m)
  show "frames db_groups (fan_out_message_without_notifications p cs b)"
    unfolding fan_out_message_without_notifications_def by (rule f)
  show "frames db_groups (cleanup_tags io g e)"
    unfolding cleanup_tags_def by (intro frames_modify) simp
  show "frames db_groups (claim_group_id g)"
    by (simp add: frames_def claim_group_id_def claim_reserved_group_id_def)
  show "frames db_groups (check_rate_limit sv io u)"
    by (simp add: frames_def check_rate_limit_def Let_def split: prod.split)
  show "frames db_groups (check_collision_tags io g e' ts)"
    by (simp add: frames_def check_collision_tags_def Let_def split: prod.split option.split)
qed

lemma afterwards_never_fails:
  "never_fails (send_all ms)" "never_fails (fan_out_message p cs a b)"
  "never_fails (fan_out_message_without_notifications p cs b)" "never_fails (cleanup_tags io g e)"
  by (auto simp: send_all_def fan_out_message_def fan_out_message_without_notifications_def
      cleanup_tags_def intro!: never_fails_simps)

lemma update_undoes:
  "undoes db_groups (update_group_state_without_verification sv io q k f)"
  "undoes db_groups (update_group_state sv io label request kf mf si f')"
  "undoes db_groups (update_apq_group_state sv io label request kf amf si f'')"
  unfolding update_group_state_def update_group_state_without_verification_def update_apq_group_state_def
  by (intro undoes_after undoes_prod action_rules undoes_before[OF undoes_transaction] restore_db_groups
      never_fails_simps afterwards_never_fails)+

lemma new_and_store_undoes: "undoes db_groups (new_and_store ok now g ct)"
  unfolding new_and_store_def by (intro undoes_after action_rules) (simp add: undoes_def action_simps)

lemma handlers_undo:
  "undoes db_groups (create_group sv io r1)"
  "undoes db_groups (create_apq_group sv io r2)"
  "undoes db_groups (join_connection_group_handler sv io r3)"
  "undoes db_groups (resync_handler sv io r4)"
  "undoes db_groups (apq_resync_handler sv io r5)"
  "undoes db_groups (self_remove_handler sv io r6)"
  "undoes db_groups (apq_self_remove_handler sv io r7)"
  "undoes db_groups (delete_group_handler sv io r8)"
  "undoes db_groups (apq_delete_group_handler sv io r9)"
  "undoes db_groups (apq_group_operation_handler sv io r10)"
  "undoes db_groups (update_profile_key_handler sv io r11)"
  unfolding create_group_def create_apq_group_def join_connection_group_handler_def resync_handler_def
    apq_resync_handler_def self_remove_handler_def apq_self_remove_handler_def delete_group_handler_def
    apq_delete_group_handler_def apq_group_operation_handler_def update_profile_key_handler_def
  by (intro undoes_after undoes_prod action_rules update_undoes new_and_store_undoes undoes_transaction
      restore_db_groups)+

lemma group_operation_undoes: "undoes db_groups (group_operation_handler sv io request)"
  unfolding group_operation_handler_def
  by (intro undoes_after[where m = "signed_payload sv pl_client_metadata request"] undoes_before
      update_undoes action_rules never_fails_simps afterwards_never_fails)

lemma handlers_frame:
  "frames db_groups (welcome_info_handler sv io r1)" "frames db_groups (external_commit_info_handler sv io r2)"
  "frames db_groups (connection_group_info_handler sv io r3)" "frames db_groups (send_message_handler sv io r4)"
  "frames db_groups (targeted_message_handler sv io r5)"
  unfolding welcome_info_handler_def external_commit_info_handler_def connection_group_info_handler_def
    send_message_handler_def targeted_message_handler_def Let_def
  by (intro action_rules)+

lemma undoes_step: "undoes g m \<Longrightarrow> Some e = outcome m s \<Longrightarrow> g (snd (m s)) = g s"
  unfolding undoes_def outcome_def by (metis option.simps(3) prod.collapse sum.case_eq_if sum.collapse(1))

text \<open>
  (C11) A request that fails, at whatever point, leaves every stored group as it was.
\<close>

theorem failed_request_keeps_groups:
  assumes "ds_step sv s (Some e) t"
  shows "db_groups t = db_groups s"
proof -
  note steps = handlers_undo[THEN undoes_step] group_operation_undoes[THEN undoes_step]
    handlers_frame[THEN undoes_frames, THEN undoes_step]
  from assms show ?thesis by (cases rule: ds_step.cases) (auto intro: steps)
qed


section \<open>Witnesses\<close>

lemma members_irrelevant:
  fixes env :: "('pg, 'rt, 'rs, 'z) ds_env_scheme"
  shows "om_load (env\<lparr> om_members := f \<rparr>) = om_load env"
    "om_from_external (env\<lparr> om_members := f \<rparr>) = om_from_external env"
    "om_merge_commit (env\<lparr> om_members := f \<rparr>) = om_merge_commit env"
    "om_add_proposal (env\<lparr> om_members := f \<rparr>) = om_add_proposal env"
    "om_group_context (env\<lparr> om_members := f \<rparr>) = om_group_context env"
    "gi_ser (env\<lparr> om_members := f \<rparr>) = gi_ser env" "gi_de (env\<lparr> om_members := f \<rparr>) = gi_de env"
    "pgs_ser (env\<lparr> om_members := f \<rparr>) = pgs_ser env" "pgs_de (env\<lparr> om_members := f \<rparr>) = pgs_de env"
    "env_state_ser (env\<lparr> om_members := f \<rparr>) = env_state_ser env"
    "env_state_de (env\<lparr> om_members := f \<rparr>) = env_state_de env"
    "env_storage_ser (env\<lparr> om_members := f \<rparr>) = env_storage_ser env"
    "env_storage_de (env\<lparr> om_members := f \<rparr>) = env_storage_de env"
    "env_room_ser (env\<lparr> om_members := f \<rparr>) = env_room_ser env"
    "env_room_de (env\<lparr> om_members := f \<rparr>) = env_room_de env"
    "env_group_state_ser (env\<lparr> om_members := f \<rparr>) = env_group_state_ser env"
    "env_group_state_de (env\<lparr> om_members := f \<rparr>) = env_group_state_de env"
    "env_aes (env\<lparr> om_members := f \<rparr>) = env_aes env" "env_aes_inv (env\<lparr> om_members := f \<rparr>) = env_aes_inv env"
    "env_order_states (env\<lparr> om_members := f \<rparr>) = env_order_states env"
    "env_order_bytes (env\<lparr> om_members := f \<rparr>) = env_order_bytes env"
    "env_room_verify (env\<lparr> om_members := f \<rparr>) = env_room_verify env"
    "env_room_unverified (env\<lparr> om_members := f \<rparr>) = env_room_unverified env"
  by simp_all

lemma tiny_sv_ok: "sv_ok (tiny_service t st)"
  by (auto simp: sv_ok_def tiny_service_env_ok wrong_key_fails_def keyed_aes_wrong_key)

lemma tiny_new_sv_ok: "sv_ok tiny_new_service"
  using tiny_sv_ok[of tiny_commit tiny_created]
  unfolding sv_ok_def ds_env_ok_def storage_backed_def group_codecs_correct_def ds_codecs_correct_def
    tiny_new_service_def members_irrelevant .


theorem failed_request_keeps_groups_witness:
  "\<exists>e t. ds_step (tiny_service tiny_farewell tiny_ds_state) tiny_db (Some e) t \<and> db_groups t = [[1] \<mapsto> tiny_row]"
proof -
  let ?sv = "tiny_service tiny_farewell tiny_ds_state"
  let ?p = "\<lparr> pl_client_metadata = None, pl_ear_key = Field [8], pl_message = Missing \<rparr>"
  let ?m = "delete_group_handler ?sv tiny_io (tiny_request ?p)"
  have "?m tiny_db = (Err invalid_argument, tiny_db)"
    by (simp add: delete_group_handler_def update_group_state_def andThen_def action_apply)
  then have step: "ds_step ?sv tiny_db (Some invalid_argument) tiny_db"
    using ds_step.intros(13)[OF refl, of ?sv tiny_db tiny_io "tiny_request ?p"] by (simp add: outcome_def)
  have "db_groups tiny_db = [[1] \<mapsto> tiny_row]" by (simp add: tiny_db_def)
  with failed_request_keeps_groups[OF step] step show ?thesis
    by (intro exI[of _ invalid_argument] exI[of _ tiny_db]) simp
qed

end
