(* ===== verification/Ds_Requests.thy ===== *)
theory Ds_Requests
  imports Ds_System Ds_Example
begin

text \<open>
  What single requests to the delivery service do: who receives a message, whose signature a change
  needs, and what a request that fails late has already sent or used up.
\<close>

section \<open>Single requests\<close>

lemma load_group_state_Ok_iff [action_simps]:
  "load_group_state sv ok q k s = (Ok (row, st), t) \<longleftrightarrow>
     ok \<and> t = s \<and> db_groups s (qg_uuid q) = Some row \<and> ds_decrypt sv k (gr_ciphertext row) = Ok st"
  by (auto simp: load_group_state_def action_simps result_simps)

lemma load_group_state_immutable_Ok_iff [action_simps]:
  "load_group_state_immutable sv io q k s = (Ok st, t) \<longleftrightarrow>
     io_acquire io \<and> io_load io \<and> t = s \<and> (\<exists>row. db_groups s (qg_uuid q) = Some row
       \<and> ds_decrypt sv k (gr_ciphertext row) = Ok st)"
  by (auto simp: load_group_state_immutable_def action_simps result_simps)

lemma signed_payload_Ok_iff [action_simps]:
  "signed_payload sv md request s = (Ok p, t) \<longleftrightarrow>
     t = s \<and> rq_signature (sr_request request) \<noteq> None \<and> rq_payload (sr_request request) = Some p
     \<and> (\<exists>v. verify_client_version sv (md p) = Ok v)"
  by (auto simp: signed_payload_def action_simps result_simps)

lemma fan_out_apply [action_simps]:
  "send_all ms s = (Ok (), s\<lparr> sent := sent s @ ms \<rparr>)"
  "fan_out_message p cs a b s = (Ok (payload_timestamp p), s\<lparr> sent := sent s @ map (\<lambda>c.
     \<lparr> fo_payload = p, fo_client_reference = c, fo_suppress_notifications = a,
       fo_broadcast_to_all_client_queues = b \<rparr>) cs \<rparr>)"
  by (simp_all add: send_all_def fan_out_message_def andThen_def action_simps)

lemma tags_frame: "check_collision_tags io g e ts s = (r, t) \<Longrightarrow> sent t = sent s \<and> db_groups t = db_groups s"
  by (auto simp: check_collision_tags_def Let_def split: option.splits prod.splits)

lemma request_verify_Ok_iff:
  "request_verify sv label request key = Ok () \<longleftrightarrow>
     SignedRequest_verify (sv_vl sv) (sv_verify_signature sv) label rq_signature key request
       = Ok (sr_request request)"
  by (auto simp: request_verify_def result_simps SignedRequest_verify_def)

text \<open>
  (C10) An accepted message is authentic and goes to everyone else: its request is signed under the
  credential of the leaf it names as sender, in the stored state of its group, and one copy is handed
  over for each other member, in the order of their leaves, and nothing for the sender.  No stored
  group changes.
\<close>

theorem send_message_reaches_others:
  assumes "send_message_handler sv io request s = (Ok ts, t)"
  shows "\<exists>payload i key m q row st user vk.
    rq_payload (sr_request request) = Some payload
    \<and> pl_sender payload = Field i \<and> pl_ear_key payload = Field key \<and> pl_message payload = Field m
    \<and> message_qgid sv m = Ok q \<and> db_groups s (qg_uuid q) = Some row
    \<and> ds_decrypt sv key (gr_ciphertext row) = Ok st
    \<and> sender_client_credential sv st i = Ok (user, vk)
    \<and> SignedRequest_verify (sv_vl sv) (sv_verify_signature sv) ''SendMessagePayload'' rq_signature vk request
        = Ok (sr_request request)
    \<and> sent t = sent s @ map (\<lambda>c. \<lparr> fo_payload = mls_payload (io_now io) (am_serialized_mls_message m),
        fo_client_reference = c,
        fo_suppress_notifications = unwrap_or False (pl_suppress_notifications payload),
        fo_broadcast_to_all_client_queues = broadcast_to_all_client_queues sv st \<rparr>)
        (map mp_client_queue_config (bt_values (filter (\<lambda>(k, p). k \<noteq> i) (ds_member_profiles st))))
    \<and> db_groups t = db_groups s"
proof -
  have others: "other_destination_clients st i
      = map mp_client_queue_config (bt_values (filter (\<lambda>(k, p). k \<noteq> i) (ds_member_profiles st)))"
    for st :: "('a, 'b, 'c) ds_group_state" and i
  proof -
    have "List.map_filter (\<lambda>(k, p). if k \<noteq> i then Some (mp_client_queue_config p) else None) ps
      = map mp_client_queue_config (bt_values (filter (\<lambda>(k, p). k \<noteq> i) ps))" for ps
      by (induction ps) (auto simp: List.map_filter_simps bt_values_def)
    then show ?thesis unfolding other_destination_clients_def .
  qed
  from assms show ?thesis
    unfolding others[symmetric]
    by (auto simp: send_message_handler_def action_simps result_simps request_verify_Ok_iff
        dest!: tags_frame)
qed

text \<open>
  (C9) Nobody but a member changes a group: a change through \<^verbatim>\<open>update_group_state\<close> that succeeds was
  applied to the stored state of the group its message names, on this server, and its request is
  signed under the credential of a leaf of that state.
\<close>

theorem change_needs_member_signature:
  assumes "update_group_state sv io label request kf mf si f s = (Ok v, t)"
  shows "\<exists>key m q row st i leaf user vk.
    kf = Field key \<and> mf = Field m \<and> sv_qgid_de sv (am_group_id m) = Ok q
    \<and> qg_domain q = sv_own_domain sv \<and> db_groups s (qg_uuid q) = Some row
    \<and> ds_decrypt sv key (gr_ciphertext row) = Ok st
    \<and> (case si of Some j \<Rightarrow> i = j | None \<Rightarrow> am_sender m = Some (Member i))
    \<and> group_leaf sv (ds_group st) i = Some leaf
    \<and> sv_client_credential sv (cred_serialized_content (ln_credential leaf)) = Ok (user, vk)
    \<and> SignedRequest_verify (sv_vl sv) (sv_verify_signature sv) label rq_signature vk request
        = Ok (sr_request request)
    \<and> (\<exists>st' u. f \<lparr> vd_ear_key = key, vd_group_state = st, vd_sender_index = i, vd_message = m \<rparr> s
        = (Ok (v, st'), u))"
proof -
  have sender: "message_sender_index si m = Ok i \<longleftrightarrow>
      (case si of Some j \<Rightarrow> i = j | None \<Rightarrow> am_sender m = Some (Member i))" for m i
    by (auto simp: message_sender_index_def result_simps split: option.split sender.splits)
  from assms show ?thesis
    by (auto simp: update_group_state_def update_group_state_without_verification_def message_qgid_def
        validated_qgid_def resolve_and_verify_def sender_client_credential_def sender action_simps result_simps
        request_verify_Ok_iff split: if_splits; blast)
qed

text \<open>A failed group operation, of one group or a pair, has sent nothing.\<close>

lemma sent_frames [action_rules]:
  "frames sent (load_group_state sv ok q k)" "frames sent (signed_payload sv md request)"
  "frames sent (encrypt_and_persist sv ok n g row st k)" "frames sent (cleanup_tags io g e)"
proof -
  show "frames sent (load_group_state sv ok q k)"
    unfolding load_group_state_def by (intro action_rules)
  show "frames sent (signed_payload sv md request)" unfolding signed_payload_def by (intro action_rules)
  show "frames sent (encrypt_and_persist sv ok n g row st k)"
    unfolding encrypt_and_persist_def by (intro action_rules frames_modify) (simp add: group_update_def)
  show "frames sent (cleanup_tags io g e)"
    unfolding cleanup_tags_def by (intro frames_modify) simp
qed

lemma frames_transaction_sent: "frames sent m \<Longrightarrow> frames sent (transaction restore_db m)"
  unfolding frames_def by (auto simp: transaction_def restore_db_def split: sum.split prod.split; metis snd_conv)

lemma update_sent_frames:
  assumes "\<And>vd. frames sent (f vd)"
  shows "frames sent (update_group_state sv io label request kf mf si f)"
  unfolding update_group_state_def update_group_state_without_verification_def
  by (intro action_rules frames_transaction_sent assms)

lemma update_apq_sent_undoes: "undoes sent (update_apq_group_state sv io label request kf mf si f)"
  unfolding update_apq_group_state_def
  by (intro undoes_after frames_pure undoes_prod undoes_before undoes_frames frames_transaction_sent action_rules
      never_fails_simps afterwards_never_fails)

lemma group_operation_sent_undoes: "undoes sent (group_operation_handler sv io request)"
  unfolding group_operation_handler_def
  by (intro undoes_after[where m = "signed_payload sv pl_client_metadata request"] undoes_before
      undoes_frames update_sent_frames action_rules never_fails_simps afterwards_never_fails)

lemma apq_sent_undoes:
  "undoes sent (apq_group_operation_handler sv io r1)" "undoes sent (apq_resync_handler sv io r2)"
  "undoes sent (apq_self_remove_handler sv io r3)" "undoes sent (apq_delete_group_handler sv io r4)"
  unfolding apq_group_operation_handler_def apq_resync_handler_def apq_self_remove_handler_def
    apq_delete_group_handler_def
  by (intro undoes_after action_rules update_apq_sent_undoes)+

text \<open>
  (C17) A commit that is not stored is not announced: when a group operation, or any change of a pair
  of groups, fails, no message has been sent and the stored groups are unchanged.
\<close>

theorem failed_commit_not_announced:
  assumes "m \<in> {group_operation_handler sv io r0, apq_group_operation_handler sv io r1,
      apq_resync_handler sv io r2, apq_self_remove_handler sv io r3, apq_delete_group_handler sv io r4}"
    and "m s = (Err e, t)"
  shows "sent t = sent s \<and> db_groups t = db_groups s"
proof -
  have "undoes sent m \<and> undoes db_groups m"
    using assms(1) by (auto intro: group_operation_sent_undoes apq_sent_undoes group_operation_undoes handlers_undo)
  then show ?thesis using assms(2) unfolding undoes_def by blast
qed

lemma commit_fails_after_sending:
  assumes "update_group_state_without_verification sv io q k f s = (Ok v, t)"
  shows "\<exists>u. update_group_state_without_verification sv (io\<lparr> io_commit := False \<rparr>) q k f s = (Err internal, u)
    \<and> sent u = sent t \<and> db_groups u = db_groups s"
proof -
  from assms obtain row st s1 st' s2 where
    run: "io_begin io" "load_group_state sv (io_load io) q k s = (Ok (row, st), s)"
      "f st s = (Ok (v, st'), s1)"
      "encrypt_and_persist sv (io_update io) (io_nonce io) (qg_uuid q) row st' k s1 = (Ok (), s2)"
    and t: "cleanup_tags io (qg_uuid q) (group_epoch_of sv (ds_group st')) s2 = (Ok (), t)"
    by (auto simp: update_group_state_without_verification_def action_simps result_simps)
  have "sent t = sent s2" using sent_frames(4) t by (rule framesD)
  moreover have "andThen (try_with (ensure (io_begin io) internal)) (\<lambda>_.
      andThen (load_group_state sv (io_load io) q k) (\<lambda>(row, st).
      andThen (f st) (\<lambda>(v, st').
      andThen (encrypt_and_persist sv (io_update io) (io_nonce io) (qg_uuid q) row st' k) (\<lambda>_.
      andThen (try_with (ensure False internal)) (\<lambda>_.
      return_with (v, group_epoch_of sv (ds_group st'))))))) s = (Err internal, s2)"
    by (simp add: andThen_def run action_apply)
  ultimately show ?thesis
    by (auto simp: update_group_state_without_verification_def andThen_def transaction_def restore_db_def)
qed

text \<open>
  (C30) Deletion of a group, in contrast, is announced before it is stored: whenever a deletion
  succeeds, the same request in the same state with a failing commit of the database transaction
  fails after it has sent the same messages, and the stored group is as before.
\<close>

theorem deletion_announced_before_commit:
  assumes "delete_group_handler sv io request s = (Ok ts, t)"
  shows "\<exists>u. delete_group_handler sv (io\<lparr> io_commit := False \<rparr>) request s = (Err internal, u)
    \<and> sent u = sent t \<and> db_groups u = db_groups s"
proof -
  from assms obtain payload key m q where
    p: "signed_payload sv pl_client_metadata request s = (Ok payload, s)"
      "get_field (pl_ear_key payload) = Ok key" "get_field (pl_message payload) = Ok m"
      "message_qgid sv m = Ok q"
    and run: "update_group_state_without_verification sv io q key (\<lambda>group_state.
       andThen (try_with (resolve_and_verify sv ''DeleteGroupPayload'' request m group_state None)) (\<lambda>i.
       fan_out_change sv io (\<lambda>vd. map_ok (\<lambda>(msg, s). (msg, clear_proposals s)) (map_err group_deletion_status
         (ds_delete_group sv (vd_message vd) (vd_group_state vd))))
       \<lparr> vd_ear_key = key, vd_group_state = group_state, vd_sender_index = i, vd_message = m \<rparr>)) s = (Ok ts, t)"
    by (auto simp: delete_group_handler_def update_group_state_def action_simps)
  have io: "fan_out_change sv (io\<lparr> io_commit := False \<rparr>) = fan_out_change sv io"
    by (simp add: fun_eq_iff fan_out_change_def)
  have "delete_group_handler sv (io\<lparr> io_commit := False \<rparr>) request s =
    update_group_state_without_verification sv (io\<lparr> io_commit := False \<rparr>) q key (\<lambda>group_state.
       andThen (try_with (resolve_and_verify sv ''DeleteGroupPayload'' request m group_state None)) (\<lambda>i.
       fan_out_change sv io (\<lambda>vd. map_ok (\<lambda>(msg, s). (msg, clear_proposals s)) (map_err group_deletion_status
         (ds_delete_group sv (vd_message vd) (vd_group_state vd))))
       \<lparr> vd_ear_key = key, vd_group_state = group_state, vd_sender_index = i, vd_message = m \<rparr>)) s"
    by (simp add: delete_group_handler_def update_group_state_def andThen_def[of "signed_payload sv x r" for x r]
        p io andThen_try)
  with commit_fails_after_sending[OF run] show ?thesis by simp
qed

lemma check_and_insert_again:
  assumes "check_and_insert io groups g e ts table = (Ok (), table')"
  shows "check_and_insert io groups g e ts table' = (Err (CtCollision (sort ts)), table')"
proof -
  have acc: "table' = table \<union> (\<lambda>t. (g, e, t)) ` set ts" "ts \<noteq> []" "distinct ts"
    "length ts \<le> MAX_COLLISION_TAGS_PER_REQUEST" "g \<in> groups" "cio_begin io" "cio_query io" "cio_end io"
    using assms by (cases rule: check_and_insert_cases[of io groups g e ts table]; simp)+
  then have "filter (\<lambda>t. (g, e, t) \<in> table') (sort ts) = sort ts" by (auto simp: filter_id_conv)
  moreover have "CollisionTags_try_from ts = Ok (sort ts)"
    using acc by (simp add: CollisionTags_try_from_Ok_iff)
  moreover have "sort ts \<noteq> []" using acc(2) by (metis length_0_conv length_sort)
  ultimately show ?thesis using acc by (simp add: check_and_insert_def Let_def)
qed

text \<open>
  (C31) A targeted message that fails to be dispatched has used up its collision tags: the state is
  that of the successful request, and sending the same request again is refused as a collision of
  all its tags.
\<close>

theorem failed_targeted_message_uses_tags:
  assumes "targeted_message_handler sv io request s = (Ok ts, t)"
    and "rq_payload (sr_request request) = Some payload" "tpl_collision_tags payload = Some tags"
  shows "targeted_message_handler sv (io\<lparr> io_dispatch := False \<rparr>) request s = (Err internal, t)
    \<and> targeted_message_handler sv io request t
        = (Err (status_with_details AlreadyExists GenerationCollisionCode (GenerationCollision (sort tags))), t)"
proof -
  from assms obtain i key req m j q st vk usr client qp s1 where
    p: "signed_payload sv pl_client_metadata request s = (Ok payload, s)" "tpl_sender payload = Field i"
      "pl_ear_key payload = Field key" "tpl_message_type payload = Some req" "tam_message req = Field m"
      "tam_recipient req = Field j" "message_qgid sv m = Ok q"
    and load: "load_group_state_immutable sv io q key s = (Ok st, s)"
    and ver: "sender_client_credential sv st i = Ok (usr, vk)"
      "request_verify sv ''TargetedMessagePayload'' request vk = Ok ()"
    and tags: "check_collision_tags io (qg_uuid q) (am_epoch m) (Some tags) s = (Ok (), s1)"
    and to: "qs_client_ref_by_index st j = Some client"
      "targeted_message_payload sv (io_now io) (am_serialized_mls_message m) = Ok qp"
    and t: "t = snd (send_all [\<lparr> fo_payload = QueueMessage qp, fo_client_reference = client,
         fo_suppress_notifications = False,
         fo_broadcast_to_all_client_queues = broadcast_to_all_client_queues sv st \<rparr>] s1)"
    by (auto simp: targeted_message_handler_def action_simps result_simps)
  define table where "table = db_tags s1"
  have chk: "check_and_insert (io_tags io) (dom (db_groups s)) (qg_uuid q) (sint (am_epoch m)) tags (db_tags s)
      = (Ok (), table)" and s1: "s1 = s\<lparr> db_tags := table \<rparr>"
    using tags by (auto simp: check_collision_tags_def Let_def table_def result_simps split: prod.splits)
  have t': "db_groups t = db_groups s" "db_tags t = table" by (simp_all add: t s1 fan_out_apply)
  have "check_collision_tags io (qg_uuid q) (am_epoch m) (Some tags) t
      = (Err (status_with_details AlreadyExists GenerationCollisionCode (GenerationCollision (sort tags))), t)"
    using check_and_insert_again[OF chk] by (simp add: check_collision_tags_def t')
  moreover have "load_group_state_immutable sv io q key t = (Ok st, t)"
    "signed_payload sv pl_client_metadata request t = (Ok payload, t)"
    using load p(1) by (simp_all add: load_group_state_immutable_Ok_iff signed_payload_Ok_iff t')
  ultimately have "targeted_message_handler sv io request t
      = (Err (status_with_details AlreadyExists GenerationCollisionCode (GenerationCollision (sort tags))), t)"
    by (simp add: targeted_message_handler_def andThen_def p ver assms(3) action_apply)
  moreover have "load_group_state_immutable sv (io\<lparr> io_dispatch := False \<rparr>) q key s = (Ok st, s)"
    "check_collision_tags (io\<lparr> io_dispatch := False \<rparr>) (qg_uuid q) (am_epoch m) (Some tags) s = (Ok (), s1)"
    using load tags by (simp_all add: load_group_state_immutable_Ok_iff check_collision_tags_def)
  then have "targeted_message_handler sv (io\<lparr> io_dispatch := False \<rparr>) request s = (Err internal, t)"
    by (simp add: targeted_message_handler_def andThen_def p ver assms(3) action_apply to t fan_out_apply)
  ultimately show ?thesis by simp
qed

section \<open>Witnesses\<close>

definition tiny_send :: send_message_payload where
  "tiny_send = \<lparr> pl_client_metadata = None, pl_ear_key = Field [8], pl_message = Field (tiny_op_message []),
     pl_sender = Field 0, pl_suppress_notifications = None, pl_collision_tags = Some [4] \<rparr>"

lemma tiny_qgid [simp]: "message_qgid (tiny_service t st) (tiny_op_message aad) = Ok \<lparr> qg_uuid = [1], qg_domain = ''a'' \<rparr>"
  by (simp add: message_qgid_def validated_qgid_def am_group_id_def tiny_op_message_def tiny_message_def)

lemma tiny_sender [simp]:
  "sender_client_credential (tiny_service t st) tiny_ds_state 0 = Ok (tiny_user [0], [0])"
  by (simp add: sender_client_credential_def group_leaf_def) (simp add: tiny_openmls_def tiny_leaf_def tiny_credential_def)

lemma tiny_immutable [simp]:
  "load_group_state_immutable (tiny_service t tiny_ds_state) tiny_io \<lparr> qg_uuid = [1], qg_domain = ''a'' \<rparr> [8] tiny_db
     = (Ok tiny_ds_state, tiny_db)"
  by (simp add: load_group_state_immutable_def andThen_def action_apply tiny_io_def tiny_db_def)

lemma tiny_tags:
  assumes "distinct tags" "tags \<noteq> []" "length tags \<le> 30"
  shows "check_collision_tags tiny_io [1] e (Some tags) tiny_db
     = (Ok (), tiny_db\<lparr> db_tags := (\<lambda>t. ([1], sint e, t)) ` set tags \<rparr>)"
proof -
  have "CollisionTags_try_from tags = Ok (sort tags)"
    using assms by (simp add: CollisionTags_try_from_Ok_iff MAX_COLLISION_TAGS_PER_REQUEST_def)
  then show ?thesis
    by (simp add: check_collision_tags_def check_and_insert_def tiny_io_def tiny_db_def Let_def)
qed

theorem send_message_reaches_others_witness:
  "\<exists>ts t. send_message_handler (tiny_service tiny_commit tiny_ds_state) tiny_io (tiny_request tiny_send) tiny_db
      = (Ok ts, t)
    \<and> map fo_client_reference (sent t) = [tiny_reference 1, tiny_reference 2]
    \<and> db_groups t = db_groups tiny_db"
proof -
  let ?run = "send_message_handler (tiny_service tiny_commit tiny_ds_state) tiny_io (tiny_request tiny_send) tiny_db"
  obtain ts t where run: "?run = (Ok ts, t)" and t: "map fo_client_reference (sent t) = [tiny_reference 1, tiny_reference 2]"
    by (simp add: send_message_handler_def andThen_def action_apply tiny_send_def tiny_tags fan_out_apply)
       (simp add: other_destination_clients_def tiny_ds_state_def List.map_filter_simps tiny_profile_def tiny_db_def)
  from send_message_reaches_others[OF run] have "db_groups t = db_groups tiny_db" by blast
  with run t show ?thesis by (intro exI[of _ ts] exI[of _ t]) simp
qed

lemma tiny_persist:
  "encrypt_and_persist (tiny_service t tiny_ds_state) True (Some [3]) [1] tiny_row tiny_ds_state [8] s
     = (Ok (), group_update [1] tiny_row s)"
  by (simp add: encrypt_and_persist_def andThen_def action_apply tiny_encrypt)

lemma tiny_update:
  assumes "f tiny_ds_state tiny_db = (Ok (v, tiny_ds_state), s)" "db_groups s = db_groups tiny_db"
  shows "\<exists>t. update_group_state_without_verification (tiny_service tpl tiny_ds_state) tiny_io
      \<lparr> qg_uuid = [1], qg_domain = ''a'' \<rparr> [8] f tiny_db = (Ok v, t) \<and> sent t = sent s"
proof -
  have "load_group_state (tiny_service tpl tiny_ds_state) True \<lparr> qg_uuid = [1], qg_domain = ''a'' \<rparr> [8] tiny_db
      = (Ok (tiny_row, tiny_ds_state), tiny_db)" by (rule tiny_load) (simp_all add: tiny_db_def)
  with assms show ?thesis
    by (simp add: update_group_state_without_verification_def andThen_def transaction_def action_apply
        tiny_persist tiny_io_def cleanup_tags_def group_update_def)
qed

lemma tiny_resolve [simp]:
  "resolve_and_verify (tiny_service tpl tiny_ds_state) label (tiny_request p) (tiny_op_message aad) tiny_ds_state None
     = Ok 0"
  by (simp add: resolve_and_verify_def message_sender_index_def am_sender_def tiny_op_message_def tiny_message_def)

theorem change_needs_member_signature_witness:
  "\<exists>t. update_group_state (tiny_service tiny_commit tiny_ds_state) tiny_io ''X'' (tiny_request ()) (Field [8])
      (Field (tiny_op_message [])) None (\<lambda>vd. return_with (7 :: nat, vd_group_state vd)) tiny_db = (Ok 7, t)
    \<and> db_groups tiny_db [1] = Some tiny_row"
proof -
  have "\<exists>t. update_group_state (tiny_service tiny_commit tiny_ds_state) tiny_io ''X'' (tiny_request ()) (Field [8])
      (Field (tiny_op_message [])) None (\<lambda>vd. return_with (7 :: nat, vd_group_state vd)) tiny_db = (Ok 7, t)"
    using tiny_update[of "\<lambda>group_state. andThen (try_with (resolve_and_verify (tiny_service tiny_commit tiny_ds_state)
        ''X'' (tiny_request ()) (tiny_op_message []) group_state None)) (\<lambda>i. return_with (7 :: nat, group_state))" 7 tiny_db tiny_commit]
    by (auto simp: update_group_state_def andThen_try action_apply)
  then obtain t where run: "update_group_state (tiny_service tiny_commit tiny_ds_state) tiny_io ''X'' (tiny_request ())
      (Field [8]) (Field (tiny_op_message [])) None (\<lambda>vd. return_with (7 :: nat, vd_group_state vd)) tiny_db
      = (Ok 7, t)" by blast
  with change_needs_member_signature[OF run] show ?thesis by (auto simp: tiny_db_def)
qed

definition tiny_message_payload :: message_payload where
  "tiny_message_payload = \<lparr> pl_client_metadata = None, pl_ear_key = Field [8],
     pl_message = Field (tiny_op_message []) \<rparr>"

definition tiny_operation :: group_operation_payload where
  "tiny_operation = \<lparr> pl_client_metadata = None, pl_ear_key = Field [8], pl_message = Field (tiny_op_message []),
     pl_add_users_info = Missing, pl_qs_client_reference = Missing, pl_encrypted_user_profile_key = Missing \<rparr>"

theorem failed_commit_not_announced_witness:
  "\<exists>e t. group_operation_handler (tiny_service tiny_commit tiny_ds_state) (tiny_io\<lparr> io_begin := False \<rparr>)
      (tiny_request tiny_operation) tiny_db = (Err e, t)
    \<and> sent t = [] \<and> db_groups t = db_groups tiny_db"
proof -
  let ?m = "group_operation_handler (tiny_service tiny_commit tiny_ds_state) (tiny_io\<lparr> io_begin := False \<rparr>)
      (tiny_request tiny_operation)"
  have run: "?m tiny_db = (Err internal, restore_db tiny_db tiny_db)"
    by (simp add: group_operation_handler_def update_group_state_def update_group_state_without_verification_def
        andThen_def action_apply tiny_operation_def transaction_def)
  have "sent (restore_db tiny_db tiny_db) = sent tiny_db"
    using failed_commit_not_announced[of ?m, OF _ run] by blast
  with run show ?thesis by (auto simp: tiny_db_def restore_db_def)
qed

lemma tiny_delete_run:
  "ds_delete_group (tiny_service tiny_farewell st) (tiny_op_message []) tiny_ds_state = Ok ([7], tiny_ds_state)"
proof -
  have "process_assisted_message (tiny_service tiny_farewell st) (tiny_state 1 4) (tiny_op_message [])
     = Ok \<lparr> processed_assisted_message = Commit (tiny_op_processed tiny_farewell []) tiny_new_info,
            serialized_mls_message = [7] \<rparr>"
    by (simp add: process_assisted_message_def tiny_op_message_def tiny_message_def tiny_state_def
        tiny_op_processed_def resolve_app_data_commit_public_def from_processed_commit_def
        validate_group_info_def Let_def into_verifiable_group_info_def tiny_new_info_def)
       (simp add: tiny_openmls_def)
  moreover have "ds_group tiny_ds_state = tiny_state 1 4" by (simp add: tiny_ds_state_def)
  ultimately show ?thesis
    by (simp add: ds_delete_group_def delete_group_inner_def)
       (simp add: tiny_op_processed_def tiny_farewell_def tiny_commit_def removed_clients_def
         List.map_filter_simps removed_client_def tiny_ds_state_def bt_keys_def word_le_nat_alt)
qed

theorem deletion_announced_before_commit_witness:
  "\<exists>u. delete_group_handler (tiny_service tiny_farewell tiny_ds_state) (tiny_io\<lparr> io_commit := False \<rparr>)
      (tiny_request tiny_message_payload) tiny_db = (Err internal, u)
    \<and> length (sent u) = 2 \<and> db_groups u = db_groups tiny_db"
proof -
  let ?sv = "tiny_service tiny_farewell tiny_ds_state"
  let ?f = "\<lambda>group_state. andThen (try_with (resolve_and_verify ?sv ''DeleteGroupPayload''
      (tiny_request tiny_message_payload) (tiny_op_message []) group_state None)) (\<lambda>i.
    fan_out_change ?sv tiny_io (\<lambda>vd. map_ok (\<lambda>(msg, s). (msg, clear_proposals s)) (map_err group_deletion_status
      (ds_delete_group ?sv (vd_message vd) (vd_group_state vd))))
      \<lparr> vd_ear_key = [8], vd_group_state = group_state, vd_sender_index = i, vd_message = tiny_op_message [] \<rparr>)"
  have clear: "clear_proposals tiny_ds_state = tiny_ds_state"
    by (simp add: clear_proposals_def tiny_ds_state_def)
  obtain v s where f: "?f tiny_ds_state tiny_db = (Ok (v, tiny_ds_state), s)" "db_groups s = db_groups tiny_db"
      "length (sent s) = 2"
    by (simp add: andThen_try fan_out_change_def andThen_def action_apply tiny_delete_run clear Let_def
          fan_out_message_without_notifications_def fan_out_apply)
       (simp add: other_destination_clients_def tiny_ds_state_def List.map_filter_simps tiny_db_def)
  from tiny_update[where f = ?f, OF f(1,2), of tiny_farewell] f(3) obtain t where
    run: "delete_group_handler ?sv tiny_io (tiny_request tiny_message_payload) tiny_db = (Ok v, t)"
    and t: "length (sent t) = 2"
    by (auto simp: delete_group_handler_def update_group_state_def andThen_def[of "signed_payload x y z" for x y z]
        andThen_try tiny_message_payload_def)
  from deletion_announced_before_commit[OF run] t show ?thesis by auto
qed

definition tiny_targeted :: targeted_payload where
  "tiny_targeted = \<lparr> pl_client_metadata = None, pl_ear_key = Field [8], tpl_sender = Field 0,
     tpl_message_type = Some \<lparr> tam_message = Field (tiny_op_message []), tam_recipient = Field 1 \<rparr>,
     tpl_collision_tags = Some [5, 4] \<rparr>"

theorem failed_targeted_message_uses_tags_witness:
  "\<exists>t. targeted_message_handler (tiny_service tiny_commit tiny_ds_state) (tiny_io\<lparr> io_dispatch := False \<rparr>)
      (tiny_request tiny_targeted) tiny_db = (Err internal, t)
    \<and> targeted_message_handler (tiny_service tiny_commit tiny_ds_state) tiny_io (tiny_request tiny_targeted) t
      = (Err (status_with_details AlreadyExists GenerationCollisionCode (GenerationCollision [4, 5])), t)"
proof -
  let ?sv = "tiny_service tiny_commit tiny_ds_state"
  have dispatch: "io_dispatch tiny_io" by (simp add: tiny_io_def)
  have client: "qs_client_ref_by_index tiny_ds_state 1 = Some (tiny_reference 1)"
    by (simp add: qs_client_ref_by_index_def tiny_ds_state_def bt_get_def tiny_profile_def)
  have "\<exists>ts t. targeted_message_handler ?sv tiny_io (tiny_request tiny_targeted) tiny_db = (Ok ts, t)"
    by (simp add: targeted_message_handler_def andThen_def action_apply tiny_targeted_def tiny_tags fan_out_apply
        targeted_message_payload_def client dispatch)
  then obtain ts t where run: "targeted_message_handler ?sv tiny_io (tiny_request tiny_targeted) tiny_db = (Ok ts, t)"
    by blast
  from failed_targeted_message_uses_tags[OF run, of tiny_targeted "[5, 4]"] show ?thesis
    by (auto simp: tiny_request_def tiny_targeted_def)
qed

end
