(* ===== verification/Qs_Queue.thy ===== *)
theory Qs_Queue
  imports Common_Crypto Service_Base
begin

text \<open>
  The queues of the queue service: \<^verbatim>\<open>backend/src/qs/queue.rs\<close>.  The table \<^verbatim>\<open>qs_queues\<close> is the list of
  its rows, with \<^verbatim>\<open>i64\<close> sequence numbers; the protobuf coding of a stored message is a pair of
  arguments.  A listening client reads its queue through a \<^verbatim>\<open>QueueStreamContext\<close>, whose stream is the
  function \<open>poll\<close>.  The listeners of the service are its cancellation tokens and what they are
  registered for.

  The locale \<open>message_store\<close> is what the stream relies on: a store that holds the messages of a log
  from some position on.  It is interpreted on the table, and the stream is shown to hand out the log
  in order, without gap or repetition, and to report an empty queue only at its end.
\<close>

section \<open>The table\<close>

type_synonym qs_client_id = bytes

datatype queue_error = QueueStorage | PayloadReceiverClosed

record queue_row =
  qw_queue_id :: qs_client_id
  qw_sequence_number :: int
  qw_message_bytes :: bytes

type_synonym message_enc = "queue_message \<Rightarrow> unit + bytes"
type_synonym message_dec = "bytes \<Rightarrow> unit + queue_message"

text \<open>The pair of queue and sequence number is the primary key.\<close>

definition Queue_enqueue :: "message_enc \<Rightarrow> bool \<Rightarrow> qs_client_id \<Rightarrow> queue_message \<Rightarrow> queue_row list \<Rightarrow>
    queue_error + queue_row list" where
  "Queue_enqueue enc ok queue_id message rows =
     and_then (map_err (\<lambda>_. QueueStorage) (enc message)) (\<lambda>bs.
     let n = sint (qm_sequence_number message) in
     and_then (ensure (ok \<and> \<not> list_ex (\<lambda>r. qw_queue_id r = queue_id \<and> qw_sequence_number r = n) rows)
       QueueStorage) (\<lambda>_.
     Ok (rows @ [\<lparr> qw_queue_id = queue_id, qw_sequence_number = n, qw_message_bytes = bs \<rparr>])))"

definition Queue_fetch_into :: "message_dec \<Rightarrow> bool \<Rightarrow> qs_client_id \<Rightarrow> u64 \<Rightarrow> nat \<Rightarrow> queue_message list \<Rightarrow>
    queue_row list \<Rightarrow> unit + queue_message list" where
  "Queue_fetch_into dec ok queue_id from_number limit buffer rows =
     and_then (ensure ok ()) (\<lambda>_.
     and_then (collect_res (\<lambda>r. dec (qw_message_bytes r)) (take limit (sort_key qw_sequence_number
       (filter (\<lambda>r. qw_queue_id r = queue_id \<and> sint from_number \<le> qw_sequence_number r) rows))))
       (\<lambda>messages. Ok (buffer @ messages)))"

definition Queue_delete :: "qs_client_id \<Rightarrow> u64 \<Rightarrow> queue_row list \<Rightarrow> queue_row list" where
  "Queue_delete queue_id up_to_sequence_number rows =
     filter (\<lambda>r. \<not> (qw_queue_id r = queue_id \<and> qw_sequence_number r < sint up_to_sequence_number)) rows"


section \<open>The stream of a listener\<close>

definition MAX_BUFFER_SIZE :: nat where
  "MAX_BUFFER_SIZE = 32"

datatype fetch_state = Init | Fetch | Wait

record stream_context =
  sc_client_id :: qs_client_id
  sc_sequence_number :: u64
  sc_buffer :: "queue_message list"
  sc_state :: fetch_state

text \<open>
  What happens around one poll: whether the listener is found cancelled when the loop is in a state,
  whether the fetch succeeds, and whether waiting ends by a notification (or else by cancellation).
\<close>

record poll_io =
  pi_cancelled :: "fetch_state \<Rightarrow> bool"
  pi_fetch :: bool
  pi_notified :: bool

definition new_stream_context :: "qs_client_id \<Rightarrow> u64 \<Rightarrow> stream_context" where
  "new_stream_context client_id sequence_number_start =
     \<lparr> sc_client_id = client_id, sc_sequence_number = sequence_number_start, sc_buffer = [],
       sc_state = Init \<rparr>"

definition fetch_next_messages :: "message_dec \<Rightarrow> bool \<Rightarrow> queue_row list \<Rightarrow> stream_context \<Rightarrow>
    stream_context option" where
  "fetch_next_messages dec ok rows c =
     (case Queue_fetch_into dec ok (sc_client_id c) (sc_sequence_number c) MAX_BUFFER_SIZE (sc_buffer c) rows of
        Err _ \<Rightarrow> None
      | Ok buffer \<Rightarrow>
          Some (c\<lparr> sc_buffer := buffer,
            sc_sequence_number := (if buffer = [] then sc_sequence_number c
              else qm_sequence_number (last buffer) + 1) \<rparr>))"

text \<open>
  One poll of the stream: a message, or nothing for the sentinel of an empty queue, and the new
  context; \<open>None\<close> ends the stream.  The loop passes each state at most once before it returns.
\<close>

function poll :: "message_dec \<Rightarrow> poll_io \<Rightarrow> queue_row list \<Rightarrow> stream_context \<Rightarrow>
    (queue_message option \<times> stream_context) option" where
  "poll dec io rows c =
     (case sc_buffer c of
        message # rest \<Rightarrow> Some (Some message, c\<lparr> sc_buffer := rest \<rparr>)
      | [] \<Rightarrow>
          if pi_cancelled io (sc_state c) \<and> sc_state c \<noteq> Init then None
          else
            (case sc_state c of
               Init \<Rightarrow> poll dec io rows (c\<lparr> sc_state := Fetch \<rparr>)
             | Fetch \<Rightarrow>
                 (case fetch_next_messages dec (pi_fetch io) rows c of
                    None \<Rightarrow> None
                  | Some c' \<Rightarrow>
                      if sc_buffer c' = [] then Some (None, c'\<lparr> sc_state := Wait \<rparr>)
                      else poll dec io rows c')
             | Wait \<Rightarrow>
                 if pi_notified io then poll dec io rows (c\<lparr> sc_state := Fetch \<rparr>) else None))"
  by pat_completeness auto
termination
  by (relation "measure (\<lambda>(dec, io, rows, c). if sc_buffer c \<noteq> [] then 0
        else (case sc_state c of Fetch \<Rightarrow> 1 | _ \<Rightarrow> 2))") auto

declare poll.simps [simp del]


section \<open>Listeners\<close>

text \<open>
  A listener's context is its cancellation token, which the stream that listens holds too; the tokens
  are numbered.  Its channel for event payloads is seen where it is used, by \<open>send_payload\<close>.
\<close>

type_synonym token = nat

record listener_context =
  lc_cancel :: token

record queues =
  qu_listeners :: "qs_client_id \<rightharpoonup> listener_context"
  qu_cancelled :: "token set"
  qu_next_token :: token
  qu_pg_listening :: "qs_client_id set"

definition empty_queues :: queues where
  "empty_queues = \<lparr> qu_listeners = Map.empty, qu_cancelled = {}, qu_next_token = 0, qu_pg_listening = {} \<rparr>"

definition track_listener :: "qs_client_id \<Rightarrow> queues \<Rightarrow> token \<times> queues" where
  "track_listener client_id q =
     (let is_cancelled = (\<lambda>id. case qu_listeners q id of
            Some context \<Rightarrow> lc_cancel context \<in> qu_cancelled q | None \<Rightarrow> False);
          retained = (\<lambda>id. if is_cancelled id then None else qu_listeners q id);
          pg_listening = {id \<in> qu_pg_listening q. \<not> is_cancelled id};
          cancel = qu_next_token q
      in (cancel,
          q\<lparr> qu_listeners := retained(client_id \<mapsto> \<lparr> lc_cancel = cancel \<rparr>),
             qu_cancelled := (case retained client_id of
               Some prev_listener \<Rightarrow> insert (lc_cancel prev_listener) (qu_cancelled q)
             | None \<Rightarrow> qu_cancelled q),
             qu_next_token := cancel + 1,
             qu_pg_listening := (case retained client_id of
               Some _ \<Rightarrow> pg_listening | None \<Rightarrow> insert client_id pg_listening) \<rparr>))"

text \<open>Dropping a stream cancels its token.\<close>

definition drop_stream :: "token \<Rightarrow> queues \<Rightarrow> queues" where
  "drop_stream t q = q\<lparr> qu_cancelled := insert t (qu_cancelled q) \<rparr>"

definition Queues_listen :: "qs_client_id \<Rightarrow> u64 \<Rightarrow> queues \<Rightarrow> (token \<times> stream_context) \<times> queues" where
  "Queues_listen client_id sequence_number_start q =
     (let (cancel, q') = track_listener client_id q
      in ((cancel, new_stream_context client_id sequence_number_start), q'))"

definition is_listening :: "queues \<Rightarrow> qs_client_id \<Rightarrow> bool" where
  "is_listening q queue_id =
     (case qu_listeners q queue_id of
        Some context \<Rightarrow> lc_cancel context \<notin> qu_cancelled q | None \<Rightarrow> False)"

text \<open>Sending fails if the receiving stream is gone; \<open>open_channel\<close> is whether it is still there.\<close>

definition send_payload :: "bool \<Rightarrow> queues \<Rightarrow> qs_client_id \<Rightarrow> queue_error + bool" where
  "send_payload open_channel q queue_id =
     (case qu_listeners q queue_id of
        None \<Rightarrow> Ok False
      | Some _ \<Rightarrow> if open_channel then Ok True else Err PayloadReceiverClosed)"

section \<open>What a stream relies on\<close>

locale message_store =
  fixes holds :: "'s \<Rightarrow> 'q \<Rightarrow> nat \<Rightarrow> 'm list \<Rightarrow> bool"
    and enqueue :: "'q \<Rightarrow> 'm \<Rightarrow> 's \<Rightarrow> 'e + 's"
    and fetch :: "'q \<Rightarrow> nat \<Rightarrow> nat \<Rightarrow> 's \<Rightarrow> 'x + 'm list"
    and delete :: "'q \<Rightarrow> nat \<Rightarrow> 's \<Rightarrow> 's"
    and seq :: "'m \<Rightarrow> nat"
    and capacity :: nat
  assumes numbers: "holds s q lo log \<Longrightarrow> i < length log \<Longrightarrow> seq (log ! i) = i"
    and enqueue_holds: "holds s q lo log \<Longrightarrow> length log < capacity \<Longrightarrow> seq m = length log \<Longrightarrow>
      enqueue q m s = Ok s' \<Longrightarrow> holds s' q lo (log @ [m])"
    and enqueue_other: "q' \<noteq> q \<Longrightarrow> holds s q' lo log \<Longrightarrow> enqueue q m s = Ok s' \<Longrightarrow> holds s' q' lo log"
    and fetch_holds: "holds s q lo log \<Longrightarrow> n \<le> capacity \<Longrightarrow>
      fetch q n limit s = Ok (take limit (drop (max n lo) log))"
    and delete_holds: "holds s q lo log \<Longrightarrow> n \<le> length log \<Longrightarrow> holds (delete q n s) q (max lo n) log"
    and delete_other: "q' \<noteq> q \<Longrightarrow> holds s q' lo log \<Longrightarrow> holds (delete q n s) q' lo log"
begin

text \<open>
  A reader that has taken \<open>D\<close> from position \<open>start\<close> on and fetches where it stands goes on with the
  log, gets nothing only at its end, and finds its next position in the number of the last message.
\<close>

lemma fetch_continues:
  assumes "holds s q lo log" "prefix D (drop start log)" "lo \<le> start + length D" "start + length D \<le> capacity"
    and "fetch q (start + length D) limit s = Ok ms"
  shows "prefix (D @ ms) (drop start log)"
    and "ms = [] \<Longrightarrow> 0 < limit \<Longrightarrow> length log \<le> start + length D"
    and "ms \<noteq> [] \<Longrightarrow> Suc (seq (last ms)) = start + length (D @ ms)"
proof -
  let ?c = "start + length D"
  have ms: "ms = take limit (drop ?c log)"
    using fetch_holds[OF assms(1,4)] assms(3,5) by (simp add: max_absorb1)
  obtain zs where zs: "drop start log = D @ zs" using assms(2) by (auto simp: prefix_def)
  then have rest: "drop ?c log = zs"
    by (metis add.commute append_eq_conv_conj drop_drop)
  show "prefix (D @ ms) (drop start log)"
    unfolding zs ms rest by (simp add: take_is_prefix)
  show "length log \<le> ?c" if "ms = []" "0 < limit"
    using that ms by simp
  show "Suc (seq (last ms)) = start + length (D @ ms)" if "ms \<noteq> []"
  proof -
    let ?k = "length ms"
    have k: "0 < ?k" "?c + ?k \<le> length log" using that ms by auto
    have "ms ! j = log ! (?c + j)" if "j < ?k" for j
      using that k(2) unfolding ms by simp
    with k have "last ms = log ! (?c + (?k - 1))"
      using that by (simp add: last_conv_nth)
    moreover have "?c + (?k - 1) < length log" using k by linarith
    ultimately have "seq (last ms) = ?c + (?k - 1)" using numbers[OF assms(1)] by simp
    then show ?thesis using k(1) by simp
  qed
qed

end

text \<open>The table holds a log: its rows for the queue are the encoded messages from a position on.\<close>

definition row_at :: "message_enc \<Rightarrow> qs_client_id \<Rightarrow> queue_message list \<Rightarrow> nat \<Rightarrow> queue_row" where
  "row_at enc q log i = \<lparr> qw_queue_id = q, qw_sequence_number = int i, qw_message_bytes = projr (enc (log ! i)) \<rparr>"

definition queue_capacity :: nat where
  "queue_capacity = 2 ^ 63 - 1"

definition queue_holds :: "message_enc \<Rightarrow> queue_row list \<Rightarrow> qs_client_id \<Rightarrow> nat \<Rightarrow> queue_message list \<Rightarrow> bool" where
  "queue_holds enc rows q lo log =
     (lo \<le> length log \<and> length log \<le> queue_capacity
      \<and> (\<forall>i < length log. qm_sequence_number (log ! i) = of_nat i \<and> \<not> isl (enc (log ! i)))
      \<and> filter (\<lambda>r. qw_queue_id r = q) rows = map (row_at enc q log) [lo..<length log])"

lemma sint_of_nat_u64: "n \<le> queue_capacity \<Longrightarrow> sint (of_nat n :: u64) = int n"
  using sint_word_of_int_64[of "int n"] by (simp add: queue_capacity_def)

lemma unat_of_nat_u64: "n \<le> queue_capacity \<Longrightarrow> unat (of_nat n :: u64) = n"
  by (rule unat_of_nat_usize) (simp add: queue_capacity_def)

lemma row_at_append: "i < length log \<Longrightarrow> row_at enc q (log @ ms) i = row_at enc q log i"
  by (simp add: row_at_def nth_append)

lemma Queue_enqueue_Ok:
  "Queue_enqueue enc ok q m rows = Ok rows' \<Longrightarrow>
     ok \<and> (\<exists>bs. enc m = Ok bs \<and> rows' = rows @ [\<lparr> qw_queue_id = q, qw_sequence_number = sint (qm_sequence_number m),
       qw_message_bytes = bs \<rparr>])"
  by (auto simp: Queue_enqueue_def Let_def result_simps)

lemma Queue_enqueue_holds:
  assumes "queue_holds enc rows q lo log" "length log < queue_capacity"
    and "unat (qm_sequence_number m) = length log" "Queue_enqueue enc ok q m rows = Ok rows'"
  shows "queue_holds enc rows' q lo (log @ [m])"
proof -
  from Queue_enqueue_Ok[OF assms(4)] obtain bs where enc: "enc m = Ok bs"
    and rows': "rows' = rows @ [\<lparr> qw_queue_id = q, qw_sequence_number = sint (qm_sequence_number m),
       qw_message_bytes = bs \<rparr>]" by blast
  have num: "qm_sequence_number m = of_nat (length log)"
    using assms(3)[symmetric] by simp
  then have "sint (qm_sequence_number m) = int (length log)"
    using assms(2) by (simp add: sint_of_nat_u64)
  moreover have "map (row_at enc q (log @ [m])) [lo..<length log] = map (row_at enc q log) [lo..<length log]"
    by (intro map_cong refl row_at_append) simp
  ultimately show ?thesis
    using assms(1,2) enc num
    by (auto simp: queue_holds_def rows' row_at_def nth_append less_Suc_eq)
qed

lemma Queue_enqueue_other:
  "q' \<noteq> q \<Longrightarrow> queue_holds enc rows q' lo log \<Longrightarrow> Queue_enqueue enc ok q m rows = Ok rows' \<Longrightarrow>
   queue_holds enc rows' q' lo log"
  by (auto dest!: Queue_enqueue_Ok simp: queue_holds_def)

lemma filter_queue:
  "filter (\<lambda>r. qw_queue_id r = q \<and> P r) rows = filter P (filter (\<lambda>r. qw_queue_id r = q) rows)"
  by (simp add: conj_commute)

lemma filter_upt_ge: "filter (\<lambda>i. n \<le> i) [lo..<k] = [max n lo..<k]"
  by (induction k) (auto simp: max_def)

lemma map_nth_upt_length: "map ((!) xs) [k..<length xs] = drop k xs"
  by (metis add_0 drop_map drop_upt map_nth)

lemma Queue_fetch_holds:
  assumes "codec_correct enc dec" "queue_holds enc rows q lo log" "n \<le> queue_capacity"
  shows "Queue_fetch_into dec True q (of_nat n) limit buffer rows = Ok (buffer @ take limit (drop (max n lo) log))"
proof -
  let ?rows = "filter (\<lambda>r. qw_queue_id r = q \<and> sint (of_nat n :: u64) \<le> qw_sequence_number r) rows"
  have "?rows = map (row_at enc q log) (filter (\<lambda>i. n \<le> i) [lo..<length log])"
    using assms(2,3) by (simp add: filter_queue queue_holds_def sint_of_nat_u64 filter_map comp_def row_at_def)
  then have rows: "?rows = map (row_at enc q log) [max n lo..<length log]"
    by (simp only: filter_upt_ge)
  moreover have "sorted (map qw_sequence_number (map (row_at enc q log) [max n lo..<length log]))"
    by (simp add: comp_def row_at_def sorted_map)
  ultimately have "take limit (sort_key qw_sequence_number ?rows) = map (row_at enc q log) (take limit [max n lo..<length log])"
    by (simp add: sort_key_id_if_sorted take_map)
  moreover have "collect_res (\<lambda>r. dec (qw_message_bytes r)) (map (row_at enc q log) is) = Ok (map ((!) log) is)"
    if "set is \<subseteq> {..<length log}" for "is"
    using that
  proof (induction "is")
    case (Cons i "is")
    then have "\<not> isl (enc (log ! i))" using assms(2) by (simp add: queue_holds_def)
    then have "dec (projr (enc (log ! i))) = Ok (log ! i)"
      using assms(1) by (auto simp: codec_correct_def intro: sum.collapse(2))
    then show ?case using Cons by (simp add: row_at_def)
  qed simp
  moreover have "set (take limit [max n lo..<length log]) \<subseteq> {..<length log}"
    by (auto dest: in_set_takeD)
  ultimately have "Queue_fetch_into dec True q (of_nat n) limit buffer rows
      = Ok (buffer @ map ((!) log) (take limit [max n lo..<length log]))"
    by (simp add: Queue_fetch_into_def)
  also have "map ((!) log) (take limit [max n lo..<length log]) = take limit (drop (max n lo) log)"
    by (simp only: take_map[symmetric] map_nth_upt_length)
  finally show ?thesis .
qed

lemma Queue_delete_holds:
  assumes "queue_holds enc rows q lo log" "n \<le> length log"
  shows "queue_holds enc (Queue_delete q (of_nat n) rows) q (max lo n) log"
proof -
  have n: "sint (of_nat n :: u64) = int n"
    using assms by (intro sint_of_nat_u64) (auto simp: queue_holds_def)
  have "filter (\<lambda>r. qw_queue_id r = q) (Queue_delete q (of_nat n) rows)
      = filter (\<lambda>r. \<not> qw_sequence_number r < int n) (filter (\<lambda>r. qw_queue_id r = q) rows)"
    by (auto simp: Queue_delete_def n intro!: filter_cong)
  also have "\<dots> = map (row_at enc q log) [max n lo..<length log]"
    using assms(1) by (simp add: queue_holds_def filter_map comp_def row_at_def not_less filter_upt_ge)
  finally show ?thesis using assms by (simp add: queue_holds_def max.commute)
qed

lemma Queue_delete_any:
  assumes "queue_holds enc rows q lo log"
  shows "\<exists>lo'. queue_holds enc (Queue_delete q n rows) q lo' log"
proof -
  let ?k = "max (nat (sint n)) lo"
  have "filter (\<lambda>r. qw_queue_id r = q) (Queue_delete q n rows)
      = filter (\<lambda>r. \<not> qw_sequence_number r < sint n) (filter (\<lambda>r. qw_queue_id r = q) rows)"
    by (auto simp: Queue_delete_def intro!: filter_cong)
  also have "\<dots> = map (row_at enc q log) (filter (\<lambda>i. nat (sint n) \<le> i) [lo..<length log])"
    using assms by (simp add: queue_holds_def filter_map comp_def row_at_def not_less nat_le_iff)
  also have "\<dots> = map (row_at enc q log) [min (length log) ?k..<length log]"
    by (simp add: filter_upt_ge min_def)
  finally have "queue_holds enc (Queue_delete q n rows) q (min (length log) ?k) log"
    using assms by (simp add: queue_holds_def)
  then show ?thesis ..
qed

lemma Queue_delete_other:
  "q' \<noteq> q \<Longrightarrow> queue_holds enc rows q' lo log \<Longrightarrow> queue_holds enc (Queue_delete q n rows) q' lo log"
proof -
  assume "q' \<noteq> q" "queue_holds enc rows q' lo log"
  moreover from this have "filter (\<lambda>r. qw_queue_id r = q') (Queue_delete q n rows) = filter (\<lambda>r. qw_queue_id r = q') rows"
    by (auto simp: Queue_delete_def intro!: filter_cong)
  ultimately show ?thesis by (simp add: queue_holds_def)
qed

interpretation qt: message_store "\<lambda>rows q lo log. codec_correct enc dec \<and> queue_holds enc rows q lo log"
  "Queue_enqueue enc ok" "\<lambda>q n limit. Queue_fetch_into dec True q (of_nat n) limit []"
  "\<lambda>q n. Queue_delete q (of_nat n)" "\<lambda>m. unat (qm_sequence_number m)" queue_capacity
  for enc dec ok
proof unfold_locales
  fix rows q lo log i
  assume "codec_correct enc dec \<and> queue_holds enc rows q lo log" "i < length log"
  then show "unat (qm_sequence_number (log ! i)) = i"
    by (auto simp: queue_holds_def intro!: unat_of_nat_u64)
qed (auto intro: Queue_enqueue_holds Queue_enqueue_other Queue_delete_holds Queue_delete_other
    simp: Queue_fetch_holds)

section \<open>A listener and its queue\<close>

text \<open>
  One queue with a listening client: the table, the log of all messages enqueued so far, the stream
  and what it has delivered.  Between polls, messages arrive, for this queue and others, and the
  client acknowledges, up to what it was given.
\<close>

record listen_run =
  lr_rows :: "queue_row list"
  lr_log :: "queue_message list"
  lr_context :: stream_context
  lr_delivered :: "queue_message list"

inductive listen_step :: "message_enc \<Rightarrow> message_dec \<Rightarrow> qs_client_id \<Rightarrow> nat \<Rightarrow> listen_run \<Rightarrow> listen_run \<Rightarrow> bool"
  for enc dec q start
where
  enqueued: "Queue_enqueue enc ok q m (lr_rows s) = Ok rows \<Longrightarrow>
    qm_sequence_number m = of_nat (length (lr_log s)) \<Longrightarrow> length (lr_log s) < queue_capacity \<Longrightarrow>
    listen_step enc dec q start s (s\<lparr> lr_rows := rows, lr_log := lr_log s @ [m] \<rparr>)"
| enqueued_other: "q' \<noteq> q \<Longrightarrow> Queue_enqueue enc ok q' m (lr_rows s) = Ok rows \<Longrightarrow>
    listen_step enc dec q start s (s\<lparr> lr_rows := rows \<rparr>)"
| acked: "n \<le> start + length (lr_delivered s) \<Longrightarrow>
    listen_step enc dec q start s (s\<lparr> lr_rows := Queue_delete q (of_nat n) (lr_rows s) \<rparr>)"
| acked_other: "q' \<noteq> q \<Longrightarrow> listen_step enc dec q start s (s\<lparr> lr_rows := Queue_delete q' n (lr_rows s) \<rparr>)"
| polled: "poll dec io (lr_rows s) (lr_context s) = Some (item, c) \<Longrightarrow>
    listen_step enc dec q start s
      (s\<lparr> lr_context := c, lr_delivered := lr_delivered s @ (case item of Some m \<Rightarrow> [m] | None \<Rightarrow> []) \<rparr>)"

text \<open>A client starts at a position of the log that was not acknowledged before.\<close>

definition listen_start :: "message_enc \<Rightarrow> qs_client_id \<Rightarrow> nat \<Rightarrow> listen_run \<Rightarrow> bool" where
  "listen_start enc q start s =
     ((\<exists>lo \<le> start. queue_holds enc (lr_rows s) q lo (lr_log s)) \<and> start \<le> length (lr_log s)
      \<and> lr_context s = new_stream_context q (of_nat start) \<and> lr_delivered s = [])"

definition stream_ok :: "qs_client_id \<Rightarrow> nat \<Rightarrow> queue_message list \<Rightarrow> queue_message list \<Rightarrow> stream_context \<Rightarrow> bool" where
  "stream_ok q start log D c =
     (sc_client_id c = q \<and> start \<le> length log \<and> prefix (D @ sc_buffer c) (drop start log)
      \<and> sc_sequence_number c = of_nat (start + length (D @ sc_buffer c)))"

definition listen_inv :: "message_enc \<Rightarrow> qs_client_id \<Rightarrow> nat \<Rightarrow> listen_run \<Rightarrow> bool" where
  "listen_inv enc q start s =
     ((\<exists>lo \<le> start + length (lr_delivered s). queue_holds enc (lr_rows s) q lo (lr_log s))
      \<and> stream_ok q start (lr_log s) (lr_delivered s) (lr_context s))"

lemma stream_ok_position: "stream_ok q start log D c \<Longrightarrow> start + length (D @ sc_buffer c) \<le> length log"
  unfolding stream_ok_def by (auto dest!: prefix_length_le)

lemma stream_ok_append: "stream_ok q start log D c \<Longrightarrow> stream_ok q start (log @ ms) D c"
  unfolding stream_ok_def by (auto intro: prefix_prefix)

lemma fetch_next_messages_ok:
  assumes "codec_correct enc dec" "queue_holds enc rows q lo log" "lo \<le> start + length D"
    and "stream_ok q start log D c" "sc_buffer c = []"
  shows "\<exists>c'. fetch_next_messages dec True rows c = Some c' \<and> stream_ok q start log D c'
      \<and> sc_state c' = sc_state c \<and> (sc_buffer c' = [] \<longrightarrow> length log \<le> start + length D)"
proof -
  let ?c = "start + length D"
  have cap: "?c \<le> queue_capacity"
    using stream_ok_position[OF assms(4)] assms(2,5) by (simp add: queue_holds_def)
  obtain ms where fetch: "Queue_fetch_into dec True q (of_nat ?c) MAX_BUFFER_SIZE [] rows = Ok ms"
    using Queue_fetch_holds[OF assms(1,2) cap] by blast
  have "prefix D (drop start log)" "sc_client_id c = q" "sc_sequence_number c = of_nat ?c" "start \<le> length log"
    using assms(4,5) by (simp_all add: stream_ok_def)
  note facts = qt.fetch_continues[OF conjI[OF assms(1,2)] this(1) assms(3) cap fetch] this
  have last: "qm_sequence_number (last ms) + 1 = of_nat (start + length (D @ ms))" if "ms \<noteq> []"
  proof -
    have "of_nat (Suc (unat (qm_sequence_number (last ms)))) = (of_nat (start + length (D @ ms)) :: u64)"
      using facts(3)[OF that] by (simp only:)
    then show ?thesis by (simp add: add.commute)
  qed
  have "fetch_next_messages dec True rows c = Some (c\<lparr> sc_buffer := ms,
      sc_sequence_number := (if ms = [] then of_nat ?c else qm_sequence_number (last ms) + 1) \<rparr>)"
    unfolding fetch_next_messages_def facts(5,6) assms(5) fetch by simp
  moreover have "stream_ok q start log D (c\<lparr> sc_buffer := ms,
      sc_sequence_number := (if ms = [] then of_nat ?c else qm_sequence_number (last ms) + 1) \<rparr>)"
    using facts(1,5,7) last by (simp add: stream_ok_def)
  moreover have "ms = [] \<longrightarrow> length log \<le> ?c" using facts(2) by (simp add: MAX_BUFFER_SIZE_def)
  ultimately show ?thesis by simp
qed

lemma fetch_next_messages_True: "fetch_next_messages dec ok rows c = Some c' \<Longrightarrow> fetch_next_messages dec True rows c = Some c'"
  by (cases ok) (simp_all add: fetch_next_messages_def Queue_fetch_into_def)

text \<open>
  A poll hands out the next message of the log, or the sentinel, and that only when there is no
  further message; it ends the stream only if something stops it.
\<close>

lemma poll_ok:
  assumes "codec_correct enc dec" "queue_holds enc rows q lo log" "lo \<le> start + length D"
    and "stream_ok q start log D c" "poll dec io rows c = Some (item, c')"
  shows "stream_ok q start log (D @ (case item of Some m \<Rightarrow> [m] | None \<Rightarrow> [])) c'
    \<and> (case item of Some m \<Rightarrow> start + length D < length log \<and> m = log ! (start + length D)
       | None \<Rightarrow> length log = start + length D)"
  using assms
proof (induction dec io rows c rule: poll.induct)
  case (1 dec io rows c)
  note hyps = "1.prems"(1-3)
  show ?case
  proof (cases "sc_buffer c")
    case (Cons m ms)
    then have "prefix (D @ m # ms) (drop start log)" using "1.prems"(4) by (simp add: stream_ok_def)
    then obtain zs where "drop start log = D @ m # ms @ zs" by (auto simp: prefix_def)
    then have "start + length D < length log" "m = log ! (start + length D)"
      by (metis append_is_Nil_conv drop_all list.distinct(1) not_less drop_drop add.commute append_eq_conv_conj
          , metis add.commute append_eq_conv_conj drop_drop hd_drop_conv_nth list.sel(1) append_is_Nil_conv
            drop_all list.distinct(1) not_less)
    then show ?thesis
      using "1.prems"(4,5) Cons by (auto simp: poll.simps[of _ _ _ c] stream_ok_def)
  next
    case Nil
    have run: "\<not> (pi_cancelled io (sc_state c) \<and> sc_state c \<noteq> Init)"
      using "1.prems"(5) Nil by (auto simp: poll.simps[of _ _ _ c] split: if_splits)
    show ?thesis
    proof (cases "sc_state c")
      case Fetch
      then obtain c1 where c1: "fetch_next_messages dec (pi_fetch io) rows c = Some c1"
        using "1.prems"(5) Nil run by (auto simp: poll.simps[of _ _ _ c] split: option.splits)
      from fetch_next_messages_ok[OF hyps "1.prems"(4) Nil] fetch_next_messages_True[OF c1]
      have ok: "stream_ok q start log D c1" and empty: "sc_buffer c1 = [] \<Longrightarrow> length log \<le> start + length D"
        by auto
      show ?thesis
      proof (cases "sc_buffer c1 = []")
        case True
        then have "item = None" "c' = c1\<lparr> sc_state := Wait \<rparr>"
          using "1.prems"(5) Nil run Fetch c1 by (auto simp: poll.simps[of _ _ _ c])
        moreover have "length log = start + length D"
          using empty[OF True] stream_ok_position[OF ok] True by simp
        ultimately show ?thesis using ok by (simp add: stream_ok_def)
      next
        case False
        then have "poll dec io rows c1 = Some (item, c')"
          using "1.prems"(5) Nil run Fetch c1 by (auto simp: poll.simps[of _ _ _ c])
        with "1.IH"(2)[OF Nil run Fetch c1 False hyps ok] show ?thesis .
      qed
    next
      case Init
      have "stream_ok q start log D (c\<lparr> sc_state := Fetch \<rparr>)" using "1.prems"(4) by (simp add: stream_ok_def)
      moreover have "poll dec io rows (c\<lparr> sc_state := Fetch \<rparr>) = Some (item, c')"
        using "1.prems"(5) Nil run Init by (auto simp: poll.simps[of _ _ _ c])
      ultimately show ?thesis using "1.IH"(1)[OF Nil run Init hyps] by blast
    next
      case Wait
      have "stream_ok q start log D (c\<lparr> sc_state := Fetch \<rparr>)" using "1.prems"(4) by (simp add: stream_ok_def)
      moreover have "pi_notified io" "poll dec io rows (c\<lparr> sc_state := Fetch \<rparr>) = Some (item, c')"
        using "1.prems"(5) Nil run Wait by (auto simp: poll.simps[of _ _ _ c] split: if_splits)
      ultimately show ?thesis using "1.IH"(3)[OF Nil run Wait _ hyps] by blast
    qed
  qed
qed


lemma poll_returns:
  assumes "codec_correct enc dec" "queue_holds enc rows q lo log" "lo \<le> start + length D"
    and "stream_ok q start log D c"
    and "\<And>st. \<not> pi_cancelled io st" "pi_fetch io" "pi_notified io"
  shows "\<exists>item c'. poll dec io rows c = Some (item, c')"
proof -
  have fetch: "\<exists>item c'. poll dec io rows c = Some (item, c')"
    if ok: "stream_ok q start log D c" and st: "sc_state c = Fetch" and buf: "sc_buffer c = []" for c
  proof -
    obtain c1 where "fetch_next_messages dec True rows c = Some c1"
      using fetch_next_messages_ok[OF assms(1-3) ok buf] by blast
    then show ?thesis
      using st buf assms(5,6)
      by (cases "sc_buffer c1") (simp_all add: poll.simps[of _ _ _ c] poll.simps[of _ _ _ c1])
  qed
  show ?thesis
  proof (cases "sc_buffer c")
    case Nil
    have "stream_ok q start log D (c\<lparr> sc_state := Fetch \<rparr>)" using assms(4) by (simp add: stream_ok_def)
    from fetch[OF this] Nil have next_poll: "\<exists>item c'. poll dec io rows (c\<lparr> sc_state := Fetch \<rparr>) = Some (item, c')"
      by simp
    show ?thesis
    proof (cases "sc_state c")
      case Fetch
      then show ?thesis using fetch[OF assms(4)] Nil by simp
    qed (use next_poll Nil assms(5,7) in \<open>simp_all add: poll.simps[of _ _ _ c]\<close>)
  qed (simp add: poll.simps[of _ _ _ c])
qed

lemma listen_step_inv:
  assumes "codec_correct enc dec" "listen_inv enc q start s" "listen_step enc dec q start s t"
  shows "listen_inv enc q start t"
proof -
  from assms(2) obtain lo where lo: "lo \<le> start + length (lr_delivered s)"
    and holds: "queue_holds enc (lr_rows s) q lo (lr_log s)"
    and ok: "stream_ok q start (lr_log s) (lr_delivered s) (lr_context s)"
    by (auto simp: listen_inv_def)
  from assms(3) show ?thesis
  proof (cases rule: listen_step.cases)
    case (enqueued k m rows)
    then have "unat (qm_sequence_number m) = length (lr_log s)" by (simp add: unat_of_nat_u64)
    from Queue_enqueue_holds[OF holds enqueued(4) this enqueued(2)] lo ok show ?thesis
      unfolding enqueued(1) listen_inv_def by (auto intro: stream_ok_append)
  next
    case (enqueued_other q' k m rows)
    from Queue_enqueue_other[OF enqueued_other(2)[symmetric] holds enqueued_other(3)] lo ok show ?thesis
      unfolding enqueued_other(1) listen_inv_def by auto
  next
    case (acked n)
    have "start + length (lr_delivered s) \<le> length (lr_log s)" using stream_ok_position[OF ok] by simp
    then have "queue_holds enc (Queue_delete q (of_nat n) (lr_rows s)) q (max lo n) (lr_log s)"
      using Queue_delete_holds[OF holds] acked(2) by simp
    then show ?thesis
      using lo acked(2) ok unfolding acked(1) listen_inv_def by (auto intro!: exI[of _ "max lo n"])
  next
    case (acked_other q' n)
    from Queue_delete_other[OF acked_other(2)[symmetric] holds] lo ok show ?thesis
      unfolding acked_other(1) listen_inv_def by auto
  next
    case (polled io item c)
    from poll_ok[OF assms(1) holds lo ok polled(2)] lo holds show ?thesis
      unfolding polled(1) listen_inv_def by (auto intro!: exI[of _ lo] split: option.splits)
  qed
qed

lemma listen_start_inv: "listen_start enc q start s \<Longrightarrow> listen_inv enc q start s"
  by (auto simp: listen_start_def listen_inv_def stream_ok_def new_stream_context_def)

interpretation ls: invariant_system "listen_start enc q start" "listen_step enc dec q start"
  "\<lambda>s. codec_correct enc dec \<longrightarrow> listen_inv enc q start s" for enc dec q start
  by unfold_locales (auto intro: listen_start_inv listen_step_inv)


section \<open>Properties\<close>

text \<open>The queue a client should see: a log and a position, from which the messages are handed out.\<close>

record fifo =
  ff_log :: "queue_message list"
  ff_next :: nat

inductive fifo_step :: "fifo \<Rightarrow> queue_message option \<Rightarrow> fifo \<Rightarrow> bool" where
  fifo_append: "fifo_step f None (f\<lparr> ff_log := ff_log f @ [m] \<rparr>)"
| fifo_deliver: "ff_next f < length (ff_log f) \<Longrightarrow>
    fifo_step f (Some (ff_log f ! ff_next f)) (f\<lparr> ff_next := Suc (ff_next f) \<rparr>)"
| fifo_idle: "fifo_step f None f"

definition fifo_of :: "nat \<Rightarrow> listen_run \<Rightarrow> fifo" where
  "fifo_of start s = \<lparr> ff_log = lr_log s, ff_next = start + length (lr_delivered s) \<rparr>"

text \<open>
  (C6) The stream over the table implements a queue: every step of the service, whether a message is
  enqueued here or elsewhere, the client acknowledges what it was given, or the stream is polled, is
  a step of the queue with the same delivery.  Messages come in the order they were enqueued, from
  the requested position on, none is lost or repeated, over all batches and acknowledgements.
\<close>

theorem stream_refines_queue:
  assumes "codec_correct enc dec" "reachable (listen_start enc q start) (listen_step enc dec q start) s"
    and "listen_step enc dec q start s t"
  shows "\<exists>out. fifo_step (fifo_of start s) out (fifo_of start t)
    \<and> lr_delivered t = lr_delivered s @ (case out of Some m \<Rightarrow> [m] | None \<Rightarrow> [])"
proof -
  from ls.reachable_inv[OF assms(2)] assms(1) obtain lo where lo: "lo \<le> start + length (lr_delivered s)"
    and holds: "queue_holds enc (lr_rows s) q lo (lr_log s)"
    and ok: "stream_ok q start (lr_log s) (lr_delivered s) (lr_context s)"
    by (auto simp: listen_inv_def)
  from assms(3) show ?thesis
  proof (cases rule: listen_step.cases)
    case (enqueued k m rows)
    have "fifo_step (fifo_of start s) None (fifo_of start t)"
      using fifo_append[of "fifo_of start s" m] unfolding enqueued(1) by (simp add: fifo_of_def)
    then show ?thesis unfolding enqueued(1) by (intro exI[of _ None]) simp
  next
    case (polled io item c)
    from poll_ok[OF assms(1) holds lo ok polled(2)] show ?thesis
    proof (cases item)
      case (Some m)
      with poll_ok[OF assms(1) holds lo ok polled(2)] fifo_deliver[of "fifo_of start s"]
      have "fifo_step (fifo_of start s) (Some m) (fifo_of start t)"
        unfolding polled(1) by (simp add: fifo_of_def)
      then show ?thesis unfolding polled(1) Some by (intro exI[of _ "Some m"]) simp
    qed (auto simp: polled(1) fifo_of_def intro!: exI[of _ None] fifo_idle)
  qed (auto simp: fifo_of_def intro!: exI[of _ None] fifo_idle)
qed



section \<open>Listeners of a queue\<close>

text \<open>Streams are opened and dropped in any order; the second part records whom a token was issued to.\<close>

inductive listener_step :: "queues \<times> (token \<Rightarrow> qs_client_id) \<Rightarrow> queues \<times> (token \<Rightarrow> qs_client_id) \<Rightarrow> bool" where
  listened: "Queues_listen client_id start q = ((cancel, ctx), q') \<Longrightarrow>
    listener_step (q, owner) (q', owner(cancel := client_id))"
| dropped: "t < qu_next_token q \<Longrightarrow> listener_step (q, owner) (drop_stream t q, owner)"

definition listeners_inv :: "queues \<times> (token \<Rightarrow> qs_client_id) \<Rightarrow> bool" where
  "listeners_inv s = (case s of (q, owner) \<Rightarrow>
     qu_pg_listening q = dom (qu_listeners q)
     \<and> (\<forall>c ctx. qu_listeners q c = Some ctx \<longrightarrow>
          lc_cancel ctx < qu_next_token q \<and> owner (lc_cancel ctx) = c)
     \<and> (\<forall>t < qu_next_token q. t \<notin> qu_cancelled q \<longrightarrow> qu_listeners q (owner t) = Some \<lparr> lc_cancel = t \<rparr>))"

lemma track_listener_inv:
  assumes "listeners_inv (q, owner)" "track_listener client_id q = (cancel, q')"
  shows "listeners_inv (q', owner(cancel := client_id))"
proof -
  let ?dead = "\<lambda>id. case qu_listeners q id of Some ctx \<Rightarrow> lc_cancel ctx \<in> qu_cancelled q | None \<Rightarrow> False"
  let ?retained = "\<lambda>id. if ?dead id then None else qu_listeners q id"
  have q': "cancel = qu_next_token q" "qu_listeners q' = ?retained(client_id \<mapsto> \<lparr> lc_cancel = cancel \<rparr>)"
    "qu_next_token q' = cancel + 1"
    "qu_cancelled q' = (case ?retained client_id of Some p \<Rightarrow> insert (lc_cancel p) (qu_cancelled q) | None \<Rightarrow> qu_cancelled q)"
    "qu_pg_listening q' = insert client_id {id \<in> qu_pg_listening q. \<not> ?dead id}"
    using assms by (auto simp: track_listener_def Let_def listeners_inv_def split: option.splits)
  have "qu_pg_listening q' = dom (qu_listeners q')"
    using assms(1) unfolding q' listeners_inv_def by (auto split: if_splits)
  moreover have "lc_cancel ctx < qu_next_token q' \<and> (owner(cancel := client_id)) (lc_cancel ctx) = c"
    if "qu_listeners q' c = Some ctx" for c ctx
    using that assms(1) unfolding q' listeners_inv_def by (fastforce split: if_splits)
  moreover have "qu_listeners q' ((owner(cancel := client_id)) t) = Some \<lparr> lc_cancel = t \<rparr>"
    if t: "t < qu_next_token q'" "t \<notin> qu_cancelled q'" for t
  proof (cases "t = cancel")
    case False
    then have live: "qu_listeners q (owner t) = Some \<lparr> lc_cancel = t \<rparr>" "t \<notin> qu_cancelled q"
      using t assms(1) unfolding q' listeners_inv_def by (auto split: option.splits if_splits)
    moreover have "owner t \<noteq> client_id"
      using live t(2) unfolding q'(4) by auto
    ultimately show ?thesis using False unfolding q' by simp
  qed (simp add: q'(2))
  ultimately show ?thesis by (simp add: listeners_inv_def)
qed

interpretation li: invariant_system "\<lambda>(q, owner). q = empty_queues" listener_step listeners_inv
proof unfold_locales
  fix s t assume "listeners_inv s" "listener_step s t"
  from this(2,1) show "listeners_inv t"
    by cases (auto simp: Queues_listen_def split: prod.splits intro: track_listener_inv,
        auto simp: listeners_inv_def drop_stream_def)
qed (auto simp: listeners_inv_def empty_queues_def)

text \<open>
  (C29) A queue has at most one live stream: a client that listens again takes over from its earlier
  streams, however streams are opened and dropped.  The service takes a client to be listening exactly
  when it has a live stream, and is then subscribed to the notifications of its queue.
\<close>

theorem one_live_listener:
  assumes "reachable (\<lambda>(q, owner). q = empty_queues) listener_step (q, owner)"
  shows "card {t. t < qu_next_token q \<and> t \<notin> qu_cancelled q \<and> owner t = c} \<le> 1
    \<and> (is_listening q c \<longleftrightarrow> (\<exists>t < qu_next_token q. t \<notin> qu_cancelled q \<and> owner t = c))
    \<and> (is_listening q c \<longrightarrow> c \<in> qu_pg_listening q)"
proof -
  have inv: "listeners_inv (q, owner)" using li.reachable_inv[OF assms] .
  have "{t. t < qu_next_token q \<and> t \<notin> qu_cancelled q \<and> owner t = c} \<subseteq> {lc_cancel (the (qu_listeners q c))}"
    using inv unfolding listeners_inv_def by force
  from card_mono[OF _ this] have "card {t. t < qu_next_token q \<and> t \<notin> qu_cancelled q \<and> owner t = c} \<le> 1"
    by simp
  moreover have "is_listening q c \<longleftrightarrow> (\<exists>t < qu_next_token q. t \<notin> qu_cancelled q \<and> owner t = c)"
    using inv unfolding listeners_inv_def is_listening_def by (auto split: option.splits)
  moreover have "is_listening q c \<longrightarrow> c \<in> qu_pg_listening q"
    using inv unfolding listeners_inv_def is_listening_def by (auto split: option.splits)
  ultimately show ?thesis by blast
qed


section \<open>Witnesses\<close>

definition first_message :: queue_message where
  "first_message = \<lparr> qm_sequence_number = 0, qm_ciphertext = \<lparr> ciphertext = [4], nonce = [] \<rparr> \<rparr>"

definition first_enc :: message_enc where
  "first_enc m = (if m = first_message then Ok [7] else Err ())"

definition first_dec :: message_dec where
  "first_dec bs = (if bs = [7] then Ok first_message else Err ())"

definition calm_io :: poll_io where
  "calm_io = \<lparr> pi_cancelled = \<lambda>_. False, pi_fetch = True, pi_notified = True \<rparr>"

definition first_run :: listen_run where
  "first_run = \<lparr> lr_rows = [\<lparr> qw_queue_id = [1], qw_sequence_number = 0, qw_message_bytes = [7] \<rparr>],
     lr_log = [first_message], lr_context = new_stream_context [1] 0, lr_delivered = [] \<rparr>"

lemma first_codec: "codec_correct first_enc first_dec"
  by (auto simp: codec_correct_def first_enc_def first_dec_def split: if_splits)

lemma first_run_reachable: "reachable (listen_start first_enc [1] 0) (listen_step first_enc first_dec [1] 0) first_run"
proof -
  have "listen_start first_enc [1] 0 first_run"
    by (simp add: listen_start_def first_run_def queue_holds_def row_at_def first_enc_def first_message_def queue_capacity_def)
  then show ?thesis by (rule reach_start)
qed


theorem stream_refines_queue_witness:
  "\<exists>t out. listen_step first_enc first_dec [1] 0 first_run t \<and> fifo_step (fifo_of 0 first_run) out (fifo_of 0 t)
    \<and> lr_delivered t = [first_message]"
proof -
  obtain c where "poll first_dec calm_io (lr_rows first_run) (lr_context first_run) = Some (Some first_message, c)"
    by (simp add: first_run_def new_stream_context_def poll.simps calm_io_def fetch_next_messages_def
        Queue_fetch_into_def MAX_BUFFER_SIZE_def first_dec_def)
  from listen_step.polled[OF this, of first_enc "[1]" 0]
  have step: "listen_step first_enc first_dec [1] 0 first_run (first_run\<lparr> lr_context := c, lr_delivered := [first_message] \<rparr>)"
    by (simp add: first_run_def)
  from stream_refines_queue[OF first_codec first_run_reachable step] step show ?thesis by auto
qed

theorem one_live_listener_witness:
  "\<exists>q owner. reachable (\<lambda>(q, owner). q = empty_queues) listener_step (q, owner) \<and> is_listening q [1]
    \<and> card {t. t < qu_next_token q \<and> t \<notin> qu_cancelled q \<and> owner t = [1]} \<le> 1"
proof -
  let ?q1 = "snd (Queues_listen [1] 0 empty_queues)"
  have "listener_step (empty_queues, \<lambda>_. []) (?q1, (\<lambda>_. [])(0 := [1]))"
    using listened[of "[1]" 0 empty_queues 0 "new_stream_context [1] 0" ?q1 "\<lambda>_. []"]
    by (simp add: Queues_listen_def track_listener_def Let_def empty_queues_def)
  then have reach: "reachable (\<lambda>(q, owner). q = empty_queues) listener_step (?q1, (\<lambda>_. [])(0 := [1]))"
    by (auto intro: reachable.intros)
  have "is_listening ?q1 [1]"
    by (simp add: is_listening_def Queues_listen_def track_listener_def Let_def empty_queues_def)
  with one_live_listener[OF reach, of "[1]"] reach show ?thesis by blast
qed

end
