(* ===== verification/Qs_Records.thy ===== *)
theory Qs_Records
  imports Qs_Queue Ds_Group_State "HOL-Library.AList"
begin

text \<open>
  The database of the queue service and its operations: user records (\<^verbatim>\<open>qs/user_record.rs\<close>), client
  records (\<^verbatim>\<open>qs/client_record.rs\<close>), key packages (\<^verbatim>\<open>qs/key_package.rs\<close>) and the decryption key of the
  service (\<^verbatim>\<open>qs/client_id_decryption_key.rs\<close>).

  A table with a key is an association list, the others are lists of their rows.  The constraints of
  the schema are part of the operations: a row that breaks a primary key, a unique column or a foreign
  key is refused, and deleting a row deletes what refers to it.  A deleted client stays as a tombstone
  that keeps its user.  Where a query leaves the order of its rows open, the order is an argument.

  The state also has what leaves the service: notifications, event payloads for listening clients,
  push notifications, and messages to other servers.
\<close>

section \<open>Tables\<close>

type_synonym qs_user_id = bytes
type_synonym friendship_token = bytes

datatype qs_storage_error = StorageDatabase | StorageSerde

record qs_user_record =
  ur_verifying_key :: bytes
  ur_friendship_token :: friendship_token

record qs_client_record =
  cr_user_id :: qs_user_id
  cr_encrypted_push_token :: "aead_ciphertext option"
  cr_queue_encryption_key :: bytes
  cr_auth_key :: bytes
  cr_ratchet_key :: queue_ratchet
  cr_activity_time :: time

datatype qs_client_row = Active qs_client_record | Tombstone qs_user_id time

fun row_user_id :: "qs_client_row \<Rightarrow> qs_user_id" where
  "row_user_id (Active r) = cr_user_id r"
| "row_user_id (Tombstone user_id _) = user_id"

fun active_row :: "qs_client_row \<Rightarrow> qs_client_record option" where
  "active_row (Active r) = Some r"
| "active_row (Tombstone _ _) = None"

record key_package_row =
  kr_id :: nat
  kr_client_id :: qs_client_id
  kr_key_package :: bytes
  kr_is_last_resort :: bool

record key_package_table =
  kt_rows :: "key_package_row list"
  kt_next_id :: nat

record queue_event_payload =
  qe_group_id :: group_id
  qe_sender :: leaf_index
  qe_epoch :: group_epoch
  qe_timestamp :: time
  qe_payload :: bytes

datatype push_token_operator = Apple | Google

record push_token =
  pt_operator :: push_token_operator
  pt_token :: string

record qs_state =
  qs_users :: "(qs_user_id \<times> qs_user_record) list"
  qs_clients :: "(qs_client_id \<times> qs_client_row) list"
  qs_queue_rows :: "queue_row list"
  qs_key_packages :: key_package_table
  qs_apq_key_packages :: key_package_table
  qs_decryption_keys :: "bytes list"
  qs_queues :: queues
  qs_notified :: "qs_client_id list"
  qs_events :: "(qs_client_id \<times> queue_event_payload) list"
  qs_pushed :: "push_token list"
  qs_delivered :: "(bytes \<times> string) list"

text \<open>
  What a failed transaction undoes: the tables and the notifications, which are sent on commit.  The
  identity columns do not give back the numbers they have handed out.
\<close>

definition restore_table :: "key_package_table \<Rightarrow> key_package_table \<Rightarrow> key_package_table" where
  "restore_table old new = new\<lparr> kt_rows := kt_rows old \<rparr>"

definition restore_qs_db :: "qs_state \<Rightarrow> qs_state \<Rightarrow> qs_state" where
  "restore_qs_db old new =
     new\<lparr> qs_users := qs_users old, qs_clients := qs_clients old, qs_queue_rows := qs_queue_rows old,
       qs_key_packages := restore_table (qs_key_packages old) (qs_key_packages new),
       qs_apq_key_packages := restore_table (qs_apq_key_packages old) (qs_apq_key_packages new),
       qs_decryption_keys := qs_decryption_keys old, qs_notified := qs_notified old \<rparr>"

text \<open>A query that the database refuses or answers.\<close>

definition query :: "bool \<Rightarrow> (qs_state, qs_storage_error, 'a) attempt \<Rightarrow> (qs_state, qs_storage_error, 'a) attempt" where
  "query ok body = (if ok then body else fail_with StorageDatabase)"


section \<open>User records\<close>

definition token_taken :: "friendship_token \<Rightarrow> (qs_user_id \<times> qs_user_record) list \<Rightarrow> bool" where
  "token_taken token users = list_ex (\<lambda>(_, r). ur_friendship_token r = token) users"

definition UserRecord_store :: "bool \<Rightarrow> qs_user_id \<Rightarrow> qs_user_record \<Rightarrow> (qs_state, qs_storage_error, unit) attempt" where
  "UserRecord_store ok user_id user_record = query ok
     (\<lambda>s. if map_of (qs_users s) user_id \<noteq> None
            \<or> token_taken (ur_friendship_token user_record) (qs_users s)
          then fail_with StorageDatabase s
          else modify_with (\<lambda>s. s\<lparr> qs_users := AList.update user_id user_record (qs_users s) \<rparr>) s)"

definition UserRecord_new_and_store :: "bool \<Rightarrow> qs_user_id \<Rightarrow> bytes \<Rightarrow> friendship_token \<Rightarrow>
    (qs_state, qs_storage_error, qs_user_id) attempt" where
  "UserRecord_new_and_store ok random_id verifying_key token =
     andThen (UserRecord_store ok random_id
       \<lparr> ur_verifying_key = verifying_key, ur_friendship_token = token \<rparr>) (\<lambda>_.
     return_with random_id)"

definition UserRecord_load :: "bool \<Rightarrow> qs_user_id \<Rightarrow> (qs_state, qs_storage_error, qs_user_record option) attempt" where
  "UserRecord_load ok user_id = query ok (read_with (\<lambda>s. map_of (qs_users s) user_id))"

definition UserRecord_load_verifying_key :: "bool \<Rightarrow> qs_user_id \<Rightarrow>
    (qs_state, qs_storage_error, bytes option) attempt" where
  "UserRecord_load_verifying_key ok user_id =
     query ok (read_with (\<lambda>s. map_option ur_verifying_key (map_of (qs_users s) user_id)))"

text \<open>Deleting client rows deletes their key packages; the queues refer to nothing.\<close>

definition delete_packages_of :: "qs_client_id set \<Rightarrow> key_package_table \<Rightarrow> key_package_table" where
  "delete_packages_of client_ids t =
     t\<lparr> kt_rows := filter (\<lambda>r. kr_client_id r \<notin> client_ids) (kt_rows t) \<rparr>"

definition UserRecord_delete :: "bool \<Rightarrow> qs_user_id \<Rightarrow> (qs_state, qs_storage_error, unit) attempt" where
  "UserRecord_delete ok user_id = query ok (modify_with (\<lambda>s.
     let deleted = set (map fst (filter (\<lambda>(_, row). row_user_id row = user_id) (qs_clients s))) in
     s\<lparr> qs_users := AList.delete user_id (qs_users s),
        qs_clients := filter (\<lambda>(_, row). row_user_id row \<noteq> user_id) (qs_clients s),
        qs_key_packages := delete_packages_of deleted (qs_key_packages s),
        qs_apq_key_packages := delete_packages_of deleted (qs_apq_key_packages s) \<rparr>))"

definition UserRecord_update :: "bool \<Rightarrow> qs_user_id \<Rightarrow> qs_user_record \<Rightarrow> (qs_state, qs_storage_error, unit) attempt" where
  "UserRecord_update ok user_id user_record = query ok
     (\<lambda>s. if map_of (qs_users s) user_id = None then return_with () s
          else if token_taken (ur_friendship_token user_record) (AList.delete user_id (qs_users s))
          then fail_with StorageDatabase s
          else modify_with (\<lambda>s. s\<lparr> qs_users := AList.update user_id user_record (qs_users s) \<rparr>) s)"


section \<open>Client records\<close>

definition QsClientRecord_store :: "bool \<Rightarrow> qs_client_id \<Rightarrow> qs_client_record \<Rightarrow>
    (qs_state, qs_storage_error, unit) attempt" where
  "QsClientRecord_store ok client_id client_record = query ok
     (\<lambda>s. if map_of (qs_clients s) client_id \<noteq> None
            \<or> map_of (qs_users s) (cr_user_id client_record) = None
          then fail_with StorageDatabase s
          else modify_with (\<lambda>s.
            s\<lparr> qs_clients := AList.update client_id (Active client_record) (qs_clients s) \<rparr>) s)"

definition QsClientRecord_new_and_store :: "bool \<Rightarrow> qs_client_id \<Rightarrow> time \<Rightarrow> qs_user_id \<Rightarrow>
    aead_ciphertext option \<Rightarrow> bytes \<Rightarrow> bytes \<Rightarrow> queue_ratchet \<Rightarrow> (qs_state, qs_storage_error, qs_client_id) attempt" where
  "QsClientRecord_new_and_store ok random_id now user_id encrypted_push_token queue_encryption_key
       auth_key ratchet =
     andThen (QsClientRecord_store ok random_id
       \<lparr> cr_user_id = user_id, cr_encrypted_push_token = encrypted_push_token,
         cr_queue_encryption_key = queue_encryption_key, cr_auth_key = auth_key,
         cr_ratchet_key = ratchet, cr_activity_time = now \<rparr>) (\<lambda>_.
     return_with random_id)"

definition active_client :: "qs_state \<Rightarrow> qs_client_id \<Rightarrow> qs_client_record option" where
  "active_client s client_id = Option.bind (map_of (qs_clients s) client_id) active_row"

definition load_for_update :: "bool \<Rightarrow> qs_client_id \<Rightarrow>
    (qs_state, qs_storage_error, qs_client_record option) attempt" where
  "load_for_update ok client_id = query ok (read_with (\<lambda>s. active_client s client_id))"

definition QsClientRecord_load_verifying_key :: "bool \<Rightarrow> qs_client_id \<Rightarrow>
    (qs_state, qs_storage_error, bytes option) attempt" where
  "QsClientRecord_load_verifying_key ok client_id =
     query ok (read_with (\<lambda>s. map_option cr_auth_key (active_client s client_id)))"

text \<open>An update of the row of a client that is not deleted.\<close>

definition update_active :: "bool \<Rightarrow> qs_client_id \<Rightarrow> (qs_client_record \<Rightarrow> qs_client_record) \<Rightarrow>
    (qs_state, qs_storage_error, unit) attempt" where
  "update_active ok client_id change = query ok (modify_with (\<lambda>s.
     case active_client s client_id of
       None \<Rightarrow> s
     | Some r \<Rightarrow> s\<lparr> qs_clients := AList.update client_id (Active (change r)) (qs_clients s) \<rparr>))"

definition update_activity_time :: "bool \<Rightarrow> qs_client_id \<Rightarrow> time \<Rightarrow> (qs_state, qs_storage_error, unit) attempt" where
  "update_activity_time ok client_id activity_time =
     update_active ok client_id (\<lambda>r. r\<lparr> cr_activity_time := activity_time \<rparr>)"

definition soft_delete :: "bool \<Rightarrow> time \<Rightarrow> qs_client_id \<Rightarrow> (qs_state, qs_storage_error, unit) attempt" where
  "soft_delete ok now client_id = query ok (modify_with (\<lambda>s.
     case map_of (qs_clients s) client_id of
       None \<Rightarrow> s
     | Some row \<Rightarrow>
         s\<lparr> qs_clients := AList.update client_id (Tombstone (row_user_id row) now) (qs_clients s),
            qs_key_packages := delete_packages_of {client_id} (qs_key_packages s),
            qs_apq_key_packages := delete_packages_of {client_id} (qs_apq_key_packages s) \<rparr>))"

definition active_client_ids :: "qs_user_id \<Rightarrow> (qs_client_id \<times> qs_client_row) list \<Rightarrow> qs_client_id list" where
  "active_client_ids user_id clients =
     map fst (filter (\<lambda>(_, row). row_user_id row = user_id \<and> active_row row \<noteq> None) clients)"

definition load_client_ids :: "bool \<Rightarrow> (qs_client_id list \<Rightarrow> qs_client_id list) \<Rightarrow> qs_client_id \<Rightarrow>
    (qs_state, qs_storage_error, qs_client_id list option) attempt" where
  "load_client_ids ok order client_id = query ok (read_with (\<lambda>s.
     map_option (\<lambda>row. order (active_client_ids (row_user_id row) (qs_clients s)))
       (map_of (qs_clients s) client_id)))"

definition delete_push_token :: "bool \<Rightarrow> qs_client_id \<Rightarrow> qs_client_record \<Rightarrow> (qs_state, qs_storage_error, unit) attempt" where
  "delete_push_token ok client_id client_record =
     (case cr_encrypted_push_token client_record of
        None \<Rightarrow> return_with ()
      | Some encrypted_push_token \<Rightarrow>
          update_active ok client_id (\<lambda>r.
            if cr_encrypted_push_token r = Some encrypted_push_token
            then r\<lparr> cr_encrypted_push_token := None \<rparr> else r))"

definition QsClientRecord_update :: "bool \<Rightarrow> qs_client_id \<Rightarrow> qs_client_record \<Rightarrow>
    (qs_state, qs_storage_error, unit) attempt" where
  "QsClientRecord_update ok client_id client_record =
     update_active ok client_id (\<lambda>r. r\<lparr>
       cr_encrypted_push_token := cr_encrypted_push_token client_record,
       cr_queue_encryption_key := cr_queue_encryption_key client_record,
       cr_auth_key := cr_auth_key client_record,
       cr_ratchet_key := cr_ratchet_key client_record,
       cr_activity_time := cr_activity_time client_record \<rparr>)"

definition update_queue_ratchet :: "bool \<Rightarrow> qs_client_id \<Rightarrow> queue_ratchet \<Rightarrow> (qs_state, qs_storage_error, unit) attempt" where
  "update_queue_ratchet ok client_id ratchet =
     update_active ok client_id (\<lambda>r. r\<lparr> cr_ratchet_key := ratchet \<rparr>)"


section \<open>Key packages\<close>

text \<open>A kind of key package: its table and its coding (the trait \<open>StorableKeyPackage\<close>).\<close>

record 'kp storable =
  ks_table :: "qs_state \<Rightarrow> key_package_table"
  ks_put_table :: "key_package_table \<Rightarrow> qs_state \<Rightarrow> qs_state"
  ks_encoded :: "'kp \<Rightarrow> unit + bytes"
  ks_decoded :: "bytes \<Rightarrow> unit + 'kp"

definition insert_packages :: "qs_client_id \<Rightarrow> bool \<Rightarrow> bytes list \<Rightarrow> key_package_table \<Rightarrow> key_package_table" where
  "insert_packages client_id is_last_resort blobs t =
     \<lparr> kt_rows = kt_rows t @ map (\<lambda>(i, blob). \<lparr> kr_id = kt_next_id t + i, kr_client_id = client_id,
         kr_key_package = blob, kr_is_last_resort = is_last_resort \<rparr>) (enumerate 0 blobs),
       kt_next_id = kt_next_id t + length blobs \<rparr>"

definition replace_multiple_internal :: "'kp storable \<Rightarrow> bool \<Rightarrow> bool \<Rightarrow> qs_client_id \<Rightarrow> 'kp list \<Rightarrow> bool \<Rightarrow>
    (qs_state, qs_storage_error, unit) attempt" where
  "replace_multiple_internal ks ok_delete ok_insert client_id key_packages is_last_resort =
     (if key_packages = [] then return_with ()
      else
        andThen (query ok_delete (modify_with (\<lambda>s. ks_put_table ks ((ks_table ks s)\<lparr>
          kt_rows := filter (\<lambda>r. \<not> (kr_client_id r = client_id \<and> kr_is_last_resort r = is_last_resort))
            (kt_rows (ks_table ks s)) \<rparr>) s))) (\<lambda>_.
        andThen (try_with (map_err (\<lambda>_. StorageDatabase) (collect_res (ks_encoded ks) key_packages))) (\<lambda>blobs.
        query ok_insert (\<lambda>s.
          if map_of (qs_clients s) client_id = None then fail_with StorageDatabase s
          else modify_with (\<lambda>s.
            ks_put_table ks (insert_packages client_id is_last_resort blobs (ks_table ks s)) s) s))))"

text \<open>
  The query of \<open>load_user_key_package\<close>: \<open>pick\<close> is the choice of the database among rows that rank the
  same, \<open>first\<close> which of the selected rows it returns first.
\<close>

definition best_ranked :: "(key_package_row list \<Rightarrow> key_package_row) \<Rightarrow> key_package_row list \<Rightarrow>
    key_package_row option" where
  "best_ranked pick packages =
     (let one_time = filter (\<lambda>r. \<not> kr_is_last_resort r) packages in
      if one_time \<noteq> [] then Some (pick one_time)
      else if packages \<noteq> [] then Some (pick packages) else None)"

definition user_client_ids :: "friendship_token \<Rightarrow> qs_state \<Rightarrow> qs_client_id list" where
  "user_client_ids token s =
     (case find (\<lambda>(_, r). ur_friendship_token r = token) (qs_users s) of
        None \<Rightarrow> []
      | Some (user_id, _) \<Rightarrow> map fst (filter (\<lambda>(_, row). row_user_id row = user_id) (qs_clients s)))"

definition selected_key_packages :: "(key_package_row list \<Rightarrow> key_package_row) \<Rightarrow> qs_client_id list \<Rightarrow>
    key_package_row list \<Rightarrow> key_package_row list" where
  "selected_key_packages pick client_ids rows =
     List.map_filter (\<lambda>c. best_ranked pick (filter (\<lambda>r. kr_client_id r = c) rows)) client_ids"

definition delete_selected :: "key_package_row list \<Rightarrow> key_package_table \<Rightarrow> key_package_table" where
  "delete_selected selected t =
     t\<lparr> kt_rows := filter (\<lambda>r. \<not> list_ex (\<lambda>d. kr_id d = kr_id r \<and> \<not> kr_is_last_resort d) selected) (kt_rows t) \<rparr>"

text \<open>
  The statement reads one snapshot of the database and deletes from the current tables; only when it
  runs alone are they the same.
\<close>

definition take_user_key_package :: "'kp storable \<Rightarrow> bool \<Rightarrow> (key_package_row list \<Rightarrow> key_package_row) \<Rightarrow>
    (key_package_row list \<Rightarrow> key_package_row) \<Rightarrow> friendship_token \<Rightarrow> qs_state \<Rightarrow>
    (qs_state, qs_storage_error, 'kp) attempt" where
  "take_user_key_package ks ok pick first token snapshot =
     (let selected = selected_key_packages pick (user_client_ids token snapshot) (kt_rows (ks_table ks snapshot)) in
      query ok
        (andThen (modify_with (\<lambda>s. ks_put_table ks (delete_selected selected (ks_table ks s)) s)) (\<lambda>_.
         andThen (try_with (ensure (selected \<noteq> []) StorageDatabase)) (\<lambda>_.
         try_with (map_err (\<lambda>_. StorageDatabase) (ks_decoded ks (kr_key_package (first selected))))))))"

definition load_user_key_package :: "'kp storable \<Rightarrow> bool \<Rightarrow> bool \<Rightarrow> bool \<Rightarrow>
    (key_package_row list \<Rightarrow> key_package_row) \<Rightarrow> (key_package_row list \<Rightarrow> key_package_row) \<Rightarrow>
    friendship_token \<Rightarrow> (qs_state, qs_storage_error, 'kp) attempt" where
  "load_user_key_package ks ok_begin ok_query ok_commit pick first token =
     transaction restore_qs_db
       (andThen (try_with (ensure ok_begin StorageDatabase)) (\<lambda>_.
        andThen (\<lambda>s. take_user_key_package ks ok_query pick first token s s) (\<lambda>key_package.
        andThen (try_with (ensure ok_commit StorageDatabase)) (\<lambda>_.
        return_with key_package))))"

definition KeyPackage_storable :: "('kp \<Rightarrow> unit + bytes) \<Rightarrow> (bytes \<Rightarrow> unit + 'kp) \<Rightarrow> 'kp storable" where
  "KeyPackage_storable ser de =
     \<lparr> ks_table = qs_key_packages, ks_put_table = (\<lambda>t s. s\<lparr> qs_key_packages := t \<rparr>),
       ks_encoded = (\<lambda>kp. map_err (\<lambda>_. ()) (codec_to_vec ser kp)),
       ks_decoded = (\<lambda>bs. map_err (\<lambda>_. ()) (codec_from_slice de bs)) \<rparr>"

text \<open>The two halves are written one after the other; the first is read as a prefix, the second to the end.\<close>

definition apq_encoded :: "('kp \<Rightarrow> unit + bytes) \<Rightarrow> 'kp \<times> 'kp \<Rightarrow> unit + bytes" where
  "apq_encoded ser kp =
     and_then (ser (fst kp)) (\<lambda>t_bytes. and_then (ser (snd kp)) (\<lambda>pq_bytes. Ok (t_bytes @ pq_bytes)))"

definition apq_decoded :: "(bytes \<Rightarrow> unit + 'kp \<times> bytes) \<Rightarrow> bytes \<Rightarrow> unit + 'kp \<times> 'kp" where
  "apq_decoded de_prefix bs =
     and_then (de_prefix bs) (\<lambda>(t_key_package, remaining).
     and_then (de_prefix remaining) (\<lambda>(pq_key_package, rest).
     and_then (ensure (rest = []) ()) (\<lambda>_.
     Ok (t_key_package, pq_key_package))))"

definition ApqKeyPackage_storable :: "('kp \<Rightarrow> unit + bytes) \<Rightarrow> (bytes \<Rightarrow> unit + 'kp \<times> bytes) \<Rightarrow>
    ('kp \<times> 'kp) storable" where
  "ApqKeyPackage_storable ser de_prefix =
     \<lparr> ks_table = qs_apq_key_packages, ks_put_table = (\<lambda>t s. s\<lparr> qs_apq_key_packages := t \<rparr>),
       ks_encoded = apq_encoded ser, ks_decoded = apq_decoded de_prefix \<rparr>"


section \<open>The decryption key of the service\<close>

definition DecryptionKey_load :: "bool \<Rightarrow> (qs_state, qs_storage_error, bytes option) attempt" where
  "DecryptionKey_load ok = query ok (read_with (\<lambda>s.
     case qs_decryption_keys s of [] \<Rightarrow> None | key # _ \<Rightarrow> Some key))"

datatype generate_and_store_error = KeyGenerationError | KeyStorageError qs_storage_error

definition generate_and_store :: "bool \<Rightarrow> bytes option \<Rightarrow> (qs_state, generate_and_store_error, unit) attempt" where
  "generate_and_store ok generated =
     andThen (try_with (ok_or KeyGenerationError generated)) (\<lambda>decryption_key.
     converting KeyStorageError (query ok (modify_with (\<lambda>s.
       s\<lparr> qs_decryption_keys := qs_decryption_keys s @ [decryption_key] \<rparr>))))"

end
