(* ===== verification/Qs_Service.thy ===== *)
theory Qs_Service
  imports Qs_Records Signed_Request
begin

text \<open>
  The operations of the queue service: handing a fanned-out message to the queues of its recipient
  (\<^verbatim>\<open>qs/client_record.rs\<close>, \<^verbatim>\<open>qs/ds_api.rs\<close>, \<^verbatim>\<open>qs/qs_api.rs\<close>), the operations on records and key packages
  (\<^verbatim>\<open>qs/client_api/*.rs\<close>), the authentication of requests (\<^verbatim>\<open>qs/auth.rs\<close>) and the handlers of the
  gRPC interface (\<^verbatim>\<open>qs/grpc.rs\<close>).

  The record \<open>qs_service\<close> holds what the service is configured with and the functions of other crates
  it calls: codings, signatures, HPKE, validation of key packages.  \<open>enqueue_io\<close> and \<open>qs_io\<close> say what
  the outside does during one call: which database calls fail, the time, random values, the answers
  of the push provider and of the network.
\<close>

section \<open>Parameters\<close>

record client_config =
  cc_client_id :: qs_client_id
  cc_push_token_ear_key :: "bytes option"

datatype air_protocol_version = Alpha

datatype qs_to_qs_payload = FanOutMessageRequest ds_fan_out_message

record qs_to_qs_message =
  qt_protocol_version :: air_protocol_version
  qt_sender :: string
  qt_recipient :: string
  qt_payload :: qs_to_qs_payload

datatype push_notification_error =
    PushOther | InvalidToken | InvalidBearer | PushNetworkError | UnsupportedType | JwtCreationError
  | OAuthError | InvalidConfiguration

datatype federated_processing_result = FederatedOk

text \<open>The payload of the request that opens a stream; its protobuf form is what is signed.\<close>

record init_listen_payload =
  il_client_metadata :: "string field option"
  il_client_id :: "qs_client_id field"
  il_sequence_number_start :: u64

record ('ki, 'kp) qs_service =
  qv_domain :: string
  qv_version_req :: "string option"
  qv_version_matches :: "string \<Rightarrow> bool"
  qv_message_enc :: message_enc
  qv_message_dec :: message_dec
  qv_kdf :: kdf
  qv_payload_ser :: "qs_queue_message_payload \<Rightarrow> unit + bytes"
  qv_push_token_de :: "bytes \<Rightarrow> unit + push_token"
  qv_aes_enc :: aes_enc
  qv_aes_dec :: aes_dec
  qv_open_config :: "bytes \<Rightarrow> bytes \<Rightarrow> decryption_error + client_config"
  qv_encryption_key :: "bytes \<Rightarrow> bytes"
  qv_qs_to_qs_ser :: "qs_to_qs_message \<Rightarrow> unit + bytes"
  qv_vl :: "bytes \<Rightarrow> unit + bytes"
  qv_verify_signature :: "bytes \<Rightarrow> bytes \<Rightarrow> bytes \<Rightarrow> bool"
  qv_init_listen_enc :: "init_listen_payload \<Rightarrow> bytes"
  qv_key_package_in :: "bytes \<Rightarrow> unit + 'ki"
  qv_validate :: "'ki \<Rightarrow> unit + 'kp"
  qv_apq_validate :: "'ki \<times> 'ki \<Rightarrow> unit + 'kp \<times> 'kp"
  qv_last_resort :: "'kp \<Rightarrow> bool"
  qv_key_package_out :: "'kp \<Rightarrow> unit + bytes"
  qv_key_package_prefix :: "bytes \<Rightarrow> unit + 'kp \<times> bytes"
  qv_key_package_ser :: "'kp \<Rightarrow> unit + bytes"
  qv_key_package_de :: "bytes \<Rightarrow> unit + 'kp"

record enqueue_io =
  e_begin :: bool
  e_load :: bool
  e_insert :: bool
  e_notify :: bool
  e_update :: bool
  e_commit :: bool
  e_nonce :: "bytes option"
  e_push :: "push_token \<Rightarrow> push_notification_error option"
  e_delete_token :: bool
  e_channel :: bool

record qs_io =
  q_acquire :: bool
  q_begin :: bool
  q_load :: bool
  q_load_key :: bool
  q_store :: bool
  q_store_client :: bool
  q_update :: bool
  q_delete :: bool
  q_insert :: bool
  q_delete_last_resort :: bool
  q_insert_last_resort :: bool
  q_commit :: bool
  q_activity :: bool
  q_now :: time
  q_user_id :: qs_user_id
  q_client_id :: qs_client_id
  q_generated_key :: "bytes option"
  q_network :: "unit + federated_processing_result"
  q_order :: "qs_client_id list \<Rightarrow> qs_client_id list"
  q_pick :: "key_package_row list \<Rightarrow> key_package_row"
  q_first :: "key_package_row list \<Rightarrow> key_package_row"
  q_enqueue :: "qs_client_id \<Rightarrow> enqueue_io"


section \<open>Enqueuing\<close>

datatype enqueue_error = EnqueueLibraryError | EnqueueStorage | ClientNotFound

definition pg_notify :: "bool \<Rightarrow> qs_client_id \<Rightarrow> (qs_state, qs_storage_error, unit) attempt" where
  "pg_notify ok queue_id = query ok (modify_with (\<lambda>s. s\<lparr> qs_notified := qs_notified s @ [queue_id] \<rparr>))"

definition Queues_enqueue :: "('ki, 'kp, 'z) qs_service_scheme \<Rightarrow> enqueue_io \<Rightarrow> qs_client_id \<Rightarrow> queue_message \<Rightarrow>
    (qs_state, queue_error, bool) attempt" where
  "Queues_enqueue sv io queue_id message =
     andThen (\<lambda>s. case Queue_enqueue (qv_message_enc sv) (e_insert io) queue_id message (qs_queue_rows s) of
         Err e \<Rightarrow> (Err e, s) | Ok rows \<Rightarrow> (Ok (), s\<lparr> qs_queue_rows := rows \<rparr>)) (\<lambda>_.
     andThen (converting (\<lambda>_. QueueStorage) (pg_notify (e_notify io) queue_id)) (\<lambda>_.
     read_with (\<lambda>s. is_listening (qs_queues s) queue_id)))"

definition do_enqueue :: "('ki, 'kp, 'z) qs_service_scheme \<Rightarrow> enqueue_io \<Rightarrow> qs_client_id \<Rightarrow>
    qs_queue_message_payload \<Rightarrow> (qs_state, enqueue_error, qs_client_record \<times> bool) attempt" where
  "do_enqueue sv io client_id payload =
     transaction restore_qs_db
       (andThen (try_with (ensure (e_begin io) EnqueueStorage)) (\<lambda>_.
        andThen (converting (\<lambda>_. EnqueueStorage) (load_for_update (e_load io) client_id)) (\<lambda>loaded.
        andThen (try_with (ok_or ClientNotFound loaded)) (\<lambda>client_record.
        andThen (try_with (map_err (\<lambda>_. EnqueueLibraryError)
          (ratchet_encrypt (qv_kdf sv) (encrypt (qv_payload_ser sv) (qv_aes_enc sv) (e_nonce io)) payload
            (cr_ratchet_key client_record)))) (\<lambda>(queue_message, ratchet).
        andThen (converting (\<lambda>_. EnqueueStorage) (Queues_enqueue sv io client_id queue_message)) (\<lambda>has_listener.
        andThen (converting (\<lambda>_. EnqueueStorage) (update_queue_ratchet (e_update io) client_id ratchet)) (\<lambda>_.
        andThen (try_with (ensure (e_commit io) EnqueueStorage)) (\<lambda>_.
        return_with (client_record\<lparr> cr_ratchet_key := ratchet \<rparr>, has_listener)))))))))"

text \<open>A push notification, if the client has a token, the sender gave its key, and it decrypts.\<close>

definition push_notification :: "('ki, 'kp, 'z) qs_service_scheme \<Rightarrow> enqueue_io \<Rightarrow> qs_client_id \<Rightarrow>
    qs_client_record \<Rightarrow> bytes option \<Rightarrow> (qs_state, enqueue_error, unit) attempt" where
  "push_notification sv io client_id client_record push_token_key_option =
     (case (cr_encrypted_push_token client_record, push_token_key_option) of
        (Some encrypted_push_token, Some ear_key) \<Rightarrow>
          (case decrypt (qv_push_token_de sv) (qv_aes_dec sv) ear_key encrypted_push_token of
             Err _ \<Rightarrow> return_with ()
           | Ok token \<Rightarrow>
               andThen (modify_with (\<lambda>s. s\<lparr> qs_pushed := qs_pushed s @ [token] \<rparr>)) (\<lambda>_.
               (case e_push io token of
                  Some InvalidToken \<Rightarrow>
                    converting (\<lambda>_. EnqueueStorage) (delete_push_token (e_delete_token io) client_id client_record)
                | _ \<Rightarrow> return_with ())))
      | _ \<Rightarrow> return_with ())"

definition event_payload :: "ds_event_message \<Rightarrow> queue_event_payload" where
  "event_payload ev =
     \<lparr> qe_group_id = ev_group_id ev, qe_sender = ev_sender_index ev, qe_epoch = ev_epoch ev,
       qe_timestamp = ev_timestamp ev, qe_payload = ev_payload ev \<rparr>"

definition QsClientRecord_enqueue :: "('ki, 'kp, 'z) qs_service_scheme \<Rightarrow> enqueue_io \<Rightarrow> qs_client_id \<Rightarrow>
    ds_fan_out_payload \<Rightarrow> bytes option \<Rightarrow> (qs_state, enqueue_error, unit) attempt" where
  "QsClientRecord_enqueue sv io client_id msg push_token_key_option =
     (case msg of
        QueueMessage queue_message \<Rightarrow>
          andThen (do_enqueue sv io client_id queue_message) (\<lambda>(client_record, has_listener).
          if has_listener then return_with ()
          else push_notification sv io client_id client_record push_token_key_option)
      | EventMessage ev \<Rightarrow>
          andThen (\<lambda>s. (map_err (\<lambda>_. EnqueueStorage) (send_payload (e_channel io) (qs_queues s) client_id), s)) (\<lambda>sent.
          if sent then modify_with (\<lambda>s. s\<lparr> qs_events := qs_events s @ [(client_id, event_payload ev)] \<rparr>)
          else return_with ()))"

datatype qs_enqueue_error =
    UnsealError decryption_error | FanOutEnqueueError enqueue_error | QsNetworkError | QsStorageError
  | QsLibraryError | InvalidResponse

definition deliver_remote :: "('ki, 'kp, 'z) qs_service_scheme \<Rightarrow> qs_io \<Rightarrow> ds_fan_out_message \<Rightarrow>
    (qs_state, qs_enqueue_error, unit) attempt" where
  "deliver_remote sv io message =
     (let recipient = qr_client_homeserver_domain (fo_client_reference message) in
      andThen (try_with (map_err (\<lambda>_. QsLibraryError) (qv_qs_to_qs_ser sv
        \<lparr> qt_protocol_version = Alpha, qt_sender = qv_domain sv, qt_recipient = recipient,
          qt_payload = FanOutMessageRequest message \<rparr>))) (\<lambda>serialized_message.
      andThen (modify_with (\<lambda>s. s\<lparr> qs_delivered := qs_delivered s @ [(serialized_message, recipient)] \<rparr>)) (\<lambda>_.
      andThen (try_with (map_err (\<lambda>_. QsNetworkError) (q_network io))) (\<lambda>result.
      try_with (ensure (result = FederatedOk) InvalidResponse)))))"

definition recipient_ids :: "qs_io \<Rightarrow> ds_fan_out_message \<Rightarrow> client_config \<Rightarrow>
    (qs_state, qs_enqueue_error, qs_client_id list) attempt" where
  "recipient_ids io message client_config =
     (if fo_broadcast_to_all_client_queues message
      then
        andThen (converting (\<lambda>_. QsStorageError)
          (load_client_ids (q_load io) (q_order io) (cc_client_id client_config))) (\<lambda>ids.
        try_with (ok_or (FanOutEnqueueError ClientNotFound) ids))
      else return_with [cc_client_id client_config])"

text \<open>The message is lost for a recipient whose queue refuses it; the caller does not learn it.\<close>

definition enqueue_message :: "('ki, 'kp, 'z) qs_service_scheme \<Rightarrow> qs_io \<Rightarrow> ds_fan_out_message \<Rightarrow>
    (qs_state, qs_enqueue_error, unit) attempt" where
  "enqueue_message sv io message =
     (if qr_client_homeserver_domain (fo_client_reference message) \<noteq> qv_domain sv
      then deliver_remote sv io message
      else
        andThen (converting (\<lambda>_. QsStorageError) (DecryptionKey_load (q_load_key io))) (\<lambda>loaded.
        andThen (try_with (ok_or QsLibraryError loaded)) (\<lambda>decryption_key.
        andThen (try_with (map_err UnsealError
          (qv_open_config sv decryption_key (qr_sealed_reference (fo_client_reference message))))) (\<lambda>client_config.
        let push_token_ear_key =
          (if fo_suppress_notifications message then None else cc_push_token_ear_key client_config) in
        andThen (recipient_ids io message client_config) (\<lambda>client_ids.
        for_each (\<lambda>qs_client_id. ignoring (QsClientRecord_enqueue sv (q_enqueue io qs_client_id) qs_client_id
          (fo_payload message) push_token_ear_key)) client_ids)))))"

datatype federated_processing_error = FederatedEnqueueError qs_enqueue_error

definition process_federated_message :: "('ki, 'kp, 'z) qs_service_scheme \<Rightarrow> qs_io \<Rightarrow> qs_to_qs_message \<Rightarrow>
    (qs_state, federated_processing_error, federated_processing_result) attempt" where
  "process_federated_message sv io message =
     (case qt_payload message of
        FanOutMessageRequest fan_out_message \<Rightarrow>
          andThen (converting FederatedEnqueueError (enqueue_message sv io fan_out_message)) (\<lambda>_.
          return_with FederatedOk))"

datatype service_creation_error = CreationDatabase | InitializationFailed

definition Qs_initialize :: "qs_io \<Rightarrow> (qs_state, service_creation_error, unit) attempt" where
  "Qs_initialize io =
     andThen (converting (\<lambda>_. CreationDatabase) (DecryptionKey_load (q_load_key io))) (\<lambda>loaded.
     andThen (if loaded = None
       then converting (\<lambda>_. InitializationFailed) (generate_and_store (q_store io) (q_generated_key io))
       else return_with ()) (\<lambda>_.
     modify_with (\<lambda>s. s\<lparr> qs_queues := empty_queues \<rparr>)))"


section \<open>Records\<close>

record create_client_record_params =
  ccp_sender :: qs_user_id
  ccp_client_record_auth_key :: bytes
  ccp_queue_encryption_key :: bytes
  ccp_encrypted_push_token :: "aead_ciphertext option"
  ccp_initial_ratchet_secret :: bytes

datatype qs_create_client_record_error = CreateClientLibraryError | CreateClientStorageError

fun create_client_status :: "qs_create_client_record_error \<Rightarrow> status" where
  "create_client_status CreateClientLibraryError = internal"
| "create_client_status CreateClientStorageError = internal"

definition qs_create_client_record :: "('ki, 'kp, 'z) qs_service_scheme \<Rightarrow> qs_io \<Rightarrow> create_client_record_params \<Rightarrow>
    (qs_state, qs_create_client_record_error, qs_client_id) attempt" where
  "qs_create_client_record sv io params =
     andThen (try_with (map_err (\<lambda>_. CreateClientLibraryError)
       (ratchet_try_from (qv_kdf sv) (ccp_initial_ratchet_secret params)))) (\<lambda>ratchet.
     andThen (try_with (ensure (q_acquire io) CreateClientStorageError)) (\<lambda>_.
     converting (\<lambda>_. CreateClientStorageError)
       (QsClientRecord_new_and_store (q_store_client io) (q_client_id io) (q_now io) (ccp_sender params)
         (ccp_encrypted_push_token params) (ccp_queue_encryption_key params)
         (ccp_client_record_auth_key params) ratchet)))"

datatype qs_update_client_record_error = UnknownClient | UpdateClientStorageError

fun update_client_status :: "qs_update_client_record_error \<Rightarrow> status" where
  "update_client_status UnknownClient = not_found"
| "update_client_status UpdateClientStorageError = internal"

definition qs_update_client_record :: "qs_io \<Rightarrow> qs_client_id \<Rightarrow> bytes \<Rightarrow> bytes \<Rightarrow> aead_ciphertext option \<Rightarrow>
    (qs_state, qs_update_client_record_error, unit) attempt" where
  "qs_update_client_record io sender client_record_auth_key queue_encryption_key encrypted_push_token =
     transaction restore_qs_db
       (andThen (try_with (ensure (q_begin io) UpdateClientStorageError)) (\<lambda>_.
        andThen (converting (\<lambda>_. UpdateClientStorageError) (load_for_update (q_load io) sender)) (\<lambda>loaded.
        andThen (try_with (ok_or UnknownClient loaded)) (\<lambda>client_record.
        andThen (converting (\<lambda>_. UpdateClientStorageError) (QsClientRecord_update (q_update io) sender
          (client_record\<lparr> cr_auth_key := client_record_auth_key,
             cr_queue_encryption_key := queue_encryption_key,
             cr_encrypted_push_token := encrypted_push_token \<rparr>))) (\<lambda>_.
        try_with (ensure (q_commit io) UpdateClientStorageError))))))"

definition qs_delete_client_record :: "qs_io \<Rightarrow> qs_client_id \<Rightarrow>
    (qs_state, qs_update_client_record_error, unit) attempt" where
  "qs_delete_client_record io sender =
     converting (\<lambda>_. UpdateClientStorageError) (soft_delete (q_delete io) (q_now io) sender)"

datatype qs_create_user_error = CreateUserStorageError

record create_user_record_params =
  cup_user_record_auth_key :: bytes
  cup_friendship_token :: friendship_token
  cup_client_record_auth_key :: bytes
  cup_queue_encryption_key :: bytes
  cup_encrypted_push_token :: "aead_ciphertext option"
  cup_initial_ratchet_secret :: bytes

definition qs_create_user_record :: "('ki, 'kp, 'z) qs_service_scheme \<Rightarrow> qs_io \<Rightarrow> create_user_record_params \<Rightarrow>
    (qs_state, qs_create_user_error, qs_user_id \<times> qs_client_id) attempt" where
  "qs_create_user_record sv io params =
     andThen (converting (\<lambda>_. CreateUserStorageError)
       (UserRecord_new_and_store (q_store io) (q_user_id io) (cup_user_record_auth_key params)
         (cup_friendship_token params))) (\<lambda>user_id.
     andThen (converting (\<lambda>_. CreateUserStorageError) (qs_create_client_record sv io
       \<lparr> ccp_sender = user_id, ccp_client_record_auth_key = cup_client_record_auth_key params,
         ccp_queue_encryption_key = cup_queue_encryption_key params,
         ccp_encrypted_push_token = cup_encrypted_push_token params,
         ccp_initial_ratchet_secret = cup_initial_ratchet_secret params \<rparr>)) (\<lambda>qs_client_id.
     return_with (user_id, qs_client_id)))"

datatype qs_update_user_error = UnknownUser | UpdateUserStorageError

definition qs_update_user_record :: "qs_io \<Rightarrow> qs_user_id \<Rightarrow> bytes \<Rightarrow> friendship_token \<Rightarrow>
    (qs_state, qs_update_user_error, unit) attempt" where
  "qs_update_user_record io sender user_record_auth_key token =
     transaction restore_qs_db
       (andThen (try_with (ensure (q_begin io) UpdateUserStorageError)) (\<lambda>_.
        andThen (converting (\<lambda>_. UpdateUserStorageError) (UserRecord_load (q_load io) sender)) (\<lambda>loaded.
        andThen (try_with (ok_or UnknownUser loaded)) (\<lambda>user_record.
        andThen (converting (\<lambda>_. UpdateUserStorageError) (UserRecord_update (q_update io) sender
          (user_record\<lparr> ur_friendship_token := token, ur_verifying_key := user_record_auth_key \<rparr>))) (\<lambda>_.
        try_with (ensure (q_commit io) UpdateUserStorageError))))))"

datatype qs_delete_user_error = DeleteUserStorageError

definition qs_delete_user_record :: "qs_io \<Rightarrow> qs_user_id \<Rightarrow> (qs_state, qs_delete_user_error, unit) attempt" where
  "qs_delete_user_record io sender =
     converting (\<lambda>_. DeleteUserStorageError) (UserRecord_delete (q_delete io) sender)"

end
