(* ===== verification/Qs_Handlers.thy ===== *)
theory Qs_Handlers
  imports Qs_Service
begin

text \<open>
  The gRPC interface of the queue service: key packages (\<^verbatim>\<open>qs/client_api/key_packages.rs\<close>), the
  authentication of requests (\<^verbatim>\<open>qs/auth.rs\<close>) and the handlers (\<^verbatim>\<open>qs/grpc.rs\<close>).

  A signed request has a payload and a signature over it.  Most requests also still have the fields of
  the payload outside of it, from before requests were signed: \<open>rl_legacy\<close>.  A request whose payload
  names no sender is taken from these fields, unverified.
\<close>

section \<open>Key packages\<close>

abbreviation key_packages_of :: "('ki, 'kp, 'z) qs_service_scheme \<Rightarrow> 'kp storable" where
  "key_packages_of sv \<equiv> KeyPackage_storable (qv_key_package_ser sv) (qv_key_package_de sv)"

abbreviation apq_key_packages_of :: "('ki, 'kp, 'z) qs_service_scheme \<Rightarrow> ('kp \<times> 'kp) storable" where
  "apq_key_packages_of sv \<equiv> ApqKeyPackage_storable (qv_key_package_out sv) (qv_key_package_prefix sv)"

datatype qs_publish_key_packages_error = PublishStorageError | InvalidKeyPackage

fun publish_status :: "qs_publish_key_packages_error \<Rightarrow> status" where
  "publish_status PublishStorageError = internal"
| "publish_status InvalidKeyPackage = invalid_argument"

fun verify_key_packages :: "('i \<Rightarrow> unit + 'k) \<Rightarrow> ('k \<Rightarrow> bool) \<Rightarrow> 'i list \<Rightarrow> 'k list \<Rightarrow> 'k option \<Rightarrow>
    qs_publish_key_packages_error + 'k list \<times> 'k option" where
  "verify_key_packages validate last_resort [] verified last_resort_key_package =
     Ok (verified, last_resort_key_package)"
| "verify_key_packages validate last_resort (key_package # rest) verified last_resort_key_package =
     and_then (map_err (\<lambda>_. InvalidKeyPackage) (validate key_package)) (\<lambda>verified_key_package.
     if last_resort verified_key_package
     then verify_key_packages validate last_resort rest verified (Some verified_key_package)
     else verify_key_packages validate last_resort rest (verified @ [verified_key_package])
       last_resort_key_package)"

definition publish_verified :: "'k storable \<Rightarrow> qs_io \<Rightarrow> qs_client_id \<Rightarrow> 'k list \<times> 'k option \<Rightarrow>
    (qs_state, qs_publish_key_packages_error, unit) attempt" where
  "publish_verified ks io sender verified =
     transaction restore_qs_db
       (andThen (try_with (ensure (q_begin io) PublishStorageError)) (\<lambda>_.
        andThen (case snd verified of
            Some last_resort_key_package \<Rightarrow>
              converting (\<lambda>_. PublishStorageError) (replace_multiple_internal ks (q_delete_last_resort io)
                (q_insert_last_resort io) sender [last_resort_key_package] True)
          | None \<Rightarrow> return_with ()) (\<lambda>_.
        andThen (converting (\<lambda>_. PublishStorageError) (replace_multiple_internal ks (q_delete io) (q_insert io)
          sender (fst verified) False)) (\<lambda>_.
        try_with (ensure (q_commit io) PublishStorageError)))))"

definition qs_publish_key_packages :: "('ki, 'kp, 'z) qs_service_scheme \<Rightarrow> qs_io \<Rightarrow> qs_client_id \<Rightarrow> 'ki list \<Rightarrow>
    (qs_state, qs_publish_key_packages_error, unit) attempt" where
  "qs_publish_key_packages sv io sender key_packages =
     andThen (try_with (verify_key_packages (qv_validate sv) (qv_last_resort sv) key_packages [] None))
       (publish_verified (key_packages_of sv) io sender)"

definition qs_publish_apq_key_packages :: "('ki, 'kp, 'z) qs_service_scheme \<Rightarrow> qs_io \<Rightarrow> qs_client_id \<Rightarrow>
    ('ki \<times> 'ki) list \<Rightarrow> (qs_state, qs_publish_key_packages_error, unit) attempt" where
  "qs_publish_apq_key_packages sv io sender key_packages =
     andThen (try_with (verify_key_packages (qv_apq_validate sv)
       (\<lambda>(t, pq). qv_last_resort sv t \<and> qv_last_resort sv pq) key_packages [] None))
       (publish_verified (apq_key_packages_of sv) io sender)"

datatype qs_key_package_error = KeyPackageStorageError

fun key_package_status :: "qs_key_package_error \<Rightarrow> status" where
  "key_package_status KeyPackageStorageError = internal"

text \<open>Retrieving is the same for both kinds.\<close>

definition retrieve_key_package :: "'k storable \<Rightarrow> qs_io \<Rightarrow> friendship_token \<Rightarrow>
    (qs_state, qs_key_package_error, 'k) attempt" where
  "retrieve_key_package ks io sender =
     andThen (try_with (ensure (q_acquire io) KeyPackageStorageError)) (\<lambda>_.
     converting (\<lambda>_. KeyPackageStorageError)
       (load_user_key_package ks (q_begin io) (q_load io) (q_commit io) (q_pick io) (q_first io) sender))"

definition qs_key_package :: "('ki, 'kp, 'z) qs_service_scheme \<Rightarrow> qs_io \<Rightarrow> friendship_token \<Rightarrow>
    (qs_state, qs_key_package_error, 'kp) attempt" where
  "qs_key_package sv = retrieve_key_package (key_packages_of sv)"

definition qs_apq_key_package :: "('ki, 'kp, 'z) qs_service_scheme \<Rightarrow> qs_io \<Rightarrow> friendship_token \<Rightarrow>
    (qs_state, qs_key_package_error, 'kp \<times> 'kp) attempt" where
  "qs_apq_key_package sv = retrieve_key_package (apq_key_packages_of sv)"

datatype qs_encryption_key_error = EncryptionKeyLibraryError | EncryptionKeyStorageError

fun encryption_key_status :: "qs_encryption_key_error \<Rightarrow> status" where
  "encryption_key_status EncryptionKeyLibraryError = internal"
| "encryption_key_status EncryptionKeyStorageError = internal"

definition qs_encryption_key :: "('ki, 'kp, 'z) qs_service_scheme \<Rightarrow> qs_io \<Rightarrow>
    (qs_state, qs_encryption_key_error, bytes) attempt" where
  "qs_encryption_key sv io =
     andThen (converting (\<lambda>_. EncryptionKeyStorageError) (DecryptionKey_load (q_load_key io))) (\<lambda>loaded.
     try_with (ok_or EncryptionKeyLibraryError (map_option (qv_encryption_key sv) loaded)))"


section \<open>Authentication\<close>

record 'p qs_request =
  rl_payload :: "'p option"
  rl_signature :: "bytes option"

record 'p legacy_request = "'p qs_request" +
  rl_legacy :: 'p

text \<open>The sender a payload claims: none, one that does not convert, or an id.\<close>

definition claimed_sender :: "('p \<Rightarrow> bytes field) \<Rightarrow> ('p, 'z) qs_request_scheme \<Rightarrow>
    ('p \<times> (status + bytes)) option" where
  "claimed_sender sender request =
     (case rl_payload request of
        None \<Rightarrow> None
      | Some payload \<Rightarrow>
          (case sender payload of
             Missing \<Rightarrow> None
           | claimed \<Rightarrow> Some (payload, get_field claimed)))"

fun verification_status :: "signature_error \<Rightarrow> status" where
  "verification_status VerificationFailure = unauthenticated"
| "verification_status SigLibraryError = internal"

definition verify_request :: "('ki, 'kp, 'z) qs_service_scheme \<Rightarrow> string \<Rightarrow>
    ('p, 'y) qs_request_scheme signed_request \<Rightarrow> bytes \<Rightarrow> status + unit" where
  "verify_request sv label request verifying_key =
     map_ok (\<lambda>_. ()) (map_err verification_status (SignedRequest_verify (qv_vl sv) (qv_verify_signature sv)
       label rl_signature verifying_key request))"

text \<open>
  \<open>unverified\<close> is what the request is taken for when it claims no sender; where there is no such form
  the code calls \<^verbatim>\<open>unreachable!\<close>, which panics.
\<close>

definition verify_auth :: "('ki, 'kp, 'z) qs_service_scheme \<Rightarrow>
    (bytes \<Rightarrow> (qs_state, qs_storage_error, bytes option) attempt) \<Rightarrow> string \<Rightarrow> ('p \<Rightarrow> bytes field) \<Rightarrow>
    status + 'p \<Rightarrow> ('p, 'y) qs_request_scheme signed_request \<Rightarrow> (qs_state, 'p) action" where
  "verify_auth sv load_key label sender unverified request =
     (case claimed_sender sender (sr_request request) of
        None \<Rightarrow> try_with unverified
      | Some (payload, claimed) \<Rightarrow>
          andThen (try_with claimed) (\<lambda>sender_id.
          andThen (converting (\<lambda>_. internal) (load_key sender_id)) (\<lambda>loaded.
          andThen (try_with (ok_or not_found loaded)) (\<lambda>verifying_key.
          andThen (try_with (verify_request sv label request verifying_key)) (\<lambda>_.
          return_with payload)))))"

definition verify_user_auth :: "('ki, 'kp, 'z) qs_service_scheme \<Rightarrow> qs_io \<Rightarrow> string \<Rightarrow>
    ('p \<Rightarrow> qs_user_id field) \<Rightarrow> 'p legacy_request signed_request \<Rightarrow> (qs_state, 'p) action" where
  "verify_user_auth sv io label sender request =
     verify_auth sv (UserRecord_load_verifying_key (q_load_key io)) label sender
       (Ok (rl_legacy (sr_request request))) request"

definition verify_client_auth :: "('ki, 'kp, 'z) qs_service_scheme \<Rightarrow> qs_io \<Rightarrow> string \<Rightarrow>
    ('p \<Rightarrow> qs_client_id field) \<Rightarrow> status + 'p \<Rightarrow> ('p, 'y) qs_request_scheme signed_request \<Rightarrow>
    (qs_state, 'p) action" where
  "verify_client_auth sv io = verify_auth sv (QsClientRecord_load_verifying_key (q_load_key io))"


section \<open>Requests\<close>

record create_user_request =
  cu_client_metadata :: "string field option"
  cu_user_record_auth_key :: "bytes field"
  cu_friendship_token :: "friendship_token field"
  cu_client_record_auth_key :: "bytes field"
  cu_queue_encryption_key :: "bytes field"
  cu_encrypted_push_token :: "aead_ciphertext field"
  cu_initial_ratched_secret :: "bytes field"

record update_user_payload =
  uu_client_metadata :: "string field option"
  uu_sender :: "qs_user_id field"
  uu_user_record_auth_key :: "bytes field"
  uu_friendship_token :: "friendship_token field"

record delete_user_payload =
  du_client_metadata :: "string field option"
  du_sender :: "qs_user_id field"

record create_client_payload =
  cp_client_metadata :: "string field option"
  cp_sender :: "qs_user_id field"
  cp_client_record_auth_key :: "bytes field"
  cp_queue_encryption_key :: "bytes field"
  cp_encrypted_push_token :: "aead_ciphertext field"
  cp_initial_ratched_secret :: "bytes field"

record update_client_payload =
  uc_client_metadata :: "string field option"
  uc_sender :: "qs_client_id field"
  uc_client_record_auth_key :: "bytes field"
  uc_queue_encryption_key :: "bytes field"
  uc_encrypted_push_token :: "aead_ciphertext field"

record delete_client_payload =
  dc_client_metadata :: "string field option"
  dc_sender :: "qs_client_id field"

record publish_key_packages_payload =
  pk_client_metadata :: "string field option"
  pk_client_id :: "qs_client_id field"
  pk_key_packages :: "bytes list"

record publish_apq_key_packages_payload =
  pa_client_metadata :: "string field option"
  pa_client_id :: "qs_client_id field"
  pa_apq_key_packages :: "(bytes \<times> bytes) list"

record key_package_request =
  kq_client_metadata :: "string field option"
  kq_sender :: "friendship_token field"

datatype listen_request =
    ListenInit "init_listen_payload legacy_request" | ListenAck u64 | ListenFetch | ListenEmpty


section \<open>Handlers\<close>

definition qs_verify_client_version :: "('ki, 'kp, 'z) qs_service_scheme \<Rightarrow> string field option \<Rightarrow>
    status + string option" where
  "qs_verify_client_version sv client_metadata =
     verify_version (qv_version_req sv) (qv_version_matches sv) client_metadata"

text \<open>The metadata of the payload, or else those outside of it.\<close>

definition request_metadata :: "('p \<Rightarrow> string field option) \<Rightarrow> 'p legacy_request \<Rightarrow> string field option" where
  "request_metadata metadata request =
     (case Option.bind (rl_payload request) metadata of
        Some m \<Rightarrow> Some m
      | None \<Rightarrow> metadata (rl_legacy request))"

definition create_user_handler :: "('ki, 'kp, 'z) qs_service_scheme \<Rightarrow> qs_io \<Rightarrow> create_user_request \<Rightarrow>
    (qs_state, qs_user_id \<times> qs_client_id) action" where
  "create_user_handler sv io request =
     andThen (try_with (qs_verify_client_version sv (cu_client_metadata request))) (\<lambda>_.
     andThen (try_with (get_field (cu_user_record_auth_key request))) (\<lambda>user_record_auth_key.
     andThen (try_with (get_field (cu_friendship_token request))) (\<lambda>token.
     andThen (try_with (get_field (cu_client_record_auth_key request))) (\<lambda>client_record_auth_key.
     andThen (try_with (get_field (cu_queue_encryption_key request))) (\<lambda>queue_encryption_key.
     andThen (try_with (get_optional (cu_encrypted_push_token request))) (\<lambda>encrypted_push_token.
     andThen (try_with (get_field (cu_initial_ratched_secret request))) (\<lambda>initial_ratchet_secret.
     converting (\<lambda>_. internal) (qs_create_user_record sv io
       \<lparr> cup_user_record_auth_key = user_record_auth_key, cup_friendship_token = token,
         cup_client_record_auth_key = client_record_auth_key,
         cup_queue_encryption_key = queue_encryption_key,
         cup_encrypted_push_token = encrypted_push_token,
         cup_initial_ratchet_secret = initial_ratchet_secret \<rparr>))))))))"

definition update_user_handler :: "('ki, 'kp, 'z) qs_service_scheme \<Rightarrow> qs_io \<Rightarrow>
    update_user_payload legacy_request signed_request \<Rightarrow> (qs_state, unit) action" where
  "update_user_handler sv io request =
     andThen (try_with (qs_verify_client_version sv (request_metadata uu_client_metadata (sr_request request)))) (\<lambda>_.
     andThen (verify_user_auth sv io ''UpdateUserPayload'' uu_sender request) (\<lambda>payload.
     andThen (try_with (get_field (uu_sender payload))) (\<lambda>sender.
     andThen (try_with (get_field (uu_user_record_auth_key payload))) (\<lambda>user_record_auth_key.
     andThen (try_with (get_field (uu_friendship_token payload))) (\<lambda>token.
     converting (\<lambda>_. internal) (qs_update_user_record io sender user_record_auth_key token))))))"

definition delete_user_handler :: "('ki, 'kp, 'z) qs_service_scheme \<Rightarrow> qs_io \<Rightarrow>
    delete_user_payload legacy_request signed_request \<Rightarrow> (qs_state, unit) action" where
  "delete_user_handler sv io request =
     andThen (try_with (qs_verify_client_version sv (request_metadata du_client_metadata (sr_request request)))) (\<lambda>_.
     andThen (verify_user_auth sv io ''DeleteUserPayload'' du_sender request) (\<lambda>payload.
     andThen (try_with (get_field (du_sender payload))) (\<lambda>sender.
     converting (\<lambda>_. internal) (qs_delete_user_record io sender))))"

definition create_client_handler :: "('ki, 'kp, 'z) qs_service_scheme \<Rightarrow> qs_io \<Rightarrow>
    create_client_payload legacy_request signed_request \<Rightarrow> (qs_state, qs_client_id) action" where
  "create_client_handler sv io request =
     andThen (verify_user_auth sv io ''CreateClientPayload'' cp_sender request) (\<lambda>payload.
     andThen (try_with (qs_verify_client_version sv (cp_client_metadata payload))) (\<lambda>_.
     andThen (try_with (get_field (cp_sender payload))) (\<lambda>sender.
     andThen (try_with (get_field (cp_client_record_auth_key payload))) (\<lambda>client_record_auth_key.
     andThen (try_with (get_field (cp_queue_encryption_key payload))) (\<lambda>queue_encryption_key.
     andThen (try_with (get_optional (cp_encrypted_push_token payload))) (\<lambda>encrypted_push_token.
     andThen (try_with (get_field (cp_initial_ratched_secret payload))) (\<lambda>initial_ratchet_secret.
     converting create_client_status (qs_create_client_record sv io
       \<lparr> ccp_sender = sender, ccp_client_record_auth_key = client_record_auth_key,
         ccp_queue_encryption_key = queue_encryption_key,
         ccp_encrypted_push_token = encrypted_push_token,
         ccp_initial_ratchet_secret = initial_ratchet_secret \<rparr>))))))))"

definition update_client_handler :: "('ki, 'kp, 'z) qs_service_scheme \<Rightarrow> qs_io \<Rightarrow>
    update_client_payload legacy_request signed_request \<Rightarrow> (qs_state, unit) action" where
  "update_client_handler sv io request =
     andThen (try_with (qs_verify_client_version sv (request_metadata uc_client_metadata (sr_request request)))) (\<lambda>_.
     andThen (verify_client_auth sv io ''UpdateClientPayload'' uc_sender
       (Ok (rl_legacy (sr_request request))) request) (\<lambda>payload.
     andThen (try_with (get_field (uc_sender payload))) (\<lambda>sender.
     andThen (try_with (get_field (uc_client_record_auth_key payload))) (\<lambda>client_record_auth_key.
     andThen (try_with (get_field (uc_queue_encryption_key payload))) (\<lambda>queue_encryption_key.
     andThen (try_with (get_optional (uc_encrypted_push_token payload))) (\<lambda>encrypted_push_token.
     converting update_client_status (qs_update_client_record io sender client_record_auth_key
       queue_encryption_key encrypted_push_token)))))))"

definition delete_client_handler :: "('ki, 'kp, 'z) qs_service_scheme \<Rightarrow> qs_io \<Rightarrow>
    delete_client_payload legacy_request signed_request \<Rightarrow> (qs_state, unit) action" where
  "delete_client_handler sv io request =
     andThen (try_with (qs_verify_client_version sv (request_metadata dc_client_metadata (sr_request request)))) (\<lambda>_.
     andThen (verify_client_auth sv io ''DeleteClientPayload'' dc_sender
       (Ok (rl_legacy (sr_request request))) request) (\<lambda>payload.
     andThen (try_with (get_field (dc_sender payload))) (\<lambda>sender.
     converting update_client_status (qs_delete_client_record io sender))))"

definition publish_key_packages_handler :: "('ki, 'kp, 'z) qs_service_scheme \<Rightarrow> qs_io \<Rightarrow>
    publish_key_packages_payload legacy_request signed_request \<Rightarrow> (qs_state, unit) action" where
  "publish_key_packages_handler sv io request =
     andThen (try_with (qs_verify_client_version sv (request_metadata pk_client_metadata (sr_request request)))) (\<lambda>_.
     andThen (verify_client_auth sv io ''PublishKeyPackagesPayload'' pk_client_id
       (Ok (rl_legacy (sr_request request))) request) (\<lambda>payload.
     andThen (try_with (get_field (pk_client_id payload))) (\<lambda>sender.
     andThen (try_with (map_err (\<lambda>_. invalid_argument)
       (collect_res (qv_key_package_in sv) (pk_key_packages payload)))) (\<lambda>key_packages.
     converting publish_status (qs_publish_key_packages sv io sender key_packages)))))"

definition key_package_handler :: "('ki, 'kp, 'z) qs_service_scheme \<Rightarrow> qs_io \<Rightarrow> key_package_request \<Rightarrow>
    (qs_state, bytes) action" where
  "key_package_handler sv io request =
     andThen (try_with (qs_verify_client_version sv (kq_client_metadata request))) (\<lambda>_.
     andThen (try_with (get_field (kq_sender request))) (\<lambda>sender.
     andThen (converting key_package_status (qs_key_package sv io sender)) (\<lambda>key_package.
     try_with (map_err (\<lambda>_. internal) (qv_key_package_out sv key_package)))))"

definition apq_key_package_in :: "('ki, 'kp, 'z) qs_service_scheme \<Rightarrow> bytes \<times> bytes \<Rightarrow> unit + 'ki \<times> 'ki" where
  "apq_key_package_in sv proto =
     and_then (qv_key_package_in sv (fst proto)) (\<lambda>t.
     and_then (qv_key_package_in sv (snd proto)) (\<lambda>pq. Ok (t, pq)))"

definition publish_apq_key_packages_handler :: "('ki, 'kp, 'z) qs_service_scheme \<Rightarrow> qs_io \<Rightarrow>
    publish_apq_key_packages_payload qs_request signed_request \<Rightarrow> (qs_state, unit) action" where
  "publish_apq_key_packages_handler sv io request =
     andThen (try_with (qs_verify_client_version sv
       (Option.bind (rl_payload (sr_request request)) pa_client_metadata))) (\<lambda>_.
     andThen (verify_client_auth sv io ''PublishApqKeyPackagesRequest'' pa_client_id (Err panicked) request) (\<lambda>payload.
     andThen (try_with (get_field (pa_client_id payload))) (\<lambda>sender.
     andThen (try_with (map_err (\<lambda>_. invalid_argument)
       (collect_res (apq_key_package_in sv) (pa_apq_key_packages payload)))) (\<lambda>key_packages.
     converting publish_status (qs_publish_apq_key_packages sv io sender key_packages)))))"

definition apq_key_package_handler :: "('ki, 'kp, 'z) qs_service_scheme \<Rightarrow> qs_io \<Rightarrow> key_package_request \<Rightarrow>
    (qs_state, bytes \<times> bytes) action" where
  "apq_key_package_handler sv io request =
     andThen (try_with (qs_verify_client_version sv (kq_client_metadata request))) (\<lambda>_.
     andThen (try_with (get_field (kq_sender request))) (\<lambda>sender.
     andThen (converting key_package_status (qs_apq_key_package sv io sender)) (\<lambda>key_package.
     try_with (map_err (\<lambda>_. internal)
       (and_then (qv_key_package_out sv (fst key_package)) (\<lambda>t.
        and_then (qv_key_package_out sv (snd key_package)) (\<lambda>pq. Ok (t, pq))))))))"

definition encryption_key_handler :: "('ki, 'kp, 'z) qs_service_scheme \<Rightarrow> qs_io \<Rightarrow> string field option \<Rightarrow>
    (qs_state, bytes) action" where
  "encryption_key_handler sv io client_metadata =
     andThen (try_with (qs_verify_client_version sv client_metadata)) (\<lambda>_.
     converting encryption_key_status (qs_encryption_key sv io))"


section \<open>Listening\<close>

definition update_client_activity :: "qs_io \<Rightarrow> qs_client_id \<Rightarrow> (qs_state, qs_storage_error, unit) attempt" where
  "update_client_activity io client_id =
     andThen (try_with (ensure (q_acquire io) StorageDatabase)) (\<lambda>_.
     update_activity_time (q_activity io) client_id (q_now io))"

text \<open>
  The first message of the incoming stream opens the queue: nothing, a transport error, or a request.
  The signature is over the payload encoded again.
\<close>

definition init_signed_request :: "('ki, 'kp, 'z) qs_service_scheme \<Rightarrow> init_listen_payload legacy_request \<Rightarrow>
    init_listen_payload \<Rightarrow> init_listen_payload legacy_request signed_request" where
  "init_signed_request sv init_request payload =
     \<lparr> sr_request = init_request, sr_payload_bytes = Some (qv_init_listen_enc sv payload) \<rparr>"

definition listen_handler :: "('ki, 'kp, 'z) qs_service_scheme \<Rightarrow> qs_io \<Rightarrow> (status + listen_request) option \<Rightarrow>
    (qs_state, qs_client_id \<times> token \<times> stream_context) action" where
  "listen_handler sv io initial =
     andThen (try_with (ok_or failed_precondition initial)) (\<lambda>received.
     andThen (try_with received) (\<lambda>request.
     case request of
       ListenInit init_request \<Rightarrow>
         andThen (try_with (qs_verify_client_version sv (request_metadata il_client_metadata init_request))) (\<lambda>_.
         andThen (try_with (ok_or invalid_argument (rl_payload init_request))) (\<lambda>signed_payload.
         andThen (verify_client_auth sv io ''InitListenPayload'' il_client_id (Ok (rl_legacy init_request))
           (init_signed_request sv init_request signed_payload)) (\<lambda>payload.
         andThen (try_with (get_field (il_client_id payload))) (\<lambda>client_id.
         andThen (\<lambda>s. case Queues_listen client_id (il_sequence_number_start payload) (qs_queues s) of
             (stream, q) \<Rightarrow> (Ok stream, s\<lparr> qs_queues := q \<rparr>)) (\<lambda>(cancel, stream_context).
         andThen (ignoring (update_client_activity io client_id)) (\<lambda>_.
         return_with (client_id, cancel, stream_context)))))))
     | _ \<Rightarrow> fail_with failed_precondition))"

datatype process_listen_queue_request_error =
  ListenQueueError queue_error | UnexpectedInitRequest | ListenStatus status | EmptyRequest

fun listen_request_status :: "process_listen_queue_request_error \<Rightarrow> status" where
  "listen_request_status (ListenQueueError _) = internal"
| "listen_request_status (ListenStatus _) = internal"
| "listen_request_status UnexpectedInitRequest = invalid_argument"
| "listen_request_status EmptyRequest = invalid_argument"

definition Queues_ack :: "bool \<Rightarrow> qs_client_id \<Rightarrow> u64 \<Rightarrow> (qs_state, queue_error, unit) attempt" where
  "Queues_ack ok queue_id up_to_sequence_number = converting (\<lambda>_. QueueStorage) (query ok (modify_with (\<lambda>s.
     s\<lparr> qs_queue_rows := Queue_delete queue_id up_to_sequence_number (qs_queue_rows s) \<rparr>)))"

definition trigger_fetch :: "bool \<Rightarrow> qs_client_id \<Rightarrow> (qs_state, queue_error, unit) attempt" where
  "trigger_fetch ok queue_id = converting (\<lambda>_. QueueStorage) (pg_notify ok queue_id)"

definition process_listen_queue_request :: "bool \<Rightarrow> qs_client_id \<Rightarrow> status + listen_request \<Rightarrow>
    (qs_state, process_listen_queue_request_error, unit) attempt" where
  "process_listen_queue_request ok queue_id request =
     andThen (try_with (map_err ListenStatus request)) (\<lambda>request.
     case request of
       ListenAck up_to_sequence_number \<Rightarrow>
         converting ListenQueueError (Queues_ack ok queue_id up_to_sequence_number)
     | ListenFetch \<Rightarrow> converting ListenQueueError (trigger_fetch ok queue_id)
     | ListenInit _ \<Rightarrow> fail_with UnexpectedInitRequest
     | ListenEmpty \<Rightarrow> fail_with EmptyRequest)"

text \<open>
  The task that serves the rest of the incoming stream returns the statuses it reports; \<open>broken_pipe\<close>
  says which transport errors only mean that the client has closed the connection.
\<close>

fun process_listen_queue_requests :: "(status \<Rightarrow> bool) \<Rightarrow> qs_client_id \<Rightarrow>
    (bool \<times> (status + listen_request)) list \<Rightarrow> qs_state \<Rightarrow> status list \<times> qs_state" where
  "process_listen_queue_requests broken_pipe queue_id [] s = ([], s)"
| "process_listen_queue_requests broken_pipe queue_id ((ok, request) # requests) s =
     (case process_listen_queue_request ok queue_id request s of
        (Ok _, s') \<Rightarrow> process_listen_queue_requests broken_pipe queue_id requests s'
      | (Err e, s') \<Rightarrow>
          (case process_listen_queue_requests broken_pipe queue_id requests s' of
             (reported, s'') \<Rightarrow>
               if (case e of ListenStatus st \<Rightarrow> st_code st = Unknown \<and> broken_pipe st | _ \<Rightarrow> False)
               then (reported, s'') else (listen_request_status e # reported, s'')))"

end
