(* ===== verification/Qs_Invariant.thy ===== *)
theory Qs_Invariant
  imports Qs_Handlers "HOL-Library.Multiset"
begin

text \<open>
  The database of the queue service stays consistent under every request, whether it succeeds, is
  refused or fails half-way: ids and friendship tokens are unique, every client has a user, every key
  package a client, and a queue has one message per sequence number.

  The locale \<open>package_store\<close> is what the two kinds of key packages share: a table of their own that can
  be read and written without touching the rest.
\<close>

declare map_of_eq_Some_iff [simp del] Some_eq_map_of_iff [simp del]


section \<open>The invariant\<close>

definition packages_ok :: "qs_state \<Rightarrow> key_package_table \<Rightarrow> bool" where
  "packages_ok s t =
     (distinct (map kr_id (kt_rows t))
      \<and> (\<forall>r \<in> set (kt_rows t). kr_id r < kt_next_id t \<and> map_of (qs_clients s) (kr_client_id r) \<noteq> None))"

definition qs_consistent :: "qs_state \<Rightarrow> bool" where
  "qs_consistent s =
     (distinct (map fst (qs_users s)) \<and> distinct (map fst (qs_clients s))
      \<and> (\<forall>u r u' r'. map_of (qs_users s) u = Some r \<longrightarrow> map_of (qs_users s) u' = Some r' \<longrightarrow>
           ur_friendship_token r = ur_friendship_token r' \<longrightarrow> u = u')
      \<and> (\<forall>c row. map_of (qs_clients s) c = Some row \<longrightarrow> map_of (qs_users s) (row_user_id row) \<noteq> None)
      \<and> packages_ok s (qs_key_packages s) \<and> packages_ok s (qs_apq_key_packages s)
      \<and> distinct (map (\<lambda>r. (qw_queue_id r, qw_sequence_number r)) (qs_queue_rows s)))"

text \<open>The numbers the identity columns hand out only grow, also across a transaction that fails.\<close>

definition qs_inv :: "nat \<Rightarrow> nat \<Rightarrow> qs_state \<Rightarrow> bool" where
  "qs_inv n k s =
     (qs_consistent s \<and> n \<le> kt_next_id (qs_key_packages s) \<and> k \<le> kt_next_id (qs_apq_key_packages s))"

lemmas consistent_defs = qs_inv_def qs_consistent_def packages_ok_def

lemma map_of_filter_snd:
  "distinct (map fst xs) \<Longrightarrow>
   map_of (filter (\<lambda>(_, v). P v) xs) k = Option.bind (map_of xs k) (\<lambda>v. if P v then Some v else None)"
  by (induction xs) (auto simp: map_of_eq_None_iff image_iff split: option.split bind_split)

lemma packages_ok_insert:
  assumes "packages_ok s t" "map_of (qs_clients s) c \<noteq> None"
  shows "packages_ok s (insert_packages c lr blobs t)"
proof -
  define rows where "rows = map (\<lambda>(i, blob). \<lparr> kr_id = kt_next_id t + i, kr_client_id = c,
    kr_key_package = blob, kr_is_last_resort = lr \<rparr>) (enumerate 0 blobs)"
  have "map kr_id rows = map (\<lambda>i. kt_next_id t + i) (map fst (enumerate 0 blobs))"
    by (simp add: rows_def comp_def case_prod_unfold del: map_fst_enumerate)
  then have ids: "map kr_id rows = map (\<lambda>i. kt_next_id t + i) [0..<length blobs]"
    by (simp only: map_fst_enumerate add_0)
  have "distinct (map kr_id rows)" unfolding ids by (simp add: distinct_map)
  moreover have bounds: "kt_next_id t \<le> kr_id r" "kr_id r < kt_next_id t + length blobs" if "r \<in> set rows" for r
  proof -
    from that have "kr_id r \<in> set (map kr_id rows)" by simp
    then show "kt_next_id t \<le> kr_id r" "kr_id r < kt_next_id t + length blobs" unfolding ids by auto
  qed
  moreover have "kr_client_id r = c" if "r \<in> set rows" for r
    using that by (auto simp: rows_def)
  moreover have "kr_id ` set (kt_rows t) \<inter> kr_id ` set rows = {}"
    using assms(1) bounds(1) by (fastforce simp: packages_ok_def)
  ultimately show ?thesis
    using assms by (auto simp: packages_ok_def insert_packages_def rows_def[symmetric] trans_less_add1)
qed

lemma insert_packages_next_id [simp]: "kt_next_id (insert_packages c lr blobs t) = kt_next_id t + length blobs"
  by (simp add: insert_packages_def)

lemma token_taken_iff:
  "distinct (map fst users) \<Longrightarrow>
   token_taken token users \<longleftrightarrow> (\<exists>u r. map_of users u = Some r \<and> ur_friendship_token r = token)"
  by (auto simp: token_taken_def list_ex_iff map_of_eq_Some_iff)

lemma distinct_update [simp]: "distinct (map fst xs) \<Longrightarrow> distinct (map fst (AList.update k v xs))"
  by (rule distinct_update)

lemma distinct_delete [simp]: "distinct (map fst xs) \<Longrightarrow> distinct (map fst (AList.delete k xs))"
  by (rule distinct_delete)

lemma keeps_query [keep_rules]: "keeps I body \<Longrightarrow> keeps I (query ok body)"
  by (simp add: query_def keeps_pure(3))

lemma qs_inv_transaction [keep_rules]:
  assumes "\<And>n k. keeps (qs_inv n k) m"
  shows "keeps (qs_inv n k) (transaction restore_qs_db m)"
proof (rule keepsI)
  fix s
  assume s: "qs_inv n k s"
  obtain r s' where m: "m s = (r, s')" by (cases "m s")
  let ?n = "kt_next_id (qs_key_packages s)" and ?k = "kt_next_id (qs_apq_key_packages s)"
  have "qs_inv ?n ?k s" using s by (simp add: qs_inv_def)
  from keepsD[OF assms this] m have "qs_inv ?n ?k s'" by simp
  with s have "qs_inv n k s'" "qs_inv n k (restore_qs_db s s')"
    by (auto simp: consistent_defs restore_qs_db_def restore_table_def dest: order_less_le_trans)
  then show "qs_inv n k (snd (transaction restore_qs_db m s))"
    using m by (simp add: transaction_def split: sum.split)
qed


section \<open>Kinds of key packages\<close>

locale package_store =
  fixes ks :: "'kp storable"
  assumes get_put: "ks_table ks (ks_put_table ks t s) = t"
    and put_clients: "qs_clients (ks_put_table ks t s) = qs_clients s"
    and put_users: "qs_users (ks_put_table ks t s) = qs_users s"
    and put_rows: "qs_queue_rows (ks_put_table ks t s) = qs_queue_rows s"
    and put_queues: "qs_queues (ks_put_table ks t s) = qs_queues s"
    and table_ok: "qs_inv n k s \<Longrightarrow> packages_ok s (ks_table ks s)"
    and put_inv: "qs_inv n k s \<Longrightarrow> packages_ok s t \<Longrightarrow> kt_next_id (ks_table ks s) \<le> kt_next_id t \<Longrightarrow>
      qs_inv n k (ks_put_table ks t s)"
    and restored: "kt_rows (ks_table ks (restore_qs_db s s')) = kt_rows (ks_table ks s)"
begin

lemmas put_simps = get_put put_clients put_users put_rows put_queues

text \<open>
  A successful retrieval returns a key package of one of the user's clients.  A one-time package leaves
  the table, and so does one of every other client of the user that has any.
\<close>

lemma take_Ok:
  assumes "take_user_key_package ks ok pick first token snapshot s = (Ok kp, s')"
  defines "selected \<equiv> selected_key_packages pick (user_client_ids token snapshot) (kt_rows (ks_table ks snapshot))"
  shows "ok" "selected \<noteq> []" "ks_decoded ks (kr_key_package (first selected)) = Ok kp"
    and "s' = ks_put_table ks (delete_selected selected (ks_table ks s)) s"
  using assms(1)
  by (auto simp: take_user_key_package_def selected_def[symmetric] query_def Let_def action_simps result_simps
      split: if_splits)

lemma take_keeps [keep_rules]: "keeps (qs_inv n k) (take_user_key_package ks ok pick first token snapshot)"
  unfolding take_user_key_package_def Let_def
  by (intro keep_rules keeps_modify put_inv)
    (auto dest!: table_ok simp: packages_ok_def delete_selected_def distinct_map_filter)

lemma load_keeps [keep_rules]: "keeps (qs_inv n k) (load_user_key_package ks b q c pick first token)"
  unfolding load_user_key_package_def
  by (intro keep_rules keepsI keepsD[OF take_keeps])

lemma replace_keeps [keep_rules]: "keeps (qs_inv n k) (replace_multiple_internal ks d i c kps lr)"
proof -
  have delete: "keeps (qs_inv n k) (modify_with (\<lambda>s. ks_put_table ks ((ks_table ks s)\<lparr>
      kt_rows := filter P (kt_rows (ks_table ks s)) \<rparr>) s))" for P
    by (intro keeps_modify put_inv) (auto dest!: table_ok simp: packages_ok_def distinct_map_filter)
  have insert: "keeps (qs_inv n k) (\<lambda>s. if map_of (qs_clients s) c = None then fail_with StorageDatabase s
      else modify_with (\<lambda>s. ks_put_table ks (insert_packages c lr blobs (ks_table ks s)) s) s)" for blobs
    by (rule keepsI) (auto simp: action_simps intro!: put_inv packages_ok_insert intro: table_ok)
  show ?thesis
    unfolding replace_multiple_internal_def by (intro keep_rules delete insert)
qed

lemma load_Ok:
  assumes "load_user_key_package ks b q c pick first token s = (Ok kp, s')"
  shows "take_user_key_package ks q pick first token s s = (Ok kp, s')"
  using assms by (auto simp: load_user_key_package_def action_simps result_simps)

end

interpretation kp: package_store "KeyPackage_storable ser de" for ser :: "'kp \<Rightarrow> unit + bytes" and de
  by unfold_locales (auto simp: KeyPackage_storable_def restore_qs_db_def restore_table_def consistent_defs)

interpretation apq: package_store "ApqKeyPackage_storable ser de" for ser :: "'kp \<Rightarrow> unit + bytes" and de
  by unfold_locales (auto simp: ApqKeyPackage_storable_def restore_qs_db_def restore_table_def consistent_defs)

lemma in_selected:
  assumes "r \<in> set (selected_key_packages pick ids rows)" "\<And>rs. rs \<noteq> [] \<Longrightarrow> pick rs \<in> set rs"
  shows "r \<in> set rows" "kr_client_id r \<in> set ids"
proof -
  from assms(1) obtain c where c: "c \<in> set ids" "best_ranked pick (filter (\<lambda>r. kr_client_id r = c) rows) = Some r"
    by (auto simp: selected_key_packages_def set_map_filter)
  let ?rs = "filter (\<lambda>r. kr_client_id r = c) rows"
  have "r \<in> set ?rs"
    using c(2) assms(2)[of ?rs] assms(2)[of "filter (\<lambda>r. \<not> kr_is_last_resort r) ?rs"]
    by (auto simp: best_ranked_def Let_def split: if_splits)
  with c(1) show "r \<in> set rows" "kr_client_id r \<in> set ids" by auto
qed


section \<open>Operations\<close>

lemma UserRecord_store_keeps [keep_rules]: "keeps (qs_inv n k) (UserRecord_store ok user_id r)"
  unfolding UserRecord_store_def
  by (intro keep_rules keepsI)
    (auto simp: consistent_defs action_simps token_taken_iff update_conv split: if_splits, blast)

lemma UserRecord_update_keeps [keep_rules]: "keeps (qs_inv n k) (UserRecord_update ok user_id r)"
  unfolding UserRecord_update_def
  by (intro keep_rules keepsI)
    (auto simp: consistent_defs action_simps token_taken_iff update_conv delete_conv split: if_splits)

lemma QsClientRecord_store_keeps [keep_rules]: "keeps (qs_inv n k) (QsClientRecord_store ok client_id r)"
  unfolding QsClientRecord_store_def
  by (intro keep_rules keepsI) (auto simp: consistent_defs action_simps update_conv split: if_splits)

text \<open>A row of an existing client replaced by another one of the same user.\<close>

lemma qs_inv_update_row:
  assumes "qs_inv n k s" "map_of (qs_clients s) c = Some row" "row_user_id row' = row_user_id row"
  shows "qs_inv n k (s\<lparr> qs_clients := AList.update c row' (qs_clients s) \<rparr>)"
  using assms by (auto simp: consistent_defs update_conv split: if_splits)

lemma active_client_Some_iff:
  "active_client s c = Some r \<longleftrightarrow> map_of (qs_clients s) c = Some (Active r)"
  by (cases "map_of (qs_clients s) c"; cases "the (map_of (qs_clients s) c)") (auto simp: active_client_def)

lemma update_active_keeps:
  "(\<And>r. cr_user_id (change r) = cr_user_id r) \<Longrightarrow> keeps (qs_inv n k) (update_active ok client_id change)"
  unfolding update_active_def
  by (intro keep_rules keeps_modify)
    (auto simp: active_client_Some_iff intro: qs_inv_update_row split: option.split)

lemma client_updates_keep [keep_rules]:
  "keeps (qs_inv n k) (update_activity_time ok c t)" "keeps (qs_inv n k) (update_queue_ratchet ok c ratchet)"
  "keeps (qs_inv n k) (QsClientRecord_update ok c r)" "keeps (qs_inv n k) (delete_push_token ok c r)"
  unfolding update_activity_time_def update_queue_ratchet_def QsClientRecord_update_def delete_push_token_def
  by (auto intro!: update_active_keeps keep_rules)

lemma packages_ok_delete:
  "packages_ok s t \<Longrightarrow> (\<And>c. c \<notin> ids \<Longrightarrow> map_of (qs_clients s) c \<noteq> None \<Longrightarrow> map_of (qs_clients s') c \<noteq> None) \<Longrightarrow>
   packages_ok s' (delete_packages_of ids t)"
  by (auto simp: packages_ok_def delete_packages_of_def distinct_map_filter)

lemma delete_packages_next_id [simp]: "kt_next_id (delete_packages_of ids t) = kt_next_id t"
  by (simp add: delete_packages_of_def)

lemma soft_delete_keeps [keep_rules]: "keeps (qs_inv n k) (soft_delete ok now c)"
  unfolding soft_delete_def
  by (intro keep_rules keeps_modify)
    (auto simp: qs_inv_def qs_consistent_def update_conv intro!: packages_ok_delete split: option.split if_splits)

lemma UserRecord_delete_keeps [keep_rules]: "keeps (qs_inv n k) (UserRecord_delete ok user_id)"
  unfolding UserRecord_delete_def Let_def
proof (intro keep_rules keeps_modify)
  fix s :: qs_state
  let ?gone = "set (map fst (filter (\<lambda>(_, row). row_user_id row = user_id) (qs_clients s)))"
  let ?clients = "filter (\<lambda>(_, row). row_user_id row \<noteq> user_id) (qs_clients s)"
  assume s: "qs_inv n k s"
  then have d: "distinct (map fst (qs_clients s))" by (simp add: consistent_defs)
  have gone: "c \<in> ?gone \<longleftrightarrow> (\<exists>row. map_of (qs_clients s) c = Some row \<and> row_user_id row = user_id)" for c
    using d by (auto simp: map_of_eq_Some_iff image_iff)
  have left: "map_of ?clients c = Some row \<longleftrightarrow> map_of (qs_clients s) c = Some row \<and> row_user_id row \<noteq> user_id" for c row
    using map_of_filter_snd[OF d, of "\<lambda>row. row_user_id row \<noteq> user_id" c]
    by (auto split: bind_splits if_splits)
  have packages: "packages_ok s t \<Longrightarrow> packages_ok (s\<lparr> qs_users := us, qs_clients := ?clients, qs_key_packages := a,
      qs_apq_key_packages := b \<rparr>) (delete_packages_of ?gone t)" for t us a b
    by (rule packages_ok_delete, assumption) (use gone left in force)
  show "qs_inv n k (s\<lparr> qs_users := AList.delete user_id (qs_users s), qs_clients := ?clients,
      qs_key_packages := delete_packages_of ?gone (qs_key_packages s),
      qs_apq_key_packages := delete_packages_of ?gone (qs_apq_key_packages s) \<rparr>)"
    using s packages left d
    by (auto simp: qs_inv_def qs_consistent_def delete_conv distinct_map_filter)
qed


lemma pg_notify_keeps [keep_rules]: "keeps (qs_inv n k) (pg_notify ok c)"
  unfolding pg_notify_def by (intro keep_rules keeps_modify) (simp add: consistent_defs)

lemma Queues_enqueue_keeps [keep_rules]: "keeps (qs_inv n k) (Queues_enqueue sv io c m)"
  unfolding Queues_enqueue_def
proof (intro keep_rules keepsI)
  fix s
  assume s: "qs_inv n k s"
  show "qs_inv n k (snd (case Queue_enqueue (qv_message_enc sv) (e_insert io) c m (qs_queue_rows s) of
      Err e \<Rightarrow> (Err e, s) | Ok rows \<Rightarrow> (Ok (), s\<lparr> qs_queue_rows := rows \<rparr>)))"
  proof (cases "Queue_enqueue (qv_message_enc sv) (e_insert io) c m (qs_queue_rows s)")
    case (Inr rows)
    then show ?thesis
      using s by (auto simp: consistent_defs Queue_enqueue_def Let_def result_simps list_ex_iff, blast)
  qed (use s in simp)
qed

lemma do_enqueue_keeps [keep_rules]: "keeps (qs_inv n k) (do_enqueue sv io c p)"
  unfolding do_enqueue_def load_for_update_def by (intro keep_rules)

lemma outbox_keeps:
  "keeps (qs_inv n k) (modify_with (\<lambda>s. s\<lparr> qs_pushed := f s \<rparr>))"
  "keeps (qs_inv n k) (modify_with (\<lambda>s. s\<lparr> qs_events := g s \<rparr>))"
  "keeps (qs_inv n k) (modify_with (\<lambda>s. s\<lparr> qs_delivered := h s \<rparr>))"
  by (intro keeps_modify; simp add: consistent_defs)+

lemma push_notification_keeps [keep_rules]: "keeps (qs_inv n k) (push_notification sv io c r key)"
  unfolding push_notification_def
  by (auto intro!: keep_rules outbox_keeps split: option.split sum.split push_notification_error.split)

lemma enqueue_keeps [keep_rules]: "keeps (qs_inv n k) (QsClientRecord_enqueue sv io c p key)"
proof (cases p)
  case (EventMessage ev)
  have "keeps (qs_inv n k) (\<lambda>s. (map_err (\<lambda>_. EnqueueStorage) (send_payload (e_channel io) (qs_queues s) c), s))"
    by (rule keepsI) simp
  with EventMessage show ?thesis
    unfolding QsClientRecord_enqueue_def by (auto intro!: keep_rules outbox_keeps)
qed (auto simp: QsClientRecord_enqueue_def intro!: keep_rules)

lemma enqueue_message_keeps [keep_rules]: "keeps (qs_inv n k) (enqueue_message sv io message)"
  unfolding enqueue_message_def deliver_remote_def recipient_ids_def load_client_ids_def DecryptionKey_load_def Let_def
  by (intro keep_rules outbox_keeps)

lemma process_federated_message_keeps [keep_rules]: "keeps (qs_inv n k) (process_federated_message sv io message)"
  unfolding process_federated_message_def by (cases "qt_payload message") (auto intro: keep_rules)

lemma records_keep [keep_rules]:
  "keeps (qs_inv n k) (qs_create_client_record sv io ccp)" "keeps (qs_inv n k) (qs_create_user_record sv io cup)"
  "keeps (qs_inv n k) (qs_update_client_record io c ak ek pt)" "keeps (qs_inv n k) (qs_delete_client_record io c)"
  "keeps (qs_inv n k) (qs_update_user_record io u vk tok)" "keeps (qs_inv n k) (qs_delete_user_record io u)"
  unfolding qs_create_client_record_def qs_create_user_record_def qs_update_client_record_def
    qs_delete_client_record_def qs_update_user_record_def qs_delete_user_record_def
    QsClientRecord_new_and_store_def UserRecord_new_and_store_def load_for_update_def UserRecord_load_def
  by (intro keep_rules)+

lemma verify_auth_keeps [keep_rules]:
  "keeps (qs_inv n k) (verify_user_auth sv io label user_of request)"
  "keeps (qs_inv n k) (verify_client_auth sv io label client_of unverified request')"
  unfolding verify_user_auth_def verify_client_auth_def verify_auth_def
    UserRecord_load_verifying_key_def QsClientRecord_load_verifying_key_def
  by (intro keep_rules)+

lemma packages_keep [keep_rules]:
  "keeps (qs_inv n k) (qs_publish_key_packages sv io c kps)"
  "keeps (qs_inv n k) (qs_publish_apq_key_packages sv io c akps)"
  "keeps (qs_inv n k) (qs_key_package sv io token)" "keeps (qs_inv n k) (qs_apq_key_package sv io token)"
  "keeps (qs_inv n k) (qs_encryption_key sv io)"
  unfolding qs_publish_key_packages_def qs_publish_apq_key_packages_def qs_key_package_def qs_apq_key_package_def
    retrieve_key_package_def publish_verified_def qs_encryption_key_def DecryptionKey_load_def
  by (intro keep_rules kp.replace_keeps kp.load_keeps apq.replace_keeps apq.load_keeps)+

lemma listening_keeps [keep_rules]:
  "keeps (qs_inv n k) (update_client_activity io c)" "keeps (qs_inv n k) (Queues_ack ok c i)"
  "keeps (qs_inv n k) (trigger_fetch ok c)"
  unfolding update_client_activity_def Queues_ack_def trigger_fetch_def
  by (intro keep_rules keeps_modify;
      simp add: consistent_defs Queue_delete_def distinct_map_filter)+

lemma open_stream_keeps [keep_rules]:
  "keeps (qs_inv n k) (\<lambda>s. case Queues_listen c i (qs_queues s) of (st, q) \<Rightarrow> (Ok st, s\<lparr> qs_queues := q \<rparr>))"
  by (rule keepsI) (simp add: consistent_defs split: prod.split)

end
