(* ===== verification/Qs_System.thy ===== *)
theory Qs_System
  imports Qs_Invariant
begin

text \<open>
  What the queue service promises over any sequence of requests.  \<open>qs_step\<close> is one request, with the
  payload it may add to queues; \<open>mailbox\<close> is what a client can read: the payloads that were accepted for
  it, in order, from the ratchet it was created with.
\<close>

section \<open>Steps\<close>

text \<open>The database returns the rows of a query in some order, and picks among the rows it has.\<close>

definition db_honest :: "qs_io \<Rightarrow> bool" where
  "db_honest io =
     ((\<forall>ids. mset (q_order io ids) = mset ids)
      \<and> (\<forall>rows. rows \<noteq> [] \<longrightarrow> q_pick io rows \<in> set rows \<and> q_first io rows \<in> set rows))"

fun queued_payload :: "ds_fan_out_payload \<Rightarrow> qs_queue_message_payload option" where
  "queued_payload (QueueMessage p) = Some p"
| "queued_payload (EventMessage _) = None"

inductive qs_step :: "('ki, 'kp, 'z) qs_service_scheme \<Rightarrow> qs_state \<Rightarrow> qs_queue_message_payload option \<Rightarrow>
    qs_state \<Rightarrow> bool"
  for sv
where
  step_create_user: "qs_step sv s None (snd (create_user_handler sv io create_user s))"
| step_update_user: "qs_step sv s None (snd (update_user_handler sv io update_user s))"
| step_delete_user: "qs_step sv s None (snd (delete_user_handler sv io delete_user s))"
| step_create_client: "qs_step sv s None (snd (create_client_handler sv io create_client s))"
| step_update_client: "qs_step sv s None (snd (update_client_handler sv io update_client s))"
| step_delete_client: "qs_step sv s None (snd (delete_client_handler sv io delete_client s))"
| step_publish: "qs_step sv s None (snd (publish_key_packages_handler sv io publish s))"
| step_publish_apq: "qs_step sv s None (snd (publish_apq_key_packages_handler sv io publish_apq s))"
| step_key_package: "db_honest io \<Longrightarrow> qs_step sv s None (snd (key_package_handler sv io request s))"
| step_apq_key_package: "db_honest io \<Longrightarrow> qs_step sv s None (snd (apq_key_package_handler sv io request s))"
| step_encryption_key: "qs_step sv s None (snd (encryption_key_handler sv io metadata s))"
| step_listen: "qs_step sv s None (snd (listen_handler sv io initial s))"
| step_listen_requests: "qs_step sv s None (snd (process_listen_queue_requests broken_pipe c requests s))"
| step_drop_stream: "qs_step sv s None (s\<lparr> qs_queues := drop_stream t (qs_queues s) \<rparr>)"
| step_enqueue: "db_honest io \<Longrightarrow>
    qs_step sv s (queued_payload (fo_payload message)) (snd (enqueue_message sv io message s))"
| step_federated: "db_honest io \<Longrightarrow> qt_payload federated = FanOutMessageRequest message \<Longrightarrow>
    qs_step sv s (queued_payload (fo_payload message)) (snd (process_federated_message sv io federated s))"

definition qs_start :: "qs_state \<Rightarrow> bool" where
  "qs_start s =
     (qs_users s = [] \<and> qs_clients s = [] \<and> qs_queue_rows s = [] \<and> kt_rows (qs_key_packages s) = []
      \<and> kt_rows (qs_apq_key_packages s) = [] \<and> qs_queues s = empty_queues)"


section \<open>Consistency\<close>

lemma process_requests_keeps:
  "qs_inv n k s \<Longrightarrow> qs_inv n k (snd (process_listen_queue_requests broken_pipe c requests s))"
proof (induction requests arbitrary: s)
  case (Cons rq requests)
  obtain ok request where rq: "rq = (ok, request)" by (cases rq)
  have "keeps (qs_inv n k) (process_listen_queue_request ok c request)"
    unfolding process_listen_queue_request_def
    by (intro keep_rules) (auto intro: keep_rules split: listen_request.split)
  from keepsD[OF this Cons.prems] Cons.IH show ?case
    by (auto simp: rq split: sum.split prod.split) (metis snd_conv)+
qed simp

lemma qs_step_keeps: "qs_step sv s l t \<Longrightarrow> qs_inv n k s \<Longrightarrow> qs_inv n k t"
proof (induction rule: qs_step.induct)
  case (step_drop_stream s t)
  then show ?case by (simp add: consistent_defs)
next
  case (step_listen s io initial)
  have "keeps (qs_inv n k) (listen_handler sv io initial)"
    unfolding listen_handler_def
    by (intro keep_rules) (auto intro!: keep_rules split: listen_request.split)
  then show ?case using step_listen by (rule keepsD)
next
  case (step_listen_requests s broken_pipe c requests)
  then show ?case by (rule process_requests_keeps)
qed (erule keepsD[rotated];
     auto simp: create_user_handler_def update_user_handler_def delete_user_handler_def create_client_handler_def
       update_client_handler_def delete_client_handler_def publish_key_packages_handler_def
       publish_apq_key_packages_handler_def key_package_handler_def apq_key_package_handler_def
       encryption_key_handler_def intro!: keep_rules)+

definition qs_moves :: "('ki, 'kp, 'z) qs_service_scheme \<Rightarrow> qs_state \<Rightarrow> qs_state \<Rightarrow> bool" where
  "qs_moves sv s t = (\<exists>l. qs_step sv s l t)"

interpretation qi: invariant_system qs_start "qs_moves sv" qs_consistent for sv
proof unfold_locales
  fix s t
  assume "qs_consistent s" "qs_moves sv s t"
  then show "qs_consistent t"
    using qs_step_keeps[of sv s _ t 0 0] by (auto simp: qs_moves_def qs_inv_def)
qed (simp add: qs_start_def qs_consistent_def packages_ok_def)


section \<open>What a client can read\<close>

text \<open>
  From the ratchet it starts with, the client \<open>c\<close> decrypts the messages of its queue to the payloads
  \<open>ps\<close>; the table still has those from a position on, and the ratchet of the service stands where the
  client's will stand after reading them all.
\<close>

definition mail_log :: "('ki, 'kp, 'z) qs_service_scheme \<Rightarrow> (bytes \<Rightarrow> unit + qs_queue_message_payload) \<Rightarrow>
    queue_row list \<Rightarrow> qs_client_id \<Rightarrow> queue_ratchet \<Rightarrow> qs_queue_message_payload list \<Rightarrow> queue_ratchet \<Rightarrow> bool" where
  "mail_log sv payload_de rows c r0 ps r' =
     (\<exists>lo ms. queue_holds (qv_message_enc sv) rows c lo ms
        \<and> decrypt_all (qv_kdf sv) (decrypt payload_de (qv_aes_dec sv)) ms r0 = Ok (ps, r'))"

definition mailbox :: "('ki, 'kp, 'z) qs_service_scheme \<Rightarrow> (bytes \<Rightarrow> unit + qs_queue_message_payload) \<Rightarrow>
    qs_client_id \<Rightarrow> queue_ratchet \<Rightarrow> qs_queue_message_payload list \<Rightarrow> qs_state \<Rightarrow> bool" where
  "mailbox sv payload_de c r0 ps s =
     (sequence_number r0 = 0
      \<and> (\<exists>r' row. mail_log sv payload_de (qs_queue_rows s) c r0 ps r' \<and> map_of (qs_clients s) c = Some row
           \<and> (\<forall>r. active_row row = Some r \<longrightarrow> cr_ratchet_key r = r')))"

lemma mailbox_cong:
  "qs_queue_rows t = qs_queue_rows s \<Longrightarrow> map_of (qs_clients t) c = map_of (qs_clients s) c \<Longrightarrow>
   mailbox sv de c r0 ps t \<longleftrightarrow> mailbox sv de c r0 ps s"
  by (simp add: mailbox_def)

lemma mailbox_transaction [keep_rules]:
  "keeps (mailbox sv de c r0 ps) m \<Longrightarrow> keeps (mailbox sv de c r0 ps) (transaction restore_qs_db m)"
  by (erule keeps_transaction) (simp add: mailbox_def restore_qs_db_def)

lemma mailbox_user_ops [keep_rules]:
  "keeps (mailbox sv de c r0 ps) (UserRecord_store ok u r)" "keeps (mailbox sv de c r0 ps) (UserRecord_update ok u r)"
  unfolding UserRecord_store_def UserRecord_update_def
  by (intro keep_rules keepsI; auto simp: action_simps mailbox_def)+

lemma mailbox_client_store [keep_rules]: "keeps (mailbox sv de c r0 ps) (QsClientRecord_store ok c' r)"
  unfolding QsClientRecord_store_def
  by (intro keep_rules keepsI) (auto simp: action_simps mailbox_def update_conv)

lemma mailbox_update_active:
  assumes "\<And>r. c' = c \<Longrightarrow> cr_ratchet_key (change r) = cr_ratchet_key r"
  shows "keeps (mailbox sv de c r0 ps) (update_active ok c' change)"
  unfolding update_active_def
  using assms by (intro keep_rules keeps_modify)
    (auto simp: mailbox_def update_conv active_client_Some_iff split: option.split)

lemma mailbox_client_ops [keep_rules]:
  "keeps (mailbox sv de c r0 ps) (update_activity_time ok c' t)"
  "keeps (mailbox sv de c r0 ps) (delete_push_token ok c' r)"
  "keeps (mailbox sv de c r0 ps) (soft_delete ok now c')"
  "c' \<noteq> c \<Longrightarrow> keeps (mailbox sv de c r0 ps) (update_queue_ratchet ok c' ratchet)"
  unfolding update_activity_time_def delete_push_token_def soft_delete_def update_queue_ratchet_def
  by (auto intro!: mailbox_update_active keep_rules keeps_modify simp: mailbox_def update_conv split: option.split)

lemma mailbox_update_client [keep_rules]: "keeps (mailbox sv de c r0 ps) (qs_update_client_record io c' ak ek pt)"
proof -
  have "mailbox sv de c r0 ps t"
    if "QsClientRecord_update ok c' (r\<lparr> cr_auth_key := ak, cr_queue_encryption_key := ek,
      cr_encrypted_push_token := pt \<rparr>) s = (x, t)" "mailbox sv de c r0 ps s" "active_client s c' = Some r" for ok s t r x
    using that(1,2) iffD1[OF active_client_Some_iff that(3)] unfolding QsClientRecord_update_def update_active_def
    by (auto simp: query_def action_simps mailbox_def update_conv that(3) split: if_splits)
  then show ?thesis
    unfolding qs_update_client_record_def
    by (intro mailbox_transaction keepsI)
      (auto simp: andThen_def converting_def load_for_update_def query_def action_simps ensure_def result_simps
        split: option.split sum.split prod.split)
qed

lemma mailbox_outbox [keep_rules]:
  "keeps (mailbox sv de c r0 ps) (modify_with (\<lambda>s. s\<lparr> qs_pushed := f s \<rparr>))"
  "keeps (mailbox sv de c r0 ps) (modify_with (\<lambda>s. s\<lparr> qs_events := g s \<rparr>))"
  "keeps (mailbox sv de c r0 ps) (modify_with (\<lambda>s. s\<lparr> qs_delivered := h s \<rparr>))"
  "keeps (mailbox sv de c r0 ps) (modify_with (\<lambda>s. s\<lparr> qs_notified := k s \<rparr>))"
  by (intro keeps_modify; simp add: mailbox_def)+

context package_store
begin

lemma mailbox_packages [keep_rules]:
  "keeps (mailbox sv de c r0 ps) (replace_multiple_internal ks d i c' kps lr)"
  "keeps (mailbox sv de c r0 ps) (load_user_key_package ks b q e pick first token)"
proof -
  have put: "keeps (mailbox sv de c r0 ps) (modify_with (\<lambda>s. ks_put_table ks (f s) s))" for f
    by (rule keeps_modify) (simp add: mailbox_def put_simps)
  have "keeps (mailbox sv de c r0 ps) (\<lambda>s. if map_of (qs_clients s) c' = None then fail_with StorageDatabase s
      else modify_with (\<lambda>s. ks_put_table ks (f s) s) s)" for f
    by (rule keepsI) (auto simp: action_simps mailbox_def put_simps)
  then show "keeps (mailbox sv de c r0 ps) (replace_multiple_internal ks d i c' kps lr)"
    unfolding replace_multiple_internal_def by (intro keep_rules put)
  have "keeps (mailbox sv de c r0 ps) (take_user_key_package ks q pick first token snapshot)" for snapshot
    unfolding take_user_key_package_def Let_def by (intro keep_rules put)
  then show "keeps (mailbox sv de c r0 ps) (load_user_key_package ks b q e pick first token)"
    unfolding load_user_key_package_def
    by (intro keep_rules keepsI) (rule keepsD)
qed

end

lemma mail_log_delete: "mail_log sv de rows c r0 ps r' \<Longrightarrow> mail_log sv de (Queue_delete c' n rows) c r0 ps r'"
  unfolding mail_log_def
  by (cases "c' = c") (metis Queue_delete_any, metis Queue_delete_other)

lemma mailbox_ack [keep_rules]: "keeps (mailbox sv de c r0 ps) (Queues_ack ok c' n)"
  unfolding Queues_ack_def
  by (intro keep_rules keeps_modify) (auto simp: mailbox_def intro: mail_log_delete)


section \<open>Enqueuing\<close>

text \<open>What the queue service relies on to be readable: its cipher and the coding of the payloads.\<close>

definition mail_crypto :: "('ki, 'kp, 'z) qs_service_scheme \<Rightarrow> (bytes \<Rightarrow> unit + qs_queue_message_payload) \<Rightarrow> bool" where
  "mail_crypto sv payload_de =
     (aead_correct (qv_aes_enc sv) (qv_aes_dec sv) \<and> codec_correct (qv_payload_ser sv) payload_de)"

lemma active_client_simps [simp]:
  "active_client (s\<lparr> qs_queue_rows := a \<rparr>) c = active_client s c"
  "active_client (s\<lparr> qs_notified := b \<rparr>) c = active_client s c"
  by (simp_all add: active_client_def)

definition enqueue_works :: "enqueue_io \<Rightarrow> bool" where
  "enqueue_works io = (e_begin io \<and> e_load io \<and> e_insert io \<and> e_notify io \<and> e_update io \<and> e_commit io)"

lemma load_for_update_Ok_iff [action_simps]:
  "load_for_update ok c s = (Ok x, t) \<longleftrightarrow> ok \<and> x = active_client s c \<and> t = s"
  by (auto simp: load_for_update_def query_def action_apply)

lemma Queues_enqueue_Ok_iff [action_simps]:
  "Queues_enqueue sv io c m s = (Ok listening, t) \<longleftrightarrow>
     e_insert io \<and> e_notify io \<and> listening = is_listening (qs_queues s) c
     \<and> (\<exists>rows. Queue_enqueue (qv_message_enc sv) True c m (qs_queue_rows s) = Ok rows
          \<and> t = s\<lparr> qs_queue_rows := rows, qs_notified := qs_notified s @ [c] \<rparr>)"
proof -
  have "Queue_enqueue enc False c m rows \<noteq> Ok rows'" for enc rows rows'
    by (auto simp: Queue_enqueue_def Let_def result_simps)
  then show ?thesis
    by (cases "e_insert io")
      (auto simp: Queues_enqueue_def pg_notify_def query_def action_simps split: sum.splits if_splits)
qed

lemma update_queue_ratchet_Ok_iff [action_simps]:
  "update_queue_ratchet ok c ratchet s = (Ok u, t) \<longleftrightarrow> ok \<and> t = (case active_client s c of None \<Rightarrow> s
     | Some r \<Rightarrow> s\<lparr> qs_clients := AList.update c (Active (r\<lparr> cr_ratchet_key := ratchet \<rparr>)) (qs_clients s) \<rparr>)"
  by (auto simp: update_queue_ratchet_def update_active_def query_def action_apply)

lemma do_enqueue_Ok_iff:
  "do_enqueue sv io c p s = (Ok x, t) \<longleftrightarrow>
     enqueue_works io \<and>
     (\<exists>r m r' rows. active_client s c = Some r
        \<and> ratchet_encrypt (qv_kdf sv) (encrypt (qv_payload_ser sv) (qv_aes_enc sv) (e_nonce io)) p (cr_ratchet_key r)
            = Ok (m, r')
        \<and> Queue_enqueue (qv_message_enc sv) True c m (qs_queue_rows s) = Ok rows
        \<and> x = (r\<lparr> cr_ratchet_key := r' \<rparr>, is_listening (qs_queues s) c)
        \<and> t = s\<lparr> qs_queue_rows := rows, qs_notified := qs_notified s @ [c],
            qs_clients := AList.update c (Active (r\<lparr> cr_ratchet_key := r' \<rparr>)) (qs_clients s) \<rparr>)"
  unfolding do_enqueue_def enqueue_works_def
  by (fastforce simp: action_simps result_simps)

lemma do_enqueue_Err:
  "do_enqueue sv io c p s = (Err e, t) \<Longrightarrow> qs_queue_rows t = qs_queue_rows s \<and> qs_clients t = qs_clients s"
  by (auto simp: do_enqueue_def transaction_Err_iff restore_qs_db_def)

lemma mailbox_enqueued:
  assumes "mail_crypto sv de" "mailbox sv de c r0 ps s" "length ps < queue_capacity"
    and "do_enqueue sv io c p s = (Ok x, t)"
  shows "mailbox sv de c r0 (ps @ [p]) t"
proof -
  from assms(4) obtain r m r' rows where r: "active_client s c = Some r"
    and enc: "ratchet_encrypt (qv_kdf sv) (encrypt (qv_payload_ser sv) (qv_aes_enc sv) (e_nonce io)) p
      (cr_ratchet_key r) = Ok (m, r')"
    and rows: "Queue_enqueue (qv_message_enc sv) True c m (qs_queue_rows s) = Ok rows"
    and t: "t = s\<lparr> qs_queue_rows := rows, qs_notified := qs_notified s @ [c],
            qs_clients := AList.update c (Active (r\<lparr> cr_ratchet_key := r' \<rparr>)) (qs_clients s) \<rparr>"
    by (auto simp: do_enqueue_Ok_iff)
  from assms(2) r obtain lo ms where r0: "sequence_number r0 = 0"
    and holds: "queue_holds (qv_message_enc sv) (qs_queue_rows s) c lo ms"
    and log: "decrypt_all (qv_kdf sv) (decrypt de (qv_aes_dec sv)) ms r0 = Ok (ps, cr_ratchet_key r)"
    by (auto simp: mailbox_def mail_log_def active_client_Some_iff)
  have len: "length ps = length ms" "sequence_number (cr_ratchet_key r) = of_nat (length ms)"
    using decrypt_all_sequence_number[OF log] r0 by auto
  have "payload_correct (encrypt (qv_payload_ser sv) (qv_aes_enc sv) (e_nonce io)) (decrypt de (qv_aes_dec sv))"
    using assms(1) by (auto simp: mail_crypto_def intro: payload_correctI)
  from decrypt_all_snoc[OF log ratchet_decrypt_encrypt[OF this enc]]
  have "decrypt_all (qv_kdf sv) (decrypt de (qv_aes_dec sv)) (ms @ [m]) r0 = Ok (ps @ [p], r')" .
  moreover have "unat (qm_sequence_number m) = length ms"
    using ratchet_encrypt_sequence_number[OF enc] len assms(3) by (simp add: unat_of_nat_u64)
  then have "queue_holds (qv_message_enc sv) rows c lo (ms @ [m])"
    using Queue_enqueue_holds[OF holds _ _ rows] assms(3) len(1) by simp
  ultimately show ?thesis
    by (auto simp: mailbox_def mail_log_def t r0 update_conv)
qed

text \<open>Enqueuing for one client does not touch another: neither its row nor its queue.\<close>

definition view :: "qs_client_id \<Rightarrow> qs_state \<Rightarrow> qs_client_row option \<times> queue_row list" where
  "view c s = (map_of (qs_clients s) c, filter (\<lambda>r. qw_queue_id r = c) (qs_queue_rows s))"

lemma mailbox_view: "view c t = view c s \<Longrightarrow> mailbox sv de c r0 ps t \<longleftrightarrow> mailbox sv de c r0 ps s"
  by (simp add: view_def mailbox_def mail_log_def queue_holds_def)

lemma active_client_view: "view c t = view c s \<Longrightarrow> active_client t c = active_client s c"
  by (simp add: view_def active_client_def)

lemma frames_view_mailbox: "frames (view c) m \<Longrightarrow> keeps (mailbox sv de c r0 ps) m"
  unfolding frames_def keeps_def using mailbox_view by blast

lemma view_update_active [action_rules]: "c' \<noteq> c \<Longrightarrow> frames (view c) (update_active ok c' change)"
  unfolding update_active_def query_def
  by (auto intro!: frames_modify action_rules simp: view_def update_conv split: option.split)

lemma view_do_enqueue [action_rules]:
  assumes "c' \<noteq> c"
  shows "frames (view c) (do_enqueue sv io c' p)"
  unfolding frames_def
proof
  fix s
  obtain y t where run: "do_enqueue sv io c' p s = (y, t)" by (cases "do_enqueue sv io c' p s")
  show "view c (snd (do_enqueue sv io c' p s)) = view c s"
  proof (cases y)
    case (Inl e)
    with do_enqueue_Err[of sv io c' p s e t] run show ?thesis by (simp add: view_def)
  next
    case (Inr x)
    with run assms have "view c t = view c s"
      by (auto simp: do_enqueue_Ok_iff view_def update_conv dest!: Queue_enqueue_Ok)
    with run show ?thesis by simp
  qed
qed

lemma view_outbox [action_rules]:
  "frames (view c) (modify_with (\<lambda>s. s\<lparr> qs_pushed := f s \<rparr>))"
  "frames (view c) (modify_with (\<lambda>s. s\<lparr> qs_events := g s \<rparr>))"
  "frames (view c) (modify_with (\<lambda>s. s\<lparr> qs_delivered := h s \<rparr>))"
  by (intro frames_modify; simp add: view_def)+

lemma view_push [action_rules]: "c' \<noteq> c \<Longrightarrow> frames (view c) (push_notification sv io c' r key)"
  unfolding push_notification_def delete_push_token_def
  by (auto intro!: action_rules split: option.split sum.split push_notification_error.split)

lemma view_enqueue: "c' \<noteq> c \<Longrightarrow> frames (view c) (QsClientRecord_enqueue sv io c' msg key)"
proof (cases msg)
  case (EventMessage ev)
  have "frames (view c) (\<lambda>s. (map_err (\<lambda>_. EnqueueStorage) (send_payload (e_channel io) (qs_queues s) c'), s))"
    by (simp add: frames_def)
  with EventMessage show ?thesis
    unfolding QsClientRecord_enqueue_def by (auto intro!: action_rules)
qed (auto simp: QsClientRecord_enqueue_def intro!: action_rules)

lemma mailbox_push [keep_rules]: "keeps (mailbox sv de c r0 ps) (push_notification sv io c' r key)"
  unfolding push_notification_def
  by (auto intro!: keep_rules split: option.split sum.split push_notification_error.split)

lemma mailbox_event [keep_rules]:
  "keeps (mailbox sv de c r0 ps) (QsClientRecord_enqueue sv io c' (EventMessage ev) key)"
proof -
  have "keeps (mailbox sv de c r0 ps) (\<lambda>s. (map_err (\<lambda>_. EnqueueStorage) (send_payload (e_channel io) (qs_queues s) c'), s))"
    by (rule keepsI) simp
  then show ?thesis
    unfolding QsClientRecord_enqueue_def by (auto intro!: keep_rules)
qed

text \<open>One message for the client: its queue has it at the end, or is unchanged.\<close>

lemma mailbox_enqueue_same:
  assumes "mail_crypto sv de" "mailbox sv de c r0 ps s" "length ps < queue_capacity"
  shows "mailbox sv de c r0 ps (snd (QsClientRecord_enqueue sv io c msg key s))
    \<or> (\<exists>p. queued_payload msg = Some p \<and> mailbox sv de c r0 (ps @ [p]) (snd (QsClientRecord_enqueue sv io c msg key s)))"
proof (cases msg)
  case (QueueMessage p)
  obtain y t where run: "do_enqueue sv io c p s = (y, t)" by (cases "do_enqueue sv io c p s")
  show ?thesis
  proof (cases y)
    case (Inl e)
    with run QueueMessage do_enqueue_Err[of sv io c p s e t] assms(2) show ?thesis
      by (auto simp: QsClientRecord_enqueue_def andThen_def mailbox_def)
  next
    case (Inr x)
    with run have "mailbox sv de c r0 (ps @ [p]) t" by (auto intro: mailbox_enqueued[OF assms])
    moreover have "keeps (mailbox sv de c r0 (ps @ [p])) (case x of (client_record, has_listener) \<Rightarrow>
        if has_listener then return_with () else push_notification sv io c client_record key)"
      by (intro keep_rules)
    ultimately show ?thesis
      using run Inr QueueMessage by (auto simp: QsClientRecord_enqueue_def andThen_def dest!: keepsD)
  qed
next
  case (EventMessage ev)
  then show ?thesis using keepsD[OF mailbox_event assms(2)] by blast
qed

text \<open>A fan-out to the queues of some clients, one after the other.\<close>

lemma for_each_ignoring:
  "for_each (\<lambda>x. ignoring (g x)) xs s = (Ok (), fold (\<lambda>x s. snd (g x s)) xs s)"
  by (induction xs arbitrary: s) (simp_all add: action_simps andThen_def ignoring_def)

lemma fold_view:
  assumes "c \<notin> set ids" "\<And>c'. c' \<noteq> c \<Longrightarrow> frames (view c) (g c')"
  shows "view c (fold (\<lambda>x s. snd (g x s)) ids s) = view c s"
  using assms(1)
proof (induction ids arbitrary: s)
  case (Cons c' ids)
  then have "view c (snd (g c' s)) = view c s" using assms(2)[of c'] by (auto simp: frames_def)
  with Cons show ?case by simp
qed simp

lemma fan_out_view:
  "c \<notin> set ids \<Longrightarrow> view c (fold (\<lambda>c s. snd (QsClientRecord_enqueue sv (io c) c msg key s)) ids s) = view c s"
  by (rule fold_view[where g = "\<lambda>c. QsClientRecord_enqueue sv (io c) c msg key"]) (auto intro: view_enqueue)

lemma mailbox_fan_out:
  assumes "mail_crypto sv de" "mailbox sv de c r0 ps s" "length ps < queue_capacity" "distinct ids"
    and t_def: "t = fold (\<lambda>c s. snd (QsClientRecord_enqueue sv (io c) c msg key s)) ids s"
  shows "mailbox sv de c r0 ps t \<or> (\<exists>p. queued_payload msg = Some p \<and> mailbox sv de c r0 (ps @ [p]) t)"
proof (cases "c \<in> set ids")
  case False
  then show ?thesis
    using assms(2) mailbox_view[OF fan_out_view[OF False]] unfolding t_def by blast
next
  case True
  then obtain xs ys where ids: "ids = xs @ c # ys" by (auto dest: split_list)
  with assms(4) have out: "c \<notin> set xs" "c \<notin> set ys" by auto
  let ?run = "\<lambda>ids. fold (\<lambda>c s. snd (QsClientRecord_enqueue sv (io c) c msg key s)) ids"
  have "mailbox sv de c r0 ps (?run xs s)"
    using assms(2) mailbox_view[OF fan_out_view[OF out(1)]] by blast
  from mailbox_enqueue_same[OF assms(1) this assms(3)]
  show ?thesis
    unfolding t_def ids fold_append fold_simps comp_apply
    using mailbox_view[OF fan_out_view[OF out(2)]] by blast
qed

lemma distinct_active_ids: "distinct (map fst clients) \<Longrightarrow> distinct (active_client_ids u clients)"
  by (simp add: active_client_ids_def distinct_map_filter)

lemma recipient_ids_broadcast:
  assumes "fo_broadcast_to_all_client_queues message"
  shows "recipient_ids io message cc s =
    (if \<not> q_load io then Err QsStorageError
     else case map_of (qs_clients s) (cc_client_id cc) of
       None \<Rightarrow> Err (FanOutEnqueueError ClientNotFound)
     | Some row \<Rightarrow> Ok (q_order io (active_client_ids (row_user_id row) (qs_clients s))), s)"
  using assms
  by (simp add: recipient_ids_def load_client_ids_def query_def andThen_def converting_def action_apply split: option.split)

lemma recipient_ids_single:
  "\<not> fo_broadcast_to_all_client_queues message \<Longrightarrow> recipient_ids io message cc s = (Ok [cc_client_id cc], s)"
  by (simp add: recipient_ids_def action_apply)

lemma order_distinct: "db_honest io \<Longrightarrow> distinct (q_order io xs) \<longleftrightarrow> distinct xs"
  unfolding db_honest_def by (metis mset_eq_imp_distinct_iff)

lemma recipient_ids_distinct:
  assumes "recipient_ids io message cc s = (Ok ids, t)" "db_honest io" "distinct (map fst (qs_clients s))"
  shows "distinct ids"
  using assms(1) order_distinct[OF assms(2)] distinct_active_ids[OF assms(3)]
  by (cases "fo_broadcast_to_all_client_queues message")
    (auto simp: recipient_ids_broadcast recipient_ids_single split: if_splits option.splits)

lemma recipient_ids_state: "snd (recipient_ids io message cc s) = s"
  by (cases "fo_broadcast_to_all_client_queues message")
    (simp_all add: recipient_ids_broadcast recipient_ids_single)

definition fan_out :: "('ki, 'kp, 'z) qs_service_scheme \<Rightarrow> qs_io \<Rightarrow> ds_fan_out_message \<Rightarrow> client_config \<Rightarrow>
    qs_client_id list \<Rightarrow> qs_state \<Rightarrow> qs_state" where
  "fan_out sv io message cc = fold (\<lambda>c s. snd (QsClientRecord_enqueue sv (q_enqueue io c) c (fo_payload message)
     (if fo_suppress_notifications message then None else cc_push_token_ear_key cc) s))"

lemma enqueue_message_local:
  assumes "qr_client_homeserver_domain (fo_client_reference message) = qv_domain sv"
  shows "enqueue_message sv io message s =
    (if \<not> q_load_key io then (Err QsStorageError, s)
     else case qs_decryption_keys s of
       [] \<Rightarrow> (Err QsLibraryError, s)
     | key # _ \<Rightarrow>
         (case qv_open_config sv key (qr_sealed_reference (fo_client_reference message)) of
            Err e \<Rightarrow> (Err (UnsealError e), s)
          | Ok cc \<Rightarrow>
              (case fst (recipient_ids io message cc s) of
                 Err e \<Rightarrow> (Err e, s)
               | Ok ids \<Rightarrow> (Ok (), fan_out sv io message cc ids s))))"
proof -
  have ids: "andThen (recipient_ids io message cc) f s =
      (case fst (recipient_ids io message cc s) of Err e \<Rightarrow> (Err e, s) | Ok ids \<Rightarrow> f ids s)"
    for cc and f :: "qs_client_id list \<Rightarrow> (qs_state, qs_enqueue_error, unit) attempt"
    using recipient_ids_state[of io message cc s]
    by (cases "recipient_ids io message cc s") (auto simp: andThen_def split: sum.split)
  show ?thesis
    unfolding enqueue_message_def using assms
    by (auto simp: andThen_def[of "converting _ _"] andThen_def[of "try_with _"] converting_def
        DecryptionKey_load_def query_def action_apply ids for_each_ignoring fan_out_def Let_def
        split: list.split sum.split)
qed

lemma mailbox_message:
  assumes "mail_crypto sv de" "mailbox sv de c r0 ps s" "length ps < queue_capacity" "db_honest io"
    and "distinct (map fst (qs_clients s))" and t: "t = snd (enqueue_message sv io message s)"
  shows "mailbox sv de c r0 ps t \<or> (\<exists>p. queued_payload (fo_payload message) = Some p \<and> mailbox sv de c r0 (ps @ [p]) t)"
proof (cases "qr_client_homeserver_domain (fo_client_reference message) = qv_domain sv")
  case False
  have "keeps (mailbox sv de c r0 ps) (deliver_remote sv io message)"
    unfolding deliver_remote_def Let_def by (intro keep_rules)
  with assms(2) False show ?thesis unfolding t enqueue_message_def by (auto dest: keepsD)
next
  case True
  have "mailbox sv de c r0 ps (fan_out sv io message cc ids s)
      \<or> (\<exists>p. queued_payload (fo_payload message) = Some p \<and> mailbox sv de c r0 (ps @ [p]) (fan_out sv io message cc ids s))"
    if "fst (recipient_ids io message cc s) = Ok ids" for cc ids
  proof (rule mailbox_fan_out[OF assms(1-3)])
    show "distinct ids"
      using that recipient_ids_distinct[OF _ assms(4,5), of message cc ids s] recipient_ids_state
      by (metis prod.collapse)
  qed (simp add: fan_out_def)
  with assms(2) show ?thesis
    unfolding t enqueue_message_local[OF True] by (auto split: list.split sum.split)
qed


section \<open>Any request\<close>

lemma mailbox_records [keep_rules]:
  "keeps (mailbox sv de c r0 ps) (qs_create_client_record sv' io ccp)"
  "keeps (mailbox sv de c r0 ps) (qs_create_user_record sv' io cup)"
  "keeps (mailbox sv de c r0 ps) (qs_delete_client_record io c')"
  "keeps (mailbox sv de c r0 ps) (qs_update_user_record io u vk tok)"
  unfolding qs_create_client_record_def qs_create_user_record_def qs_delete_client_record_def
    qs_update_user_record_def QsClientRecord_new_and_store_def UserRecord_new_and_store_def UserRecord_load_def
  by (intro keep_rules)+

lemma mailbox_auth [keep_rules]:
  "keeps (mailbox sv de c r0 ps) (verify_user_auth sv' io label user_of request)"
  "keeps (mailbox sv de c r0 ps) (verify_client_auth sv' io label client_of unverified request')"
  unfolding verify_user_auth_def verify_client_auth_def verify_auth_def
    UserRecord_load_verifying_key_def QsClientRecord_load_verifying_key_def
  by (intro keep_rules)+

lemma mailbox_package_ops [keep_rules]:
  "keeps (mailbox sv de c r0 ps) (qs_publish_key_packages sv' io c' kps)"
  "keeps (mailbox sv de c r0 ps) (qs_publish_apq_key_packages sv' io c' akps)"
  "keeps (mailbox sv de c r0 ps) (qs_key_package sv' io token)"
  "keeps (mailbox sv de c r0 ps) (qs_apq_key_package sv' io token)"
  "keeps (mailbox sv de c r0 ps) (qs_encryption_key sv' io)"
  unfolding qs_publish_key_packages_def qs_publish_apq_key_packages_def qs_key_package_def qs_apq_key_package_def
    retrieve_key_package_def publish_verified_def qs_encryption_key_def DecryptionKey_load_def
  by (intro keep_rules kp.mailbox_packages apq.mailbox_packages)+

lemma mailbox_listening [keep_rules]:
  "keeps (mailbox sv de c r0 ps) (update_client_activity io c')"
  "keeps (mailbox sv de c r0 ps) (trigger_fetch ok c')"
  "keeps (mailbox sv de c r0 ps) (\<lambda>s. case Queues_listen c' i (qs_queues s) of (st, q) \<Rightarrow> (Ok st, s\<lparr> qs_queues := q \<rparr>))"
  unfolding update_client_activity_def trigger_fetch_def pg_notify_def
  by (intro keep_rules, intro keep_rules, intro keepsI) (simp add: mailbox_def split: prod.split)

lemma mailbox_requests:
  "mailbox sv de c r0 ps s \<Longrightarrow> mailbox sv de c r0 ps (snd (process_listen_queue_requests broken_pipe c' requests s))"
proof (induction requests arbitrary: s)
  case (Cons rq requests)
  obtain ok request where rq: "rq = (ok, request)" by (cases rq)
  have "keeps (mailbox sv de c r0 ps) (process_listen_queue_request ok c' request)"
    unfolding process_listen_queue_request_def
    by (intro keep_rules) (auto intro: keep_rules split: listen_request.split)
  from keepsD[OF this Cons.prems] Cons.IH show ?case
    by (auto simp: rq split: sum.split prod.split) (metis snd_conv)+
qed simp

lemmas qs_handler_defs =
  create_user_handler_def update_user_handler_def create_client_handler_def
  update_client_handler_def delete_client_handler_def publish_key_packages_handler_def
  publish_apq_key_packages_handler_def key_package_handler_def apq_key_package_handler_def
  encryption_key_handler_def

lemma mailbox_handlers:
  "keeps (mailbox sv de c r0 ps) (create_user_handler sv io a1)"
  "keeps (mailbox sv de c r0 ps) (update_user_handler sv io a2)"
  "keeps (mailbox sv de c r0 ps) (create_client_handler sv io a3)"
  "keeps (mailbox sv de c r0 ps) (update_client_handler sv io a4)"
  "keeps (mailbox sv de c r0 ps) (delete_client_handler sv io a5)"
  "keeps (mailbox sv de c r0 ps) (publish_key_packages_handler sv io a6)"
  "keeps (mailbox sv de c r0 ps) (publish_apq_key_packages_handler sv io a7)"
  "keeps (mailbox sv de c r0 ps) (key_package_handler sv io a8)"
  "keeps (mailbox sv de c r0 ps) (apq_key_package_handler sv io a9)"
  "keeps (mailbox sv de c r0 ps) (encryption_key_handler sv io a10)"
  unfolding qs_handler_defs by (intro keep_rules)+

lemma mailbox_listen: "keeps (mailbox sv de c r0 ps) (listen_handler sv io initial)"
  unfolding listen_handler_def
  by (intro keep_rules) (auto intro!: keep_rules split: listen_request.split)

lemma mailbox_delete_user:
  "keeps (\<lambda>t. distinct (map fst (qs_clients t)) \<and> (map_of (qs_clients t) c = None \<or> mailbox sv de c r0 ps t))
     (delete_user_handler sv io request)"
  unfolding delete_user_handler_def verify_user_auth_def verify_auth_def UserRecord_load_verifying_key_def
    qs_delete_user_record_def UserRecord_delete_def Let_def
  by (intro keep_rules keeps_modify)
    (auto simp: mailbox_def map_of_filter_snd distinct_map_filter split: bind_splits)

lemma mailbox_step:
  assumes "mail_crypto sv de" "qs_consistent s" "mailbox sv de c r0 ps s" "length ps < queue_capacity" "qs_step sv s l t"
  shows "map_of (qs_clients t) c = None \<or> mailbox sv de c r0 ps t
    \<or> (\<exists>p. l = Some p \<and> mailbox sv de c r0 (ps @ [p]) t)"
  using assms(5)
proof cases
  case (step_delete_user io request)
  have "distinct (map fst (qs_clients s)) \<and> (map_of (qs_clients s) c = None \<or> mailbox sv de c r0 ps s)"
    using assms(2,3) by (simp add: qs_consistent_def)
  from keepsD[OF mailbox_delete_user this] step_delete_user show ?thesis by simp
next
  case (step_enqueue io message)
  with mailbox_message[OF assms(1,3,4), of io t message] assms(2) show ?thesis by (simp add: qs_consistent_def)
next
  case (step_federated io federated message)
  then have "t = snd (enqueue_message sv io message s)"
    by (simp add: process_federated_message_def andThen_def converting_def action_apply split: prod.split sum.split)
  with step_federated mailbox_message[OF assms(1,3,4), of io t message] assms(2) show ?thesis
    by (simp add: qs_consistent_def)
next
  case (step_listen io initial)
  with keepsD[OF mailbox_listen assms(3)] show ?thesis by blast
next
  case (step_listen_requests broken_pipe c' requests)
  with mailbox_requests[OF assms(3)] show ?thesis by blast
next
  case (step_drop_stream tok)
  with assms(3) show ?thesis by (simp add: mailbox_def)
qed (simp_all add: mailbox_handlers[THEN keepsD, OF assms(3)])


text \<open>
  A run of the service during which the client's row stays, with the payloads handed to the service.
\<close>

inductive client_run :: "('ki, 'kp, 'z) qs_service_scheme \<Rightarrow> qs_client_id \<Rightarrow> qs_state \<Rightarrow>
    qs_queue_message_payload list \<Rightarrow> qs_state \<Rightarrow> bool"
  for sv c s
where
  run_start: "client_run sv c s [] s"
| run_step: "client_run sv c s ls t \<Longrightarrow> qs_step sv t l u \<Longrightarrow> map_of (qs_clients u) c \<noteq> None \<Longrightarrow>
    client_run sv c s (ls @ (case l of None \<Rightarrow> [] | Some p \<Rightarrow> [p])) u"

lemma mailbox_created:
  assumes "qs_create_client_record sv io params s = (Ok c, t)" "\<forall>row \<in> set (qs_queue_rows s). qw_queue_id row \<noteq> c"
  shows "\<exists>r0. ratchet_try_from (qv_kdf sv) (ccp_initial_ratchet_secret params) = Ok r0 \<and> mailbox sv de c r0 [] t"
proof -
  from assms(1) obtain r0 r where r0: "ratchet_try_from (qv_kdf sv) (ccp_initial_ratchet_secret params) = Ok r0"
    and t: "t = s\<lparr> qs_clients := AList.update c (Active r) (qs_clients s) \<rparr>" "cr_ratchet_key r = r0"
    by (auto simp: qs_create_client_record_def QsClientRecord_new_and_store_def QsClientRecord_store_def query_def
        action_simps result_simps split: if_splits)
  have "sequence_number r0 = 0"
    using r0 by (auto simp: ratchet_try_from_def result_simps)
  moreover have "mail_log sv de (qs_queue_rows t) c r0 [] r0"
    unfolding mail_log_def
    using assms(2) by (intro exI[of _ 0] exI[of _ "[]"]) (simp add: t queue_holds_def)
  ultimately show ?thesis using r0 t by (auto simp: mailbox_def update_conv)
qed

lemma mailbox_run:
  assumes "client_run sv c s ls t" "mail_crypto sv de" "qs_consistent s" "mailbox sv de c r0 [] s"
    and "length ls < queue_capacity"
  shows "qs_consistent t \<and> (\<exists>ps. subseq ps ls \<and> mailbox sv de c r0 ps t)"
  using assms(1,5)
proof induction
  case run_start
  then show ?case using assms(3,4) by auto
next
  case (run_step ls t l u)
  then obtain ps where t: "qs_consistent t" "subseq ps ls" "mailbox sv de c r0 ps t" by auto
  have u: "qs_consistent u" using qi.step_inv[OF t(1)] run_step by (auto simp: qs_moves_def)
  have "length ps < queue_capacity"
    using list_emb_length[OF t(2)] run_step.prems by simp
  from mailbox_step[OF assms(2) t(1,3) this run_step(2)] run_step(3)
  have "mailbox sv de c r0 ps u \<or> (\<exists>p. l = Some p \<and> mailbox sv de c r0 (ps @ [p]) u)" by blast
  moreover have "subseq ps (ls @ ks)" "subseq (ps @ ks) (ls @ ks)" for ks
    using list_emb_append_mono[OF t(2), of "[]" ks] list_emb_append_mono[OF t(2), of ks ks] by simp_all
  ultimately show ?case using u by fastforce
qed

end
