(* ===== verification/Qs_Requests.thy ===== *)
theory Qs_Requests
  imports Qs_System
begin

text \<open>
  The properties of the queue service: what reaches which queue and is read from it, the key packages
  it hands out, and which requests it accepts from whom.
\<close>

section \<open>The database\<close>



section \<open>Messages\<close>


text \<open>The payload arrives at the end of the queue of every recipient whose queue works.\<close>

lemma enqueue_succeeds:
  assumes "mail_crypto sv de" "mailbox sv de c r0 ps s" "length ps < queue_capacity"
    and "active_client s c = Some r" "enqueue_works io"
    and "ratchet_encrypt (qv_kdf sv) (encrypt (qv_payload_ser sv) (qv_aes_enc sv) (e_nonce io)) p (cr_ratchet_key r)
      = Ok (m, r')" "qv_message_enc sv m = Ok bs"
  shows "\<exists>x t. do_enqueue sv io c p s = (Ok x, t)"
proof -
  from assms(2,4) obtain lo ms where r0: "sequence_number r0 = 0"
    and holds: "queue_holds (qv_message_enc sv) (qs_queue_rows s) c lo ms"
    and log: "decrypt_all (qv_kdf sv) (decrypt de (qv_aes_dec sv)) ms r0 = Ok (ps, cr_ratchet_key r)"
    by (auto simp: mailbox_def mail_log_def active_client_Some_iff)
  have len: "length ps = length ms" "qm_sequence_number m = of_nat (length ms)"
    using decrypt_all_sequence_number[OF log] ratchet_encrypt_sequence_number[OF assms(6)] r0 by auto
  have "qw_sequence_number row \<noteq> int (length ms)" if "row \<in> set (qs_queue_rows s)" "qw_queue_id row = c" for row
  proof -
    have "filter (\<lambda>r. qw_queue_id r = c) (qs_queue_rows s) = map (row_at (qv_message_enc sv) c ms) [lo..<length ms]"
      using holds by (simp add: queue_holds_def)
    moreover have "row \<in> set (filter (\<lambda>r. qw_queue_id r = c) (qs_queue_rows s))" using that by simp
    ultimately show ?thesis by (auto simp: row_at_def)
  qed
  then have "\<exists>rows. Queue_enqueue (qv_message_enc sv) True c m (qs_queue_rows s) = Ok rows"
    using assms(3,7) len by (auto simp: Queue_enqueue_def Let_def result_simps list_ex_iff sint_of_nat_u64)
  with assms(4-6) show ?thesis unfolding do_enqueue_Ok_iff by blast
qed

lemma fan_out_reaches:
  assumes "mail_crypto sv de" "mailbox sv de c r0 ps s" "length ps < queue_capacity"
    and "active_client s c = Some r" "enqueue_works (q_enqueue io c)"
    and "ratchet_encrypt (qv_kdf sv) (encrypt (qv_payload_ser sv) (qv_aes_enc sv) (e_nonce (q_enqueue io c))) p
      (cr_ratchet_key r) = Ok (m, r')" "qv_message_enc sv m = Ok bs"
    and "fo_payload message = QueueMessage p" "distinct ids" "c \<in> set ids"
  shows "mailbox sv de c r0 (ps @ [p]) (fan_out sv io message cc ids s)"
proof -
  from assms(9,10) obtain xs ys where ids: "ids = xs @ c # ys" and out: "c \<notin> set xs" "c \<notin> set ys"
    by (auto dest!: split_list)
  let ?key = "if fo_suppress_notifications message then None else cc_push_token_ear_key cc"
  define s1 where "s1 = fan_out sv io message cc xs s"
  have v: "view c s1 = view c s" unfolding s1_def fan_out_def by (rule fan_out_view[OF out(1)])
  have m1: "mailbox sv de c r0 ps s1" and r1: "active_client s1 c = Some r"
    using mailbox_view[OF v] active_client_view[OF v] assms(2,4) by auto
  from enqueue_succeeds[OF assms(1) m1 assms(3) r1 assms(5-7)] obtain x t
    where run: "do_enqueue sv (q_enqueue io c) c p s1 = (Ok x, t)" by blast
  have "keeps (mailbox sv de c r0 (ps @ [p])) (case x of (client_record, has_listener) \<Rightarrow>
      if has_listener then return_with () else push_notification sv (q_enqueue io c) c client_record ?key)"
    by (intro keep_rules)
  from keepsD[OF this mailbox_enqueued[OF assms(1) m1 assms(3) run]]
  have "mailbox sv de c r0 (ps @ [p]) (snd (QsClientRecord_enqueue sv (q_enqueue io c) c (fo_payload message) ?key s1))"
    using run assms(8) by (simp add: QsClientRecord_enqueue_def andThen_def)
  moreover have "fan_out sv io message cc ids s
      = fan_out sv io message cc ys (snd (QsClientRecord_enqueue sv (q_enqueue io c) c (fo_payload message) ?key s1))"
    by (simp add: ids s1_def fan_out_def)
  moreover have "view c (fan_out sv io message cc ys u) = view c u" for u
    unfolding fan_out_def by (rule fan_out_view[OF out(2)])
  ultimately show ?thesis using mailbox_view by metis
qed



section \<open>Key packages\<close>

definition one_time_packages :: "qs_client_id \<Rightarrow> key_package_table \<Rightarrow> key_package_row list" where
  "one_time_packages c t = filter (\<lambda>r. kr_client_id r = c \<and> \<not> kr_is_last_resort r) (kt_rows t)"

lemma length_filter_remove_one:
  assumes "distinct (map f xs)" "x \<in> set xs"
  shows "length (filter (\<lambda>y. f y \<noteq> f x) xs) = length xs - 1"
proof -
  from assms(2) obtain ys zs where xs: "xs = ys @ x # zs" by (auto dest: split_list)
  with assms(1) have "f x \<notin> f ` set ys" "f x \<notin> f ` set zs" by auto
  then have "f y \<noteq> f x" if "y \<in> set ys \<union> set zs" for y
    using that by (metis Un_iff imageI)
  then have "filter (\<lambda>y. f y \<noteq> f x) ys = ys" "filter (\<lambda>y. f y \<noteq> f x) zs = zs" by (auto intro: filter_True)
  then show ?thesis by (simp add: xs)
qed

definition picks :: "(key_package_row list \<Rightarrow> key_package_row) \<Rightarrow> bool" where
  "picks pick = (\<forall>rs. rs \<noteq> [] \<longrightarrow> pick rs \<in> set rs)"

lemma best_ranked_in: "picks pick \<Longrightarrow> best_ranked pick rs = Some r \<Longrightarrow> r \<in> set rs"
  unfolding picks_def best_ranked_def Let_def
  by (metis (no_types, lifting) filter_is_subset option.discI option.sel subsetD)

lemma selected_iff:
  assumes "picks pick"
  shows "r \<in> set (selected_key_packages pick ids rows) \<longleftrightarrow>
    kr_client_id r \<in> set ids \<and> best_ranked pick (filter (\<lambda>x. kr_client_id x = kr_client_id r) rows) = Some r"
proof -
  have "kr_client_id r = c" if "best_ranked pick (filter (\<lambda>x. kr_client_id x = c) rows) = Some r" for c
    using best_ranked_in[OF assms that] by simp
  then show ?thesis by (auto simp: selected_key_packages_def set_map_filter)
qed

lemma one_time_after_selection:
  assumes "picks pick" "distinct (map kr_id (kt_rows t))" "c \<in> set ids"
  defines "selected \<equiv> selected_key_packages pick ids (kt_rows t)"
  shows "length (one_time_packages c (delete_selected selected t)) = length (one_time_packages c t) - 1"
proof -
  let ?mine = "filter (\<lambda>r. kr_client_id r = c) (kt_rows t)" and ?one = "one_time_packages c t"
  have one: "?one = filter (\<lambda>r. \<not> kr_is_last_resort r) ?mine"
    by (auto simp: one_time_packages_def intro: filter_cong)
  have after: "one_time_packages c (delete_selected selected t)
      = filter (\<lambda>r. \<not> list_ex (\<lambda>d. kr_id d = kr_id r \<and> \<not> kr_is_last_resort d) selected) ?one"
    by (auto simp: one_time_packages_def delete_selected_def intro: filter_cong)
  show ?thesis
  proof (cases "?one = []")
    case False
    let ?p = "pick ?one"
    have p: "?p \<in> set ?one" using False assms(1) by (simp add: picks_def)
    have best: "best_ranked pick ?mine = Some ?p" using False one by (simp add: best_ranked_def Let_def)
    have deleted: "list_ex (\<lambda>d. kr_id d = kr_id x \<and> \<not> kr_is_last_resort d) selected \<longleftrightarrow> kr_id x = kr_id ?p"
      if x: "x \<in> set ?one" for x
    proof
      assume "list_ex (\<lambda>d. kr_id d = kr_id x \<and> \<not> kr_is_last_resort d) selected"
      then obtain d where d: "d \<in> set selected" "kr_id d = kr_id x" by (auto simp: list_ex_iff)
      then have "best_ranked pick (filter (\<lambda>y. kr_client_id y = kr_client_id d) (kt_rows t)) = Some d"
        using selected_iff[OF assms(1)] unfolding selected_def by blast
      moreover from best_ranked_in[OF assms(1) this] have "d \<in> set (kt_rows t)" by simp
      with assms(2) x d(2) have "d = x" by (auto simp: distinct_map inj_on_def one_time_packages_def)
      ultimately show "kr_id x = kr_id ?p" using x best by (simp add: one_time_packages_def)
    next
      assume "kr_id x = kr_id ?p"
      moreover have "?p \<in> set selected"
        using p best assms(3) unfolding selected_def selected_iff[OF assms(1)] by (simp add: one_time_packages_def)
      ultimately show "list_ex (\<lambda>d. kr_id d = kr_id x \<and> \<not> kr_is_last_resort d) selected"
        using p by (auto simp: list_ex_iff one_time_packages_def)
    qed
    have "one_time_packages c (delete_selected selected t) = filter (\<lambda>x. kr_id x \<noteq> kr_id ?p) ?one"
      unfolding after by (rule filter_cong) (simp_all add: deleted)
    moreover have "distinct (map kr_id ?one)"
      using assms(2) by (simp add: one_time_packages_def distinct_map_filter)
    ultimately show ?thesis using length_filter_remove_one[OF _ p] by metis
  qed (simp add: after)
qed

context package_store
begin

text \<open>
  What a retrieval does to the table: it gives away one row, and takes a one-time package from every
  client of the user that has one.
\<close>

lemma retrieval:
  assumes "qs_consistent s" "picks pick" "picks first"
    and "take_user_key_package ks ok pick first token s s = (Ok kp, t)"
  shows "\<exists>r \<in> set (kt_rows (ks_table ks s)). ks_decoded ks (kr_key_package r) = Ok kp
      \<and> kr_client_id r \<in> set (user_client_ids token s)
      \<and> (\<not> kr_is_last_resort r \<longrightarrow> kr_id r \<notin> kr_id ` set (kt_rows (ks_table ks t)))
      \<and> kr_id r < kt_next_id (ks_table ks t)"
    and "c \<in> set (user_client_ids token s) \<Longrightarrow>
       length (one_time_packages c (ks_table ks t)) = length (one_time_packages c (ks_table ks s)) - 1"
proof -
  let ?sel = "selected_key_packages pick (user_client_ids token s) (kt_rows (ks_table ks s))"
  note taken = take_Ok[OF assms(4)]
  have table: "ks_table ks t = delete_selected ?sel (ks_table ks s)" by (simp add: taken(4) get_put)
  have ok: "packages_ok s (ks_table ks s)"
    using assms(1) by (intro table_ok[of 0 0]) (simp add: qs_inv_def)
  then show "c \<in> set (user_client_ids token s) \<Longrightarrow>
       length (one_time_packages c (ks_table ks t)) = length (one_time_packages c (ks_table ks s)) - 1"
    unfolding table by (intro one_time_after_selection[OF assms(2)]) (simp_all add: packages_ok_def)
  have first: "first ?sel \<in> set ?sel" using assms(3) taken(2) by (simp add: picks_def)
  then have row: "first ?sel \<in> set (kt_rows (ks_table ks s))" "kr_client_id (first ?sel) \<in> set (user_client_ids token s)"
    using in_selected assms(2) unfolding picks_def by blast+
  with first ok have "\<not> kr_is_last_resort (first ?sel) \<longrightarrow> kr_id (first ?sel) \<notin> kr_id ` set (kt_rows (ks_table ks t))"
    "kr_id (first ?sel) < kt_next_id (ks_table ks t)"
    by (auto simp: table delete_selected_def list_ex_iff packages_ok_def)
  with row taken(3) show "\<exists>r \<in> set (kt_rows (ks_table ks s)). ks_decoded ks (kr_key_package r) = Ok kp
      \<and> kr_client_id r \<in> set (user_client_ids token s)
      \<and> (\<not> kr_is_last_resort r \<longrightarrow> kr_id r \<notin> kr_id ` set (kt_rows (ks_table ks t)))
      \<and> kr_id r < kt_next_id (ks_table ks t)" by blast
qed

text \<open>Two statements that read the same snapshot return the same package.\<close>

lemma retrievals_agree:
  assumes "take_user_key_package ks ok pick first token snapshot s = (Ok kp, t)"
  shows "\<exists>u. take_user_key_package ks ok pick first token snapshot t = (Ok kp, u)"
  using take_Ok[OF assms] by (simp add: take_user_key_package_def query_def Let_def action_simps ensure_simps)

end




section \<open>Who may do what\<close>

text \<open>A signed request was verified under a key on record, or claims no sender.\<close>

definition signed_by :: "('ki, 'kp, 'z) qs_service_scheme \<Rightarrow> string \<Rightarrow> bytes \<Rightarrow>
    ('p, 'y) qs_request_scheme signed_request \<Rightarrow> bool" where
  "signed_by sv label key request =
     (verify_payload (qv_vl sv) (qv_verify_signature sv) key label (SignedRequest_unsigned_payload request)
        (unwrap_or [] (rl_signature (sr_request request))) = Ok ())"

lemma verify_request_Ok_iff: "verify_request sv label request key = Ok () \<longleftrightarrow> signed_by sv label key request"
  by (auto simp: verify_request_def signed_by_def SignedRequest_verify_def result_simps)

lemma verify_auth_Ok:
  assumes "verify_auth sv load_key label sender unverified request s = (Ok p, t)" "\<And>i. snd (load_key i s) = s"
  shows "t = s \<and> (claimed_sender sender (sr_request request) = None \<and> unverified = Ok p
    \<or> (\<exists>i key. rl_payload (sr_request request) = Some p \<and> sender p = Field i \<and> load_key i s = (Ok (Some key), s)
         \<and> signed_by sv label key request))"
proof (cases "claimed_sender sender (sr_request request)")
  case None
  with assms(1) show ?thesis by (auto simp: verify_auth_def action_apply)
next
  case (Some pc)
  obtain q claimed where pc: "pc = (q, claimed)" by (cases pc)
  from Some have q: "rl_payload (sr_request request) = Some q" "sender q \<noteq> Missing" "claimed = get_field (sender q)"
    by (auto simp: claimed_sender_def pc split: option.splits field.splits)
  from assms(1) obtain i key s' where i: "claimed = Ok i" and key: "load_key i s = (Ok (Some key), s')"
    and sig: "verify_request sv label request key = Ok ()" and fin: "p = q" "t = s'"
    unfolding verify_auth_def Some pc by (auto simp: action_simps result_simps)
  from assms(2)[of i] key have "s' = s" by simp
  with i key sig fin q show ?thesis by (auto simp: verify_request_Ok_iff result_simps)
qed

lemma client_key_state: "snd (QsClientRecord_load_verifying_key ok c s) = s"
  by (simp add: QsClientRecord_load_verifying_key_def query_def action_apply)

lemma client_key_Ok:
  "QsClientRecord_load_verifying_key ok c s = (Ok (Some key), t) \<Longrightarrow>
   \<exists>r. active_client s c = Some r \<and> key = cr_auth_key r"
  by (auto simp: QsClientRecord_load_verifying_key_def query_def action_simps split: if_splits)

lemma user_key_state: "snd (UserRecord_load_verifying_key ok u s) = s"
  by (simp add: UserRecord_load_verifying_key_def query_def action_apply)

text \<open>
  (C37) A client's record changes only as its owner says, with one exception.  When an update of a
  client record succeeds, only the row of the client the request names has changed, and either the
  request is signed with the key that this client had on record, or its payload names no client and the
  unsigned fields outside of the payload were used.
\<close>

theorem client_update_is_signed_or_legacy:
  assumes "update_client_handler sv io request s = (Ok (), t)"
  shows "\<exists>c. (\<forall>c'. c' \<noteq> c \<longrightarrow> map_of (qs_clients t) c' = map_of (qs_clients s) c')
    \<and> ((\<exists>p r. rl_payload (sr_request request) = Some p \<and> uc_sender p = Field c \<and> active_client s c = Some r
          \<and> signed_by sv ''UpdateClientPayload'' (cr_auth_key r) request)
       \<or> (\<forall>p. rl_payload (sr_request request) = Some p \<longrightarrow> uc_sender p = Missing)
          \<and> uc_sender (rl_legacy (sr_request request)) = Field c)"
proof -
  from assms obtain p c ak ek pt s1 where
    auth: "verify_client_auth sv io ''UpdateClientPayload'' uc_sender (Ok (rl_legacy (sr_request request))) request s
      = (Ok p, s1)" and c: "uc_sender p = Field c"
    and upd: "qs_update_client_record io c ak ek pt s1 = (Ok (), t)"
    by (auto simp: update_client_handler_def action_simps result_simps)
  have same: "\<forall>c'. c' \<noteq> c \<longrightarrow> map_of (qs_clients t) c' = map_of (qs_clients s1) c'"
    using upd
    by (auto simp: qs_update_client_record_def QsClientRecord_update_def update_active_def query_def action_simps
        result_simps update_conv split: if_splits option.splits)
  from verify_auth_Ok[OF auth[unfolded verify_client_auth_def] client_key_state]
  have "s1 = s" and "claimed_sender uc_sender (sr_request request) = None \<and> p = rl_legacy (sr_request request)
    \<or> (\<exists>i key. rl_payload (sr_request request) = Some p \<and> uc_sender p = Field i
        \<and> QsClientRecord_load_verifying_key (q_load_key io) i s = (Ok (Some key), s)
        \<and> signed_by sv ''UpdateClientPayload'' key request)" by auto
  then consider "\<forall>p. rl_payload (sr_request request) = Some p \<longrightarrow> uc_sender p = Missing"
      "p = rl_legacy (sr_request request)"
    | r where "rl_payload (sr_request request) = Some p" "active_client s c = Some r"
      "signed_by sv ''UpdateClientPayload'' (cr_auth_key r) request"
    using c by (auto simp: claimed_sender_def dest!: client_key_Ok split: option.splits field.splits)
  then show ?thesis
    using same c \<open>s1 = s\<close> by cases blast+
qed

lemma activity_queues: "qs_queues (snd (update_client_activity io c s)) = qs_queues s"
proof -
  have "frames qs_queues (update_client_activity io c)"
    unfolding update_client_activity_def update_activity_time_def update_active_def query_def
    by (intro action_rules frames_modify) (auto split: option.split)
  then show ?thesis by (simp add: frames_def)
qed

text \<open>
  (C38) Anyone can listen to any queue.  A request to listen whose payload names no client is taken from
  its unsigned fields: whatever the signature, the stream of the client named there is opened, and its
  listener so far is replaced.  A request without a payload, which is what a client from before
  signed requests sends, is refused.
\<close>

theorem listen_without_signature:
  assumes "qv_version_req sv = None" "rl_payload request = Some p" "il_client_id p = Missing"
    and "il_client_id (rl_legacy request) = Field c"
  shows "(\<exists>cancel ctx t. listen_handler sv io (Some (Ok (ListenInit request))) s = (Ok (c, cancel, ctx), t)
      \<and> sc_client_id ctx = c \<and> sc_sequence_number ctx = il_sequence_number_start (rl_legacy request)
      \<and> qu_listeners (qs_queues t) c = Some \<lparr> lc_cancel = cancel \<rparr>)
    \<and> listen_handler sv io (Some (Ok (ListenInit (request\<lparr> rl_payload := None \<rparr>)))) s = (Err invalid_argument, s)"
proof -
  let ?start = "il_sequence_number_start (rl_legacy request)"
  obtain cancel ctx q where stream: "Queues_listen c ?start (qs_queues s) = ((cancel, ctx), q)"
    by (metis surj_pair)
  then have new: "sc_client_id ctx = c" "sc_sequence_number ctx = ?start" "qu_listeners q c = Some \<lparr> lc_cancel = cancel \<rparr>"
    by (auto simp: Queues_listen_def track_listener_def new_stream_context_def Let_def)
  let ?t = "snd (update_client_activity io c (s\<lparr> qs_queues := q \<rparr>))"
  have "listen_handler sv io (Some (Ok (ListenInit request))) s = (Ok (c, cancel, ctx), ?t)"
    using assms stream
    by (simp add: listen_handler_def qs_verify_client_version_def verify_client_auth_def verify_auth_def
        claimed_sender_def init_signed_request_def andThen_def ignoring_def action_apply)
  moreover have "listen_handler sv io (Some (Ok (ListenInit (request\<lparr> rl_payload := None \<rparr>)))) s = (Err invalid_argument, s)"
    using assms(1) by (simp add: listen_handler_def qs_verify_client_version_def andThen_def action_apply)
  ultimately show ?thesis using new activity_queues[of io c "s\<lparr> qs_queues := q \<rparr>"] by auto
qed

text \<open>
  (C39) A request to publish APQ key packages that names no client makes the handler panic: the code
  takes the branch it calls unreachable.
\<close>

theorem publish_apq_without_client_panics:
  assumes "qv_version_req sv = None" "claimed_sender pa_client_id (sr_request request) = None"
  shows "publish_apq_key_packages_handler sv io request s = (Err panicked, s)"
  using assms
  by (simp add: publish_apq_key_packages_handler_def qs_verify_client_version_def verify_client_auth_def
      verify_auth_def andThen_def action_apply)

text \<open>
  (C40) After a client is deleted its record is a tombstone of its user, its key packages are gone and
  nothing is enqueued for it any more; but the messages in its queue stay in the database.
\<close>

theorem deleted_client_keeps_messages:
  assumes "qs_delete_client_record io c s = (Ok (), t)" "active_client s c = Some r"
  shows "map_of (qs_clients t) c = Some (Tombstone (cr_user_id r) (q_now io))
    \<and> (\<forall>k \<in> set (kt_rows (qs_key_packages t)) \<union> set (kt_rows (qs_apq_key_packages t)). kr_client_id k \<noteq> c)
    \<and> fst (do_enqueue sv eio c p t) \<in> {Err ClientNotFound, Err EnqueueStorage}
    \<and> qs_queue_rows t = qs_queue_rows s"
proof -
  have row: "map_of (qs_clients s) c = Some (Active r)" using assms(2) by (simp add: active_client_Some_iff)
  have t: "t = s\<lparr> qs_clients := AList.update c (Tombstone (cr_user_id r) (q_now io)) (qs_clients s),
      qs_key_packages := delete_packages_of {c} (qs_key_packages s),
      qs_apq_key_packages := delete_packages_of {c} (qs_apq_key_packages s) \<rparr>"
    using assms(1) row by (auto simp: qs_delete_client_record_def soft_delete_def query_def action_simps split: if_splits)
  have "active_client t c = None" by (simp add: t active_client_def update_conv)
  then have "fst (do_enqueue sv eio c p t) \<in> {Err ClientNotFound, Err EnqueueStorage}"
    by (auto simp: do_enqueue_def transaction_def andThen_def converting_def load_for_update_def query_def
        action_apply ensure_def)
  then show ?thesis by (auto simp: t update_conv delete_packages_of_def)
qed

end
