(* ===== verification/Qs_Example.thy ===== *)
theory Qs_Example
  imports Qs_Requests
begin

text \<open>
  A queue service small enough to be run: its codings know one payload and one message, its cipher adds
  one to every byte, every database call succeeds.  The properties of the queue service are applied to
  its runs.
\<close>

section \<open>The service\<close>

definition mini_payload :: qs_queue_message_payload where
  "mini_payload = \<lparr> qm_timestamp = 50, qm_message_type = MlsMessage, qm_payload = [7] \<rparr>"

definition mini_message :: queue_message where
  "mini_message = \<lparr> qm_sequence_number = 0, qm_ciphertext = \<lparr> ciphertext = [5], nonce = [7] \<rparr> \<rparr>"

definition mini_de :: "bytes \<Rightarrow> unit + qs_queue_message_payload" where
  "mini_de bs = (if bs = [4] then Ok mini_payload else Err ())"

definition mini_qs :: "(bytes, bytes) qs_service" where
  "mini_qs = \<lparr> qv_domain = ''a'', qv_version_req = None, qv_version_matches = (\<lambda>_. True),
     qv_message_enc = (\<lambda>m. if m = mini_message then Ok [9] else Err ()),
     qv_message_dec = (\<lambda>bs. if bs = [9] then Ok mini_message else Err ()),
     qv_kdf = (\<lambda>_ sec. Ok sec),
     qv_payload_ser = (\<lambda>p. if p = mini_payload then Ok [4] else Err ()),
     qv_push_token_de = (\<lambda>_. Err ()), qv_aes_enc = plain_aes, qv_aes_dec = plain_aes_inv,
     qv_open_config = (\<lambda>_ bs. Ok \<lparr> cc_client_id = bs, cc_push_token_ear_key = None \<rparr>),
     qv_encryption_key = (\<lambda>k. k), qv_qs_to_qs_ser = (\<lambda>_. Ok []), qv_vl = Ok,
     qv_verify_signature = (\<lambda>_ _ _. True), qv_init_listen_enc = (\<lambda>_. []), qv_key_package_in = Ok,
     qv_validate = Ok, qv_apq_validate = Ok, qv_last_resort = (\<lambda>k. k = []), qv_key_package_out = Ok,
     qv_key_package_prefix = (\<lambda>bs. Ok (bs, [])), qv_key_package_ser = Ok, qv_key_package_de = Ok \<rparr>"

definition mini_enqueue_io :: enqueue_io where
  "mini_enqueue_io = \<lparr> e_begin = True, e_load = True, e_insert = True, e_notify = True, e_update = True,
     e_commit = True, e_nonce = Some [7], e_push = (\<lambda>_. None), e_delete_token = True, e_channel = True \<rparr>"

definition mini_io :: qs_io where
  "mini_io = \<lparr> q_acquire = True, q_begin = True, q_load = True, q_load_key = True, q_store = True,
     q_store_client = True, q_update = True, q_delete = True, q_insert = True, q_delete_last_resort = True,
     q_insert_last_resort = True, q_commit = True, q_activity = True, q_now = 0, q_user_id = [1],
     q_client_id = [2], q_generated_key = Some [3], q_network = Ok FederatedOk, q_order = (\<lambda>ids. ids),
     q_pick = hd, q_first = hd, q_enqueue = (\<lambda>_. mini_enqueue_io) \<rparr>"

definition mini_start :: qs_state where
  "mini_start = \<lparr> qs_users = [], qs_clients = [], qs_queue_rows = [],
     qs_key_packages = \<lparr> kt_rows = [], kt_next_id = 0 \<rparr>, qs_apq_key_packages = \<lparr> kt_rows = [], kt_next_id = 0 \<rparr>,
     qs_decryption_keys = [[3]], qs_queues = empty_queues, qs_notified = [], qs_events = [], qs_pushed = [],
     qs_delivered = [] \<rparr>"

definition mini_user :: qs_state where
  "mini_user = mini_start\<lparr> qs_users := [([1], \<lparr> ur_verifying_key = [6], ur_friendship_token = [8] \<rparr>)] \<rparr>"

definition mini_params :: create_client_record_params where
  "mini_params = \<lparr> ccp_sender = [1], ccp_client_record_auth_key = [6], ccp_queue_encryption_key = [],
     ccp_encrypted_push_token = None, ccp_initial_ratchet_secret = [5] \<rparr>"

definition mini_ratchet :: queue_ratchet where
  "mini_ratchet = \<lparr> sequence_number = 0, secret = [5], ratchet_key = [5] \<rparr>"

definition mini_record :: qs_client_record where
  "mini_record = \<lparr> cr_user_id = [1], cr_encrypted_push_token = None, cr_queue_encryption_key = [],
     cr_auth_key = [6], cr_ratchet_key = mini_ratchet, cr_activity_time = 0 \<rparr>"

definition mini_state :: qs_state where
  "mini_state = mini_user\<lparr> qs_clients := [([2], Active mini_record)] \<rparr>"

definition mini_broadcast :: ds_fan_out_message where
  "mini_broadcast = \<lparr> fo_payload = QueueMessage mini_payload,
     fo_client_reference = \<lparr> qr_client_homeserver_domain = ''a'', qr_sealed_reference = [2] \<rparr>,
     fo_suppress_notifications = False, fo_broadcast_to_all_client_queues = True \<rparr>"

lemmas mini_defs = mini_qs_def mini_io_def mini_enqueue_io_def mini_state_def mini_user_def mini_start_def
  mini_record_def mini_ratchet_def mini_params_def mini_broadcast_def

lemma mini_honest: "db_honest mini_io"
  by (simp add: db_honest_def mini_io_def)

lemma mini_works: "enqueue_works (q_enqueue mini_io c)"
  by (simp add: enqueue_works_def mini_io_def mini_enqueue_io_def)

lemma mini_crypto: "mail_crypto mini_qs mini_de"
  by (auto simp: mail_crypto_def mini_qs_def mini_de_def plain_aes_correct codec_correct_def)

lemma mini_codec: "codec_correct (qv_message_enc mini_qs) (qv_message_dec mini_qs)"
  by (auto simp: mini_qs_def codec_correct_def)

lemma mini_consistent: "qs_consistent mini_start" "qs_consistent mini_user" "qs_consistent mini_state"
  by (simp_all add: qs_consistent_def packages_ok_def mini_state_def mini_user_def mini_start_def mini_record_def)

lemma mini_create: "qs_create_client_record mini_qs mini_io mini_params mini_user = (Ok [2], mini_state)"
  by (simp add: qs_create_client_record_def QsClientRecord_new_and_store_def QsClientRecord_store_def query_def
      ratchet_try_from_def RatchetKey_derive_def mini_defs andThen_def converting_def action_apply ensure_simps)

lemma mini_encrypt:
  "ratchet_encrypt (qv_kdf mini_qs) (encrypt (qv_payload_ser mini_qs) (qv_aes_enc mini_qs)
     (e_nonce (q_enqueue mini_io c))) mini_payload mini_ratchet
   = Ok (mini_message, \<lparr> sequence_number = 1, secret = [5], ratchet_key = [5] \<rparr>)"
  by (simp add: ratchet_encrypt_def encrypt_def aead_encrypt_def plain_aes_def ratchet_forward_def
      RatchetSecret_derive_def RatchetKey_derive_def mini_qs_def mini_io_def mini_enqueue_io_def mini_ratchet_def
      mini_message_def)

lemma mini_mailbox: "mailbox mini_qs mini_de [2] mini_ratchet [] mini_state"
proof -
  have "\<forall>row \<in> set (qs_queue_rows mini_user). qw_queue_id row \<noteq> [2]"
    by (simp add: mini_user_def mini_start_def)
  from mailbox_created[OF mini_create this, of mini_de] obtain r0 where
    "ratchet_try_from (qv_kdf mini_qs) (ccp_initial_ratchet_secret mini_params) = Ok r0"
    "mailbox mini_qs mini_de [2] r0 [] mini_state" by blast
  moreover have "ratchet_try_from (qv_kdf mini_qs) (ccp_initial_ratchet_secret mini_params) = Ok mini_ratchet"
    by (simp add: ratchet_try_from_def RatchetKey_derive_def mini_qs_def mini_params_def mini_ratchet_def)
  ultimately show ?thesis by simp
qed

lemma mini_active: "active_client mini_state [2] = Some mini_record"
  by (simp add: active_client_def mini_state_def)

lemma mini_capacity: "0 < queue_capacity" "1 < queue_capacity"
  by (simp_all add: queue_capacity_def)


section \<open>Runs\<close>


lemma mini_step: "qs_step mini_qs mini_state (Some mini_payload) (snd (enqueue_message mini_qs mini_io mini_broadcast mini_state))"
  using step_enqueue[OF mini_honest, of mini_qs mini_state mini_broadcast] by (simp add: mini_broadcast_def)


definition mini_signup :: create_user_request where
  "mini_signup = \<lparr> cu_client_metadata = None, cu_user_record_auth_key = Field [6], cu_friendship_token = Field [8],
     cu_client_record_auth_key = Field [6], cu_queue_encryption_key = Field [], cu_encrypted_push_token = Missing,
     cu_initial_ratched_secret = Field [5] \<rparr>"


definition mini_packages :: qs_state where
  "mini_packages = mini_state\<lparr> qs_key_packages := \<lparr> kt_rows = [
     \<lparr> kr_id = 0, kr_client_id = [2], kr_key_package = [1, 7], kr_is_last_resort = False \<rparr>,
     \<lparr> kr_id = 1, kr_client_id = [2], kr_key_package = [1], kr_is_last_resort = True \<rparr>], kt_next_id = 2 \<rparr> \<rparr>"

lemma mini_packages_consistent: "qs_consistent mini_packages"
  by (simp add: qs_consistent_def packages_ok_def mini_packages_def mini_defs)

lemma mini_take: "\<exists>t. take_user_key_package (key_packages_of mini_qs) True hd hd [8] mini_packages mini_packages = (Ok [7], t)"
  by (simp add: take_user_key_package_def query_def andThen_def action_apply ensure_simps KeyPackage_storable_def
      selected_key_packages_def user_client_ids_def best_ranked_def mini_packages_def mini_defs map_filter_simps
      codec_try_from_def)



definition mini_update :: "update_client_payload legacy_request signed_request" where
  "mini_update = \<lparr> sr_request = \<lparr> rl_payload = None, rl_signature = None,
       rl_legacy = \<lparr> uc_client_metadata = None, uc_sender = Field [2], uc_client_record_auth_key = Field [9],
         uc_queue_encryption_key = Field [], uc_encrypted_push_token = Missing \<rparr> \<rparr>, sr_payload_bytes = None \<rparr>"

theorem client_update_is_signed_or_legacy_witness:
  "\<exists>t. update_client_handler mini_qs mini_io mini_update mini_state = (Ok (), t)
     \<and> (\<exists>c. (\<forall>c'. c' \<noteq> c \<longrightarrow> map_of (qs_clients t) c' = map_of (qs_clients mini_state) c')
          \<and> uc_sender (rl_legacy (sr_request mini_update)) = Field c)"
proof -
  obtain t where run: "update_client_handler mini_qs mini_io mini_update mini_state = (Ok (), t)"
    by (simp add: update_client_handler_def qs_verify_client_version_def verify_client_auth_def verify_auth_def
        claimed_sender_def request_metadata_def qs_update_client_record_def QsClientRecord_update_def
        update_active_def load_for_update_def query_def transaction_def andThen_def converting_def action_apply
        ensure_simps mini_active mini_update_def mini_qs_def mini_io_def)
  from client_update_is_signed_or_legacy[OF run] run show ?thesis by (auto simp: mini_update_def)
qed

definition mini_listen :: "init_listen_payload legacy_request" where
  "mini_listen = \<lparr> rl_payload = Some \<lparr> il_client_metadata = None, il_client_id = Missing, il_sequence_number_start = 0 \<rparr>,
     rl_signature = None,
     rl_legacy = \<lparr> il_client_metadata = None, il_client_id = Field [2], il_sequence_number_start = 0 \<rparr> \<rparr>"

theorem listen_without_signature_witness:
  "\<exists>cancel ctx t. listen_handler mini_qs mini_io (Some (Ok (ListenInit mini_listen))) mini_state
     = (Ok ([2], cancel, ctx), t) \<and> sc_client_id ctx = [2]"
proof -
  have "qv_version_req mini_qs = None"
    "rl_payload mini_listen = Some \<lparr> il_client_metadata = None, il_client_id = Missing, il_sequence_number_start = 0 \<rparr>"
    "il_client_id \<lparr> il_client_metadata = None, il_client_id = Missing, il_sequence_number_start = 0 \<rparr> = Missing"
    "il_client_id (rl_legacy mini_listen) = Field [2]"
    by (simp_all add: mini_qs_def mini_listen_def)
  from listen_without_signature[OF this, of mini_io mini_state] show ?thesis by blast
qed

theorem publish_apq_without_client_panics_witness:
  "publish_apq_key_packages_handler mini_qs mini_io
     \<lparr> sr_request = \<lparr> rl_payload = None, rl_signature = None \<rparr>, sr_payload_bytes = None \<rparr> mini_state
   = (Err panicked, mini_state)"
  by (rule publish_apq_without_client_panics) (simp_all add: mini_qs_def claimed_sender_def)

theorem deleted_client_keeps_messages_witness:
  "\<exists>t. qs_delete_client_record mini_io [2] mini_state = (Ok (), t)
     \<and> map_of (qs_clients t) [2] = Some (Tombstone [1] 0) \<and> qs_queue_rows t = qs_queue_rows mini_state"
proof -
  obtain t where run: "qs_delete_client_record mini_io [2] mini_state = (Ok (), t)"
    by (simp add: qs_delete_client_record_def soft_delete_def query_def converting_def action_apply mini_io_def)
  have "cr_user_id mini_record = [1]" "q_now mini_io = 0" by (simp_all add: mini_record_def mini_io_def)
  with deleted_client_keeps_messages[OF run mini_active, of mini_qs mini_enqueue_io mini_payload] run show ?thesis by auto
qed

end
