(* ===== verification/Backend.thy ===== *)
theory Backend
  imports Ds_Requests Qs_Example
begin

text \<open>
  The delivery service and the queue service together: the connector of \<^verbatim>\<open>server/src/qs_connector.rs\<close>
  hands every fanned-out message of the delivery service to the queue service.  The delivery service
  dispatches concurrently, so the messages arrive in any order.
\<close>

section \<open>Who gets a message\<close>

definition recipients :: "('ki, 'kp, 'z) qs_service_scheme \<Rightarrow> qs_io \<Rightarrow> ds_fan_out_message \<Rightarrow> qs_state \<Rightarrow>
    qs_client_id list" where
  "recipients qsv io message s =
     (if qr_client_homeserver_domain (fo_client_reference message) \<noteq> qv_domain qsv \<or> \<not> q_load_key io then []
      else case qs_decryption_keys s of
        [] \<Rightarrow> []
      | key # _ \<Rightarrow>
          (case qv_open_config qsv key (qr_sealed_reference (fo_client_reference message)) of
             Err _ \<Rightarrow> []
           | Ok cc \<Rightarrow> (case fst (recipient_ids io message cc s) of Err _ \<Rightarrow> [] | Ok ids \<Rightarrow> ids)))"

lemma view_deliver_remote: "frames (view c) (deliver_remote qsv io message)"
  unfolding deliver_remote_def Let_def by (intro action_rules)

lemma not_recipient_view:
  assumes "c \<notin> set (recipients qsv io message s)"
  shows "view c (snd (enqueue_message qsv io message s)) = view c s"
proof (cases "qr_client_homeserver_domain (fo_client_reference message) = qv_domain qsv")
  case False
  then show ?thesis
    using view_deliver_remote[of c qsv io message] by (simp add: enqueue_message_def frames_def)
next
  case True
  with assms show ?thesis
    unfolding enqueue_message_local[OF True] recipients_def
    by (auto simp: fan_out_def fan_out_view split: list.splits sum.splits)
qed

lemma recipient_mailbox:
  assumes "mail_crypto qsv de" "mailbox qsv de c r0 ps s" "length ps < queue_capacity"
    and "active_client s c = Some r" "enqueue_works (q_enqueue io c)"
    and "ratchet_encrypt (qv_kdf qsv) (encrypt (qv_payload_ser qsv) (qv_aes_enc qsv) (e_nonce (q_enqueue io c))) p
      (cr_ratchet_key r) = Ok (m, r')" "qv_message_enc qsv m = Ok bs"
    and "fo_payload message = QueueMessage p" "db_honest io" "distinct (map fst (qs_clients s))"
    and "c \<in> set (recipients qsv io message s)"
  shows "mailbox qsv de c r0 (ps @ [p]) (snd (enqueue_message qsv io message s))"
proof -
  from assms(11) obtain key keys cc ids where
    local: "qr_client_homeserver_domain (fo_client_reference message) = qv_domain qsv" "q_load_key io"
      "qs_decryption_keys s = key # keys"
      "qv_open_config qsv key (qr_sealed_reference (fo_client_reference message)) = Ok cc"
      "fst (recipient_ids io message cc s) = Ok ids" and c: "c \<in> set ids"
    by (auto simp: recipients_def split: if_splits list.splits sum.splits, metis)
  have "recipient_ids io message cc s = (Ok ids, s)"
    using local(5) recipient_ids_state[of io message cc s] by (metis prod.collapse)
  then have "distinct ids" by (rule recipient_ids_distinct[OF _ assms(9,10)])
  then have "mailbox qsv de c r0 (ps @ [p]) (fan_out qsv io message cc ids s)"
    using c by (intro fan_out_reaches[OF assms(1-8)])
  with local show ?thesis by (simp add: enqueue_message_local)
qed

text \<open>Enqueuing changes neither who the clients are nor the decryption key.\<close>

definition seat :: "qs_client_id \<times> qs_client_row \<Rightarrow> qs_client_id \<times> qs_user_id \<times> bool" where
  "seat = (\<lambda>(c, row). (c, row_user_id row, active_row row \<noteq> None))"

definition roster :: "qs_state \<Rightarrow> (qs_client_id \<times> qs_user_id \<times> bool) list \<times> bytes list" where
  "roster s = (map seat (qs_clients s), qs_decryption_keys s)"

lemma roster_update:
  assumes "map_of clients c = Some (Active r)" "cr_user_id r' = cr_user_id r"
  shows "map seat (AList.update c (Active r') clients)
    = map seat clients"
  using assms by (induction clients) (auto simp: seat_def)

lemma roster_update_active [action_rules]:
  "(\<And>r. cr_user_id (change r) = cr_user_id r) \<Longrightarrow> frames roster (update_active ok c change)"
  unfolding update_active_def query_def
  by (auto intro!: frames_modify action_rules simp: roster_def roster_update active_client_Some_iff split: option.split)

lemma roster_do_enqueue [action_rules]: "frames roster (do_enqueue qsv io c p)"
  unfolding frames_def
proof
  fix s
  obtain y t where run: "do_enqueue qsv io c p s = (y, t)" by (cases "do_enqueue qsv io c p s")
  have "roster t = roster s"
  proof (cases y)
    case (Inl e)
    then have "qs_decryption_keys t = qs_decryption_keys s"
      using run by (auto simp: do_enqueue_def transaction_Err_iff restore_qs_db_def)
    with Inl do_enqueue_Err[of qsv io c p s e t] run show ?thesis by (simp add: roster_def)
  next
    case (Inr x)
    with run show ?thesis
      by (auto simp: do_enqueue_Ok_iff roster_def roster_update active_client_Some_iff)
  qed
  with run show "roster (snd (do_enqueue qsv io c p s)) = roster s" by simp
qed

lemma roster_outbox [action_rules]:
  "frames roster (modify_with (\<lambda>s. s\<lparr> qs_pushed := f s \<rparr>))"
  "frames roster (modify_with (\<lambda>s. s\<lparr> qs_events := g s \<rparr>))"
  "frames roster (modify_with (\<lambda>s. s\<lparr> qs_delivered := h s \<rparr>))"
  by (intro frames_modify; simp add: roster_def)+

lemma roster_enqueue [action_rules]: "frames roster (QsClientRecord_enqueue qsv io c msg key)"
proof (cases msg)
  case (EventMessage ev)
  have "frames roster (\<lambda>s. (map_err (\<lambda>_. EnqueueStorage) (send_payload (e_channel io) (qs_queues s) c), s))"
    by (simp add: frames_def)
  with EventMessage show ?thesis
    unfolding QsClientRecord_enqueue_def by (auto intro!: action_rules)
next
  case (QueueMessage p)
  have "frames roster (push_notification qsv io c r key)" for r
    unfolding push_notification_def delete_push_token_def
    by (auto intro!: action_rules split: option.split sum.split push_notification_error.split)
  with QueueMessage show ?thesis
    by (auto simp: QsClientRecord_enqueue_def intro!: action_rules)
qed

lemma roster_message: "roster (snd (enqueue_message qsv io message s)) = roster s"
proof -
  have "frames roster (enqueue_message qsv io message)"
    unfolding enqueue_message_def deliver_remote_def recipient_ids_def load_client_ids_def DecryptionKey_load_def
      query_def Let_def
    by (intro action_rules)
  then show ?thesis by (simp add: frames_def)
qed

lemma roster_recipients:
  assumes "roster t = roster s"
  shows "recipients qsv io message t = recipients qsv io message s"
proof -
  have ids: "active_client_ids u clients = map fst (filter (\<lambda>(_, u', a). u' = u \<and> a)
      (map seat clients))" for u clients
    by (induction clients) (auto simp: active_client_ids_def seat_def)
  have user: "map_option row_user_id (map_of clients c) = map_option fst (map_of
      (map seat clients) c)" for clients c
    by (induction clients) (auto simp: seat_def)
  have "active_client_ids u (qs_clients t) = active_client_ids u (qs_clients s)"
    "map_option row_user_id (map_of (qs_clients t) c) = map_option row_user_id (map_of (qs_clients s) c)"
    "qs_decryption_keys t = qs_decryption_keys s" for u c
    using assms unfolding ids user roster_def by auto
  then have "fst (recipient_ids io message cc t) = fst (recipient_ids io message cc s)" for cc
    by (cases "fo_broadcast_to_all_client_queues message")
      (auto simp: recipient_ids_broadcast recipient_ids_single map_option_eq_Some split: option.splits; metis option.simps)+
  then show ?thesis
    using \<open>qs_decryption_keys t = qs_decryption_keys s\<close> by (simp add: recipients_def cong: list.case_cong sum.case_cong)
qed


section \<open>Dispatching\<close>

definition dispatch_all :: "('ki, 'kp, 'z) qs_service_scheme \<Rightarrow> (qs_io \<times> ds_fan_out_message) list \<Rightarrow> qs_state \<Rightarrow>
    qs_state" where
  "dispatch_all qsv ms s = fold (\<lambda>(io, message) s. snd (enqueue_message qsv io message s)) ms s"

lemma dispatch_simps:
  "dispatch_all qsv [] s = s"
  "dispatch_all qsv ((io, message) # ms) s = dispatch_all qsv ms (snd (enqueue_message qsv io message s))"
  "dispatch_all qsv (ms @ ms') s = dispatch_all qsv ms' (dispatch_all qsv ms s)"
  by (simp_all add: dispatch_all_def)

lemma dispatch_roster: "roster (dispatch_all qsv ms s) = roster s"
  by (induction ms arbitrary: s) (auto simp: dispatch_simps roster_message)

lemma dispatch_others:
  "(\<forall>(io, message) \<in> set ms. c \<notin> set (recipients qsv io message s)) \<Longrightarrow> view c (dispatch_all qsv ms s) = view c s"
proof (induction ms arbitrary: s)
  case (Cons m ms)
  obtain io message where m: "m = (io, message)" by (cases m)
  let ?t = "snd (enqueue_message qsv io message s)"
  have "\<forall>(io, message) \<in> set ms. c \<notin> set (recipients qsv io message ?t)"
    using Cons.prems by (simp add: roster_recipients[OF roster_message])
  from Cons.IH[OF this] Cons.prems show ?case by (simp add: m dispatch_simps not_recipient_view)
qed (simp add: dispatch_simps)

lemma view_mailbox: "view c t = view c s \<Longrightarrow> mailbox qsv de c r0 ps t = mailbox qsv de c r0 ps s"
  unfolding mailbox_def mail_log_def queue_holds_def view_def by simp

lemma view_active: "view c t = view c s \<Longrightarrow> active_client t c = active_client s c"
  by (simp add: view_def active_client_def)

text \<open>Of the dispatched messages exactly one has the client as a recipient: it is what the client finds.\<close>

lemma dispatch_mailbox:
  assumes "mail_crypto qsv de" "mailbox qsv de c r0 ps s" "length ps < queue_capacity"
    and "active_client s c = Some r" "enqueue_works (q_enqueue io c)"
    and "ratchet_encrypt (qv_kdf qsv) (encrypt (qv_payload_ser qsv) (qv_aes_enc qsv) (e_nonce (q_enqueue io c))) p
      (cr_ratchet_key r) = Ok (m, r')" "qv_message_enc qsv m = Ok bs"
    and "fo_payload message = QueueMessage p" "db_honest io" "distinct (map fst (qs_clients s))"
    and "c \<in> set (recipients qsv io message s)"
    and others: "\<forall>(io, message) \<in> set (before @ after). c \<notin> set (recipients qsv io message s)"
  shows "mailbox qsv de c r0 (ps @ [p]) (dispatch_all qsv (before @ (io, message) # after) s)"
proof -
  let ?s = "dispatch_all qsv before s"
  let ?t = "snd (enqueue_message qsv io message ?s)"
  have view: "view c ?s = view c s" using others by (intro dispatch_others) auto
  have "map fst (qs_clients ?s) = map fst (fst (roster ?s))" "map fst (qs_clients s) = map fst (fst (roster s))"
    by (simp_all add: roster_def seat_def case_prod_beta)
  with assms(10) have "distinct (map fst (qs_clients ?s))" by (simp add: dispatch_roster)
  then have "mailbox qsv de c r0 (ps @ [p]) ?t"
    using assms(2-11) by (intro recipient_mailbox[OF assms(1)])
      (simp_all add: view_mailbox[OF view] view_active[OF view] roster_recipients[OF dispatch_roster])
  moreover have rest: "view c (dispatch_all qsv after ?t) = view c ?t"
    using others by (intro dispatch_others) (auto simp: roster_recipients[OF roster_message] roster_recipients[OF dispatch_roster])
  ultimately show ?thesis by (simp only: dispatch_simps view_mailbox[OF rest])
qed

lemma send_message_sent:
  assumes "send_message_handler sv io request s = (Ok ts, t)"
  obtains payload m st i where "rq_payload (sr_request request) = Some payload" "pl_message payload = Field m"
    "sent t = sent s @ map (\<lambda>c. \<lparr> fo_payload = mls_payload (io_now io) (am_serialized_mls_message m),
        fo_client_reference = c, fo_suppress_notifications = unwrap_or False (pl_suppress_notifications payload),
        fo_broadcast_to_all_client_queues = broadcast_to_all_client_queues sv st \<rparr>) (other_destination_clients st i)"
  using assms by (auto simp: send_message_handler_def action_simps result_simps request_verify_Ok_iff dest!: tags_frame)

end
