(* ===== verification/Credentials.thy ===== *)
theory Credentials
  imports Ds_Group_State Signed_Request Common_Types Qs_Service
begin

text \<open>
  Credentials and their chain: \<^verbatim>\<open>common/src/credentials/mod.rs\<close>, \<^verbatim>\<open>common/src/credentials/keys.rs\<close> and
  \<^verbatim>\<open>common/src/crypto/hash.rs\<close>.  The authentication service of a domain has a self-certified credential;
  its key signs intermediate credentials, whose keys sign the credentials of clients.  A credential is
  named by its fingerprint, the labelled hash of its body, and names its signer by the fingerprint.

  The client's side is \<^verbatim>\<open>coreclient/src/key_stores/as_credentials.rs\<close>: a store of verified intermediate
  credentials that fetches what it lacks from the service of the domain.

  The record \<open>cred_env\<close> has what is not part of the repository: the signature scheme, the hash function
  and the derived TLS encodings.
\<close>

section \<open>Keys and hashes\<close>

record signing_key =
  sg_private :: bytes
  sg_verifying_key :: bytes

record as_credential_body =
  acb_version :: air_protocol_version
  acb_user_domain :: string
  acb_expiration_data :: expiration_data
  acb_signature_scheme :: "16 word"
  acb_verifying_key :: bytes

record as_intermediate_credential_csr =
  aic_version :: air_protocol_version
  aic_user_domain :: string
  aic_signature_scheme :: "16 word"
  aic_verifying_key :: bytes

record as_intermediate_credential_payload =
  aip_csr :: as_intermediate_credential_csr
  aip_expiration_data :: expiration_data
  aip_signer_fingerprint :: bytes

record as_intermediate_credential_body =
  aib_credential :: as_intermediate_credential_payload
  aib_signature :: bytes

record client_credential_csr =
  ccc_version :: air_protocol_version
  ccc_user_id :: user_id
  ccc_signature_scheme :: "16 word"
  ccc_verifying_key :: bytes

record client_credential_payload =
  clp_csr :: client_credential_csr
  clp_expiration_data :: expiration_data
  clp_signer_fingerprint :: bytes

record client_credential =
  clc_payload :: client_credential_payload
  clc_signature :: bytes

record cred_env =
  ce_vl :: "bytes \<Rightarrow> unit + bytes"
  ce_sign :: "bytes \<Rightarrow> bytes \<Rightarrow> unit + bytes"
  ce_verify :: "bytes \<Rightarrow> bytes \<Rightarrow> bytes \<Rightarrow> bool"
  ce_sha256 :: "bytes \<Rightarrow> bytes"
  ce_body_tls :: "as_credential_body \<Rightarrow> bytes"
  ce_intermediate_tls :: "as_intermediate_credential_payload \<Rightarrow> unit + bytes"
  ce_intermediate_body_tls :: "as_intermediate_credential_body \<Rightarrow> bytes"
  ce_client_tls :: "client_credential_payload \<Rightarrow> unit + bytes"
  ce_round :: "time \<Rightarrow> time"

text \<open>A string is encoded as its bytes; for these short labels the encoding does not fail.\<close>

definition tls_str :: "'z cred_env_scheme \<Rightarrow> string \<Rightarrow> bytes" where
  "tls_str env s = (case ce_vl env (utf8 s) of Ok bs \<Rightarrow> bs | Err _ \<Rightarrow> [])"

definition labeled_hash :: "'z cred_env_scheme \<Rightarrow> string \<Rightarrow> bytes \<Rightarrow> bytes" where
  "labeled_hash env label payload =
     ce_sha256 env (tls_str env ''Air Hash'' @ tls_str env label @ payload)"


section \<open>The credential of the service\<close>

definition DEFAULT_AS_CREDENTIAL_LIFETIME :: duration where
  "DEFAULT_AS_CREDENTIAL_LIFETIME = duration_days (5 * 365)"

definition AS_CREDENTIAL_LABEL :: string where
  "AS_CREDENTIAL_LABEL = ''Air AS Credential''"

record as_credential =
  ac_body :: as_credential_body
  ac_fingerprint :: bytes

record as_signing_key =
  ak_signing_key :: signing_key
  ak_credential :: as_credential

definition AsCredential_from :: "'z cred_env_scheme \<Rightarrow> as_credential_body \<Rightarrow> as_credential" where
  "AsCredential_from env body =
     \<lparr> ac_body = body, ac_fingerprint = labeled_hash env AS_CREDENTIAL_LABEL (ce_body_tls env body) \<rparr>"

text \<open>A fresh key pair is an argument; generating it may fail.\<close>

datatype key_generation_error = KeypairGeneration

definition AsCredential_new :: "'z cred_env_scheme \<Rightarrow> time \<Rightarrow> signing_key option \<Rightarrow> 16 word \<Rightarrow> string \<Rightarrow>
    expiration_data option \<Rightarrow> key_generation_error + as_credential \<times> as_signing_key" where
  "AsCredential_new env now generated signature_scheme user_domain expiration_data_option =
     (let expiration_data = (case expiration_data_option of
            Some e \<Rightarrow> e | None \<Rightarrow> ExpirationData_new (ce_round env) now DEFAULT_AS_CREDENTIAL_LIFETIME)
      in and_then (ok_or KeypairGeneration generated) (\<lambda>signing_key.
         let credential = AsCredential_from env
               \<lparr> acb_version = Alpha, acb_user_domain = user_domain, acb_expiration_data = expiration_data,
                 acb_signature_scheme = signature_scheme, acb_verifying_key = sg_verifying_key signing_key \<rparr>
         in Ok (credential, \<lparr> ak_signing_key = signing_key, ak_credential = credential \<rparr>)))"


section \<open>Intermediate credentials\<close>

definition DEFAULT_AS_INTERMEDIATE_CREDENTIAL_LIFETIME :: duration where
  "DEFAULT_AS_INTERMEDIATE_CREDENTIAL_LIFETIME = duration_days 365"

definition AS_INTERMEDIATE_CREDENTIAL_LABEL :: string where
  "AS_INTERMEDIATE_CREDENTIAL_LABEL = ''AS Intermediate Credential''"

record as_intermediate_credential =
  ai_body :: as_intermediate_credential_body
  ai_fingerprint :: bytes

definition AsIntermediateCredential_from :: "'z cred_env_scheme \<Rightarrow> as_intermediate_credential_body \<Rightarrow>
    as_intermediate_credential" where
  "AsIntermediateCredential_from env body =
     \<lparr> ai_body = body,
       ai_fingerprint = labeled_hash env AS_INTERMEDIATE_CREDENTIAL_LABEL (ce_intermediate_body_tls env body) \<rparr>"

definition intermediate_verifying_key :: "as_intermediate_credential \<Rightarrow> bytes" where
  "intermediate_verifying_key c = aic_verifying_key (aip_csr (aib_credential (ai_body c)))"

definition intermediate_domain :: "as_intermediate_credential \<Rightarrow> string" where
  "intermediate_domain c = aic_user_domain (aip_csr (aib_credential (ai_body c)))"

definition AsIntermediateCredentialCsr_new :: "signing_key option \<Rightarrow> 16 word \<Rightarrow> string \<Rightarrow>
    key_generation_error + as_intermediate_credential_csr \<times> signing_key" where
  "AsIntermediateCredentialCsr_new generated signature_scheme user_domain =
     and_then (ok_or KeypairGeneration generated) (\<lambda>prelim_signing_key.
     Ok (\<lparr> aic_version = Alpha, aic_user_domain = user_domain, aic_signature_scheme = signature_scheme,
           aic_verifying_key = sg_verifying_key prelim_signing_key \<rparr>, prelim_signing_key))"

definition AsIntermediateCredentialCsr_sign :: "'z cred_env_scheme \<Rightarrow> time \<Rightarrow> as_intermediate_credential_csr \<Rightarrow>
    as_signing_key \<Rightarrow> expiration_data option \<Rightarrow> signature_error + as_intermediate_credential" where
  "AsIntermediateCredentialCsr_sign env now csr as_signing_key expiration_data_option =
     (let payload = \<lparr> aip_csr = csr,
            aip_expiration_data = (case expiration_data_option of
              Some e \<Rightarrow> e
            | None \<Rightarrow> ExpirationData_new (ce_round env) now DEFAULT_AS_INTERMEDIATE_CREDENTIAL_LIFETIME),
            aip_signer_fingerprint = ac_fingerprint (ak_credential as_signing_key) \<rparr>
      in map_ok (\<lambda>signature. AsIntermediateCredential_from env \<lparr> aib_credential = payload, aib_signature = signature \<rparr>)
           (sign_payload (ce_vl env) (ce_sign env) (sg_private (ak_signing_key as_signing_key))
             AS_INTERMEDIATE_CREDENTIAL_LABEL (ce_intermediate_tls env payload)))"

text \<open>An intermediate credential as it arrives, before its signature is verified, is its body.\<close>

definition verify_intermediate :: "'z cred_env_scheme \<Rightarrow> bytes \<Rightarrow> as_intermediate_credential_body \<Rightarrow>
    signature_error + as_intermediate_credential" where
  "verify_intermediate env key verifiable =
     and_then (verify_payload (ce_vl env) (ce_verify env) key AS_INTERMEDIATE_CREDENTIAL_LABEL
       (ce_intermediate_tls env (aib_credential verifiable)) (aib_signature verifiable)) (\<lambda>_.
     Ok (AsIntermediateCredential_from env verifiable))"

record as_intermediate_signing_key =
  ik_signing_key :: signing_key
  ik_credential :: as_intermediate_credential

datatype signing_key_creation_error = PublicKeyMismatch

definition AsIntermediateSigningKey_from_prelim_key :: "signing_key \<Rightarrow> as_intermediate_credential \<Rightarrow>
    signing_key_creation_error + as_intermediate_signing_key" where
  "AsIntermediateSigningKey_from_prelim_key prelim_key credential =
     and_then (ensure (sg_verifying_key prelim_key = intermediate_verifying_key credential) PublicKeyMismatch) (\<lambda>_.
     Ok \<lparr> ik_signing_key = prelim_key, ik_credential = credential \<rparr>)"


section \<open>Client credentials\<close>

definition CLIENT_CREDENTIAL_LABEL :: string where
  "CLIENT_CREDENTIAL_LABEL = ''Client Credential''"

definition DEFAULT_CLIENT_CREDENTIAL_LIFETIME :: duration where
  "DEFAULT_CLIENT_CREDENTIAL_LIFETIME = duration_days 90"

definition ClientCredentialCsr_new :: "signing_key option \<Rightarrow> user_id \<Rightarrow> 16 word \<Rightarrow>
    key_generation_error + client_credential_csr \<times> signing_key" where
  "ClientCredentialCsr_new generated user_id signature_scheme =
     and_then (ok_or KeypairGeneration generated) (\<lambda>prelim_signing_key.
     Ok (\<lparr> ccc_version = Alpha, ccc_user_id = user_id, ccc_signature_scheme = signature_scheme,
           ccc_verifying_key = sg_verifying_key prelim_signing_key \<rparr>, prelim_signing_key))"

definition ClientCredentialPayload_new :: "'z cred_env_scheme \<Rightarrow> time \<Rightarrow> client_credential_csr \<Rightarrow>
    expiration_data option \<Rightarrow> bytes \<Rightarrow> client_credential_payload" where
  "ClientCredentialPayload_new env now csr expiration_data_option signer_fingerprint =
     \<lparr> clp_csr = csr,
       clp_expiration_data = (case expiration_data_option of
         Some e \<Rightarrow> e | None \<Rightarrow> ExpirationData_new (ce_round env) now DEFAULT_CLIENT_CREDENTIAL_LIFETIME),
       clp_signer_fingerprint = signer_fingerprint \<rparr>"

definition ClientCredentialPayload_validate :: "'z cred_env_scheme \<Rightarrow> time \<Rightarrow> client_credential_payload \<Rightarrow> bool" where
  "ClientCredentialPayload_validate env now payload =
     ExpirationData_validate (ce_round env) now (clp_expiration_data payload)"

definition payload_identity :: "client_credential_payload \<Rightarrow> user_id" where
  "payload_identity payload = ccc_user_id (clp_csr payload)"

definition ClientCredential_user_id :: "client_credential \<Rightarrow> user_id" where
  "ClientCredential_user_id c = payload_identity (clc_payload c)"

definition ClientCredential_verifying_key :: "client_credential \<Rightarrow> bytes" where
  "ClientCredential_verifying_key c = ccc_verifying_key (clp_csr (clc_payload c))"

definition sign_client :: "'z cred_env_scheme \<Rightarrow> as_intermediate_signing_key \<Rightarrow> client_credential_payload \<Rightarrow>
    signature_error + client_credential" where
  "sign_client env key payload =
     map_ok (\<lambda>signature. \<lparr> clc_payload = payload, clc_signature = signature \<rparr>)
       (sign_payload (ce_vl env) (ce_sign env) (sg_private (ik_signing_key key)) CLIENT_CREDENTIAL_LABEL
         (ce_client_tls env payload))"

definition verify_client :: "'z cred_env_scheme \<Rightarrow> bytes \<Rightarrow> client_credential \<Rightarrow>
    signature_error + client_credential" where
  "verify_client env key verifiable =
     and_then (verify_payload (ce_vl env) (ce_verify env) key CLIENT_CREDENTIAL_LABEL
       (ce_client_tls env (clc_payload verifiable)) (clc_signature verifiable)) (\<lambda>_.
     Ok verifiable)"

record client_signing_key =
  ck_signing_key :: signing_key
  ck_credential :: client_credential

definition ClientSigningKey_from_prelim_key :: "signing_key \<Rightarrow> client_credential \<Rightarrow>
    signing_key_creation_error + client_signing_key" where
  "ClientSigningKey_from_prelim_key prelim_key credential =
     and_then (ensure (sg_verifying_key prelim_key = ClientCredential_verifying_key credential) PublicKeyMismatch) (\<lambda>_.
     Ok \<lparr> ck_signing_key = prelim_key, ck_credential = credential \<rparr>)"

text \<open>
  The columns a credential is stored in; the user is the key of its row.  Version and scheme are coded
  by the persistence codec, whose failure panics.
\<close>

record flat_client_credential =
  fc_version :: air_protocol_version
  fc_signature_scheme :: "16 word"
  fc_verifying_key :: bytes
  fc_expiration_data :: expiration_data
  fc_signer_fingerprint :: bytes
  fc_signature :: bytes

definition FlatClientCredential_new :: "client_credential \<Rightarrow> flat_client_credential" where
  "FlatClientCredential_new credential =
     (let payload = clc_payload credential; csr = clp_csr payload in
      \<lparr> fc_version = ccc_version csr, fc_signature_scheme = ccc_signature_scheme csr,
        fc_verifying_key = ccc_verifying_key csr, fc_expiration_data = clp_expiration_data payload,
        fc_signer_fingerprint = clp_signer_fingerprint payload, fc_signature = clc_signature credential \<rparr>)"

definition into_client_credential :: "flat_client_credential \<Rightarrow> user_id \<Rightarrow> client_credential" where
  "into_client_credential flat user_id =
     \<lparr> clc_payload = \<lparr> clp_csr = \<lparr> ccc_version = fc_version flat, ccc_user_id = user_id,
           ccc_signature_scheme = fc_signature_scheme flat, ccc_verifying_key = fc_verifying_key flat \<rparr>,
         clp_expiration_data = fc_expiration_data flat, clp_signer_fingerprint = fc_signer_fingerprint flat \<rparr>,
       clc_signature = fc_signature flat \<rparr>"

lemma flat_credential_roundtrip:
  "into_client_credential (FlatClientCredential_new c) (ClientCredential_user_id c) = c"
  by (simp add: into_client_credential_def FlatClientCredential_new_def ClientCredential_user_id_def
      payload_identity_def Let_def)



section \<open>Signatures along the chain\<close>

definition key_pair :: "'z cred_env_scheme \<Rightarrow> signing_key \<Rightarrow> bool" where
  "key_pair env k =
     (\<forall>content sig. ce_sign env (sg_private k) content = Ok sig \<longrightarrow> ce_verify env (sg_verifying_key k) content sig)"

lemma signed_verifies:
  "key_pair env k \<Longrightarrow> sign_payload (ce_vl env) (ce_sign env) (sg_private k) label p = Ok sig \<Longrightarrow>
   verify_payload (ce_vl env) (ce_verify env) (sg_verifying_key k) label p sig = Ok ()"
  by (auto simp: sign_payload_def verify_payload_def key_pair_def result_simps ensure_def)

lemma intermediate_issued:
  assumes "key_pair env (ak_signing_key k)" "AsIntermediateCredentialCsr_sign env now csr k exp = Ok c"
  shows "verify_intermediate env (sg_verifying_key (ak_signing_key k)) (ai_body c) = Ok c"
    and "aip_signer_fingerprint (aib_credential (ai_body c)) = ac_fingerprint (ak_credential k)"
    and "aip_csr (aib_credential (ai_body c)) = csr"
  using assms(2) signed_verifies[OF assms(1)]
  by (auto simp: AsIntermediateCredentialCsr_sign_def verify_intermediate_def AsIntermediateCredential_from_def
      result_simps Let_def)

lemma client_issued:
  assumes "key_pair env (ik_signing_key k)" "sign_client env k payload = Ok c"
  shows "verify_client env (sg_verifying_key (ik_signing_key k)) c = Ok c" and "clc_payload c = payload"
  using assms(2) signed_verifies[OF assms(1)]
  by (auto simp: sign_client_def verify_client_def result_simps)

lemma verify_intermediate_Ok_iff [result_simps]:
  "verify_intermediate env key b = Ok c \<longleftrightarrow> c = AsIntermediateCredential_from env b
    \<and> verify_payload (ce_vl env) (ce_verify env) key AS_INTERMEDIATE_CREDENTIAL_LABEL
        (ce_intermediate_tls env (aib_credential b)) (aib_signature b) = Ok ()"
  by (auto simp: verify_intermediate_def result_simps)

lemma verify_client_Ok_iff [result_simps]:
  "verify_client env key v = Ok c \<longleftrightarrow> c = v
    \<and> verify_payload (ce_vl env) (ce_verify env) key CLIENT_CREDENTIAL_LABEL
        (ce_client_tls env (clc_payload v)) (clc_signature v) = Ok ()"
  by (auto simp: verify_client_def result_simps)

lemma intermediate_body [simp]: "ai_body (AsIntermediateCredential_from env b) = b"
  by (simp add: AsIntermediateCredential_from_def)

end
