(* ===== verification/Credential_Store.thy ===== *)
theory Credential_Store
  imports Credentials
begin

text \<open>
  The client's side of credentials: the store of intermediate credentials
  (\<^verbatim>\<open>coreclient/src/key_stores/as_credentials.rs\<close>) and connection offers, which are verified along the
  chain (\<^verbatim>\<open>coreclient/src/clients/connection_offer.rs\<close>, \<^verbatim>\<open>clients/process/process_as.rs\<close>).

  The table \<^verbatim>\<open>as_credential\<close> is an association list by fingerprint.  What a server answers, hybrid public
  key decryption and the encoding of an offer are arguments.
\<close>

section \<open>The store\<close>

datatype credential_kind = AsCredentialKind | AsIntermediateCredentialKind

record credential_row =
  cw_user_domain :: string
  cw_credential_type :: credential_kind
  cw_credential :: as_intermediate_credential_body

type_synonym credential_db = "(bytes \<times> credential_row) list"

datatype as_credential_store_error =
    AsCredentialNotFound | AsIntermediateCredentialNotFound | StoreVerificationError signature_error
  | PersistenceError | AsRequestFailed

definition store_intermediate :: "bool \<Rightarrow> as_intermediate_credential \<Rightarrow>
    (credential_db, as_credential_store_error, unit) attempt" where
  "store_intermediate ok c =
     (if ok then modify_with (AList.update (ai_fingerprint c)
        \<lparr> cw_user_domain = intermediate_domain c, cw_credential_type = AsIntermediateCredentialKind,
          cw_credential = ai_body c \<rparr>)
      else fail_with PersistenceError)"

definition load_intermediate :: "'z cred_env_scheme \<Rightarrow> bool \<Rightarrow> bytes option \<Rightarrow> string \<Rightarrow>
    (credential_db, as_credential_store_error, as_intermediate_credential option) attempt" where
  "load_intermediate env ok fingerprint_option domain =
     (if ok then read_with (\<lambda>db.
        let matches = (\<lambda>(fingerprint, row). cw_user_domain row = domain
              \<and> cw_credential_type row = AsIntermediateCredentialKind
              \<and> (case fingerprint_option of Some f \<Rightarrow> fingerprint = f | None \<Rightarrow> True))
        in map_option (\<lambda>(_, row). AsIntermediateCredential_from env (cw_credential row)) (find matches db))
      else fail_with PersistenceError)"

text \<open>
  What a server answers: its own credentials, with the fingerprints it claims, and its intermediate
  credentials, not yet verified.  The credentials are collected in a map, where the last one wins.
\<close>

type_synonym as_credentials_response = "as_credential list \<times> as_intermediate_credential_body list"

fun verify_all :: "'z cred_env_scheme \<Rightarrow> (bytes \<Rightarrow> as_credential option) \<Rightarrow> as_intermediate_credential_body list \<Rightarrow>
    as_credential_store_error + as_intermediate_credential list" where
  "verify_all env as_credentials [] = Ok []"
| "verify_all env as_credentials (c # cs) =
     and_then (ok_or AsCredentialNotFound (as_credentials (aip_signer_fingerprint (aib_credential c)))) (\<lambda>as_credential.
     and_then (map_err StoreVerificationError
       (verify_intermediate env (acb_verifying_key (ac_body as_credential)) c)) (\<lambda>verified.
     and_then (verify_all env as_credentials cs) (\<lambda>rest.
     Ok (verified # rest))))"

definition fetch_credentials :: "'z cred_env_scheme \<Rightarrow> (string \<Rightarrow> unit + as_credentials_response) \<Rightarrow> string \<Rightarrow>
    as_credential_store_error + as_intermediate_credential list" where
  "fetch_credentials env server domain =
     and_then (map_err (\<lambda>_. AsRequestFailed) (server domain)) (\<lambda>(as_credentials, intermediates).
     verify_all env (map_of (rev (map (\<lambda>c. (ac_fingerprint c, c)) as_credentials))) intermediates)"

record store_io =
  so_load :: bool
  so_store :: bool
  so_server :: "string \<Rightarrow> unit + as_credentials_response"

definition AsCredentials_get :: "'z cred_env_scheme \<Rightarrow> store_io \<Rightarrow> string \<Rightarrow> bytes \<Rightarrow>
    (credential_db, as_credential_store_error, as_intermediate_credential) attempt" where
  "AsCredentials_get env io domain fingerprint =
     andThen (load_intermediate env (so_load io) (Some fingerprint) domain) (\<lambda>credential_option.
     andThen
       (case credential_option of
          Some credential \<Rightarrow> return_with credential
        | None \<Rightarrow>
            andThen (try_with (fetch_credentials env (so_server io) domain)) (\<lambda>fetched.
            andThen (try_with (ok_or AsIntermediateCredentialNotFound
              (find (\<lambda>c. ai_fingerprint c = fingerprint) fetched))) (\<lambda>credential.
            andThen (store_intermediate (so_store io) credential) (\<lambda>_.
            return_with credential)))) (\<lambda>credential.
     andThen (try_with (ensure (intermediate_domain credential = domain) AsIntermediateCredentialNotFound)) (\<lambda>_.
     return_with credential)))"

definition get_intermediate_credential :: "'z cred_env_scheme \<Rightarrow> store_io \<Rightarrow> string \<Rightarrow>
    (credential_db, as_credential_store_error, as_intermediate_credential) attempt" where
  "get_intermediate_credential env io domain =
     andThen (load_intermediate env (so_load io) None domain) (\<lambda>credential_option.
     case credential_option of
       Some credential \<Rightarrow> return_with credential
     | None \<Rightarrow>
         andThen (try_with (fetch_credentials env (so_server io) domain)) (\<lambda>credentials.
         try_with (if credentials = [] then Err AsIntermediateCredentialNotFound else Ok (last credentials))))"

fun fetch_for_verification :: "'z cred_env_scheme \<Rightarrow> store_io \<Rightarrow> client_credential list \<Rightarrow>
    (bytes \<rightharpoonup> as_intermediate_credential) \<Rightarrow>
    (credential_db, as_credential_store_error, bytes \<rightharpoonup> as_intermediate_credential) attempt" where
  "fetch_for_verification env io [] found = return_with found"
| "fetch_for_verification env io (c # cs) found =
     (let fingerprint = clp_signer_fingerprint (clc_payload c) in
      if found fingerprint \<noteq> None then fetch_for_verification env io cs found
      else
        andThen (AsCredentials_get env io (uid_domain (ClientCredential_user_id c)) fingerprint) (\<lambda>as_credential.
        fetch_for_verification env io cs (found(fingerprint \<mapsto> as_credential))))"


section \<open>Connection offers\<close>

record connection_offer_payload =
  co_sender_client_credential :: client_credential
  co_connection_info :: bytes
  co_connection_package_hash :: bytes

record connection_offer =
  cf_payload :: connection_offer_payload
  cf_signature :: bytes

record offer_env = cred_env +
  oe_tbs_tls :: "connection_offer_payload \<Rightarrow> username \<Rightarrow> bytes \<Rightarrow> unit + bytes"
  oe_open :: "bytes \<Rightarrow> bytes \<Rightarrow> unit + connection_offer"

definition CONNECTION_OFFER_LABEL :: string where
  "CONNECTION_OFFER_LABEL = ''ConnectionOfferTBS''"

definition sign_offer :: "'z offer_env_scheme \<Rightarrow> client_signing_key \<Rightarrow> username \<Rightarrow> bytes \<Rightarrow> connection_offer_payload \<Rightarrow>
    signature_error + connection_offer" where
  "sign_offer env key recipient_user_handle connection_package_hash payload =
     map_ok (\<lambda>signature. \<lparr> cf_payload = payload, cf_signature = signature \<rparr>)
       (sign_payload (ce_vl env) (ce_sign env) (sg_private (ck_signing_key key)) CONNECTION_OFFER_LABEL
         (oe_tbs_tls env payload recipient_user_handle connection_package_hash))"

text \<open>The credential of the sender first, then the signature of the sender over the offer.\<close>

definition verify_offer :: "'z offer_env_scheme \<Rightarrow> bytes \<Rightarrow> username \<Rightarrow> bytes \<Rightarrow> connection_offer \<Rightarrow>
    signature_error + connection_offer_payload" where
  "verify_offer env verifying_key recipient_user_handle connection_package_hash offer =
     and_then (verify_client env verifying_key (co_sender_client_credential (cf_payload offer))) (\<lambda>client_credential.
     let payload = (cf_payload offer)\<lparr> co_sender_client_credential := client_credential \<rparr> in
     and_then (verify_payload (ce_vl env) (ce_verify env) (ClientCredential_verifying_key client_credential)
       CONNECTION_OFFER_LABEL (oe_tbs_tls env payload recipient_user_handle connection_package_hash)
       (cf_signature offer)) (\<lambda>_.
     Ok payload))"

datatype offer_error = NoDecryptionKey | OfferDecryption | OfferCredential as_credential_store_error | OfferVerification

definition parse_and_verify_connection_offer :: "'z offer_env_scheme \<Rightarrow> store_io \<Rightarrow> (bytes \<rightharpoonup> bytes) \<Rightarrow>
    bytes \<times> bytes \<Rightarrow> username \<Rightarrow> (credential_db, offer_error, connection_offer_payload \<times> bytes) attempt" where
  "parse_and_verify_connection_offer env io decryption_keys com user_handle =
     (let (eco, hash) = com in
      andThen (try_with (ok_or NoDecryptionKey (decryption_keys hash))) (\<lambda>decryption_key.
      andThen (try_with (map_err (\<lambda>_. OfferDecryption) (oe_open env decryption_key eco))) (\<lambda>cep_in.
      let credential = co_sender_client_credential (cf_payload cep_in) in
      andThen (converting OfferCredential (AsCredentials_get env io (uid_domain (ClientCredential_user_id credential))
        (clp_signer_fingerprint (clc_payload credential)))) (\<lambda>as_intermediate_credential.
      andThen (try_with (map_err (\<lambda>_. OfferVerification)
        (verify_offer env (intermediate_verifying_key as_intermediate_credential) user_handle hash cep_in))) (\<lambda>payload.
      return_with (payload, hash))))))"



section \<open>What the store holds\<close>

text \<open>
  An intermediate credential is vouched for by what a server of some domain answered: one of the
  server's credentials has the fingerprint it names as signer and verifies it.
\<close>

definition vouched :: "'z cred_env_scheme \<Rightarrow> (string \<times> as_credentials_response) set \<Rightarrow> string \<Rightarrow>
    as_intermediate_credential_body \<Rightarrow> bool" where
  "vouched env answers d b =
     (\<exists>as_credentials bs ac. (d, as_credentials, bs) \<in> answers \<and> b \<in> set bs \<and> ac \<in> set as_credentials
        \<and> ac_fingerprint ac = aip_signer_fingerprint (aib_credential b)
        \<and> verify_intermediate env (acb_verifying_key (ac_body ac)) b = Ok (AsIntermediateCredential_from env b))"

definition store_ok :: "'z cred_env_scheme \<Rightarrow> (string \<times> as_credentials_response) set \<Rightarrow> credential_db \<Rightarrow> bool" where
  "store_ok env answers db =
     (\<forall>(f, row) \<in> set db.
        let c = AsIntermediateCredential_from env (cw_credential row) in
        f = ai_fingerprint c \<and> cw_user_domain row = intermediate_domain c
        \<and> (\<exists>d. vouched env answers d (cw_credential row)))"

definition answers_from :: "(string \<times> as_credentials_response) set \<Rightarrow> store_io \<Rightarrow> bool" where
  "answers_from answers io = (\<forall>d r. so_server io d = Ok r \<longrightarrow> (d, r) \<in> answers)"

lemma verify_all_Ok:
  "verify_all env m bs = Ok cs \<Longrightarrow> c \<in> set cs \<Longrightarrow>
   \<exists>b ac. b \<in> set bs \<and> c = AsIntermediateCredential_from env b
     \<and> m (aip_signer_fingerprint (aib_credential b)) = Some ac
     \<and> verify_intermediate env (acb_verifying_key (ac_body ac)) b = Ok c"
proof (induction bs arbitrary: cs)
  case (Cons b bs)
  then obtain ac v rest where "m (aip_signer_fingerprint (aib_credential b)) = Some ac"
    "verify_intermediate env (acb_verifying_key (ac_body ac)) b = Ok v"
    "verify_all env m bs = Ok rest" "cs = v # rest"
    by (auto simp: result_simps simp del: verify_intermediate_Ok_iff)
  with Cons.IH[of rest] Cons.prems(2) show ?case by (auto simp: verify_intermediate_Ok_iff)
qed simp

lemma fetched_vouched:
  assumes "answers_from answers io" "fetch_credentials env (so_server io) d = Ok cs" "c \<in> set cs"
  shows "vouched env answers d (ai_body c)" and "c = AsIntermediateCredential_from env (ai_body c)"
proof -
  from assms(2) obtain acs bs where answer: "so_server io d = Ok (acs, bs)"
    and "verify_all env (map_of (rev (map (\<lambda>c. (ac_fingerprint c, c)) acs))) bs = Ok cs"
    by (auto simp: fetch_credentials_def result_simps)
  from verify_all_Ok[OF this(2) assms(3)] obtain b ac where b: "b \<in> set bs" "c = AsIntermediateCredential_from env b"
    "map_of (rev (map (\<lambda>c. (ac_fingerprint c, c)) acs)) (aip_signer_fingerprint (aib_credential b)) = Some ac"
    "verify_intermediate env (acb_verifying_key (ac_body ac)) b = Ok c"
    by blast
  from map_of_SomeD[OF b(3)] have ac: "ac \<in> set acs" "ac_fingerprint ac = aip_signer_fingerprint (aib_credential b)"
    by auto
  have "(d, acs, bs) \<in> answers" using answer assms(1) unfolding answers_from_def by blast
  with b ac have "vouched env answers d b" unfolding vouched_def by blast
  with b(2) show "vouched env answers d (ai_body c)" "c = AsIntermediateCredential_from env (ai_body c)" by simp_all
qed

lemma store_okD:
  "store_ok env answers db \<Longrightarrow> (f, row) \<in> set db \<Longrightarrow>
   f = ai_fingerprint (AsIntermediateCredential_from env (cw_credential row))
   \<and> cw_user_domain row = intermediate_domain (AsIntermediateCredential_from env (cw_credential row))
   \<and> (\<exists>d. vouched env answers d (cw_credential row))"
  unfolding store_ok_def Let_def by blast

lemma load_intermediate_Ok:
  assumes "store_ok env answers db" "load_intermediate env ok (Some f) d db = (Ok (Some c), db')"
  shows "ai_fingerprint c = f" "\<exists>d'. vouched env answers d' (ai_body c)"
    and "c = AsIntermediateCredential_from env (ai_body c)"
proof -
  from assms(2) obtain row where "(f, row) \<in> set db" "c = AsIntermediateCredential_from env (cw_credential row)"
    by (auto simp: load_intermediate_def action_apply Let_def find_Some_iff split: if_splits) (metis nth_mem)
  with store_okD[OF assms(1)] show "ai_fingerprint c = f" "\<exists>d'. vouched env answers d' (ai_body c)"
    "c = AsIntermediateCredential_from env (ai_body c)" by auto
qed

lemma set_AList_update: "set (AList.update k v al) \<subseteq> insert (k, v) (set al)"
  by (induction al) auto

lemma store_keeps:
  assumes "store_ok env answers db" "vouched env answers d (ai_body c)" "c = AsIntermediateCredential_from env (ai_body c)"
  shows "store_ok env answers (snd (store_intermediate ok c db))"
proof -
  let ?row = "\<lparr> cw_user_domain = intermediate_domain c, cw_credential_type = AsIntermediateCredentialKind,
    cw_credential = ai_body c \<rparr>"
  have "\<forall>(f, row) \<in> insert (ai_fingerprint c, ?row) (set db).
      let c = AsIntermediateCredential_from env (cw_credential row) in
      f = ai_fingerprint c \<and> cw_user_domain row = intermediate_domain c \<and> (\<exists>d. vouched env answers d (cw_credential row))"
    using assms unfolding store_ok_def Let_def by auto
  then show ?thesis
    using assms(1) set_AList_update[of "ai_fingerprint c" ?row db]
    by (cases ok) (auto simp: store_intermediate_def action_apply store_ok_def)
qed

lemma get_Ok:
  assumes "store_ok env answers db" "answers_from answers io" "AsCredentials_get env io d f db = (Ok c, db')"
  shows "ai_fingerprint c = f" "intermediate_domain c = d" "\<exists>d'. vouched env answers d' (ai_body c)"
    and "c = AsIntermediateCredential_from env (ai_body c)"
proof -
  have "ai_fingerprint c = f \<and> (\<exists>d'. vouched env answers d' (ai_body c)) \<and> c = AsIntermediateCredential_from env (ai_body c)"
  proof -
    from assms(3) consider
      db'' where "load_intermediate env (so_load io) (Some f) d db = (Ok (Some c), db'')"
    | cs where "fetch_credentials env (so_server io) d = Ok cs" "find (\<lambda>c. ai_fingerprint c = f) cs = Some c"
      by (fastforce simp: AsCredentials_get_def action_simps result_simps split: option.splits)
    then show ?thesis
    proof cases
      case 1
      with load_intermediate_Ok[OF assms(1)] show ?thesis by blast
    next
      case 2
      then have "c \<in> set cs" "ai_fingerprint c = f" by (auto simp: find_Some_iff)
      with fetched_vouched[OF assms(2) 2(1)] show ?thesis by blast
    qed
  qed
  moreover have "intermediate_domain c = d"
    using assms(3) by (auto simp: AsCredentials_get_def action_simps result_simps)
  ultimately show "ai_fingerprint c = f" "intermediate_domain c = d" "\<exists>d'. vouched env answers d' (ai_body c)"
    "c = AsIntermediateCredential_from env (ai_body c)" by auto
qed

lemma load_intermediate_state: "snd (load_intermediate env ok fo d db) = db"
  by (simp add: load_intermediate_def action_apply)

lemma get_keeps:
  assumes "answers_from answers io"
  shows "keeps (store_ok env answers) (AsCredentials_get env io d f)"
proof -
  have load: "keeps (store_ok env answers) (load_intermediate env (so_load io) (Some f) d)"
    by (rule keepsI) (simp add: load_intermediate_state)
  have fetch: "keeps (store_ok env answers)
      (andThen (try_with (fetch_credentials env (so_server io) d)) (\<lambda>fetched.
       andThen (try_with (ok_or AsIntermediateCredentialNotFound (find (\<lambda>c. ai_fingerprint c = f) fetched))) (\<lambda>credential.
       andThen (store_intermediate (so_store io) credential) (\<lambda>_. return_with credential))))"
    (is "keeps ?I ?m")
  proof (rule keepsI)
    fix db
    assume ok: "?I db"
    show "?I (snd (?m db))"
    proof (cases "fetch_credentials env (so_server io) d")
      case (Inr cs)
      show ?thesis
      proof (cases "find (\<lambda>c. ai_fingerprint c = f) cs")
        case (Some c)
        then have "c \<in> set cs" by (auto simp: find_Some_iff)
        from store_keeps[OF ok fetched_vouched[OF assms Inr this]] Inr Some show ?thesis
          by (auto simp: action_simps andThen_def split: prod.splits sum.splits) (metis snd_conv)+
      qed (use Inr ok in \<open>simp add: action_simps\<close>)
    qed (use ok in \<open>simp add: action_simps\<close>)
  qed
  show ?thesis
    unfolding AsCredentials_get_def by (intro keep_rules load fetch)
qed


section \<open>Properties\<close>


text \<open>
  (C28) A server can plant a credential for another domain: asked for the fingerprint of an intermediate
  credential that names a domain other than its own, the store keeps the credential before it compares
  the domains.  The request fails, but from then on the credential is found for the domain it names, and
  that domain's server is not asked.
\<close>

theorem foreign_credential_is_kept:
  assumes "load_intermediate env True (Some f) d db = (Ok None, db)"
    and "fetch_credentials env (so_server io) d = Ok cs" "find (\<lambda>c. ai_fingerprint c = f) cs = Some c"
    and "intermediate_domain c \<noteq> d" "so_load io" "so_store io" "so_load io'"
    and "map_of db f = None"
  shows "\<exists>db'. AsCredentials_get env io d f db = (Err AsIntermediateCredentialNotFound, db')
    \<and> AsCredentials_get env io' (intermediate_domain c) f db' = (Ok c, db')"
proof -
  let ?row = "\<lparr> cw_user_domain = intermediate_domain c, cw_credential_type = AsIntermediateCredentialKind,
    cw_credential = ai_body c \<rparr>"
  have c: "c \<in> set cs" "ai_fingerprint c = f" using assms(3) by (auto simp: find_Some_iff)
  have "answers_from {(d, r). so_server io d = Ok r} io" by (simp add: answers_from_def)
  from fetched_vouched(2)[OF this assms(2) c(1)] have whole: "AsIntermediateCredential_from env (ai_body c) = c" by simp
  have "find (\<lambda>(g, row). cw_user_domain row = intermediate_domain c
      \<and> cw_credential_type row = AsIntermediateCredentialKind \<and> g = f) (AList.update f ?row db) = Some (f, ?row)"
    using assms(8) by (induction db) (auto split: if_splits)
  then have "load_intermediate env (so_load io') (Some f) (intermediate_domain c) (AList.update f ?row db)
      = (Ok (Some c), AList.update f ?row db)"
    using assms(7) whole by (simp add: load_intermediate_def action_apply)
  then have "AsCredentials_get env io' (intermediate_domain c) f (AList.update f ?row db) = (Ok c, AList.update f ?row db)"
    by (simp add: AsCredentials_get_def action_simps)
  moreover have "AsCredentials_get env io d f db = (Err AsIntermediateCredentialNotFound, AList.update f ?row db)"
    using assms(1-6) c(2)
    by (simp add: AsCredentials_get_def action_simps andThen_def store_intermediate_def)
  ultimately show ?thesis by blast
qed


section \<open>Witnesses\<close>

text \<open>
  A signature is the key followed by the content, and the hash keeps everything.  The service of the
  domain \<open>a\<close> has the key 1 and signs an intermediate credential for the key 2, whose domain is an
  argument; that key signs the credential of a client with the key 3.
\<close>

definition toy_env :: "connection_offer option \<Rightarrow> offer_env" where
  "toy_env offer = \<lparr> ce_vl = Ok, ce_sign = (\<lambda>k m. Ok (k @ m)), ce_verify = (\<lambda>k m s. s = k @ m), ce_sha256 = (\<lambda>bs. bs),
     ce_body_tls = acb_verifying_key, ce_intermediate_tls = (\<lambda>p. Ok (aic_verifying_key (aip_csr p))),
     ce_intermediate_body_tls = aib_signature, ce_client_tls = (\<lambda>p. Ok (ccc_verifying_key (clp_csr p))),
     ce_round = (\<lambda>t. t), oe_tbs_tls = (\<lambda>p u h. Ok h), oe_open = (\<lambda>k c. ok_or () offer) \<rparr>"

definition toy_key :: "u8 \<Rightarrow> signing_key" where
  "toy_key k = \<lparr> sg_private = [k], sg_verifying_key = [k] \<rparr>"

definition toy_expiration :: expiration_data where
  "toy_expiration = \<lparr> not_before = 0, not_after = 100 \<rparr>"

definition toy_as_key :: as_signing_key where
  "toy_as_key = \<lparr> ak_signing_key = toy_key 1, ak_credential = AsCredential_from (toy_env None)
     \<lparr> acb_version = Alpha, acb_user_domain = ''a'', acb_expiration_data = toy_expiration,
       acb_signature_scheme = 0, acb_verifying_key = [1] \<rparr> \<rparr>"

definition toy_intermediate :: "string \<Rightarrow> as_intermediate_credential" where
  "toy_intermediate domain = projr (AsIntermediateCredentialCsr_sign (toy_env None) 0
     \<lparr> aic_version = Alpha, aic_user_domain = domain, aic_signature_scheme = 0, aic_verifying_key = [2] \<rparr>
     toy_as_key (Some toy_expiration))"

definition toy_payload :: client_credential_payload where
  "toy_payload = \<lparr> clp_csr = \<lparr> ccc_version = Alpha, ccc_user_id = \<lparr> uid_uuid = [5], uid_domain = ''a'' \<rparr>,
       ccc_signature_scheme = 0, ccc_verifying_key = [3] \<rparr>,
     clp_expiration_data = toy_expiration, clp_signer_fingerprint = ai_fingerprint (toy_intermediate ''a'') \<rparr>"

definition toy_client :: client_credential where
  "toy_client = projr (sign_client (toy_env None) \<lparr> ik_signing_key = toy_key 2, ik_credential = toy_intermediate ''a'' \<rparr> toy_payload)"

definition toy_offer_payload :: connection_offer_payload where
  "toy_offer_payload = \<lparr> co_sender_client_credential = toy_client, co_connection_info = [7], co_connection_package_hash = [6] \<rparr>"

definition toy_offer :: connection_offer where
  "toy_offer = \<lparr> cf_payload = toy_offer_payload,
     cf_signature = [3] @ utf8 (SIGN_LABEL_PREFIX @ ''ConnectionOfferTBS'') @ [6] \<rparr>"

definition toy_io :: "string \<Rightarrow> store_io" where
  "toy_io domain = \<lparr> so_load = True, so_store = True,
     so_server = (\<lambda>d. if d = ''a'' then Ok ([ak_credential toy_as_key], [ai_body (toy_intermediate domain)]) else Err ()) \<rparr>"

lemmas toy_defs = toy_env_def toy_key_def toy_as_key_def toy_intermediate_def toy_client_def toy_payload_def toy_offer_def
  toy_offer_payload_def toy_io_def AsIntermediateCredentialCsr_sign_def AsIntermediateCredential_from_def
  AsCredential_from_def sign_client_def sign_payload_def serialize_sign_content_def SignContent_from_def
  intermediate_domain_def intermediate_verifying_key_def ClientCredential_user_id_def payload_identity_def
  ClientCredential_verifying_key_def verify_payload_def ensure_def labeled_hash_def tls_str_def

lemma toy_fetch:
  "fetch_credentials (toy_env offer) (so_server (toy_io domain)) ''a'' = Ok [toy_intermediate domain]"
  by (simp add: fetch_credentials_def verify_intermediate_def toy_defs)

lemma toy_domain: "intermediate_domain (toy_intermediate domain) = domain"
  by (simp add: toy_defs)

theorem foreign_credential_is_kept_witness:
  "\<exists>db. AsCredentials_get (toy_env None) (toy_io ''b'') ''a'' (ai_fingerprint (toy_intermediate ''b'')) []
      = (Err AsIntermediateCredentialNotFound, db)
    \<and> AsCredentials_get (toy_env None) (toy_io ''a'') ''b'' (ai_fingerprint (toy_intermediate ''b'')) db
      = (Ok (toy_intermediate ''b''), db)"
proof -
  have "load_intermediate (toy_env None) True (Some f) d [] = (Ok None, [])" for f d
    by (simp add: load_intermediate_def action_apply)
  from foreign_credential_is_kept[OF this toy_fetch, of "ai_fingerprint (toy_intermediate ''b'')" "''b''"
      "toy_intermediate ''b''" "toy_io ''a''"]
  show ?thesis by (simp add: toy_domain) (simp add: toy_io_def)
qed


end
