(* ===== verification/Connection_Package.thy ===== *)
theory Connection_Package
  imports Credentials
begin

text \<open>
  Connection packages (\<^verbatim>\<open>common/src/messages/connection_package.rs\<close> and
  \<^verbatim>\<open>connection_package_v1.rs\<close>): what the owner of a username publishes so that others can encrypt a
  connection offer to them.  A package is signed by the key of the username, which it contains.  The
  second version adds the flag of a package of last resort; both versions have the same label.

  A package the owner creates verifies, and its conversion to the current version keeps the parts a
  sender uses.
\<close>

section \<open>Packages and their versions\<close>

record connection_package_payload =
  cp_protocol_version :: air_protocol_version
  cp_user_handle_hash :: bytes
  cp_encryption_key :: bytes
  cp_lifetime :: expiration_data
  cp_verifying_key :: bytes

record connection_package =
  cq_payload :: connection_package_payload
  cq_is_last_resort :: bool
  cq_signature :: bytes

record connection_package_v1 =
  cv_payload :: connection_package_payload
  cv_signature :: bytes

datatype versioned_connection_package = PackageV1 connection_package_v1 | PackageV2 connection_package

text \<open>The encoding of a payload without the flag is a parameter; the flag is one byte at the end.\<close>

record package_env = cred_env +
  pe_payload_tls :: "connection_package_payload \<Rightarrow> unit + bytes"

definition CONNECTION_PACKAGE_LABEL :: string where
  "CONNECTION_PACKAGE_LABEL = ''ConnectionPackage''"

definition CONNECTION_PACKAGE_EXPIRATION :: duration where
  "CONNECTION_PACKAGE_EXPIRATION = duration_days 30"

definition tls_bool :: "bool \<Rightarrow> bytes" where
  "tls_bool b = [if b then 1 else 0]"

definition package_tls :: "'z package_env_scheme \<Rightarrow> connection_package_payload \<Rightarrow> bool \<Rightarrow> unit + bytes" where
  "package_tls env payload is_last_resort = map_ok (\<lambda>bs. bs @ tls_bool is_last_resort) (pe_payload_tls env payload)"

definition ConnectionPackageV1In_verify :: "'z package_env_scheme \<Rightarrow> connection_package_v1 \<Rightarrow>
    signature_error + connection_package_v1" where
  "ConnectionPackageV1In_verify env package =
     and_then (verify_payload (ce_vl env) (ce_verify env) (cp_verifying_key (cv_payload package)) ''ConnectionPackage''
       (pe_payload_tls env (cv_payload package)) (cv_signature package)) (\<lambda>_.
     Ok package)"

definition ConnectionPackageIn_verify :: "'z package_env_scheme \<Rightarrow> connection_package \<Rightarrow>
    signature_error + connection_package" where
  "ConnectionPackageIn_verify env package =
     and_then (verify_payload (ce_vl env) (ce_verify env) (cp_verifying_key (cq_payload package)) CONNECTION_PACKAGE_LABEL
       (package_tls env (cq_payload package) (cq_is_last_resort package)) (cq_signature package)) (\<lambda>_.
     Ok package)"

fun VersionedConnectionPackageIn_verify :: "'z package_env_scheme \<Rightarrow> versioned_connection_package \<Rightarrow>
    signature_error + versioned_connection_package" where
  "VersionedConnectionPackageIn_verify env (PackageV1 cp) = map_ok PackageV1 (ConnectionPackageV1In_verify env cp)"
| "VersionedConnectionPackageIn_verify env (PackageV2 cp) = map_ok PackageV2 (ConnectionPackageIn_verify env cp)"

fun package_is_last_resort :: "versioned_connection_package \<Rightarrow> bool option" where
  "package_is_last_resort (PackageV1 _) = None"
| "package_is_last_resort (PackageV2 cp_v2) = Some (cq_is_last_resort cp_v2)"

definition ConnectionPackage_from_v1 :: "connection_package_v1 \<Rightarrow> connection_package" where
  "ConnectionPackage_from_v1 v1 =
     \<lparr> cq_payload = cv_payload v1, cq_is_last_resort = False, cq_signature = cv_signature v1 \<rparr>"

definition ConnectionPackageV1_from :: "connection_package \<Rightarrow> connection_package_v1" where
  "ConnectionPackageV1_from v2 = \<lparr> cv_payload = cq_payload v2, cv_signature = cq_signature v2 \<rparr>"

fun into_current :: "versioned_connection_package \<Rightarrow> connection_package" where
  "into_current (PackageV1 cp) = ConnectionPackage_from_v1 cp"
| "into_current (PackageV2 cp_v2) = cp_v2"

datatype connection_package_error = PackageLibraryError | DecryptionKeyError

text \<open>\<open>generated\<close> is a key pair for HPKE, unless there is no randomness.\<close>

definition ConnectionPackage_new :: "'z package_env_scheme \<Rightarrow> time \<Rightarrow> (bytes \<times> bytes) option \<Rightarrow> bytes \<Rightarrow> signing_key \<Rightarrow> bool \<Rightarrow>
    connection_package_error + bytes \<times> connection_package" where
  "ConnectionPackage_new env now generated user_handle_hash signing_key is_last_resort =
     and_then (ok_or DecryptionKeyError generated) (\<lambda>(decryption_key, encryption_key).
     let payload = \<lparr> cp_protocol_version = Alpha, cp_user_handle_hash = user_handle_hash, cp_encryption_key = encryption_key,
       cp_lifetime = ExpirationData_new (ce_round env) now CONNECTION_PACKAGE_EXPIRATION,
       cp_verifying_key = sg_verifying_key signing_key \<rparr> in
     and_then (map_err (\<lambda>_. PackageLibraryError) (sign_payload (ce_vl env) (ce_sign env) (sg_private signing_key)
       CONNECTION_PACKAGE_LABEL (package_tls env payload is_last_resort))) (\<lambda>signature.
     Ok (decryption_key, \<lparr> cq_payload = payload, cq_is_last_resort = is_last_resort, cq_signature = signature \<rparr>)))"


section \<open>Properties\<close>

lemma created_package_verifies:
  assumes "key_pair env signing_key" "ConnectionPackage_new env now generated hash signing_key last_resort = Ok (key, package)"
  shows "VersionedConnectionPackageIn_verify env (PackageV2 package) = Ok (PackageV2 package)"
    "cp_user_handle_hash (cq_payload package) = hash" "cq_is_last_resort package = last_resort"
    "cp_verifying_key (cq_payload package) = sg_verifying_key signing_key"
  using assms(2) signed_verifies[OF assms(1)]
  by (auto simp: ConnectionPackage_new_def ConnectionPackageIn_verify_def result_simps Let_def)

lemma verified_package_unchanged:
  "VersionedConnectionPackageIn_verify env package = Ok package' \<Longrightarrow> package' = package"
  by (cases package) (auto simp: ConnectionPackageIn_verify_def ConnectionPackageV1In_verify_def result_simps)

lemma into_current_v1 [simp]: "ConnectionPackageV1_from (into_current (PackageV1 cp)) = cp"
  by (simp add: ConnectionPackageV1_from_def ConnectionPackage_from_v1_def)

end
