(* ===== verification/As_Records.thy ===== *)
theory As_Records
  imports Connection_Package
begin

text \<open>
  The database of the authentication service and its operations: user records
  (\<^verbatim>\<open>auth_service/user_record.rs\<close>), client records (\<^verbatim>\<open>client_record.rs\<close>), signing keys
  (\<^verbatim>\<open>credentials/\<close>), usernames (\<^verbatim>\<open>usernames/persistence.rs\<close>), connection packages
  (\<^verbatim>\<open>connection_package/persistence.rs\<close>), invitation codes (\<^verbatim>\<open>invitation_code_record.rs\<close>) and token
  allowances (\<^verbatim>\<open>privacy_pass.rs\<close>).

  A table with a key is an association list, the others are lists of their rows; a blob is the value it
  encodes.  The constraints of the schema are part of the operations.  A statement runs on a connection
  of the pool or in the open transaction.  A statement that fails aborts the transaction: from then on
  every statement in it fails, and committing it rolls it back.  Whether the database executes a
  statement is an argument.
\<close>

section \<open>Tables\<close>

type_synonym username_hash = bytes

datatype operation_type = OpUnspecified | AddUsername | GetInviteCode

record encrypted_user_profile =
  ep_ciphertext :: aead_ciphertext
  ep_key_index :: bytes

record as_user_record =
  au_encrypted_user_profile :: encrypted_user_profile
  au_staged_user_profile :: "encrypted_user_profile option"

record as_client_row =
  aw_domain :: string
  aw_activity_time :: time
  aw_credential :: flat_client_credential

datatype storable_key = StorableAs as_signing_key | StorableIntermediate as_intermediate_signing_key

record signing_key_row =
  sk_key :: storable_key
  sk_currently_active :: bool

record username_record =
  ux_verifying_key :: bytes
  ux_expiration_data :: expiration_data

text \<open>A connection offer is its ciphertext and the hash of the connection package it answers.\<close>

type_synonym connection_offer_message = "bytes \<times> bytes"

record username_queue_message =
  um_message_id :: "bytes option"
  um_payload :: "connection_offer_message option"
  um_created_at :: "time option"

record username_queue_row =
  uq_message_id :: bytes
  uq_hash :: username_hash
  uq_message :: username_queue_message
  uq_fetched_by :: "bytes option"
  uq_created_at :: time

record package_row =
  pw_id :: nat
  pw_hash :: username_hash
  pw_package :: versioned_connection_package
  pw_is_last_resort :: "bool option"

record invitation_code =
  ic_redeemed :: bool
  ic_created_at :: time

record batched_key =
  bk_voprf_server :: bytes
  bk_created_at :: time

datatype nonce_status = Reserved | Committed

record token_nonce =
  tn_status :: nonce_status
  tn_created_at :: time

record token_allowance =
  ta_remaining :: u16
  ta_valid_until :: time

record as_state =
  as_users :: "(user_id \<times> as_user_record) list"
  as_clients :: "(bytes \<times> as_client_row) list"
  as_allowances :: "((user_id \<times> operation_type) \<times> token_allowance) list"
  as_signing_keys :: "signing_key_row list"
  as_usernames :: "(username_hash \<times> username_record) list"
  as_queue_rows :: "username_queue_row list"
  as_packages :: "package_row list"
  as_codes :: "(string \<times> invitation_code) list"
  as_batched_keys :: "((operation_type \<times> u8) \<times> batched_key) list"
  as_nonces :: "((operation_type \<times> bytes) \<times> token_nonce) list"
  as_next_package_id :: nat
  as_aborted :: bool
  as_listeners :: "username_hash \<rightharpoonup> nat"
  as_cancelled :: "nat set"
  as_next_listener :: nat
  as_listening :: "username_hash set"
  as_notified :: "username_hash list"

text \<open>
  What the end of a failed transaction puts back: the tables and the notifications, which are sent on
  commit.  An identity column does not give back its numbers.
\<close>

definition restore_as_db :: "as_state \<Rightarrow> as_state \<Rightarrow> as_state" where
  "restore_as_db old new =
     new\<lparr> as_users := as_users old, as_clients := as_clients old, as_allowances := as_allowances old,
       as_signing_keys := as_signing_keys old, as_usernames := as_usernames old,
       as_queue_rows := as_queue_rows old, as_packages := as_packages old, as_codes := as_codes old,
       as_batched_keys := as_batched_keys old, as_nonces := as_nonces old,
       as_notified := as_notified old, as_aborted := False \<rparr>"


section \<open>Statements and transactions\<close>

datatype sqlx_error = DatabaseError | RowNotFound

datatype executor = Pool | Txn

definition execute :: "executor \<Rightarrow> bool \<Rightarrow> (as_state, sqlx_error, 'a) attempt \<Rightarrow> (as_state, sqlx_error, 'a) attempt" where
  "execute ex ok body s =
     (let run = (\<lambda>s. if ok then body s else fail_with DatabaseError s) in
      case ex of
        Pool \<Rightarrow> run s
      | Txn \<Rightarrow>
          if as_aborted s then fail_with DatabaseError s
          else case run s of
            (Err DatabaseError, s') \<Rightarrow> (Err DatabaseError, s'\<lparr> as_aborted := True \<rparr>)
          | (r, s') \<Rightarrow> (r, s'))"

text \<open>
  A transaction from \<open>begin\<close> to \<open>commit\<close>.  It is rolled back when its body fails and when it is dropped
  without a commit.  Committing an aborted transaction rolls it back, and \<open>ok_commit\<close> is whether that is
  reported.
\<close>

definition in_transaction :: "(as_state \<Rightarrow> as_state \<Rightarrow> as_state) \<Rightarrow> bool \<Rightarrow> bool \<Rightarrow> (sqlx_error \<Rightarrow> 'e) \<Rightarrow>
    (as_state, 'e, 'a) attempt \<Rightarrow> (as_state, 'e, 'a) attempt" where
  "in_transaction restore ok_begin ok_commit conv body s =
     (if \<not> ok_begin then fail_with (conv DatabaseError) s
      else case body (s\<lparr> as_aborted := False \<rparr>) of
        (Err e, s') \<Rightarrow> (Err e, restore s s')
      | (Ok x, s') \<Rightarrow>
          if \<not> ok_commit then (Err (conv DatabaseError), restore s s')
          else if as_aborted s' then (Ok x, restore s s')
          else (Ok x, s'))"


text \<open>An update of the row with a key.\<close>

definition change_at :: "'k \<Rightarrow> ('v \<Rightarrow> 'v) \<Rightarrow> ('k \<times> 'v) list \<Rightarrow> ('k \<times> 'v) list" where
  "change_at k f rows = map (\<lambda>(j, r). (j, if j = k then f r else r)) rows"

lemma change_at_keys [simp]:
  "map fst (change_at k f rows) = map fst rows" "fst ` set (change_at k f rows) = fst ` set rows"
  by (auto simp: change_at_def case_prod_unfold comp_def image_image)

lemma map_of_change_at [simp]:
  "map_of (change_at k f rows) j = (if j = k then map_option f (map_of rows j) else map_of rows j)"
  by (induction rows) (auto simp: change_at_def)


section \<open>User records\<close>

definition AsUserRecord_new :: "encrypted_user_profile \<Rightarrow> as_user_record" where
  "AsUserRecord_new profile = \<lparr> au_encrypted_user_profile = profile, au_staged_user_profile = None \<rparr>"

definition AsUserRecord_store :: "executor \<Rightarrow> bool \<Rightarrow> user_id \<Rightarrow> as_user_record \<Rightarrow> (as_state, sqlx_error, unit) attempt" where
  "AsUserRecord_store ex ok user_id record = execute ex ok
     (\<lambda>s. if map_of (as_users s) user_id \<noteq> None then fail_with DatabaseError s
          else modify_with (\<lambda>s. s\<lparr> as_users := (user_id, record) # as_users s \<rparr>) s)"

definition AsUserRecord_new_and_store :: "executor \<Rightarrow> bool \<Rightarrow> user_id \<Rightarrow> encrypted_user_profile \<Rightarrow>
    (as_state, sqlx_error, as_user_record) attempt" where
  "AsUserRecord_new_and_store ex ok user_id profile =
     (let user_record = AsUserRecord_new profile in
      andThen (AsUserRecord_store ex ok user_id user_record) (\<lambda>_. return_with user_record))"

definition AsUserRecord_load :: "executor \<Rightarrow> bool \<Rightarrow> user_id \<Rightarrow> (as_state, sqlx_error, as_user_record option) attempt" where
  "AsUserRecord_load ex ok user_id = execute ex ok (read_with (\<lambda>s. map_of (as_users s) user_id))"

definition AsUserRecord_update :: "executor \<Rightarrow> bool \<Rightarrow> user_id \<Rightarrow> as_user_record \<Rightarrow> (as_state, sqlx_error, unit) attempt" where
  "AsUserRecord_update ex ok user_id record = execute ex ok (modify_with (\<lambda>s.
     s\<lparr> as_users := change_at user_id (\<lambda>_. record) (as_users s) \<rparr>))"

text \<open>The delete cascades to the client and the allowances of the user.\<close>

definition AsUserRecord_delete :: "executor \<Rightarrow> bool \<Rightarrow> user_id \<Rightarrow> (as_state, sqlx_error, unit) attempt" where
  "AsUserRecord_delete ex ok user_id = execute ex ok (modify_with (\<lambda>s.
     s\<lparr> as_users := filter (\<lambda>(u, _). u \<noteq> user_id) (as_users s),
        as_clients := filter (\<lambda>(uuid, row). \<not> (uuid = uid_uuid user_id \<and> aw_domain row = uid_domain user_id)) (as_clients s),
        as_allowances := filter (\<lambda>((u, _), _). u \<noteq> user_id) (as_allowances s) \<rparr>))"

definition into_user_profile :: "bytes \<Rightarrow> as_user_record \<Rightarrow> encrypted_user_profile option" where
  "into_user_profile key_index record =
     (if key_index = ep_key_index (au_encrypted_user_profile record)
      then Some (au_encrypted_user_profile record)
      else case au_staged_user_profile record of
        Some staged \<Rightarrow> if key_index = ep_key_index staged then Some staged else None
      | None \<Rightarrow> None)"

definition stage_user_profile :: "encrypted_user_profile \<Rightarrow> as_user_record \<Rightarrow> as_user_record" where
  "stage_user_profile profile record = record\<lparr> au_staged_user_profile := Some profile \<rparr>"

datatype user_profile_merging_error = NoStagedUserProfile

definition merge_user_profile :: "as_user_record \<Rightarrow> user_profile_merging_error + as_user_record" where
  "merge_user_profile record =
     (case au_staged_user_profile record of
        None \<Rightarrow> Err NoStagedUserProfile
      | Some staged \<Rightarrow> Ok (record\<lparr> au_encrypted_user_profile := staged, au_staged_user_profile := None \<rparr>))"


section \<open>Client records\<close>

record as_client_record =
  ar_activity_time :: time
  ar_credential :: client_credential

definition AsClientRecord_store :: "executor \<Rightarrow> bool \<Rightarrow> as_client_record \<Rightarrow> (as_state, sqlx_error, unit) attempt" where
  "AsClientRecord_store ex ok record =
     (let user_id = ClientCredential_user_id (ar_credential record) in execute ex ok
     (\<lambda>s. if map_of (as_clients s) (uid_uuid user_id) \<noteq> None \<or> map_of (as_users s) user_id = None
          then fail_with DatabaseError s
          else modify_with (\<lambda>s. s\<lparr> as_clients := (uid_uuid user_id,
            \<lparr> aw_domain = uid_domain user_id, aw_activity_time = ar_activity_time record,
              aw_credential = FlatClientCredential_new (ar_credential record) \<rparr>) # as_clients s \<rparr>) s))"

definition AsClientRecord_new_and_store :: "executor \<Rightarrow> bool \<Rightarrow> time \<Rightarrow> client_credential \<Rightarrow>
    (as_state, sqlx_error, as_client_record) attempt" where
  "AsClientRecord_new_and_store ex ok now credential =
     (let record = \<lparr> ar_activity_time = now, ar_credential = credential \<rparr> in
      andThen (AsClientRecord_store ex ok record) (\<lambda>_. return_with record))"

definition client_record_of :: "user_id \<Rightarrow> (bytes \<times> as_client_row) list \<Rightarrow> as_client_record option" where
  "client_record_of user_id clients =
     (case map_of clients (uid_uuid user_id) of
        None \<Rightarrow> None
      | Some row \<Rightarrow>
          if aw_domain row = uid_domain user_id
          then Some \<lparr> ar_activity_time = aw_activity_time row,
            ar_credential = into_client_credential (aw_credential row) user_id \<rparr>
          else None)"

definition AsClientRecord_load :: "executor \<Rightarrow> bool \<Rightarrow> user_id \<Rightarrow> (as_state, sqlx_error, as_client_record option) attempt" where
  "AsClientRecord_load ex ok user_id = execute ex ok (read_with (\<lambda>s. client_record_of user_id (as_clients s)))"


text \<open>Not called by the service: \<^verbatim>\<open>delete\<close> and \<^verbatim>\<open>load_user_credentials\<close> of the client record.\<close>

definition AsClientRecord_delete :: "executor \<Rightarrow> bool \<Rightarrow> user_id \<Rightarrow> (as_state, sqlx_error, unit) attempt" where
  "AsClientRecord_delete ex ok user_id = execute ex ok (modify_with (\<lambda>s.
     s\<lparr> as_clients := filter (\<lambda>(uuid, row). \<not> (uuid = uid_uuid user_id \<and> aw_domain row = uid_domain user_id))
          (as_clients s) \<rparr>))"

definition load_user_credentials :: "executor \<Rightarrow> bool \<Rightarrow> user_id \<Rightarrow> (as_state, sqlx_error, client_credential list) attempt" where
  "load_user_credentials ex ok user_id = execute ex ok (read_with (\<lambda>s.
     map (\<lambda>(_, row). into_client_credential (aw_credential row) user_id)
       (filter (\<lambda>(uuid, row). uuid = uid_uuid user_id \<and> aw_domain row = uid_domain user_id) (as_clients s))))"


section \<open>Signing keys\<close>

text \<open>The kind of a row is the column \<open>cred_type\<close>.\<close>

fun storable_fingerprint :: "storable_key \<Rightarrow> bytes" where
  "storable_fingerprint (StorableAs key) = ac_fingerprint (ak_credential key)"
| "storable_fingerprint (StorableIntermediate key) = ai_fingerprint (ik_credential key)"

fun as_key_of :: "storable_key \<Rightarrow> as_signing_key option" where
  "as_key_of (StorableAs key) = Some key"
| "as_key_of (StorableIntermediate _) = None"

fun intermediate_key_of :: "storable_key \<Rightarrow> as_intermediate_signing_key option" where
  "intermediate_key_of (StorableAs _) = None"
| "intermediate_key_of (StorableIntermediate key) = Some key"

definition store_signing_key :: "executor \<Rightarrow> bool \<Rightarrow> storable_key \<Rightarrow> (as_state, sqlx_error, unit) attempt" where
  "store_signing_key ex ok key = execute ex ok (modify_with (\<lambda>s.
     s\<lparr> as_signing_keys := as_signing_keys s @ [\<lparr> sk_key = key, sk_currently_active = False \<rparr>] \<rparr>))"

definition active_keys :: "(storable_key \<Rightarrow> 'k option) \<Rightarrow> signing_key_row list \<Rightarrow> 'k list" where
  "active_keys kind rows = List.map_filter (\<lambda>r. if sk_currently_active r then kind (sk_key r) else None) rows"

definition first_row :: "'k list \<Rightarrow> 'k option" where
  "first_row rows = (case rows of [] \<Rightarrow> None | r # _ \<Rightarrow> Some r)"

definition StorableSigningKey_load :: "executor \<Rightarrow> bool \<Rightarrow> (as_state, sqlx_error, as_signing_key option) attempt" where
  "StorableSigningKey_load ex ok = execute ex ok (read_with (\<lambda>s. first_row (active_keys as_key_of (as_signing_keys s))))"

definition IntermediateSigningKey_load :: "executor \<Rightarrow> bool \<Rightarrow>
    (as_state, sqlx_error, as_intermediate_signing_key option) attempt" where
  "IntermediateSigningKey_load ex ok =
     execute ex ok (read_with (\<lambda>s. first_row (active_keys intermediate_key_of (as_signing_keys s))))"

text \<open>
  Activating a key of the service deactivates every other active key, the intermediate ones included.
\<close>

definition StorableSigningKey_activate :: "executor \<Rightarrow> bool \<Rightarrow> storable_key \<Rightarrow> (as_state, sqlx_error, unit) attempt" where
  "StorableSigningKey_activate ex ok key = execute ex ok (modify_with (\<lambda>s.
     s\<lparr> as_signing_keys := map (\<lambda>r.
          let match = (storable_fingerprint (sk_key r) = storable_fingerprint key) in
          if sk_currently_active r \<or> match then r\<lparr> sk_currently_active := match \<rparr> else r)
        (as_signing_keys s) \<rparr>))"

definition IntermediateSigningKey_activate :: "executor \<Rightarrow> bool \<Rightarrow> storable_key \<Rightarrow> (as_state, sqlx_error, unit) attempt" where
  "IntermediateSigningKey_activate ex ok key = execute ex ok (modify_with (\<lambda>s.
     s\<lparr> as_signing_keys := map (\<lambda>r.
          if intermediate_key_of (sk_key r) \<noteq> None
          then r\<lparr> sk_currently_active := (storable_fingerprint (sk_key r) = storable_fingerprint key) \<rparr> else r)
        (as_signing_keys s) \<rparr>))"

definition Credential_load_all :: "executor \<Rightarrow> bool \<Rightarrow> (as_state, sqlx_error, as_credential list) attempt" where
  "Credential_load_all ex ok = execute ex ok (read_with (\<lambda>s.
     map ak_credential (List.map_filter (\<lambda>r. as_key_of (sk_key r)) (as_signing_keys s))))"

definition IntermediateCredential_load_all :: "executor \<Rightarrow> bool \<Rightarrow>
    (as_state, sqlx_error, as_intermediate_credential list) attempt" where
  "IntermediateCredential_load_all ex ok = execute ex ok (read_with (\<lambda>s.
     map ik_credential (List.map_filter (\<lambda>r. intermediate_key_of (sk_key r)) (as_signing_keys s))))"


section \<open>Usernames\<close>

definition UsernameRecord_store :: "executor \<Rightarrow> bool \<Rightarrow> username_hash \<Rightarrow> username_record \<Rightarrow> (as_state, sqlx_error, bool) attempt" where
  "UsernameRecord_store ex ok hash record = execute ex ok
     (\<lambda>s. if map_of (as_usernames s) hash \<noteq> None then return_with False s
          else (Ok True, s\<lparr> as_usernames := (hash, record) # as_usernames s \<rparr>))"

definition change_username :: "username_hash \<Rightarrow> (username_record \<Rightarrow> username_record) \<Rightarrow> as_state \<Rightarrow> as_state" where
  "change_username hash change s =
     s\<lparr> as_usernames := change_at hash change (as_usernames s) \<rparr>"

definition UsernameRecord_update :: "executor \<Rightarrow> bool \<Rightarrow> username_hash \<Rightarrow> username_record \<Rightarrow> (as_state, sqlx_error, unit) attempt" where
  "UsernameRecord_update ex ok hash record = execute ex ok (modify_with (change_username hash (\<lambda>_. record)))"

definition update_expiration_data :: "executor \<Rightarrow> bool \<Rightarrow> username_hash \<Rightarrow> expiration_data \<Rightarrow> (as_state, sqlx_error, unit) attempt" where
  "update_expiration_data ex ok hash expiration_data =
     execute ex ok (modify_with (change_username hash (\<lambda>r. r\<lparr> ux_expiration_data := expiration_data \<rparr>)))"

definition UsernameRecord_load_verifying_key :: "executor \<Rightarrow> bool \<Rightarrow> username_hash \<Rightarrow> (as_state, sqlx_error, bytes option) attempt" where
  "UsernameRecord_load_verifying_key ex ok hash =
     execute ex ok (read_with (\<lambda>s. map_option ux_verifying_key (map_of (as_usernames s) hash)))"

text \<open>Also \<open>load_expiration_data_for_update\<close>, which locks the row.\<close>

definition load_expiration_data :: "executor \<Rightarrow> bool \<Rightarrow> username_hash \<Rightarrow> (as_state, sqlx_error, expiration_data option) attempt" where
  "load_expiration_data ex ok hash =
     execute ex ok (read_with (\<lambda>s. map_option ux_expiration_data (map_of (as_usernames s) hash)))"

definition check_exists :: "bool \<Rightarrow> username_hash \<Rightarrow> (as_state, sqlx_error, bool) attempt" where
  "check_exists ok hash = andThen (load_expiration_data Pool ok hash) (\<lambda>opt. return_with (opt \<noteq> None))"

definition UsernameRecord_load_all :: "executor \<Rightarrow> bool \<Rightarrow> (as_state, sqlx_error, (username_hash \<times> username_record) list) attempt" where
  "UsernameRecord_load_all ex ok = execute ex ok (read_with as_usernames)"

text \<open>The delete cascades to the queue and the connection packages of the username.\<close>

definition UsernameRecord_delete :: "executor \<Rightarrow> bool \<Rightarrow> username_hash \<Rightarrow> (as_state, sqlx_error, bool) attempt" where
  "UsernameRecord_delete ex ok hash = execute ex ok (\<lambda>s.
     (Ok (map_of (as_usernames s) hash \<noteq> None),
      s\<lparr> as_usernames := filter (\<lambda>(h, _). h \<noteq> hash) (as_usernames s),
         as_queue_rows := filter (\<lambda>r. uq_hash r \<noteq> hash) (as_queue_rows s),
         as_packages := filter (\<lambda>r. pw_hash r \<noteq> hash) (as_packages s) \<rparr>))"


section \<open>Connection packages\<close>

text \<open>With no package the statement ends after \<open>VALUES\<close>, which the database refuses.\<close>

definition store_multiple_for_username :: "executor \<Rightarrow> bool \<Rightarrow> versioned_connection_package list \<Rightarrow> username_hash \<Rightarrow>
    (as_state, sqlx_error, unit) attempt" where
  "store_multiple_for_username ex ok connection_packages hash = execute ex ok
     (\<lambda>s. if connection_packages = [] \<or> map_of (as_usernames s) hash = None then fail_with DatabaseError s
          else modify_with (\<lambda>s. s\<lparr>
            as_packages := as_packages s @ map (\<lambda>(i, package).
              \<lparr> pw_id = as_next_package_id s + i, pw_hash = hash, pw_package = package,
                pw_is_last_resort = package_is_last_resort package \<rparr>) (enumerate 0 connection_packages),
            as_next_package_id := as_next_package_id s + length connection_packages \<rparr>) s)"

text \<open>
  The order of the column \<open>is_last_resort\<close>: false, true, null.  \<open>pick\<close> is the choice of the database
  among rows that rank the same.
\<close>

definition next_connection_package :: "(package_row list \<Rightarrow> package_row) \<Rightarrow> package_row list \<Rightarrow> package_row option" where
  "next_connection_package pick rows =
     (let one_time = filter (\<lambda>r. pw_is_last_resort r = Some False) rows;
          last_resort = filter (\<lambda>r. pw_is_last_resort r = Some True) rows in
      if one_time \<noteq> [] then Some (pick one_time)
      else if last_resort \<noteq> [] then Some (pick last_resort)
      else if rows \<noteq> [] then Some (pick rows) else None)"

text \<open>
  The statement reads and counts the rows of one snapshot of the database, skips rows that another
  statement has locked, and deletes from the current table.
\<close>

definition take_connection_package :: "bool \<Rightarrow> (package_row list \<Rightarrow> package_row) \<Rightarrow> nat set \<Rightarrow> username_hash \<Rightarrow>
    as_state \<Rightarrow> (as_state, sqlx_error, package_row) attempt" where
  "take_connection_package ok pick locked hash snapshot =
     (let rows = filter (\<lambda>r. pw_hash r = hash) (as_packages snapshot);
          next = next_connection_package pick (filter (\<lambda>r. pw_id r \<notin> locked) rows) in
      execute Pool ok (case next of
        None \<Rightarrow> fail_with RowNotFound
      | Some p \<Rightarrow>
          andThen (modify_with (\<lambda>s. if pw_is_last_resort p \<noteq> Some True \<and> length rows > 1
            then s\<lparr> as_packages := filter (\<lambda>r. pw_id r \<noteq> pw_id p) (as_packages s) \<rparr> else s)) (\<lambda>_.
          return_with p)))"

definition load_for_username :: "bool \<Rightarrow> (package_row list \<Rightarrow> package_row) \<Rightarrow> username_hash \<Rightarrow>
    (as_state, sqlx_error, versioned_connection_package) attempt" where
  "load_for_username ok pick hash =
     andThen (\<lambda>s. take_connection_package ok pick {} hash s s) (\<lambda>p. return_with (pw_package p))"



section \<open>Invitation codes\<close>

definition ALPHABET :: string where
  "ALPHABET = ''0123456789ABCDEFGHJKMNPQRSTUVWXYZ''"

definition CODE_LEN :: nat where
  "CODE_LEN = 8"

definition CODES_PER_DAY :: nat where
  "CODES_PER_DAY = 1000"

text \<open>\<open>draw\<close> is what the random number generator draws for each letter, brought into the range \<open>0..ALPHABET.len()\<close>.\<close>

definition generate_code :: "(nat \<Rightarrow> nat) \<Rightarrow> string" where
  "generate_code draw = map (\<lambda>i. ALPHABET ! (draw i mod length ALPHABET)) [0..<CODE_LEN]"

definition validate_code :: "string \<Rightarrow> bool" where
  "validate_code code \<longleftrightarrow> length code = CODE_LEN \<and> list_all (\<lambda>c. c \<in> set ALPHABET) code"

definition InvitationCodeRecord_load :: "executor \<Rightarrow> bool \<Rightarrow> string \<Rightarrow>
    (as_state, sqlx_error, invitation_code option) attempt" where
  "InvitationCodeRecord_load ex ok code = execute ex ok (read_with (\<lambda>s. map_of (as_codes s) code))"

definition insert_code :: "executor \<Rightarrow> bool \<Rightarrow> time \<Rightarrow> string \<Rightarrow> bool \<Rightarrow> (as_state, sqlx_error, string option) attempt" where
  "insert_code ex ok now code redeemed = execute ex ok
     (\<lambda>s. if map_of (as_codes s) code \<noteq> None then fail_with DatabaseError s
          else (Ok (Some code), s\<lparr> as_codes := (code, \<lparr> ic_redeemed = redeemed, ic_created_at = now \<rparr>) # as_codes s \<rparr>))"

definition save_code :: "executor \<Rightarrow> bool \<Rightarrow> time \<Rightarrow> string \<Rightarrow> bool \<Rightarrow> (as_state, sqlx_error, unit) attempt" where
  "save_code ex ok now code redeemed = execute ex ok (modify_with (\<lambda>s.
     s\<lparr> as_codes :=
          (if map_of (as_codes s) code = None
           then (code, \<lparr> ic_redeemed = redeemed, ic_created_at = now \<rparr>) # as_codes s
           else change_at code (\<lambda>r. r\<lparr> ic_redeemed := redeemed \<rparr>) (as_codes s)) \<rparr>))"

lemma insert_code_returns: "insert_code ex ok now code redeemed s \<noteq> (Ok None, t)"
  by (auto simp: insert_code_def execute_def action_simps split: executor.splits sqlx_error.splits sum.splits)

text \<open>
  The loop of \<^verbatim>\<open>generate\<close>; \<open>random\<close> gives the letters of the code of each round.  It ends in the first
  round, since inserting returns the code or fails.
\<close>

function generate_from :: "executor \<Rightarrow> bool \<Rightarrow> time \<Rightarrow> (nat \<Rightarrow> nat \<Rightarrow> nat) \<Rightarrow> nat \<Rightarrow>
    (as_state, sqlx_error, string) attempt" where
  "generate_from ex ok now random n s =
     (case insert_code ex ok now (generate_code (random n)) False s of
        (Err e, s') \<Rightarrow> (Err e, s')
      | (Ok (Some invitation_code), s') \<Rightarrow> (Ok invitation_code, s')
      | (Ok None, s') \<Rightarrow> generate_from ex ok now random (Suc n) s')"
  by pat_completeness auto

termination generate_from
  by (relation "{}") (simp, metis insert_code_returns)

declare generate_from.simps [simp del]

definition InvitationCodeRecord_generate :: "executor \<Rightarrow> bool \<Rightarrow> time \<Rightarrow> (nat \<Rightarrow> nat \<Rightarrow> nat) \<Rightarrow>
    (as_state, sqlx_error, string) attempt" where
  "InvitationCodeRecord_generate ex ok now random = generate_from ex ok now random 0"

text \<open>\<open>midnight\<close> is the start of the day of the database server a time falls on.\<close>

definition codes_on :: "(time \<Rightarrow> time) \<Rightarrow> time \<Rightarrow> as_state \<Rightarrow> nat" where
  "codes_on midnight now s =
     length (filter (\<lambda>(_, c). midnight now \<le> ic_created_at c \<and> ic_created_at c < midnight now + duration_days 1) (as_codes s))"

definition lock_and_count_codes_issued_today :: "bool \<Rightarrow> (time \<Rightarrow> time) \<Rightarrow> time \<Rightarrow> (as_state, sqlx_error, nat) attempt" where
  "lock_and_count_codes_issued_today ok midnight now = execute Txn ok (read_with (codes_on midnight now))"

definition code_stats :: "bool \<Rightarrow> (as_state, sqlx_error, nat \<times> nat) attempt" where
  "code_stats ok = execute Pool ok (read_with (\<lambda>s. (length (as_codes s), length (filter (\<lambda>(_, c). ic_redeemed c) (as_codes s)))))"

text \<open>\<open>by_code\<close> is the collation of the database.\<close>

definition InvitationCodeRecord_load_all :: "bool \<Rightarrow> (string \<Rightarrow> 'o::linorder) \<Rightarrow> bool \<Rightarrow> nat \<Rightarrow>
    (as_state, sqlx_error, (string \<times> bool) list) attempt" where
  "InvitationCodeRecord_load_all ok by_code include_redeemed limit = execute Pool ok (read_with (\<lambda>s.
     take limit (sort_key (\<lambda>(code, _). by_code code)
       (map (\<lambda>(code, c). (code, ic_redeemed c))
         (filter (\<lambda>(_, c). include_redeemed \<or> \<not> ic_redeemed c) (as_codes s))))))"


section \<open>Token allowances\<close>

fun max_tokens_allowance :: "operation_type \<Rightarrow> u16" where
  "max_tokens_allowance OpUnspecified = 0"
| "max_tokens_allowance AddUsername = 10"
| "max_tokens_allowance GetInviteCode = 1"

text \<open>\<open>add_month\<close> is the month arithmetic of the calendar.\<close>

fun valid_until_starting_at :: "(time \<Rightarrow> time) \<Rightarrow> operation_type \<Rightarrow> time \<Rightarrow> time" where
  "valid_until_starting_at add_month OpUnspecified at = at"
| "valid_until_starting_at add_month AddUsername at = add_month at"
| "valid_until_starting_at add_month GetInviteCode at = at + duration_days 1"

definition all_operation_types :: "operation_type list" where
  "all_operation_types = [AddUsername, GetInviteCode]"

definition is_valid_at :: "token_allowance \<Rightarrow> time \<Rightarrow> bool" where
  "is_valid_at allowance at \<longleftrightarrow> ta_valid_until allowance > at"

definition ensure_exists :: "executor \<Rightarrow> bool \<Rightarrow> (time \<Rightarrow> time) \<Rightarrow> user_id \<Rightarrow> operation_type \<Rightarrow> time \<Rightarrow>
    (as_state, sqlx_error, bool) attempt" where
  "ensure_exists ex ok add_month user_id operation_type at = execute ex ok
     (\<lambda>s. if map_of (as_allowances s) (user_id, operation_type) \<noteq> None then return_with False s
          else if map_of (as_users s) user_id = None then fail_with DatabaseError s
          else (Ok True, s\<lparr> as_allowances := ((user_id, operation_type),
            \<lparr> ta_remaining = max_tokens_allowance operation_type,
              ta_valid_until = valid_until_starting_at add_month operation_type at \<rparr>) # as_allowances s \<rparr>))"

definition TokenAllowance_load_for_update :: "bool \<Rightarrow> user_id \<Rightarrow> operation_type \<Rightarrow>
    (as_state, sqlx_error, token_allowance) attempt" where
  "TokenAllowance_load_for_update ok user_id operation_type = execute Txn ok
     (\<lambda>s. try_with (ok_or RowNotFound (map_of (as_allowances s) (user_id, operation_type))) s)"

definition TokenAllowance_update :: "executor \<Rightarrow> bool \<Rightarrow> user_id \<Rightarrow> operation_type \<Rightarrow> token_allowance \<Rightarrow>
    (as_state, sqlx_error, unit) attempt" where
  "TokenAllowance_update ex ok user_id operation_type allowance = execute ex ok (modify_with (\<lambda>s.
     s\<lparr> as_allowances := change_at (user_id, operation_type) (\<lambda>_. allowance) (as_allowances s) \<rparr>))"



section \<open>What statements and transactions keep\<close>

lemma execute_Ok_iff [action_simps]:
  "execute ex ok body s = (Ok x, t) \<longleftrightarrow> ok \<and> body s = (Ok x, t) \<and> (ex = Txn \<longrightarrow> \<not> as_aborted s)"
  by (auto simp: execute_def action_apply split: executor.splits sqlx_error.splits sum.splits prod.splits)

lemma execute_cases:
  obtains (run) "ok" "ex = Txn \<longrightarrow> \<not> as_aborted s" "execute ex ok body s = body s" "fst (body s) \<noteq> Err DatabaseError \<or> ex = Pool"
  | (abort) "ok" "ex = Txn" "\<not> as_aborted s" "fst (body s) = Err DatabaseError"
      "execute ex ok body s = (Err DatabaseError, (snd (body s))\<lparr> as_aborted := True \<rparr>)"
  | (refused) "execute ex ok body s = (Err DatabaseError, s) \<or>
      execute ex ok body s = (Err DatabaseError, s\<lparr> as_aborted := True \<rparr>)"
proof (cases "ex = Txn \<and> as_aborted s \<or> \<not> ok")
  case True
  then have "execute ex ok body s = (Err DatabaseError, s) \<or>
      execute ex ok body s = (Err DatabaseError, s\<lparr> as_aborted := True \<rparr>)"
    by (auto simp: execute_def action_apply split: executor.splits)
  then show ?thesis by (rule refused)
next
  case False
  show ?thesis
  proof (cases "fst (body s) = Err DatabaseError \<and> ex = Txn")
    case True
    with False show ?thesis
      by (intro abort) (cases "body s"; auto simp: execute_def Let_def)+
  next
    case no: False
    with False have "execute ex ok body s = body s"
      by (cases "body s") (auto simp: execute_def Let_def split: executor.splits sqlx_error.splits sum.splits)
    with False no show ?thesis by (intro run) (auto intro: executor.exhaust)
  qed
qed

definition unaborted :: "(as_state \<Rightarrow> 'x) \<Rightarrow> bool" where
  "unaborted g = (\<forall>s b. g (s\<lparr> as_aborted := b \<rparr>) = g s)"

lemma unabortedD: "unaborted g \<Longrightarrow> g (s\<lparr> as_aborted := b \<rparr>) = g s"
  by (simp add: unaborted_def)

lemma keeps_execute [keep_rules]: "unaborted I \<Longrightarrow> keeps I body \<Longrightarrow> keeps I (execute ex ok body)"
  by (rule keepsI, rule_tac ex = ex and ok = ok and s = s and body = body in execute_cases)
    (auto simp: unaborted_def dest: keepsD)

lemma frames_execute [action_rules]: "unaborted g \<Longrightarrow> frames g body \<Longrightarrow> frames g (execute ex ok body)"
  unfolding frames_def
  by (rule allI, rule_tac ex = ex and ok = ok and s = s and body = body in execute_cases) (auto simp: unaborted_def)

lemma in_transaction_Ok_iff [action_simps]:
  "in_transaction restore ok_begin ok_commit conv body s = (Ok x, t) \<longleftrightarrow>
     ok_begin \<and> ok_commit \<and> (\<exists>s'. body (s\<lparr> as_aborted := False \<rparr>) = (Ok x, s')
       \<and> t = (if as_aborted s' then restore s s' else s'))"
  by (auto simp: in_transaction_def action_apply split: sum.splits prod.splits)

lemma keeps_in_transaction:
  assumes "unaborted I" "\<And>s s'. I s \<Longrightarrow> I s' \<Longrightarrow> I (restore s s')" "keeps I body"
  shows "keeps I (in_transaction restore ok_begin ok_commit conv body)"
proof (rule keepsI)
  fix s
  assume s: "I s"
  then have "I (s\<lparr> as_aborted := False \<rparr>)" by (simp add: unabortedD[OF assms(1)])
  from keepsD[OF assms(3) this] s assms(2) show "I (snd (in_transaction restore ok_begin ok_commit conv body s))"
    by (auto simp: in_transaction_def action_apply split: sum.split prod.split)
qed

lemma frames_in_transaction:
  assumes "unaborted g" "\<And>s s'. g s' = g s \<Longrightarrow> g (restore s s') = g s" "frames g body"
  shows "frames g (in_transaction restore ok_begin ok_commit conv body)"
  using assms(3) unfolding frames_def
  by (auto simp: in_transaction_def action_apply assms(2) unabortedD[OF assms(1)] split: sum.split prod.split)
    (metis assms(2) unabortedD[OF assms(1)] snd_conv)+

text \<open>The result of a transaction that ends without an error is that of its body.\<close>

lemma in_transaction_Err_restores:
  "in_transaction restore_as_db ok_begin ok_commit conv body s = (Err e, t) \<Longrightarrow> \<not> ok_begin \<and> t = s \<or> (\<exists>s'. t = restore_as_db s s')"
  by (auto simp: in_transaction_def action_apply split: sum.splits prod.splits if_splits)

text \<open>A code the service generates is one it accepts.\<close>

lemma generated_code_valid: "validate_code (generate_code draw)"
proof -
  have "length ALPHABET > 0" by (simp add: ALPHABET_def)
  then show ?thesis by (auto simp: validate_code_def generate_code_def list_all_iff intro!: nth_mem)
qed

lemma generate_from_inserts:
  "generate_from ex ok now random n s =
     (case insert_code ex ok now (generate_code (random n)) False s of
        (Err e, s') \<Rightarrow> (Err e, s') | (Ok c, s') \<Rightarrow> (Ok (the c), s'))"
  using insert_code_returns[of ex ok now "generate_code (random n)" False s]
  by (subst generate_from.simps) (simp split: prod.split sum.split option.split)

end
