(* ===== verification/As_Tokens.thy ===== *)
theory As_Tokens
  imports As_Records
begin

text \<open>
  Privacy Pass tokens: the key store and the nonce store (\<^verbatim>\<open>auth_service/privacy_pass.rs\<close>), issuing
  and redeeming (\<^verbatim>\<open>auth_service/client_api/privacy_pass.rs\<close>) and the rotation of the keys.

  The protocol itself is the library \<^verbatim>\<open>privacypass\<close>, which calls the two stores.  What a call of the
  library does is a program of store calls that ends with a result; the stores here execute it.  Which
  program a token or a request leads to is a parameter.

  The main result is that a token is not redeemed twice: \<open>spent\<close> says why the stores refuse a token,
  a redemption that succeeds makes it so, and rotating the keys keeps it so although it deletes nonces.
\<close>

section \<open>The stores\<close>

datatype 'r store_program =
    Done 'r
  | GetKey u8 "bytes option \<Rightarrow> 'r store_program"
  | InsertKey u8 bytes "bool \<Rightarrow> 'r store_program"
  | RemoveKey u8 "bool \<Rightarrow> 'r store_program"
  | ReserveNonce bytes "bool \<Rightarrow> 'r store_program"
  | CommitNonce bytes "'r store_program"
  | ReleaseNonce bytes "'r store_program"

text \<open>A store does not report a failed statement; it answers as if there were nothing to do.\<close>

definition or_else :: "'a \<Rightarrow> (as_state, sqlx_error, 'a) attempt \<Rightarrow> as_state \<Rightarrow> 'a \<times> as_state" where
  "or_else d m s = (case m s of (Ok x, s') \<Rightarrow> (x, s') | (Err _, s') \<Rightarrow> (d, s'))"

definition key_store_insert :: "bool \<Rightarrow> operation_type \<Rightarrow> time \<Rightarrow> u8 \<Rightarrow> bytes \<Rightarrow> as_state \<Rightarrow> bool \<times> as_state" where
  "key_store_insert ok operation_type now token_key_id server = or_else False (execute Txn ok
     (\<lambda>s. if map_of (as_batched_keys s) (operation_type, token_key_id) \<noteq> None then fail_with DatabaseError s
          else (Ok True, s\<lparr> as_batched_keys := ((operation_type, token_key_id),
            \<lparr> bk_voprf_server = server, bk_created_at = now \<rparr>) # as_batched_keys s \<rparr>)))"

definition key_store_get :: "bool \<Rightarrow> operation_type \<Rightarrow> u8 \<Rightarrow> as_state \<Rightarrow> bytes option \<times> as_state" where
  "key_store_get ok operation_type token_key_id = or_else None (execute Txn ok
     (read_with (\<lambda>s. map_option bk_voprf_server (map_of (as_batched_keys s) (operation_type, token_key_id)))))"

definition key_store_remove :: "bool \<Rightarrow> operation_type \<Rightarrow> u8 \<Rightarrow> as_state \<Rightarrow> bool \<times> as_state" where
  "key_store_remove ok operation_type token_key_id = or_else False (execute Txn ok (\<lambda>s.
     (Ok (map_of (as_batched_keys s) (operation_type, token_key_id) \<noteq> None),
      s\<lparr> as_batched_keys := filter (\<lambda>(k, _). k \<noteq> (operation_type, token_key_id)) (as_batched_keys s) \<rparr>)))"

definition nonce_store_reserve :: "bool \<Rightarrow> operation_type \<Rightarrow> time \<Rightarrow> bytes \<Rightarrow> as_state \<Rightarrow> bool \<times> as_state" where
  "nonce_store_reserve ok operation_type now n = or_else False (execute Txn ok
     (\<lambda>s. if map_of (as_nonces s) (operation_type, n) \<noteq> None then return_with False s
          else (Ok True, s\<lparr> as_nonces := ((operation_type, n),
            \<lparr> tn_status = Reserved, tn_created_at = now \<rparr>) # as_nonces s \<rparr>)))"

definition nonce_store_commit :: "bool \<Rightarrow> operation_type \<Rightarrow> bytes \<Rightarrow> as_state \<Rightarrow> unit \<times> as_state" where
  "nonce_store_commit ok operation_type n = or_else () (execute Txn ok (modify_with (\<lambda>s.
     s\<lparr> as_nonces := change_at (operation_type, n)
          (\<lambda>t. if tn_status t = Reserved then t\<lparr> tn_status := Committed \<rparr> else t) (as_nonces s) \<rparr>)))"

definition nonce_store_release :: "bool \<Rightarrow> operation_type \<Rightarrow> bytes \<Rightarrow> as_state \<Rightarrow> unit \<times> as_state" where
  "nonce_store_release ok operation_type n = or_else () (execute Txn ok (modify_with (\<lambda>s.
     s\<lparr> as_nonces := filter (\<lambda>(k, t). \<not> (k = (operation_type, n) \<and> tn_status t = Reserved)) (as_nonces s) \<rparr>)))"

text \<open>Executing a program: \<open>oks\<close> says of each call whether its statement is executed.\<close>

primrec run_store :: "(nat \<Rightarrow> bool) \<Rightarrow> operation_type \<Rightarrow> time \<Rightarrow> 'r store_program \<Rightarrow> nat \<Rightarrow> as_state \<Rightarrow> 'r \<times> as_state" where
  "run_store oks op now (Done r) = (\<lambda>i s. (r, s))"
| "run_store oks op now (GetKey key_id k) = (\<lambda>i s.
     case key_store_get (oks i) op key_id s of (x, s') \<Rightarrow> run_store oks op now (k x) (Suc i) s')"
| "run_store oks op now (InsertKey key_id server k) = (\<lambda>i s.
     case key_store_insert (oks i) op now key_id server s of (x, s') \<Rightarrow> run_store oks op now (k x) (Suc i) s')"
| "run_store oks op now (RemoveKey key_id k) = (\<lambda>i s.
     case key_store_remove (oks i) op key_id s of (x, s') \<Rightarrow> run_store oks op now (k x) (Suc i) s')"
| "run_store oks op now (ReserveNonce n k) = (\<lambda>i s.
     case nonce_store_reserve (oks i) op now n s of (x, s') \<Rightarrow> run_store oks op now (k x) (Suc i) s')"
| "run_store oks op now (CommitNonce n k) = (\<lambda>i s.
     case nonce_store_commit (oks i) op n s of (_, s') \<Rightarrow> run_store oks op now k (Suc i) s')"
| "run_store oks op now (ReleaseNonce n k) = (\<lambda>i s.
     case nonce_store_release (oks i) op n s of (_, s') \<Rightarrow> run_store oks op now k (Suc i) s')"


section \<open>Issuing and redeeming\<close>

datatype redeem_failure = KeyIdNotFound | OtherRedeemFailure

record ('t, 'q, 'p) privacy_pass =
  pp_redeem :: "'t \<Rightarrow> (redeem_failure + unit) store_program"
  pp_issue :: "'q \<Rightarrow> (unit + 'p) store_program"
  pp_nr :: "'q \<Rightarrow> nat"
  pp_create_keypair :: "nat \<Rightarrow> (unit + unit) store_program"
  pp_public_key :: "bytes \<Rightarrow> bytes"
  pp_token :: "bytes \<Rightarrow> unit + 't"
  pp_request :: "bytes \<Rightarrow> unit + 'q"
  pp_response :: "'p \<Rightarrow> unit + bytes"
  pp_add_month :: "time \<Rightarrow> time"

datatype redeem_token_error = UnknownKeyId | InvalidToken

definition as_redeem_token :: "('t, 'q, 'p, 'z) privacy_pass_scheme \<Rightarrow> (nat \<Rightarrow> bool) \<Rightarrow> time \<Rightarrow> 't \<Rightarrow> operation_type \<Rightarrow>
    (as_state, redeem_token_error, unit) attempt" where
  "as_redeem_token pp oks now token operation_type s =
     (case run_store oks operation_type now (pp_redeem pp token) 0 s of
        (r, s') \<Rightarrow> (map_err (\<lambda>e. case e of KeyIdNotFound \<Rightarrow> UnknownKeyId | OtherRedeemFailure \<Rightarrow> InvalidToken) r, s'))"

datatype issue_tokens_error =
    BadRequest | IssueStorageError sqlx_error | TooManyTokensRequested u64 u16 | PrivacyPassError

record issue_io =
  is_now :: time
  is_db_now :: time
  is_ensure :: bool
  is_begin :: bool
  is_load :: bool
  is_calls :: "nat \<Rightarrow> bool"
  is_update :: bool
  is_commit :: bool

definition quota_exceeded :: "operation_type \<Rightarrow> time \<Rightarrow> token_allowance \<Rightarrow> issue_tokens_error" where
  "quota_exceeded operation_type now allowance =
     (if ta_remaining allowance > 0 then TooManyTokensRequested 0 (ta_remaining allowance)
      else TooManyTokensRequested (word_of_int (max 0 ((ta_valid_until allowance - now) div 1000000000)))
        (max_tokens_allowance operation_type))"

definition as_issue_tokens :: "('t, 'q, 'p, 'z) privacy_pass_scheme \<Rightarrow> issue_io \<Rightarrow> user_id \<Rightarrow> operation_type \<Rightarrow> 'q \<Rightarrow>
    (as_state, issue_tokens_error, 'p) attempt" where
  "as_issue_tokens pp io user_id operation_type token_request =
     (let tokens_requested = word_of_nat (pp_nr pp token_request); now = is_now io in
      andThen (try_with (ensure (operation_type \<noteq> OpUnspecified) BadRequest)) (\<lambda>_.
      andThen (try_with (ensure (tokens_requested \<noteq> 0) BadRequest)) (\<lambda>_.
      andThen (converting IssueStorageError
        (ensure_exists Pool (is_ensure io) (pp_add_month pp) user_id operation_type now)) (\<lambda>_.
      in_transaction restore_as_db (is_begin io) (is_commit io) IssueStorageError
        (andThen (converting IssueStorageError (TokenAllowance_load_for_update (is_load io) user_id operation_type)) (\<lambda>loaded.
         let token_allowance =
           (if is_valid_at loaded now then loaded
            else \<lparr> ta_remaining = max_tokens_allowance operation_type,
                   ta_valid_until = valid_until_starting_at (pp_add_month pp) operation_type now \<rparr>) in
         andThen (try_with (ensure (operation_type = AddUsername \<or> \<not> ta_remaining token_allowance < tokens_requested)
           (quota_exceeded operation_type now token_allowance))) (\<lambda>_.
         andThen (\<lambda>s. case run_store (is_calls io) operation_type (is_db_now io) (pp_issue pp token_request) 0 s of
             (r, s') \<Rightarrow> (map_err (\<lambda>_. PrivacyPassError) r, s')) (\<lambda>token_response.
         andThen (converting IssueStorageError (TokenAllowance_update Txn (is_update io) user_id operation_type
           (token_allowance\<lparr> ta_remaining := saturating_sub (ta_remaining token_allowance) tokens_requested \<rparr>))) (\<lambda>_.
         return_with token_response)))))))))"

definition as_issue_single_token :: "('t, 'q, 'p, 'z) privacy_pass_scheme \<Rightarrow> issue_io \<Rightarrow> 'q \<Rightarrow> operation_type \<Rightarrow>
    (as_state, issue_tokens_error, 'p) attempt" where
  "as_issue_single_token pp io token_request operation_type =
     andThen (try_with (ensure (\<not> pp_nr pp token_request \<noteq> 1) BadRequest)) (\<lambda>_.
     in_transaction restore_as_db (is_begin io) (is_commit io) IssueStorageError
       (\<lambda>s. case run_store (is_calls io) operation_type (is_db_now io) (pp_issue pp token_request) 0 s of
          (r, s') \<Rightarrow> (map_err (\<lambda>_. PrivacyPassError) r, s')))"


section \<open>Rotation of the keys\<close>

definition KEY_ROTATION_PERIOD_DAYS :: int where
  "KEY_ROTATION_PERIOD_DAYS = 90"

definition KEY_OVERLAP_DAYS :: int where
  "KEY_OVERLAP_DAYS = 7"

datatype rotate_keys_error = RotateStorage | KeyGeneration

text \<open>
  Each statement outside of a transaction reads the clock of the database for itself.  A day is 24 hours:
  the database runs in UTC.
\<close>

record rotation_io =
  ro_check :: bool
  ro_now_check :: time
  ro_begin :: bool
  ro_now_create :: time
  ro_calls :: "nat \<Rightarrow> bool"
  ro_seed :: nat
  ro_commit :: bool
  ro_delete_keys :: bool
  ro_now_keys :: time
  ro_delete_nonces :: bool
  ro_now_nonces :: time

definition needs_rotation :: "time \<Rightarrow> operation_type \<Rightarrow> as_state \<Rightarrow> bool" where
  "needs_rotation now operation_type s \<longleftrightarrow>
     \<not> list_ex (\<lambda>((op, _), key). op = operation_type
         \<and> bk_created_at key > now - duration_days KEY_ROTATION_PERIOD_DAYS) (as_batched_keys s)"

definition remove_keys :: "time \<Rightarrow> operation_type \<Rightarrow> as_state \<Rightarrow> as_state" where
  "remove_keys now operation_type s =
     s\<lparr> as_batched_keys := filter (\<lambda>((op, _), key). \<not> (op = operation_type
         \<and> bk_created_at key < now - duration_days (KEY_ROTATION_PERIOD_DAYS + KEY_OVERLAP_DAYS))) (as_batched_keys s) \<rparr>"

definition remove_nonces :: "time \<Rightarrow> operation_type \<Rightarrow> as_state \<Rightarrow> as_state" where
  "remove_nonces now operation_type s =
     s\<lparr> as_nonces := filter (\<lambda>((op, _), n). \<not> (op = operation_type
         \<and> tn_created_at n < now - duration_days (KEY_ROTATION_PERIOD_DAYS + KEY_OVERLAP_DAYS))) (as_nonces s) \<rparr>"

definition create_new_keypair :: "('t, 'q, 'p, 'z) privacy_pass_scheme \<Rightarrow> rotation_io \<Rightarrow>
    operation_type \<Rightarrow> (as_state, rotate_keys_error, bool) attempt" where
  "create_new_keypair pp io operation_type =
     in_transaction restore_as_db (ro_begin io) (ro_commit io) (\<lambda>_. RotateStorage)
       (andThen (\<lambda>s. case run_store (ro_calls io) operation_type (ro_now_create io) (pp_create_keypair pp (ro_seed io)) 0 s of
          (r, s') \<Rightarrow> (map_err (\<lambda>_. KeyGeneration) r, s')) (\<lambda>_.
        return_with True))"

definition rotate_keys_if_needed_for_operation_type :: "('t, 'q, 'p, 'z) privacy_pass_scheme \<Rightarrow> rotation_io \<Rightarrow>
    operation_type \<Rightarrow> (as_state, rotate_keys_error, bool) attempt" where
  "rotate_keys_if_needed_for_operation_type pp io operation_type =
     andThen (converting (\<lambda>_. RotateStorage) (execute Pool (ro_check io)
       (read_with (needs_rotation (ro_now_check io) operation_type)))) (\<lambda>needs_rotation.
     andThen (if needs_rotation then create_new_keypair pp io operation_type else return_with False) (\<lambda>rotated.
     andThen (converting (\<lambda>_. RotateStorage) (execute Pool (ro_delete_keys io)
       (modify_with (remove_keys (ro_now_keys io) operation_type)))) (\<lambda>_.
     andThen (converting (\<lambda>_. RotateStorage) (execute Pool (ro_delete_nonces io)
       (modify_with (remove_nonces (ro_now_nonces io) operation_type)))) (\<lambda>_.
     return_with rotated))))"

fun rotate_each :: "('t, 'q, 'p, 'z) privacy_pass_scheme \<Rightarrow> (operation_type \<Rightarrow> rotation_io) \<Rightarrow> operation_type list \<Rightarrow>
    (as_state, rotate_keys_error, operation_type list) attempt" where
  "rotate_each pp io [] = return_with []"
| "rotate_each pp io (operation_type # rest) =
     andThen (rotate_keys_if_needed_for_operation_type pp (io operation_type) operation_type) (\<lambda>rotated.
     andThen (rotate_each pp io rest) (\<lambda>results.
     return_with (if rotated then operation_type # results else results)))"

definition rotate_keys_if_needed :: "('t, 'q, 'p, 'z) privacy_pass_scheme \<Rightarrow> (operation_type \<Rightarrow> rotation_io) \<Rightarrow>
    (as_state, rotate_keys_error, operation_type list) attempt" where
  "rotate_keys_if_needed pp io = rotate_each pp io all_operation_types"

definition load_batched_token_keys :: "('t, 'q, 'p, 'z) privacy_pass_scheme \<Rightarrow> bool \<Rightarrow>
    (as_state, sqlx_error, (u8 \<times> operation_type \<times> bytes) list) attempt" where
  "load_batched_token_keys pp ok = execute Pool ok (read_with (\<lambda>s.
     map (\<lambda>((op, key_id), key). (key_id, op, pp_public_key pp (bk_voprf_server key)))
       (sort_key (\<lambda>(_, key). - bk_created_at key) (as_batched_keys s))))"



section \<open>A token is redeemed once\<close>

text \<open>
  What the library documents of a redemption: it reserves the nonce of the token before anything else,
  looks up the key of the token and checks the token with it, and releases only a nonce it has reserved.
  A program does so if every path to success holds the nonce and has seen a key that verifies the token.
\<close>

primrec redeems_once :: "bytes \<Rightarrow> (bytes \<Rightarrow> bool) \<Rightarrow> (redeem_failure + unit) store_program \<Rightarrow> bool \<Rightarrow> bool \<Rightarrow> bool" where
  "redeems_once n verifies (Done r) = (\<lambda>held verified. r = Ok () \<longrightarrow> held \<and> verified)"
| "redeems_once n verifies (GetKey key_id k) = (\<lambda>held verified.
     redeems_once n verifies (k None) held verified
     \<and> (\<forall>server. redeems_once n verifies (k (Some server)) held (verified \<or> verifies server)))"
| "redeems_once n verifies (InsertKey key_id server k) = (\<lambda>held verified. False)"
| "redeems_once n verifies (RemoveKey key_id k) = (\<lambda>held verified. False)"
| "redeems_once n verifies (ReserveNonce m k) = (\<lambda>held verified.
     m = n \<and> redeems_once n verifies (k True) True verified \<and> redeems_once n verifies (k False) held verified)"
| "redeems_once n verifies (CommitNonce m k) = (\<lambda>held verified. m = n \<and> redeems_once n verifies k held verified)"
| "redeems_once n verifies (ReleaseNonce m k) = (\<lambda>held verified.
     m = n \<and> held \<and> redeems_once n verifies k False verified)"

definition nonce_row :: "as_state \<Rightarrow> operation_type \<times> bytes \<Rightarrow> time \<Rightarrow> bool" where
  "nonce_row s k c \<longleftrightarrow> (\<exists>row. (k, row) \<in> set (as_nonces s) \<and> tn_created_at row = c)"

lemma nonce_row_exists: "map_of (as_nonces s) k \<noteq> None \<longleftrightarrow> (\<exists>c. nonce_row s k c)"
  by (force simp: nonce_row_def map_of_eq_None_iff)

lemma key_store_get_run:
  assumes "key_store_get ok op key_id s = (x, s')"
  shows "as_batched_keys s' = as_batched_keys s" "as_nonces s' = as_nonces s" "as_aborted s \<Longrightarrow> as_aborted s'"
    "x = Some server \<Longrightarrow> \<exists>key. ((op, key_id), key) \<in> set (as_batched_keys s) \<and> bk_voprf_server key = server"
  using assms
  by (auto simp: key_store_get_def or_else_def execute_def action_apply dest: map_of_SomeD split: if_splits prod.splits)

lemma nonce_store_reserve_run:
  assumes "nonce_store_reserve ok op now n s = (x, s')"
  shows "as_batched_keys s' = as_batched_keys s" "as_aborted s \<Longrightarrow> as_aborted s'"
    "nonce_row s k c \<Longrightarrow> nonce_row s' k c" "x \<Longrightarrow> nonce_row s' (op, n) now" "x \<Longrightarrow> \<not> nonce_row s (op, n) c"
  using assms nonce_row_exists[of s "(op, n)"]
  by (auto simp: nonce_store_reserve_def or_else_def execute_def action_apply nonce_row_def split: if_splits)

lemma nonce_store_commit_run:
  assumes "nonce_store_commit ok op n s = (x, s')"
  shows "as_batched_keys s' = as_batched_keys s" "as_aborted s \<Longrightarrow> as_aborted s'"
    "nonce_row s k c \<Longrightarrow> nonce_row s' k c"
  using assms
  by (auto simp: nonce_store_commit_def or_else_def execute_def action_apply nonce_row_def change_at_def split: if_splits)
    (rule_tac x = "if k = (op, n) \<and> tn_status row = Reserved then row\<lparr> tn_status := Committed \<rparr> else row" in exI, force)

lemma nonce_store_release_run:
  assumes "nonce_store_release ok op n s = (x, s')"
  shows "as_batched_keys s' = as_batched_keys s" "as_aborted s \<Longrightarrow> as_aborted s'"
    "nonce_row s k c \<Longrightarrow> k \<noteq> (op, n) \<Longrightarrow> nonce_row s' k c"
  using assms
  by (auto simp: nonce_store_release_def or_else_def execute_def action_apply nonce_row_def split: if_splits)

lemma run_store_redeems:
  assumes "redeems_once n verifies p held verified" "run_store oks op now p i s = (r, s')"
    and "held \<Longrightarrow> nonce_row s (op, n) now"
  shows "as_batched_keys s' = as_batched_keys s \<and> (as_aborted s \<longrightarrow> as_aborted s')
    \<and> (\<forall>k c. nonce_row s k c \<and> k \<noteq> (op, n) \<longrightarrow> nonce_row s' k c)
    \<and> (\<forall>c. \<not> held \<and> nonce_row s (op, n) c \<longrightarrow> nonce_row s' (op, n) c \<and> r \<noteq> Ok ())
    \<and> (r = Ok () \<longrightarrow> nonce_row s' (op, n) now)
    \<and> (r = Ok () \<and> \<not> verified \<longrightarrow> (\<exists>key_id key. ((op, key_id), key) \<in> set (as_batched_keys s) \<and> verifies (bk_voprf_server key)))"
  using assms
proof (induction p arbitrary: held verified i s)
  case (GetKey key_id k)
  obtain x t where get: "key_store_get (oks i) op key_id s = (x, t)" by (cases "key_store_get (oks i) op key_id s")
  note facts = key_store_get_run[OF get]
  have rows: "nonce_row t = nonce_row s" by (simp add: fun_eq_iff nonce_row_def facts)
  define verified' where "verified' = (case x of None \<Rightarrow> verified | Some server \<Rightarrow> verified \<or> verifies server)"
  have "redeems_once n verifies (k x) held verified'"
    using GetKey.prems(1) by (cases x) (auto simp: verified'_def)
  from GetKey.IH[OF rangeI this, of "Suc i" t] GetKey.prems(2,3) get facts rows show ?case
    by (cases x) (auto simp: verified'_def)
next
  case (ReserveNonce m k)
  obtain x t where res: "nonce_store_reserve (oks i) op now m s = (x, t)" by (cases "nonce_store_reserve (oks i) op now m s")
  have m: "m = n" using ReserveNonce.prems(1) by simp
  note facts = nonce_store_reserve_run[OF res[unfolded m]]
  have "redeems_once n verifies (k x) (held \<or> x) verified"
    using ReserveNonce.prems(1) by (cases x; cases held) auto
  from ReserveNonce.IH[OF rangeI this, of "Suc i" t] ReserveNonce.prems(2,3) res facts show ?case
    by (cases x) (auto simp: m, blast+)
next
  case (CommitNonce m p)
  obtain x t where com: "nonce_store_commit (oks i) op m s = (x, t)" by (cases "nonce_store_commit (oks i) op m s")
  note facts = nonce_store_commit_run[OF com]
  from CommitNonce.IH[of held verified "Suc i" t] CommitNonce.prems com facts show ?case by (auto, blast+)
next
  case (ReleaseNonce m p)
  obtain x t where rel: "nonce_store_release (oks i) op m s = (x, t)" by (cases "nonce_store_release (oks i) op m s")
  note facts = nonce_store_release_run[OF rel]
  from ReleaseNonce.IH[of False verified "Suc i" t] ReleaseNonce.prems rel facts show ?case by auto
qed auto


text \<open>
  The rest of what the library documents: issuing only looks up keys, and creating a key pair only inserts
  keys, ones it has just generated.
\<close>

primrec reads_only :: "'r store_program \<Rightarrow> bool" where
  "reads_only (Done r) = True"
| "reads_only (GetKey key_id k) = (\<forall>x. reads_only (k x))"
| "reads_only (InsertKey key_id server k) = False"
| "reads_only (RemoveKey key_id k) = False"
| "reads_only (ReserveNonce m k) = False"
| "reads_only (CommitNonce m k) = False"
| "reads_only (ReleaseNonce m k) = False"

primrec inserts_only :: "(bytes \<Rightarrow> bool) \<Rightarrow> 'r store_program \<Rightarrow> bool" where
  "inserts_only generated (Done r) = True"
| "inserts_only generated (GetKey key_id k) = False"
| "inserts_only generated (InsertKey key_id server k) = (generated server \<and> (\<forall>x. inserts_only generated (k x)))"
| "inserts_only generated (RemoveKey key_id k) = False"
| "inserts_only generated (ReserveNonce m k) = False"
| "inserts_only generated (CommitNonce m k) = False"
| "inserts_only generated (ReleaseNonce m k) = False"

lemma run_store_reads:
  assumes "reads_only p" "run_store oks op now p i s = (r, s')"
  shows "\<exists>b. s' = s\<lparr> as_aborted := b \<rparr>"
  using assms
proof (induction p arbitrary: i s)
  case (GetKey key_id k)
  obtain x t where get: "key_store_get (oks i) op key_id s = (x, t)" by (cases "key_store_get (oks i) op key_id s")
  then have "\<exists>b. t = s\<lparr> as_aborted := b \<rparr>"
    by (auto simp: key_store_get_def or_else_def execute_def action_apply split: if_splits intro: exI[of _ "as_aborted s"])
  with GetKey.IH[OF rangeI, of x "Suc i" t] GetKey.prems get show ?case by auto
qed (auto intro: exI[of _ "as_aborted s'"])

lemma run_store_inserts:
  assumes "inserts_only generated p" "run_store oks op now p i s = (r, s')"
  shows "as_nonces s' = as_nonces s \<and> set (as_batched_keys s) \<subseteq> set (as_batched_keys s')
    \<and> (\<forall>(k, key) \<in> set (as_batched_keys s') - set (as_batched_keys s).
        fst k = op \<and> generated (bk_voprf_server key) \<and> bk_created_at key = now)"
  using assms
proof (induction p arbitrary: i s)
  case (InsertKey key_id server k)
  obtain x t where ins: "key_store_insert (oks i) op now key_id server s = (x, t)"
    by (cases "key_store_insert (oks i) op now key_id server s")
  then have "as_nonces t = as_nonces s \<and> (as_batched_keys t = as_batched_keys s \<or>
      as_batched_keys t = ((op, key_id), \<lparr> bk_voprf_server = server, bk_created_at = now \<rparr>) # as_batched_keys s)"
    by (auto simp: key_store_insert_def or_else_def execute_def action_apply split: if_splits)
  with InsertKey.IH[OF rangeI, of x "Suc i" t] InsertKey.prems ins show ?case by (auto 0 3)
qed auto

text \<open>
  A token is spent for an operation if every stored key that verifies it is not younger than a stored
  nonce of the token.
\<close>

definition spent :: "('t \<Rightarrow> bytes) \<Rightarrow> (bytes \<Rightarrow> 't \<Rightarrow> bool) \<Rightarrow> operation_type \<Rightarrow> 't \<Rightarrow> as_state \<Rightarrow> bool" where
  "spent nonce_of verifies op token s \<longleftrightarrow>
     (\<forall>key_id key. ((op, key_id), key) \<in> set (as_batched_keys s) \<and> verifies (bk_voprf_server key) token \<longrightarrow>
        (\<exists>c. nonce_row s (op, nonce_of token) c \<and> bk_created_at key \<le> c))"

definition keys_until :: "time \<Rightarrow> as_state \<Rightarrow> bool" where
  "keys_until now s \<longleftrightarrow> (\<forall>(_, key) \<in> set (as_batched_keys s). bk_created_at key \<le> now)"

definition redeems_safely :: "('t, 'q, 'p, 'z) privacy_pass_scheme \<Rightarrow> ('t \<Rightarrow> bytes) \<Rightarrow> (bytes \<Rightarrow> 't \<Rightarrow> bool) \<Rightarrow> bool" where
  "redeems_safely pp nonce_of verifies \<longleftrightarrow>
     (\<forall>token. redeems_once (nonce_of token) (\<lambda>server. verifies server token) (pp_redeem pp token) False False)"

lemma redeem_run:
  assumes "redeems_safely pp nonce_of verifies" "as_redeem_token pp oks now token op s = (r, s')"
  shows "as_batched_keys s' = as_batched_keys s" "as_aborted s \<Longrightarrow> as_aborted s'"
    "nonce_row s k c \<Longrightarrow> nonce_row s' k c"
    "r = Ok () \<Longrightarrow> nonce_row s' (op, nonce_of token) now"
    "r = Ok () \<Longrightarrow> \<not> spent nonce_of verifies op token s"
proof -
  obtain r' where run: "run_store oks op now (pp_redeem pp token) 0 s = (r', s')" and r: "r = Ok () \<longleftrightarrow> r' = Ok ()"
    using assms(2) by (cases "run_store oks op now (pp_redeem pp token) 0 s") (auto simp: as_redeem_token_def result_simps)
  note facts = run_store_redeems[OF assms(1)[unfolded redeems_safely_def, rule_format] run, simplified]
  show "as_batched_keys s' = as_batched_keys s" "as_aborted s \<Longrightarrow> as_aborted s'"
    "r = Ok () \<Longrightarrow> nonce_row s' (op, nonce_of token) now"
    using facts r by auto
  show "nonce_row s k c \<Longrightarrow> nonce_row s' k c" using facts by (cases k) blast
  show "r = Ok () \<Longrightarrow> \<not> spent nonce_of verifies op token s" using facts r unfolding spent_def by blast
qed

lemma redeem_spends:
  assumes "redeems_safely pp nonce_of verifies" "as_redeem_token pp oks now token op s = (Ok (), s')" "keys_until now s"
  shows "spent nonce_of verifies op token s'"
  using redeem_run[OF assms(1,2)] assms(3) unfolding spent_def keys_until_def by auto

lemma spent_mono:
  assumes "spent nonce_of verifies op token s" "set (as_batched_keys t) \<subseteq> set (as_batched_keys s)"
    "\<And>k c. nonce_row s k c \<Longrightarrow> nonce_row t k c"
  shows "spent nonce_of verifies op token t"
  using assms unfolding spent_def by blast


text \<open>
  The two deletions of a rotation read the clock one after the other.  A rotation is calm if no key is
  just old enough for the second deletion but was not yet for the first.
\<close>

definition calm_rotation :: "rotation_io \<Rightarrow> operation_type \<Rightarrow> as_state \<Rightarrow> bool" where
  "calm_rotation io op s \<longleftrightarrow>
     list_all (\<lambda>((op', _), key). op' = op \<longrightarrow> (let age = duration_days (KEY_ROTATION_PERIOD_DAYS + KEY_OVERLAP_DAYS) in
       \<not> (ro_now_keys io - age \<le> bk_created_at key \<and> bk_created_at key < ro_now_nonces io - age))) (as_batched_keys s)"

lemma spent_after_deletions:
  assumes "spent nonce_of verifies op token s"
    and calm: "\<forall>((op', _), key) \<in> set (as_batched_keys s). op' = op'' \<longrightarrow> \<not> verifies (bk_voprf_server key) token \<or>
      (let age = duration_days (KEY_ROTATION_PERIOD_DAYS + KEY_OVERLAP_DAYS) in
       \<not> (now - age \<le> bk_created_at key \<and> bk_created_at key < now' - age))"
  shows "spent nonce_of verifies op token (remove_nonces now' op'' (remove_keys now op'' s))"
  unfolding spent_def
proof (intro allI impI, elim conjE)
  fix key_id key
  assume key: "((op, key_id), key) \<in> set (as_batched_keys (remove_nonces now' op'' (remove_keys now op'' s)))"
    and verifies: "verifies (bk_voprf_server key) token"
  from key have stored: "((op, key_id), key) \<in> set (as_batched_keys s)"
    and young: "op = op'' \<Longrightarrow> now - duration_days (KEY_ROTATION_PERIOD_DAYS + KEY_OVERLAP_DAYS) \<le> bk_created_at key"
    by (auto simp: remove_nonces_def remove_keys_def)
  from assms(1) stored verifies obtain c where c: "nonce_row s (op, nonce_of token) c" "bk_created_at key \<le> c"
    unfolding spent_def by blast
  have "op = op'' \<Longrightarrow> now' - duration_days (KEY_ROTATION_PERIOD_DAYS + KEY_OVERLAP_DAYS) \<le> c"
    using calm stored young c(2) verifies by (auto simp: Let_def)
  with c show "\<exists>c. nonce_row (remove_nonces now' op'' (remove_keys now op'' s)) (op, nonce_of token) c \<and> bk_created_at key \<le> c"
    by (auto simp: nonce_row_def remove_nonces_def remove_keys_def not_less)
qed

lemma create_new_keypair_run:
  assumes "inserts_only generated (pp_create_keypair pp (ro_seed io))" "create_new_keypair pp io op s = (r, t)"
  shows "as_nonces t = as_nonces s \<and> (\<forall>(k, key) \<in> set (as_batched_keys t) - set (as_batched_keys s).
    fst k = op \<and> generated (bk_voprf_server key) \<and> bk_created_at key = ro_now_create io)"
proof -
  obtain x u where "run_store (ro_calls io) op (ro_now_create io) (pp_create_keypair pp (ro_seed io)) 0
      (s\<lparr> as_aborted := False \<rparr>) = (x, u)" by fastforce
  from run_store_inserts[OF assms(1) this] this assms(2) show ?thesis
    by (cases x) (auto simp: create_new_keypair_def in_transaction_def andThen_def action_apply restore_as_db_def split: if_splits)
qed

lemma rotation_keeps_spent:
  assumes fresh: "\<forall>server. generated server \<longrightarrow> \<not> verifies server token"
    and lib: "inserts_only generated (pp_create_keypair pp (ro_seed io))"
    and calm: "calm_rotation io op'' s" and spent: "spent nonce_of verifies op token s"
  shows "spent nonce_of verifies op token (snd (rotate_keys_if_needed_for_operation_type pp io op'' s))"
proof -
  define create where "create = (if needs_rotation (ro_now_check io) op'' s then create_new_keypair pp io op'' else return_with False)"
  obtain r t where run: "create s = (r, t)" by fastforce
  have t: "as_nonces t = as_nonces s \<and> (\<forall>(k, key) \<in> set (as_batched_keys t) - set (as_batched_keys s).
      fst k = op'' \<and> generated (bk_voprf_server key) \<and> bk_created_at key = ro_now_create io)"
    using run create_new_keypair_run[OF lib] by (auto simp: create_def action_apply split: if_splits)
  have rows: "nonce_row t = nonce_row s" using t by (simp add: fun_eq_iff nonce_row_def)
  have spent_t: "spent nonce_of verifies op token t"
    using spent t fresh unfolding spent_def rows by (auto 0 4)
  have calm_t: "\<forall>((op', _), key) \<in> set (as_batched_keys t). op' = op'' \<longrightarrow> \<not> verifies (bk_voprf_server key) token \<or>
      (let age = duration_days (KEY_ROTATION_PERIOD_DAYS + KEY_OVERLAP_DAYS) in
       \<not> (ro_now_keys io - age \<le> bk_created_at key \<and> bk_created_at key < ro_now_nonces io - age))"
    using calm t fresh unfolding calm_rotation_def list_all_iff
    by (auto simp: Let_def split: prod.splits) blast
  note deletions = spent_after_deletions[OF spent_t calm_t]
  have keys: "spent nonce_of verifies op token (remove_keys (ro_now_keys io) op'' t)"
    using spent_t by (rule spent_mono) (auto simp: remove_keys_def nonce_row_def)
  show ?thesis
    using run spent spent_t deletions keys
    by (cases r) (auto simp: rotate_keys_if_needed_for_operation_type_def create_def[symmetric] andThen_def converting_def
        execute_def action_apply)
qed

end
