(* ===== verification/As_Queue.thy ===== *)
theory As_Queue
  imports As_Records
begin

text \<open>
  The queue of a username (\<^verbatim>\<open>auth_service/usernames/queue.rs\<close>) and the protocol by which a client
  fetches a connection package and leaves a connection offer (\<^verbatim>\<open>auth_service/usernames/connect.rs\<close>).

  A stream has an id of its own, which it writes into the rows it fetches, and a buffer.  A poll runs the
  loop of the stream up to its next item; whether a notification arrives is an argument.  The connect
  protocol reads the requests of its client as a list and appends to the responses sent.

  The stream of a username delivers every message at most once and says that the queue is empty only when
  it has delivered all of it.  A connection offer the protocol acknowledges is in the queue.
\<close>

section \<open>The queue\<close>

definition UsernameQueue_enqueue :: "executor \<Rightarrow> bool \<Rightarrow> time \<Rightarrow> username_hash \<Rightarrow> bytes \<Rightarrow> username_queue_message \<Rightarrow>
    (as_state, sqlx_error, unit) attempt" where
  "UsernameQueue_enqueue ex ok now hash message_id message = execute ex ok
     (\<lambda>s. if map_of (as_usernames s) hash = None \<or> list_ex (\<lambda>r. uq_message_id r = message_id) (as_queue_rows s)
          then fail_with DatabaseError s
          else modify_with (\<lambda>s. s\<lparr> as_queue_rows := as_queue_rows s @ [\<lparr> uq_message_id = message_id, uq_hash = hash,
            uq_message = message, uq_fetched_by = None, uq_created_at = now \<rparr>] \<rparr>) s)"

definition UsernameQueue_delete :: "executor \<Rightarrow> bool \<Rightarrow> bytes \<Rightarrow> (as_state, sqlx_error, unit) attempt" where
  "UsernameQueue_delete ex ok message_id = execute ex ok (modify_with (\<lambda>s.
     s\<lparr> as_queue_rows := filter (\<lambda>r. uq_message_id r \<noteq> message_id) (as_queue_rows s) \<rparr>))"

text \<open>\<open>order\<close> is the order in which the database returns the updated rows.\<close>

definition messages_to_fetch :: "username_hash \<Rightarrow> bytes \<Rightarrow> nat \<Rightarrow> username_queue_row list \<Rightarrow> username_queue_row list" where
  "messages_to_fetch hash fetched_by limit rows =
     take limit (sort_key uq_created_at (filter (\<lambda>r. uq_hash r = hash \<and> uq_fetched_by r \<noteq> Some fetched_by) rows))"

definition fetched_message :: "username_queue_row \<Rightarrow> username_queue_message" where
  "fetched_message r = (uq_message r)\<lparr> um_created_at := Some (uq_created_at r) \<rparr>"

definition UsernameQueue_fetch_into :: "bool \<Rightarrow> (username_queue_row list \<Rightarrow> username_queue_row list) \<Rightarrow> username_hash \<Rightarrow>
    bytes \<Rightarrow> nat \<Rightarrow> username_queue_message list \<Rightarrow> (as_state, sqlx_error, username_queue_message list) attempt" where
  "UsernameQueue_fetch_into ok order hash fetched_by limit buffer = execute Pool ok (\<lambda>s.
     let rows = messages_to_fetch hash fetched_by limit (as_queue_rows s); ids = map uq_message_id rows in
     (Ok (buffer @ map fetched_message (order rows)),
      s\<lparr> as_queue_rows := map (\<lambda>r. if uq_message_id r \<in> set ids then r\<lparr> uq_fetched_by := Some fetched_by \<rparr> else r)
           (as_queue_rows s) \<rparr>))"

record username_enqueue_io =
  en_begin :: bool
  en_insert :: bool
  en_notify :: bool
  en_commit :: bool
  en_message_id :: bytes
  en_now :: time

definition UsernameQueues_enqueue :: "username_enqueue_io \<Rightarrow> username_hash \<Rightarrow> connection_offer_message \<Rightarrow>
    (as_state, sqlx_error, bytes) attempt" where
  "UsernameQueues_enqueue io hash payload =
     in_transaction restore_as_db (en_begin io) (en_commit io) (\<lambda>e. e)
       (let message = \<lparr> um_message_id = Some (en_message_id io), um_payload = Some payload, um_created_at = None \<rparr> in
        andThen (UsernameQueue_enqueue Txn (en_insert io) (en_now io) hash (en_message_id io) message) (\<lambda>_.
        andThen (execute Txn (en_notify io) (modify_with (\<lambda>s. s\<lparr> as_notified := as_notified s @ [hash] \<rparr>))) (\<lambda>_.
        return_with (en_message_id io))))"

definition UsernameQueues_ack :: "bool \<Rightarrow> bytes \<Rightarrow> (as_state, sqlx_error, unit) attempt" where
  "UsernameQueues_ack ok message_id = UsernameQueue_delete Pool ok message_id"


section \<open>Streams\<close>

definition USERNAME_MAX_BUFFER_SIZE :: nat where
  "USERNAME_MAX_BUFFER_SIZE = 32"

text \<open>A listener is known by the token that cancels it.\<close>

definition as_track_listener :: "username_hash \<Rightarrow> as_state \<Rightarrow> nat \<times> as_state" where
  "as_track_listener hash s =
     (let is_cancelled = (\<lambda>h. case as_listeners s h of Some cancel \<Rightarrow> cancel \<in> as_cancelled s | None \<Rightarrow> False);
          retained = (\<lambda>h. if is_cancelled h then None else as_listeners s h);
          listening = {h \<in> as_listening s. \<not> is_cancelled h};
          cancel = as_next_listener s
      in (cancel,
          s\<lparr> as_listeners := retained(hash \<mapsto> cancel),
             as_cancelled := (case retained hash of Some prev_cancel \<Rightarrow> insert prev_cancel (as_cancelled s) | None \<Rightarrow> as_cancelled s),
             as_next_listener := cancel + 1,
             as_listening := (case retained hash of Some _ \<Rightarrow> listening | None \<Rightarrow> insert hash listening) \<rparr>))"

datatype username_fetch_state = FetchNext | WaitForNotification

record username_stream_context =
  sx_id :: bytes
  sx_hash :: username_hash
  sx_cancel :: nat
  sx_buffer :: "username_queue_message list"
  sx_state :: username_fetch_state

definition UsernameQueues_listen :: "bytes \<Rightarrow> username_hash \<Rightarrow> as_state \<Rightarrow> username_stream_context \<times> as_state" where
  "UsernameQueues_listen random_id hash s =
     (case as_track_listener hash s of (cancel, s') \<Rightarrow>
        (\<lparr> sx_id = random_id, sx_hash = hash, sx_cancel = cancel, sx_buffer = [], sx_state = FetchNext \<rparr>, s'))"

text \<open>The end of the stream, an item of it, or nothing yet; an item without a message is the sentinel.\<close>

datatype stream_item = Ended | Item "username_queue_message option" | Pending

record username_poll_io =
  up_fetch :: bool
  up_order :: "username_queue_row list \<Rightarrow> username_queue_row list"
  up_notified :: bool

definition pop_message :: "username_stream_context \<Rightarrow> stream_item \<times> username_stream_context" where
  "pop_message cx = (Item (Some (last (sx_buffer cx))), cx\<lparr> sx_buffer := butlast (sx_buffer cx) \<rparr>)"

definition stream_fetch :: "username_poll_io \<Rightarrow> username_stream_context \<Rightarrow> as_state \<Rightarrow> (stream_item \<times> username_stream_context) \<times> as_state" where
  "stream_fetch io cx s =
     (case UsernameQueue_fetch_into (up_fetch io) (up_order io) (sx_hash cx) (sx_id cx) USERNAME_MAX_BUFFER_SIZE (sx_buffer cx) s of
        (Err _, s') \<Rightarrow> ((Ended, cx), s')
      | (Ok buffer, s') \<Rightarrow>
          if buffer = [] then ((Item None, cx\<lparr> sx_state := WaitForNotification \<rparr>), s')
          else (pop_message (cx\<lparr> sx_buffer := rev buffer \<rparr>), s'))"

definition stream_next :: "username_poll_io \<Rightarrow> username_stream_context \<Rightarrow> as_state \<Rightarrow> (stream_item \<times> username_stream_context) \<times> as_state" where
  "stream_next io cx s =
     (if sx_cancel cx \<in> as_cancelled s then ((Ended, cx), s)
      else if sx_buffer cx \<noteq> [] then (pop_message cx, s)
      else case sx_state cx of
        FetchNext \<Rightarrow> stream_fetch io cx s
      | WaitForNotification \<Rightarrow> if up_notified io then stream_fetch io (cx\<lparr> sx_state := FetchNext \<rparr>) s else ((Pending, cx), s))"


section \<open>The connect protocol\<close>

datatype connect_request =
    FetchStep "string field option" "username_hash field"
  | EnqueueStep "connection_offer_message option"
  | NoStep

datatype connect_response = FetchResponse versioned_connection_package | EnqueueResponse | ErrorResponse status

datatype connect_protocol_error =
    ProtocolViolation | ConnectDatabase sqlx_error | ConnectUsernameNotFound | InvalidHash | ConnectMissingField
  | ConnectEnqueue sqlx_error | UnsupportedVersion status

fun connect_status :: "connect_protocol_error \<Rightarrow> status" where
  "connect_status ProtocolViolation = failed_precondition"
| "connect_status (ConnectDatabase _) = internal"
| "connect_status ConnectUsernameNotFound = not_found"
| "connect_status InvalidHash = invalid_argument"
| "connect_status ConnectMissingField = invalid_argument"
| "connect_status (ConnectEnqueue _) = internal"
| "connect_status (UnsupportedVersion status) = status"

text \<open>What the server knows, and what the database and the other end of the channel do in one run.\<close>

record connect_io =
  cn_version_req :: "string option"
  cn_version_matches :: "string \<Rightarrow> bool"
  cn_round :: "time \<Rightarrow> time"
  cn_now :: time
  cn_load :: bool
  cn_delete :: bool
  cn_package :: bool
  cn_pick :: "package_row list \<Rightarrow> package_row"
  cn_enqueue :: username_enqueue_io
  cn_sent :: "nat \<Rightarrow> bool"

definition load_username_expiration_data_impl :: "connect_io \<Rightarrow> username_hash \<Rightarrow>
    (as_state, sqlx_error, expiration_data option) attempt" where
  "load_username_expiration_data_impl io hash =
     andThen (load_expiration_data Pool (cn_load io) hash) (\<lambda>expiration_data.
     case expiration_data of
       None \<Rightarrow> return_with None
     | Some d \<Rightarrow>
         if \<not> ExpirationData_validate (cn_round io) (cn_now io) d
         then andThen (UsernameRecord_delete Pool (cn_delete io) hash) (\<lambda>_. return_with None)
         else return_with (Some d))"

text \<open>
  The protocol runs on the state of the service and the responses sent so far.  Its requests are taken
  from the front; an error of the transport or the end of the requests ends it.
\<close>

definition on_service :: "(as_state, 'e, 'a) attempt \<Rightarrow> (as_state \<times> connect_response list, 'e, 'a) attempt" where
  "on_service m = (\<lambda>(s, out). case m s of (r, s') \<Rightarrow> (r, (s', out)))"

definition send_response :: "(nat \<Rightarrow> bool) \<Rightarrow> connect_response \<Rightarrow> (as_state \<times> connect_response list, 'e, bool) attempt" where
  "send_response sent response = (\<lambda>(s, out).
     if sent (length out) then (Ok True, (s, out @ [response])) else (Ok False, (s, out)))"

definition convert_hash :: "username_hash field \<Rightarrow> connect_protocol_error + username_hash" where
  "convert_hash f = (case f of Missing \<Rightarrow> Err ConnectMissingField | Malformed \<Rightarrow> Err InvalidHash | Field hash \<Rightarrow> Ok hash)"

definition enqueue_step :: "connect_io \<Rightarrow> username_hash \<Rightarrow> (status + connect_request) list \<Rightarrow>
    (as_state \<times> connect_response list, connect_protocol_error, unit) attempt" where
  "enqueue_step io hash incoming =
     (case incoming of
        [] \<Rightarrow> return_with ()
      | Err _ # _ \<Rightarrow> return_with ()
      | Ok (EnqueueStep offer) # _ \<Rightarrow>
          andThen (try_with (ok_or ConnectMissingField offer)) (\<lambda>connection_offer.
          andThen (on_service (converting ConnectEnqueue
            (UsernameQueues_enqueue (cn_enqueue io) hash connection_offer))) (\<lambda>_.
          andThen (send_response (cn_sent io) EnqueueResponse) (\<lambda>_.
          return_with ())))
      | Ok _ # _ \<Rightarrow> fail_with ProtocolViolation)"

definition run_protocol_impl :: "connect_io \<Rightarrow> (status + connect_request) list \<Rightarrow>
    (as_state \<times> connect_response list, connect_protocol_error, unit) attempt" where
  "run_protocol_impl io incoming =
     (case incoming of
        [] \<Rightarrow> return_with ()
      | Err _ # _ \<Rightarrow> return_with ()
      | Ok (FetchStep client_metadata hash) # rest \<Rightarrow>
          andThen (try_with (map_err UnsupportedVersion
            (verify_version (cn_version_req io) (cn_version_matches io) client_metadata))) (\<lambda>_.
          andThen (try_with (convert_hash hash)) (\<lambda>hash.
          andThen (on_service (converting ConnectDatabase (load_username_expiration_data_impl io hash))) (\<lambda>loaded.
          andThen (try_with (ok_or ConnectUsernameNotFound loaded)) (\<lambda>expiration_data.
          andThen (try_with (ensure (ExpirationData_validate (cn_round io) (cn_now io) expiration_data)
            ConnectUsernameNotFound)) (\<lambda>_.
          andThen (on_service (converting ConnectDatabase (load_for_username (cn_package io) (cn_pick io) hash))) (\<lambda>package.
          andThen (send_response (cn_sent io) (FetchResponse package)) (\<lambda>sent.
          if \<not> sent then return_with () else enqueue_step io hash rest)))))))
      | Ok _ # _ \<Rightarrow> fail_with ProtocolViolation)"

definition run_protocol :: "connect_io \<Rightarrow> (status + connect_request) list \<Rightarrow> as_state \<Rightarrow> connect_response list \<times> as_state" where
  "run_protocol io incoming s =
     (case run_protocol_impl io incoming (s, []) of
        (Ok _, (s', out)) \<Rightarrow> (out, s')
      | (Err e, (s', out)) \<Rightarrow> (if cn_sent io (length out) then out @ [ErrorResponse (connect_status e)] else out, s'))"

end
