(* ===== verification/As_Service.thy ===== *)
theory As_Service
  imports As_Tokens As_Queue Qs_Handlers
begin

text \<open>
  The operations of the authentication service: start-up (\<^verbatim>\<open>auth_service/mod.rs\<close>,
  \<^verbatim>\<open>auth_service/credentials/\<close>), registration and deletion of users, profiles, published credentials,
  connection packages (\<^verbatim>\<open>auth_service/client_api/\<close>) and usernames (\<^verbatim>\<open>auth_service/usernames/mod.rs\<close>).
\<close>

section \<open>The service and its environment\<close>

record ('t, 'q, 'p) as_service = package_env +
  av_privacy_pass :: "('t, 'q, 'p) privacy_pass"
  av_version_req :: "string option"
  av_version_matches :: "string \<Rightarrow> bool"
  av_invitation_only :: bool
  av_unredeemable_code :: "string option"
  av_argon2 :: "bytes \<Rightarrow> bytes \<Rightarrow> unit + bytes"
  av_midnight :: "time \<Rightarrow> time"

text \<open>What one request meets: the clocks, random values, and for each statement whether it is executed.\<close>

record as_io =
  a_now :: time
  a_db_now :: time
  a_begin :: bool
  a_commit :: bool
  a_load :: bool
  a_store :: bool
  a_store_client :: bool
  a_load_key :: bool
  a_load_code :: bool
  a_save_code :: bool
  a_count_codes :: bool
  a_insert_code :: "nat \<Rightarrow> bool"
  a_random :: "nat \<Rightarrow> nat \<Rightarrow> nat \<Rightarrow> nat"
  a_calls :: "nat \<Rightarrow> nat \<Rightarrow> bool"
  a_hash_task :: bool
  a_load_intermediates :: bool
  a_load_token_keys :: bool
  a_issue :: issue_io


section \<open>Start-up\<close>

datatype credential_generation_error =
    SigningError | NoActiveCredential | CredentialGenerationFailed key_generation_error | StorageFailed sqlx_error

record init_io =
  ni_now :: time
  ni_begin :: bool
  ni_commit :: bool
  ni_load :: bool
  ni_generated :: "signing_key option"
  ni_store :: bool
  ni_activate :: bool
  ni_load_active :: bool
  ni_generated_intermediate :: "signing_key option"
  ni_store_intermediate :: bool
  ni_activate_intermediate :: bool
  ni_rotation :: "operation_type \<Rightarrow> rotation_io"

definition generate_store_and_activate :: "('t, 'q, 'p, 'z) as_service_scheme \<Rightarrow> init_io \<Rightarrow> string \<Rightarrow> 16 word \<Rightarrow>
    (as_state, credential_generation_error, storable_key) attempt" where
  "generate_store_and_activate sv io domain scheme =
     andThen (try_with (map_err CredentialGenerationFailed
       (AsCredential_new sv (ni_now io) (ni_generated io) scheme domain None))) (\<lambda>(_, signing_key).
     let signing_key = StorableAs signing_key in
     in_transaction restore_as_db True True StorageFailed
       (andThen (converting StorageFailed (store_signing_key Txn (ni_store io) signing_key)) (\<lambda>_.
        andThen (converting StorageFailed (StorableSigningKey_activate Txn (ni_activate io) signing_key)) (\<lambda>_.
        return_with signing_key))))"

definition generate_intermediate :: "('t, 'q, 'p, 'z) as_service_scheme \<Rightarrow> init_io \<Rightarrow> string \<Rightarrow> 16 word \<Rightarrow> as_signing_key \<Rightarrow>
    credential_generation_error + storable_key" where
  "generate_intermediate sv io domain scheme signing_key =
     and_then (map_err CredentialGenerationFailed
       (AsIntermediateCredentialCsr_new (ni_generated_intermediate io) scheme domain)) (\<lambda>(csr, prelim_signing_key).
     and_then (map_err (\<lambda>_. SigningError)
       (AsIntermediateCredentialCsr_sign sv (ni_now io) csr signing_key None)) (\<lambda>as_intermediate_credential.
     and_then (map_err (\<lambda>_. SigningError)
       (AsIntermediateSigningKey_from_prelim_key prelim_signing_key as_intermediate_credential)) (\<lambda>key.
     Ok (StorableIntermediate key))))"

definition generate_sign_and_activate :: "('t, 'q, 'p, 'z) as_service_scheme \<Rightarrow> init_io \<Rightarrow> string \<Rightarrow> 16 word \<Rightarrow>
    (as_state, credential_generation_error, storable_key) attempt" where
  "generate_sign_and_activate sv io domain scheme =
     in_transaction restore_as_db True True StorageFailed
       (andThen (converting StorageFailed (StorableSigningKey_load Txn (ni_load_active io))) (\<lambda>loaded.
        andThen (try_with (ok_or NoActiveCredential loaded)) (\<lambda>signing_key.
        andThen (try_with (generate_intermediate sv io domain scheme signing_key)) (\<lambda>key.
        andThen (converting StorageFailed (store_signing_key Txn (ni_store_intermediate io) key)) (\<lambda>_.
        andThen (converting StorageFailed (IntermediateSigningKey_activate Txn (ni_activate_intermediate io) key)) (\<lambda>_.
        return_with key))))))"

text \<open>The scheme is \<^verbatim>\<open>DEFAULT_SIGNATURE_SCHEME\<close>.  Credentials are generated when there is no active key.\<close>

definition initialize_credentials :: "('t, 'q, 'p, 'z) as_service_scheme \<Rightarrow> init_io \<Rightarrow> string \<Rightarrow> 16 word \<Rightarrow>
    (as_state, service_creation_error, unit) attempt" where
  "initialize_credentials sv io domain signature_scheme =
     in_transaction restore_as_db (ni_begin io) (ni_commit io) (\<lambda>_. CreationDatabase)
       (andThen (converting (\<lambda>_. CreationDatabase) (StorableSigningKey_load Txn (ni_load io))) (\<lambda>active.
        if active \<noteq> None then return_with ()
        else andThen (converting (\<lambda>_. InitializationFailed) (generate_store_and_activate sv io domain signature_scheme)) (\<lambda>_.
          andThen (converting (\<lambda>_. InitializationFailed) (generate_sign_and_activate sv io domain signature_scheme)) (\<lambda>_.
          return_with ()))))"

definition as_initialize :: "('t, 'q, 'p, 'z) as_service_scheme \<Rightarrow> init_io \<Rightarrow> string \<Rightarrow> 16 word \<Rightarrow>
    (as_state, service_creation_error, unit) attempt" where
  "as_initialize sv io domain signature_scheme =
     andThen (initialize_credentials sv io domain signature_scheme) (\<lambda>_.
     andThen (converting (\<lambda>_. InitializationFailed) (rotate_keys_if_needed (av_privacy_pass sv) (ni_rotation io))) (\<lambda>_.
     return_with ()))"


section \<open>Users\<close>

datatype register_user_error =
    SigningKeyNotFound | RegisterLibraryError | RegisterStorageError | UserAlreadyExists | InvalidCsr | RegisterPanic

fun register_status :: "register_user_error \<Rightarrow> status" where
  "register_status SigningKeyNotFound = not_found"
| "register_status RegisterLibraryError = internal"
| "register_status RegisterStorageError = internal"
| "register_status UserAlreadyExists = plain_status AlreadyExists"
| "register_status InvalidCsr = invalid_argument"
| "register_status RegisterPanic = panicked"

text \<open>
  The invitation code is saved on a connection of its own: a rollback of the registration does not
  touch it.
\<close>

definition restore_registration :: "as_state \<Rightarrow> as_state \<Rightarrow> as_state" where
  "restore_registration old new = (restore_as_db old new)\<lparr> as_codes := as_codes new \<rparr>"

definition as_init_user_registration :: "('t, 'q, 'p, 'z) as_service_scheme \<Rightarrow> as_io \<Rightarrow> client_credential_payload \<Rightarrow>
    encrypted_user_profile \<Rightarrow> string option \<Rightarrow> (as_state, register_user_error, client_credential) attempt" where
  "as_init_user_registration sv io client_payload profile code_record =
     andThen (try_with (ensure (av_invitation_only sv \<longrightarrow> code_record \<noteq> None) RegisterPanic)) (\<lambda>_.
     andThen (converting (\<lambda>_. RegisterStorageError) (AsUserRecord_load Pool (a_load io) (payload_identity client_payload))) (\<lambda>existing.
     andThen (try_with (ensure (existing = None) UserAlreadyExists)) (\<lambda>_.
     andThen (try_with (ensure (ClientCredentialPayload_validate sv (a_now io) client_payload) InvalidCsr)) (\<lambda>_.
     andThen (converting (\<lambda>_. RegisterStorageError) (IntermediateSigningKey_load Pool (a_load_key io))) (\<lambda>loaded.
     andThen (try_with (ok_or SigningKeyNotFound loaded)) (\<lambda>signing_key.
     andThen (try_with (map_err (\<lambda>_. RegisterLibraryError) (sign_client sv signing_key client_payload))) (\<lambda>client_credential.
     in_transaction restore_registration (a_begin io) (a_commit io) (\<lambda>_. RegisterStorageError)
       (andThen (converting (\<lambda>_. RegisterStorageError) (AsUserRecord_new_and_store Txn (a_store io)
          (ClientCredential_user_id client_credential) profile)) (\<lambda>_.
        andThen (converting (\<lambda>_. RegisterStorageError) (AsClientRecord_new_and_store Txn (a_store_client io) (a_now io)
          client_credential)) (\<lambda>_.
        andThen (case code_record of
            Some code \<Rightarrow> converting (\<lambda>_. RegisterStorageError) (save_code Pool (a_save_code io) (a_db_now io) code True)
          | None \<Rightarrow> return_with ()) (\<lambda>_.
        return_with client_credential))))))))))) "

definition as_delete_user :: "as_io \<Rightarrow> user_id \<Rightarrow> (as_state, sqlx_error, unit) attempt" where
  "as_delete_user io user_id = AsUserRecord_delete Pool (a_store io) user_id"

definition load_client_verifying_key :: "bool \<Rightarrow> user_id \<Rightarrow> (as_state, sqlx_error, bytes option) attempt" where
  "load_client_verifying_key ok user_id =
     andThen (AsClientRecord_load Pool ok user_id) (\<lambda>loaded.
     return_with (map_option (\<lambda>r. ClientCredential_verifying_key (ar_credential r)) loaded))"


section \<open>Profiles\<close>

datatype profile_error = NoCiphertextFound | ProfileUserNotFound | ProfileStorageError | NoStagedProfile

fun profile_status :: "profile_error \<Rightarrow> status" where
  "profile_status NoCiphertextFound = invalid_argument"
| "profile_status ProfileUserNotFound = not_found"
| "profile_status ProfileStorageError = internal"
| "profile_status NoStagedProfile = not_found"

definition as_get_user_profile :: "as_io \<Rightarrow> user_id \<Rightarrow> bytes \<Rightarrow> (as_state, profile_error, encrypted_user_profile) attempt" where
  "as_get_user_profile io user_id key_index =
     andThen (converting (\<lambda>_. ProfileStorageError) (AsUserRecord_load Pool (a_load io) user_id)) (\<lambda>loaded.
     andThen (try_with (ok_or ProfileUserNotFound loaded)) (\<lambda>user_record.
     try_with (ok_or NoCiphertextFound (into_user_profile key_index user_record))))"

definition as_stage_user_profile :: "as_io \<Rightarrow> user_id \<Rightarrow> encrypted_user_profile \<Rightarrow> (as_state, profile_error, unit) attempt" where
  "as_stage_user_profile io user_id user_profile =
     andThen (converting (\<lambda>_. ProfileStorageError) (AsUserRecord_load Pool (a_load io) user_id)) (\<lambda>loaded.
     andThen (try_with (ok_or ProfileUserNotFound loaded)) (\<lambda>user_record.
     converting (\<lambda>_. ProfileStorageError)
       (AsUserRecord_update Pool (a_store io) user_id (stage_user_profile user_profile user_record))))"

definition as_merge_user_profile :: "as_io \<Rightarrow> user_id \<Rightarrow> (as_state, profile_error, unit) attempt" where
  "as_merge_user_profile io user_id =
     andThen (converting (\<lambda>_. ProfileStorageError) (AsUserRecord_load Pool (a_load io) user_id)) (\<lambda>loaded.
     andThen (try_with (ok_or ProfileUserNotFound loaded)) (\<lambda>user_record.
     andThen (try_with (map_err (\<lambda>_. NoStagedProfile) (merge_user_profile user_record))) (\<lambda>merged.
     converting (\<lambda>_. ProfileStorageError) (AsUserRecord_update Pool (a_store io) user_id merged))))"


section \<open>Published credentials and connection packages\<close>

record as_credentials_answer =
  an_as_credentials :: "as_credential list"
  an_as_intermediate_credentials :: "as_intermediate_credential list"
  an_revoked_credentials :: "bytes list"
  an_batched_token_keys :: "(u8 \<times> operation_type \<times> bytes) list"

definition as_credentials :: "('t, 'q, 'p, 'z) as_service_scheme \<Rightarrow> as_io \<Rightarrow> (as_state, sqlx_error, as_credentials_answer) attempt" where
  "as_credentials sv io =
     andThen (Credential_load_all Pool (a_load io)) (\<lambda>as_credentials.
     andThen (IntermediateCredential_load_all Pool (a_load_intermediates io)) (\<lambda>as_intermediate_credentials.
     andThen (load_batched_token_keys (av_privacy_pass sv) (a_load_token_keys io)) (\<lambda>batched_token_keys.
     return_with \<lparr> an_as_credentials = as_credentials, an_as_intermediate_credentials = as_intermediate_credentials,
       an_revoked_credentials = [], an_batched_token_keys = batched_token_keys \<rparr>)))"

datatype publish_package_error = PublishPackageStorageError | InvalidConnectionPackage

fun publish_package_status :: "publish_package_error \<Rightarrow> status" where
  "publish_package_status PublishPackageStorageError = internal"
| "publish_package_status InvalidConnectionPackage = invalid_argument"

definition as_publish_connection_packages_for_handle :: "('t, 'q, 'p, 'z) as_service_scheme \<Rightarrow> as_io \<Rightarrow> username_hash \<Rightarrow>
    versioned_connection_package list \<Rightarrow> (as_state, publish_package_error, unit) attempt" where
  "as_publish_connection_packages_for_handle sv io hash connection_packages =
     andThen (try_with (collect_res (\<lambda>cp. map_err (\<lambda>_. InvalidConnectionPackage)
       (VersionedConnectionPackageIn_verify sv cp)) connection_packages)) (\<lambda>verified.
     converting (\<lambda>_. PublishPackageStorageError) (store_multiple_for_username Pool (a_store io) verified hash))"


section \<open>Usernames\<close>

definition USERNAME_VALIDITY_PERIOD :: duration where
  "USERNAME_VALIDITY_PERIOD = duration_days 180"

datatype create_username_error =
    CreateStorageError sqlx_error | HashError | HashTaskError | UsernameValidation username_validation_error | HashMismatch
  | UsernameExists | CreateTokenRedemption redeem_token_error

definition redeem_status :: "redeem_token_error \<Rightarrow> status" where
  "redeem_status e = (case e of
     UnknownKeyId \<Rightarrow> status_with_details Unauthenticated UnknownTokenKeyIdCode NoDetail
   | InvalidToken \<Rightarrow> unauthenticated)"

fun create_username_status :: "create_username_error \<Rightarrow> status" where
  "create_username_status (CreateStorageError _) = internal"
| "create_username_status HashError = internal"
| "create_username_status HashTaskError = internal"
| "create_username_status (UsernameValidation _) = invalid_argument"
| "create_username_status HashMismatch = invalid_argument"
| "create_username_status UsernameExists = plain_status AlreadyExists"
| "create_username_status (CreateTokenRedemption e) = redeem_status e"

definition redeem_if_present :: "('t, 'q, 'p, 'z) as_service_scheme \<Rightarrow> as_io \<Rightarrow> 't option \<Rightarrow>
    (as_state, redeem_token_error, unit) attempt" where
  "redeem_if_present sv io token =
     (case token of
        Some t \<Rightarrow> as_redeem_token (av_privacy_pass sv) (a_calls io 0) (a_db_now io) t AddUsername
      | None \<Rightarrow> return_with ())"

definition as_create_username :: "('t, 'q, 'p, 'z) as_service_scheme \<Rightarrow> as_io \<Rightarrow> bytes \<Rightarrow> string \<Rightarrow> username_hash \<Rightarrow> 't option \<Rightarrow>
    (as_state, create_username_error, unit) attempt" where
  "as_create_username sv io verifying_key username_plaintext hash token =
     in_transaction restore_as_db (a_begin io) (a_commit io) CreateStorageError
       (andThen (converting CreateTokenRedemption (redeem_if_present sv io token)) (\<lambda>_.
        andThen (try_with (map_err UsernameValidation (Username_new username_plaintext))) (\<lambda>username.
        andThen (try_with (ensure (a_hash_task io) HashTaskError)) (\<lambda>_.
        andThen (try_with (map_err (\<lambda>_. HashError) (calculate_hash (av_argon2 sv) utf8 username))) (\<lambda>local_hash.
        andThen (try_with (ensure (local_hash = hash) HashMismatch)) (\<lambda>_.
        andThen (converting CreateStorageError (load_expiration_data Txn (a_load io) hash)) (\<lambda>loaded.
        andThen (try_with (ensure (case loaded of
            Some expiration_data \<Rightarrow> \<not> ExpirationData_validate (ce_round sv) (a_now io) expiration_data
          | None \<Rightarrow> True) UsernameExists)) (\<lambda>_.
        let record = \<lparr> ux_verifying_key = verifying_key,
          ux_expiration_data = ExpirationData_new (ce_round sv) (a_now io) USERNAME_VALIDITY_PERIOD \<rparr> in
        if loaded \<noteq> None
        then converting CreateStorageError (UsernameRecord_update Txn (a_store io) hash record)
        else andThen (converting CreateStorageError (UsernameRecord_store Txn (a_store io) hash record)) (\<lambda>stored.
          try_with (ensure stored UsernameExists))))))))))"

datatype delete_username_error = DeleteStorageError sqlx_error | DeleteUsernameNotFound

fun delete_username_status :: "delete_username_error \<Rightarrow> status" where
  "delete_username_status (DeleteStorageError _) = internal"
| "delete_username_status DeleteUsernameNotFound = not_found"

text \<open>A token request is ignored: there is no refund.\<close>

definition as_delete_username :: "as_io \<Rightarrow> username_hash \<Rightarrow> 'q option \<Rightarrow> (as_state, delete_username_error, 'p option) attempt" where
  "as_delete_username io hash token_request =
     andThen (converting DeleteStorageError (UsernameRecord_delete Pool (a_store io) hash)) (\<lambda>deleted.
     andThen (try_with (ensure deleted DeleteUsernameNotFound)) (\<lambda>_.
     return_with None))"

datatype refresh_username_error =
    RefreshStorageError sqlx_error | RefreshUsernameNotFound | UsernameAlreadyExpired | RefreshTokenRedemption redeem_token_error

fun refresh_username_status :: "refresh_username_error \<Rightarrow> status" where
  "refresh_username_status (RefreshStorageError _) = internal"
| "refresh_username_status RefreshUsernameNotFound = not_found"
| "refresh_username_status UsernameAlreadyExpired = failed_precondition"
| "refresh_username_status (RefreshTokenRedemption e) = redeem_status e"

definition as_refresh_username :: "('t, 'q, 'p, 'z) as_service_scheme \<Rightarrow> as_io \<Rightarrow> username_hash \<Rightarrow> 't option \<Rightarrow>
    (as_state, refresh_username_error, unit) attempt" where
  "as_refresh_username sv io hash token =
     in_transaction restore_as_db (a_begin io) (a_commit io) RefreshStorageError
       (andThen (converting RefreshTokenRedemption (redeem_if_present sv io token)) (\<lambda>_.
        andThen (converting RefreshStorageError (load_expiration_data Txn (a_load io) hash)) (\<lambda>loaded.
        andThen (try_with (ok_or RefreshUsernameNotFound loaded)) (\<lambda>expiration_data.
        andThen (try_with (ensure (ExpirationData_validate (ce_round sv) (a_now io) expiration_data) UsernameAlreadyExpired)) (\<lambda>_.
        converting RefreshStorageError (update_expiration_data Txn (a_store io) hash
          (ExpirationData_new (ce_round sv) (a_now io) USERNAME_VALIDITY_PERIOD)))))))"



section \<open>Operations of the command line\<close>

text \<open>\<^verbatim>\<open>auth_service/cli.rs\<close>; what it prints is what the operations return.\<close>

fun invitation_codes_generate :: "(nat \<Rightarrow> bool) \<Rightarrow> time \<Rightarrow> (nat \<Rightarrow> nat \<Rightarrow> nat \<Rightarrow> nat) \<Rightarrow> nat \<Rightarrow> (as_state, sqlx_error, string list) attempt" where
  "invitation_codes_generate oks now random 0 = return_with []"
| "invitation_codes_generate oks now random (Suc n) =
     andThen (InvitationCodeRecord_generate Pool (oks n) now (random n)) (\<lambda>code.
     andThen (invitation_codes_generate oks now random n) (\<lambda>codes.
     return_with (code # codes)))"

definition usernames_list :: "bool \<Rightarrow> (as_state, sqlx_error, (username_hash \<times> expiration_data) list) attempt" where
  "usernames_list ok =
     andThen (UsernameRecord_load_all Pool ok) (\<lambda>records.
     return_with (map (\<lambda>(hash, r). (hash, ux_expiration_data r))
       (sort_key (\<lambda>(_, r). not_after (ux_expiration_data r)) records)))"

fun refresh_records :: "(nat \<Rightarrow> bool) \<Rightarrow> expiration_data \<Rightarrow> time \<Rightarrow> (username_hash \<times> username_record) list \<Rightarrow> nat \<Rightarrow>
    (as_state, sqlx_error, nat) attempt" where
  "refresh_records oks new before [] updated = return_with updated"
| "refresh_records oks new before ((hash, r) # records) updated =
     (if not_after (ux_expiration_data r) < before
      then andThen (update_expiration_data Txn (oks updated) hash new) (\<lambda>_.
        refresh_records oks new before records (Suc updated))
      else refresh_records oks new before records updated)"

definition username_refresh_expiring :: "('t, 'q, 'p, 'z) as_service_scheme \<Rightarrow> as_io \<Rightarrow> (nat \<Rightarrow> bool) \<Rightarrow> time \<Rightarrow>
    (as_state, sqlx_error, nat) attempt" where
  "username_refresh_expiring sv io oks before =
     in_transaction restore_as_db (a_begin io) (a_commit io) (\<lambda>e. e)
       (andThen (UsernameRecord_load_all Txn (a_load io)) (\<lambda>records.
        refresh_records oks (ExpirationData_new (ce_round sv) (a_now io) USERNAME_VALIDITY_PERIOD) before records 0))"

end
