(* ===== verification/As_Handlers.thy ===== *)
theory As_Handlers
  imports As_Service
begin

text \<open>
  The gRPC interface of the authentication service (\<^verbatim>\<open>auth_service/grpc.rs\<close>): the authentication of
  requests by the key of a client or of a username, and the handlers.

  A signed request is a payload and a signature over its bytes.  The handlers of streams are in two
  parts: opening the stream, and what its further requests do.
\<close>

section \<open>Authentication\<close>

fun issue_status :: "issue_tokens_error \<Rightarrow> status" where
  "issue_status BadRequest = invalid_argument"
| "issue_status (IssueStorageError _) = internal"
| "issue_status (TooManyTokensRequested retry_after_secs tokens_available) =
     status_with_details ResourceExhausted TokenQuotaExceededCode (TokenQuotaExceeded retry_after_secs (ucast tokens_available))"
| "issue_status PrivacyPassError = internal"

definition payload_field :: "('p \<Rightarrow> 'a field) \<Rightarrow> 'p qs_request \<Rightarrow> 'a field" where
  "payload_field sel request = (case rl_payload request of None \<Rightarrow> Missing | Some payload \<Rightarrow> sel payload)"

definition as_verify_request :: "('t, 'q, 'p, 'z) as_service_scheme \<Rightarrow> string \<Rightarrow> 'r qs_request signed_request \<Rightarrow> bytes \<Rightarrow>
    status + 'r" where
  "as_verify_request sv label request verifying_key =
     and_then (map_err verification_status (SignedRequest_verify (ce_vl sv) (ce_verify sv) label rl_signature
       verifying_key request)) (\<lambda>verified.
     ok_or invalid_argument (rl_payload verified))"

definition as_verify_user_auth :: "('t, 'q, 'p, 'z) as_service_scheme \<Rightarrow> as_io \<Rightarrow> string \<Rightarrow> ('r \<Rightarrow> user_id field) \<Rightarrow>
    'r qs_request signed_request \<Rightarrow> (as_state, user_id \<times> 'r) action" where
  "as_verify_user_auth sv io label user_id_proto request =
     andThen (try_with (get_field (payload_field user_id_proto (sr_request request)))) (\<lambda>user_id.
     andThen (converting (\<lambda>_. internal) (load_client_verifying_key (a_load_key io) user_id)) (\<lambda>loaded.
     andThen (try_with (ok_or not_found loaded)) (\<lambda>client_verifying_key.
     andThen (try_with (as_verify_request sv label request client_verifying_key)) (\<lambda>payload.
     return_with (user_id, payload)))))"

definition load_username_verifying_key :: "as_io \<Rightarrow> username_hash \<Rightarrow> (as_state, bytes) action" where
  "load_username_verifying_key io hash =
     andThen (converting (\<lambda>_. internal) (UsernameRecord_load_verifying_key Pool (a_load_key io) hash)) (\<lambda>loaded.
     try_with (ok_or not_found loaded))"

definition verify_username_auth :: "('t, 'q, 'p, 'z) as_service_scheme \<Rightarrow> as_io \<Rightarrow> string \<Rightarrow> ('r \<Rightarrow> username_hash field) \<Rightarrow>
    'r qs_request signed_request \<Rightarrow> (as_state, username_hash \<times> 'r) action" where
  "verify_username_auth sv io label username_hash_proto request =
     andThen (try_with (get_field (payload_field username_hash_proto (sr_request request)))) (\<lambda>hash.
     andThen (load_username_verifying_key io hash) (\<lambda>verifying_key.
     andThen (try_with (as_verify_request sv label request verifying_key)) (\<lambda>payload.
     return_with (hash, payload))))"

definition as_verify_client_version :: "('t, 'q, 'p, 'z) as_service_scheme \<Rightarrow> string field option \<Rightarrow> status + string option" where
  "as_verify_client_version sv client_metadata = verify_version (av_version_req sv) (av_version_matches sv) client_metadata"


section \<open>Requests\<close>

record register_user_request =
  rr_client_metadata :: "string field option"
  rr_invitation_code :: "string option"
  rr_client_credential_payload :: "client_credential_payload field"
  rr_encrypted_user_profile :: "encrypted_user_profile field"

record user_payload =
  uy_client_metadata :: "string field option"
  uy_user_id :: "user_id field"

record stage_user_profile_payload = user_payload +
  sy_encrypted_user_profile :: "encrypted_user_profile field"

record issue_tokens_payload = user_payload +
  iy_operation_type :: "operation_type field"
  iy_token_request :: bytes

record username_payload =
  ny_client_metadata :: "string field option"
  ny_hash :: "username_hash field"

record publish_connection_packages_payload = username_payload +
  py_connection_packages :: "versioned_connection_package field list"

record create_username_payload = username_payload +
  cy_verifying_key :: "bytes field"
  cy_plaintext :: string
  cy_token :: "bytes option"

record token_username_payload = username_payload +
  ty_token :: "bytes option"

datatype listen_username_request =
    ListenUsernameInit "username_payload qs_request" | ListenUsernameAck "bytes option" | ListenUsernameEmpty


section \<open>Invitation codes and registration\<close>

definition check_invitation_code_handler :: "('t, 'q, 'p, 'z) as_service_scheme \<Rightarrow> as_io \<Rightarrow> string field option \<Rightarrow> string option \<Rightarrow>
    (as_state, bool) action" where
  "check_invitation_code_handler sv io client_metadata invitation_code =
     andThen (try_with (as_verify_client_version sv client_metadata)) (\<lambda>_.
     andThen (try_with (ok_or invalid_argument invitation_code)) (\<lambda>code.
     andThen (try_with (ensure (validate_code code) invalid_argument)) (\<lambda>_.
     if av_unredeemable_code sv = Some code then return_with True
     else andThen (converting (\<lambda>_. internal) (InvitationCodeRecord_load Pool (a_load_code io) code)) (\<lambda>loaded.
       return_with (case loaded of Some r \<Rightarrow> \<not> ic_redeemed r | None \<Rightarrow> False)))))"

text \<open>The loop over the tokens: a token that is refused is skipped.\<close>

fun redeem_for_codes :: "('t, 'q, 'p, 'z) as_service_scheme \<Rightarrow> as_io \<Rightarrow> nat \<Rightarrow> 't list \<Rightarrow> (as_state, string list) action" where
  "redeem_for_codes sv io i [] = return_with []"
| "redeem_for_codes sv io i (token # tokens) = (\<lambda>s.
     case as_redeem_token (av_privacy_pass sv) (a_calls io i) (a_db_now io) token GetInviteCode s of
       (Err _, s') \<Rightarrow> redeem_for_codes sv io (Suc i) tokens s'
     | (Ok _, s') \<Rightarrow>
         andThen (converting (\<lambda>_. internal)
           (InvitationCodeRecord_generate Txn (a_insert_code io i) (a_db_now io) (a_random io i))) (\<lambda>code.
         andThen (redeem_for_codes sv io (Suc i) tokens) (\<lambda>codes.
         return_with (code # codes))) s')"

definition get_invitation_codes_handler :: "('t, 'q, 'p, 'z) as_service_scheme \<Rightarrow> as_io \<Rightarrow> bytes list \<Rightarrow> (as_state, string list) action" where
  "get_invitation_codes_handler sv io tokens =
     andThen (try_with (ensure (\<not> length tokens > 10) invalid_argument)) (\<lambda>_.
     andThen (try_with (map_err (\<lambda>_. invalid_argument) (collect_res (pp_token (av_privacy_pass sv)) tokens))) (\<lambda>tokens.
     in_transaction restore_as_db (a_begin io) (a_commit io) (\<lambda>_. internal)
       (andThen (converting (\<lambda>_. internal)
          (lock_and_count_codes_issued_today (a_count_codes io) (av_midnight sv) (a_db_now io))) (\<lambda>codes_today.
        andThen (try_with (ensure (\<not> codes_today + length tokens > CODES_PER_DAY) resource_exhausted)) (\<lambda>_.
        redeem_for_codes sv io 0 tokens)))))"

definition register_user_handler :: "('t, 'q, 'p, 'z) as_service_scheme \<Rightarrow> as_io \<Rightarrow> register_user_request \<Rightarrow>
    (as_state, client_credential) action" where
  "register_user_handler sv io request =
     andThen (try_with (as_verify_client_version sv (rr_client_metadata request))) (\<lambda>_.
     andThen (if av_invitation_only sv
       then andThen (try_with (ok_or invalid_argument (rr_invitation_code request))) (\<lambda>code.
         andThen (try_with (ensure (validate_code code) invalid_argument)) (\<lambda>_.
         if av_unredeemable_code sv = Some code then return_with (Some code)
         else andThen (converting (\<lambda>_. internal) (InvitationCodeRecord_load Pool (a_load_code io) code)) (\<lambda>loaded.
           andThen (try_with (ensure (case loaded of Some r \<Rightarrow> \<not> ic_redeemed r | None \<Rightarrow> False) invalid_argument)) (\<lambda>_.
           return_with (Some code)))))
       else return_with None) (\<lambda>code_record.
     andThen (try_with (get_field (rr_client_credential_payload request))) (\<lambda>client_payload.
     andThen (try_with (get_field (rr_encrypted_user_profile request))) (\<lambda>profile.
     converting register_status (as_init_user_registration sv io client_payload profile code_record)))))"

definition as_delete_user_handler :: "('t, 'q, 'p, 'z) as_service_scheme \<Rightarrow> as_io \<Rightarrow> user_payload qs_request signed_request \<Rightarrow>
    (as_state, unit) action" where
  "as_delete_user_handler sv io request =
     andThen (as_verify_user_auth sv io ''DeleteUserPayload'' uy_user_id request) (\<lambda>(user_id, payload).
     andThen (try_with (as_verify_client_version sv (uy_client_metadata payload))) (\<lambda>_.
     andThen (try_with (get_field (uy_user_id payload))) (\<lambda>payload_user_id.
     andThen (try_with (ensure (payload_user_id = user_id) invalid_argument)) (\<lambda>_.
     converting (\<lambda>_. internal) (as_delete_user io user_id)))))"


section \<open>Profiles, credentials, tokens\<close>

definition as_credentials_handler :: "('t, 'q, 'p, 'z) as_service_scheme \<Rightarrow> as_io \<Rightarrow> string field option \<Rightarrow>
    (as_state, as_credentials_answer) action" where
  "as_credentials_handler sv io client_metadata =
     andThen (try_with (as_verify_client_version sv client_metadata)) (\<lambda>_.
     converting (\<lambda>_. internal) (as_credentials sv io))"

definition stage_user_profile_handler :: "('t, 'q, 'p, 'z) as_service_scheme \<Rightarrow> as_io \<Rightarrow>
    stage_user_profile_payload qs_request signed_request \<Rightarrow> (as_state, unit) action" where
  "stage_user_profile_handler sv io request =
     andThen (as_verify_user_auth sv io ''StageUserProfilePayload'' uy_user_id request) (\<lambda>(user_id, payload).
     andThen (try_with (as_verify_client_version sv (uy_client_metadata payload))) (\<lambda>_.
     andThen (try_with (get_field (sy_encrypted_user_profile payload))) (\<lambda>user_profile.
     converting profile_status (as_stage_user_profile io user_id user_profile))))"

definition merge_user_profile_handler :: "('t, 'q, 'p, 'z) as_service_scheme \<Rightarrow> as_io \<Rightarrow> user_payload qs_request signed_request \<Rightarrow>
    (as_state, unit) action" where
  "merge_user_profile_handler sv io request =
     andThen (as_verify_user_auth sv io ''MergeUserProfilePayload'' uy_user_id request) (\<lambda>(user_id, payload).
     andThen (try_with (as_verify_client_version sv (uy_client_metadata payload))) (\<lambda>_.
     converting profile_status (as_merge_user_profile io user_id)))"

text \<open>A key index of the wrong length does not convert.\<close>

definition get_user_profile_handler :: "('t, 'q, 'p, 'z) as_service_scheme \<Rightarrow> as_io \<Rightarrow> string field option \<Rightarrow> user_id field \<Rightarrow>
    bytes field \<Rightarrow> (as_state, encrypted_user_profile) action" where
  "get_user_profile_handler sv io client_metadata user_id key_index =
     andThen (try_with (as_verify_client_version sv client_metadata)) (\<lambda>_.
     andThen (try_with (get_field user_id)) (\<lambda>user_id.
     andThen (try_with (get_field key_index)) (\<lambda>key_index.
     converting profile_status (as_get_user_profile io user_id key_index))))"

definition issue_tokens_handler :: "('t, 'q, 'p, 'z) as_service_scheme \<Rightarrow> as_io \<Rightarrow> issue_tokens_payload qs_request signed_request \<Rightarrow>
    (as_state, bytes) action" where
  "issue_tokens_handler sv io request =
     andThen (as_verify_user_auth sv io ''IssueTokensPayload'' uy_user_id request) (\<lambda>(user_id, payload).
     andThen (try_with (as_verify_client_version sv (uy_client_metadata payload))) (\<lambda>_.
     andThen (try_with (get_field (iy_operation_type payload))) (\<lambda>operation_type.
     andThen (try_with (map_err (\<lambda>_. invalid_argument) (pp_request (av_privacy_pass sv) (iy_token_request payload)))) (\<lambda>token_request.
     andThen (converting issue_status
       (as_issue_tokens (av_privacy_pass sv) (a_issue io) user_id operation_type token_request)) (\<lambda>token_response.
     try_with (map_err (\<lambda>_. internal) (pp_response (av_privacy_pass sv) token_response)))))))"

definition report_spam_handler :: "('t, 'q, 'p, 'z) as_service_scheme \<Rightarrow> as_io \<Rightarrow> user_payload qs_request signed_request \<Rightarrow>
    (as_state, unit) action" where
  "report_spam_handler sv io request =
     andThen (as_verify_user_auth sv io ''ReportSpamPayload'' uy_user_id request) (\<lambda>(_, payload).
     andThen (try_with (as_verify_client_version sv (uy_client_metadata payload))) (\<lambda>_.
     return_with ()))"


section \<open>Usernames\<close>

definition publish_connection_packages_handler :: "('t, 'q, 'p, 'z) as_service_scheme \<Rightarrow> as_io \<Rightarrow>
    publish_connection_packages_payload qs_request signed_request \<Rightarrow> (as_state, unit) action" where
  "publish_connection_packages_handler sv io request =
     andThen (verify_username_auth sv io ''PublishConnectionPackagesPayload'' ny_hash request) (\<lambda>(hash, payload).
     andThen (try_with (as_verify_client_version sv (ny_client_metadata payload))) (\<lambda>_.
     andThen (try_with (collect_res get_field (py_connection_packages payload))) (\<lambda>connection_packages.
     converting publish_package_status (as_publish_connection_packages_for_handle sv io hash connection_packages))))"

definition check_username_exists_handler :: "('t, 'q, 'p, 'z) as_service_scheme \<Rightarrow> as_io \<Rightarrow> string field option \<Rightarrow>
    username_hash field \<Rightarrow> (as_state, bool) action" where
  "check_username_exists_handler sv io client_metadata hash =
     andThen (try_with (as_verify_client_version sv client_metadata)) (\<lambda>_.
     andThen (try_with (get_field hash)) (\<lambda>hash.
     converting (\<lambda>_. internal) (check_exists (a_load io) hash)))"

definition decode_optional :: "(bytes \<Rightarrow> unit + 'a) \<Rightarrow> bytes option \<Rightarrow> status + 'a option" where
  "decode_optional de token = (case token of
     None \<Rightarrow> Ok None | Some bs \<Rightarrow> map_ok Some (map_err (\<lambda>_. invalid_argument) (de bs)))"

definition create_username_handler :: "('t, 'q, 'p, 'z) as_service_scheme \<Rightarrow> as_io \<Rightarrow>
    create_username_payload qs_request signed_request \<Rightarrow> (as_state, unit) action" where
  "create_username_handler sv io request =
     andThen (try_with (get_field (payload_field cy_verifying_key (sr_request request)))) (\<lambda>verifying_key.
     andThen (try_with (as_verify_request sv ''CreateHandlePayload'' request verifying_key)) (\<lambda>payload.
     andThen (try_with (as_verify_client_version sv (ny_client_metadata payload))) (\<lambda>_.
     andThen (try_with (get_field (ny_hash payload))) (\<lambda>hash.
     andThen (try_with (decode_optional (pp_token (av_privacy_pass sv)) (cy_token payload))) (\<lambda>token.
     converting create_username_status (as_create_username sv io verifying_key (cy_plaintext payload) hash token))))))"

definition delete_username_handler :: "('t, 'q, 'p, 'z) as_service_scheme \<Rightarrow> as_io \<Rightarrow>
    token_username_payload qs_request signed_request \<Rightarrow> (as_state, bytes option) action" where
  "delete_username_handler sv io request =
     andThen (verify_username_auth sv io ''DeleteHandlePayload'' ny_hash request) (\<lambda>(hash, payload).
     andThen (try_with (as_verify_client_version sv (ny_client_metadata payload))) (\<lambda>_.
     andThen (try_with (decode_optional (pp_request (av_privacy_pass sv)) (ty_token payload))) (\<lambda>token_request.
     andThen (converting delete_username_status (as_delete_username io hash token_request)) (\<lambda>token_response.
     try_with (case token_response of
         None \<Rightarrow> Ok None
       | Some response \<Rightarrow> map_ok Some (map_err (\<lambda>_. internal) (pp_response (av_privacy_pass sv) response)))))))"

definition refresh_username_handler :: "('t, 'q, 'p, 'z) as_service_scheme \<Rightarrow> as_io \<Rightarrow>
    token_username_payload qs_request signed_request \<Rightarrow> (as_state, unit) action" where
  "refresh_username_handler sv io request =
     andThen (verify_username_auth sv io ''RefreshHandlePayload'' ny_hash request) (\<lambda>(hash, payload).
     andThen (try_with (as_verify_client_version sv (ny_client_metadata payload))) (\<lambda>_.
     andThen (try_with (decode_optional (pp_token (av_privacy_pass sv)) (ty_token payload))) (\<lambda>token.
     converting refresh_username_status (as_refresh_username sv io hash token))))"

text \<open>
  The first request on a stream authenticates its listener; the signed bytes are its payload encoded again.
  \<open>encode\<close> is that encoding and \<open>random_id\<close> the id of the stream.
\<close>

definition listen_username_handler :: "('t, 'q, 'p, 'z) as_service_scheme \<Rightarrow> as_io \<Rightarrow> (username_payload \<Rightarrow> bytes) \<Rightarrow> bytes \<Rightarrow>
    (status + listen_username_request) option \<Rightarrow> (as_state, username_stream_context) action" where
  "listen_username_handler sv io encode random_id initial =
     andThen (try_with (ok_or failed_precondition initial)) (\<lambda>received.
     andThen (try_with received) (\<lambda>request.
     case request of
       ListenUsernameInit init_request \<Rightarrow>
         andThen (try_with (ok_or invalid_argument (rl_payload init_request))) (\<lambda>payload.
         andThen (try_with (as_verify_client_version sv (ny_client_metadata payload))) (\<lambda>_.
         andThen (verify_username_auth sv io ''InitListenHandleRequest'' ny_hash
           (SignedRequest_new init_request (encode payload))) (\<lambda>(hash, _).
         (\<lambda>s. case UsernameQueues_listen random_id hash s of (cx, s') \<Rightarrow> (Ok cx, s')))))
     | _ \<Rightarrow> fail_with failed_precondition))"

definition process_listen_username_request :: "bool \<Rightarrow> status + listen_username_request \<Rightarrow> (as_state, unit) action" where
  "process_listen_username_request ok request =
     andThen (try_with request) (\<lambda>request.
     case request of
       ListenUsernameAck message_id \<Rightarrow>
         andThen (try_with (ok_or failed_precondition message_id)) (\<lambda>message_id.
         converting (\<lambda>_. internal) (UsernameQueues_ack ok message_id))
     | _ \<Rightarrow> fail_with failed_precondition)"

text \<open>The task that serves the rest of the requests returns the statuses it reports.\<close>

fun process_listen_username_requests :: "(status \<Rightarrow> bool) \<Rightarrow> (bool \<times> (status + listen_username_request)) list \<Rightarrow> as_state \<Rightarrow>
    status list \<times> as_state" where
  "process_listen_username_requests broken_pipe [] s = ([], s)"
| "process_listen_username_requests broken_pipe ((ok, request) # requests) s =
     (case process_listen_username_request ok request s of
        (Ok _, s') \<Rightarrow> process_listen_username_requests broken_pipe requests s'
      | (Err e, s') \<Rightarrow>
          (case process_listen_username_requests broken_pipe requests s' of (reported, s'') \<Rightarrow>
             if st_code e = Unknown \<and> broken_pipe e then (reported, s'') else (e # reported, s'')))"

end
