(* ===== verification/As_Stream.thy ===== *)
theory As_Stream
  imports As_Queue "HOL-Library.Multiset"
begin

text \<open>
  What the streams of usernames deliver.  A configuration is the state of the service and every stream
  ever opened, with the messages it has delivered.  Clients open and poll streams and acknowledge
  messages, others enqueue messages or delete a username, and whatever else happens leaves the queues
  alone.  Random ids are fresh.

  The invariant relates the rows of the queue to what the live stream of the username has fetched.  It
  gives the two properties: a stream delivers no message twice, and when it says that the queue is empty
  it has delivered all of it.
\<close>

section \<open>Configurations and their steps\<close>

record stream =
  sr_context :: username_stream_context
  sr_delivered :: "username_queue_message list"

type_synonym config = "as_state \<times> stream list"

definition message_ids :: "username_queue_message list \<Rightarrow> bytes option list" where
  "message_ids ms = map um_message_id ms"

definition taken :: "stream \<Rightarrow> username_queue_message list" where
  "taken st = sr_delivered st @ rev (sx_buffer (sr_context st))"

definition poll_stream :: "username_poll_io \<Rightarrow> stream \<Rightarrow> as_state \<Rightarrow> (stream_item \<times> stream) \<times> as_state" where
  "poll_stream io st s =
     (case stream_next io (sr_context st) s of ((item, cx), s') \<Rightarrow>
        ((item, \<lparr> sr_context = cx,
           sr_delivered = sr_delivered st @ (case item of Item (Some m) \<Rightarrow> [m] | _ \<Rightarrow> []) \<rparr>), s'))"

definition id_unused :: "bytes \<Rightarrow> config \<Rightarrow> bool" where
  "id_unused i cfg \<longleftrightarrow>
     (\<forall>st \<in> set (snd cfg). sx_id (sr_context st) \<noteq> i) \<and> (\<forall>r \<in> set (as_queue_rows (fst cfg)). uq_fetched_by r \<noteq> Some i)"

definition message_id_unused :: "bytes \<Rightarrow> config \<Rightarrow> bool" where
  "message_id_unused i cfg \<longleftrightarrow> (\<forall>st \<in> set (snd cfg). Some i \<notin> set (message_ids (taken st)))"

definition same_queues :: "as_state \<Rightarrow> as_state \<Rightarrow> bool" where
  "same_queues s t \<longleftrightarrow> as_queue_rows t = as_queue_rows s \<and> as_listeners t = as_listeners s
     \<and> as_cancelled t = as_cancelled s \<and> as_next_listener t = as_next_listener s"

inductive queue_step :: "config \<Rightarrow> config \<Rightarrow> bool" where
  listen_step: "id_unused random_id (s, streams) \<Longrightarrow> UsernameQueues_listen random_id hash s = (cx, s') \<Longrightarrow>
    queue_step (s, streams) (s', streams @ [\<lparr> sr_context = cx, sr_delivered = [] \<rparr>])"
| poll_step: "n < length streams \<Longrightarrow> (\<And>rows. mset (up_order io rows) = mset rows) \<Longrightarrow>
    poll_stream io (streams ! n) s = ((item, st), s') \<Longrightarrow> queue_step (s, streams) (s', streams[n := st])"
| enqueue_step: "message_id_unused (en_message_id io) (s, streams) \<Longrightarrow>
    queue_step (s, streams) (snd (UsernameQueues_enqueue io hash payload s), streams)"
| ack_step: "queue_step (s, streams) (snd (UsernameQueues_ack ok message_id s), streams)"
| delete_step: "queue_step (s, streams) (snd (UsernameRecord_delete Pool ok hash s), streams)"
| other_step: "same_queues s s' \<Longrightarrow> queue_step (s, streams) (s', streams)"


section \<open>The invariant\<close>

definition live :: "as_state \<Rightarrow> stream \<Rightarrow> bool" where
  "live s st \<longleftrightarrow> sx_cancel (sr_context st) \<notin> as_cancelled s"

definition rows_ok :: "username_queue_row list \<Rightarrow> bool" where
  "rows_ok rows \<longleftrightarrow> distinct (map uq_message_id rows)
     \<and> (\<forall>r \<in> set rows. um_message_id (uq_message r) = Some (uq_message_id r))"

text \<open>A row of the queue of a live stream has its mark exactly if the stream has taken it.\<close>

definition in_step :: "username_queue_row list \<Rightarrow> stream \<Rightarrow> bool" where
  "in_step rows st \<longleftrightarrow> (\<forall>r \<in> set rows. uq_hash r = sx_hash (sr_context st) \<longrightarrow>
     (uq_fetched_by r = Some (sx_id (sr_context st)) \<longleftrightarrow> Some (uq_message_id r) \<in> set (message_ids (taken st))))"

definition tokens_ok :: "as_state \<Rightarrow> stream list \<Rightarrow> bool" where
  "tokens_ok s streams \<longleftrightarrow> distinct (map (\<lambda>st. sx_cancel (sr_context st)) streams)
     \<and> (\<forall>st \<in> set streams. sx_cancel (sr_context st) < as_next_listener s
         \<and> (as_listeners s (sx_hash (sr_context st)) = Some (sx_cancel (sr_context st)) \<or> \<not> live s st))"

definition queue_inv :: "config \<Rightarrow> bool" where
  "queue_inv cfg \<longleftrightarrow> (case cfg of (s, streams) \<Rightarrow>
     rows_ok (as_queue_rows s) \<and> tokens_ok s streams
     \<and> distinct (map (\<lambda>st. sx_id (sr_context st)) streams)
     \<and> (\<forall>st \<in> set streams. distinct (message_ids (taken st)) \<and> (live s st \<longrightarrow> in_step (as_queue_rows s) st)))"

lemma queue_inv_streamD:
  assumes "queue_inv (s, streams)" "st \<in> set streams"
  shows "distinct (message_ids (taken st))" "live s st \<Longrightarrow> in_step (as_queue_rows s) st"
  using assms by (auto simp: queue_inv_def)

text \<open>Two streams of one username are not both live.\<close>

lemma one_live_stream:
  assumes "tokens_ok s streams" "m < length streams" "n < length streams" "m \<noteq> n"
    "sx_hash (sr_context (streams ! m)) = sx_hash (sr_context (streams ! n))" "live s (streams ! m)"
  shows "\<not> live s (streams ! n)"
proof
  assume "live s (streams ! n)"
  with assms(1,2,3,5,6) have "sx_cancel (sr_context (streams ! m)) = sx_cancel (sr_context (streams ! n))"
    unfolding tokens_ok_def by (metis nth_mem option.inject)
  with assms(1-4) show False unfolding tokens_ok_def by (auto simp: distinct_conv_nth)
qed

lemma in_step_subset:
  "in_step rows st \<Longrightarrow> set rows' \<subseteq> set rows \<Longrightarrow> in_step rows' st"
  by (auto simp: in_step_def)

lemma rows_ok_filter: "rows_ok rows \<Longrightarrow> rows_ok (filter P rows)"
  by (auto simp: rows_ok_def distinct_map_filter)

lemma queue_inv_fewer_rows:
  assumes "queue_inv (s, streams)" "as_queue_rows t = filter P (as_queue_rows s)"
    "as_listeners t = as_listeners s" "as_cancelled t = as_cancelled s" "as_next_listener t = as_next_listener s"
  shows "queue_inv (t, streams)"
  using assms rows_ok_filter[of "as_queue_rows s" P]
  by (auto simp: queue_inv_def tokens_ok_def live_def intro: in_step_subset)

lemma queue_inv_same:
  "queue_inv (s, streams) \<Longrightarrow> same_queues s t \<Longrightarrow> queue_inv (t, streams)"
  by (rule queue_inv_fewer_rows[where P = "\<lambda>_. True"]) (auto simp: same_queues_def)



section \<open>Every step keeps it\<close>

definition enqueued_row :: "username_enqueue_io \<Rightarrow> username_hash \<Rightarrow> connection_offer_message \<Rightarrow> username_queue_row" where
  "enqueued_row io hash payload =
     \<lparr> uq_message_id = en_message_id io, uq_hash = hash,
       uq_message = \<lparr> um_message_id = Some (en_message_id io), um_payload = Some payload, um_created_at = None \<rparr>,
       uq_fetched_by = None, uq_created_at = en_now io \<rparr>"

lemma enqueue_run:
  assumes "UsernameQueues_enqueue io hash payload s = (r, t)"
  shows "as_listeners t = as_listeners s" "as_cancelled t = as_cancelled s" "as_next_listener t = as_next_listener s"
    "as_queue_rows t = as_queue_rows s \<or> as_queue_rows t = as_queue_rows s @ [enqueued_row io hash payload]
      \<and> en_message_id io \<notin> set (map uq_message_id (as_queue_rows s))"
    "r = Ok message_id \<Longrightarrow> as_queue_rows t = as_queue_rows s @ [enqueued_row io hash payload] \<and> message_id = en_message_id io"
    "r = Ok message_id \<Longrightarrow> map_of (as_usernames s) hash \<noteq> None"
  using assms
  by (auto simp: UsernameQueues_enqueue_def in_transaction_def UsernameQueue_enqueue_def execute_def andThen_def action_apply
      restore_as_db_def enqueued_row_def list_ex_iff split: if_splits sum.splits prod.splits)

lemma enqueue_keeps_inv:
  assumes inv: "queue_inv (s, streams)" and fresh: "message_id_unused (en_message_id io) (s, streams)"
  shows "queue_inv (snd (UsernameQueues_enqueue io hash payload s), streams)"
proof -
  obtain r t where run: "UsernameQueues_enqueue io hash payload s = (r, t)" by fastforce
  note facts = enqueue_run[OF run]
  from facts(4) show ?thesis
  proof
    assume "as_queue_rows t = as_queue_rows s"
    with facts inv show ?thesis by (auto intro: queue_inv_same simp: same_queues_def run)
  next
    assume new: "as_queue_rows t = as_queue_rows s @ [enqueued_row io hash payload]
      \<and> en_message_id io \<notin> set (map uq_message_id (as_queue_rows s))"
    from inv fresh new facts(1-3) show ?thesis
      by (auto simp: run queue_inv_def tokens_ok_def live_def rows_ok_def in_step_def message_id_unused_def enqueued_row_def)
  qed
qed

lemma listen_keeps_inv:
  assumes inv: "queue_inv (s, streams)" and fresh: "id_unused random_id (s, streams)"
    and run: "UsernameQueues_listen random_id hash s = (cx, t)"
  shows "queue_inv (t, streams @ [\<lparr> sr_context = cx, sr_delivered = [] \<rparr>])"
proof -
  have cx: "cx = \<lparr> sx_id = random_id, sx_hash = hash, sx_cancel = as_next_listener s, sx_buffer = [], sx_state = FetchNext \<rparr>"
    and rows: "as_queue_rows t = as_queue_rows s" and nxt: "as_next_listener t = as_next_listener s + 1"
    and tokens: "as_cancelled s \<subseteq> as_cancelled t" "as_listeners t hash = Some (as_next_listener s)"
    and listeners: "h \<noteq> hash \<Longrightarrow> as_listeners s h = Some c \<Longrightarrow> c \<notin> as_cancelled s \<Longrightarrow> as_listeners t h = Some c"
    and replaced: "as_listeners s hash = Some c \<Longrightarrow> c \<in> as_cancelled t" for h c
    using run by (auto simp: UsernameQueues_listen_def as_track_listener_def Let_def split: option.splits if_splits)
  have old: "tokens_ok s streams" using inv by (simp add: queue_inv_def)
  have "as_listeners t (sx_hash (sr_context st)) = Some (sx_cancel (sr_context st)) \<or> \<not> live t st" if "st \<in> set streams" for st
  proof (cases "live s st")
    case False
    with tokens(1) show ?thesis by (auto simp: live_def)
  next
    case True
    with old that have at: "as_listeners s (sx_hash (sr_context st)) = Some (sx_cancel (sr_context st))"
      by (auto simp: tokens_ok_def)
    show ?thesis
    proof (cases "sx_hash (sr_context st) = hash")
      case same: True
      show ?thesis using replaced at unfolding same live_def by simp
    next
      case False
      have "as_listeners t (sx_hash (sr_context st)) = Some (sx_cancel (sr_context st))"
        by (rule listeners[OF False at]) (use True in \<open>simp add: live_def\<close>)
      then show ?thesis by simp
    qed
  qed
  moreover have "sx_cancel (sr_context st) < as_next_listener s" if "st \<in> set streams" for st
    using old that by (simp add: tokens_ok_def)
  ultimately have "tokens_ok t (streams @ [\<lparr> sr_context = cx, sr_delivered = [] \<rparr>])"
    using old tokens(2) nxt unfolding tokens_ok_def cx by (auto simp: less_Suc_eq)
  moreover have "in_step (as_queue_rows s) \<lparr> sr_context = cx, sr_delivered = [] \<rparr>"
    using fresh by (auto simp: in_step_def cx taken_def message_ids_def id_unused_def)
  ultimately show ?thesis
    using inv tokens(1) fresh
    by (auto simp: queue_inv_def rows live_def cx taken_def message_ids_def id_unused_def)
qed

text \<open>A fetch: the rows that are fetched, and what the stream has taken afterwards.\<close>

lemma sort_filter_take:
  assumes "rows_ok rows"
  shows "distinct (map uq_message_id (messages_to_fetch hash i limit rows))"
    "set (messages_to_fetch hash i limit rows) \<subseteq> {r \<in> set rows. uq_hash r = hash \<and> uq_fetched_by r \<noteq> Some i}"
proof -
  let ?sel = "filter (\<lambda>r. uq_hash r = hash \<and> uq_fetched_by r \<noteq> Some i) rows"
  have same: "mset (map uq_message_id (sort_key uq_created_at ?sel)) = mset (map uq_message_id ?sel)" by simp
  have "distinct (map uq_message_id ?sel)" using assms by (simp add: rows_ok_def distinct_map_filter)
  then have "distinct (map uq_message_id (sort_key uq_created_at ?sel))"
    by (rule mset_eq_imp_distinct_iff[OF same, THEN iffD2])
  then show "distinct (map uq_message_id (messages_to_fetch hash i limit rows))"
    by (simp add: messages_to_fetch_def take_map[symmetric])
  show "set (messages_to_fetch hash i limit rows) \<subseteq> {r \<in> set rows. uq_hash r = hash \<and> uq_fetched_by r \<noteq> Some i}"
    by (auto simp: messages_to_fetch_def dest: in_set_takeD)
qed

definition mark_rows :: "bytes \<Rightarrow> username_queue_row list \<Rightarrow> username_queue_row list \<Rightarrow> username_queue_row list" where
  "mark_rows i fetched rows =
     map (\<lambda>r. if uq_message_id r \<in> set (map uq_message_id fetched) then r\<lparr> uq_fetched_by := Some i \<rparr> else r) rows"

lemma mark_rows_ids [simp]: "map uq_message_id (mark_rows i fetched rows) = map uq_message_id rows"
  by (induction rows) (auto simp: mark_rows_def)

lemma rows_ok_mark: "rows_ok rows \<Longrightarrow> rows_ok (mark_rows i fetched rows)"
  by (auto simp: rows_ok_def) (auto simp: mark_rows_def split: if_splits)

lemma distinct_id_row:
  "rows_ok rows \<Longrightarrow> r \<in> set rows \<Longrightarrow> r' \<in> set rows \<Longrightarrow> uq_message_id r = uq_message_id r' \<Longrightarrow> r = r'"
  unfolding rows_ok_def by (meson inj_onD distinct_map)


lemma map_hd_tl: "xs \<noteq> [] \<Longrightarrow> f (hd xs) # tl (map f xs) = map f xs"
  by (cases xs) simp_all

lemma poll_run:
  assumes "poll_stream io st s = ((item, st'), s')"
  shows "sx_id (sr_context st') = sx_id (sr_context st)" "sx_hash (sr_context st') = sx_hash (sr_context st)"
    "sx_cancel (sr_context st') = sx_cancel (sr_context st)"
    "s' = s \<and> taken st' = taken st \<and> item \<noteq> Item None \<or>
     live s st \<and> (let rows = messages_to_fetch (sx_hash (sr_context st)) (sx_id (sr_context st)) USERNAME_MAX_BUFFER_SIZE (as_queue_rows s) in
       s' = s\<lparr> as_queue_rows := mark_rows (sx_id (sr_context st)) rows (as_queue_rows s) \<rparr>
       \<and> taken st' = taken st @ map fetched_message (up_order io rows) \<and> (item = Item None \<longleftrightarrow> up_order io rows = [])
       \<and> (item = Item None \<longrightarrow> sr_delivered st' = taken st))"
proof -
  obtain cx where nx: "stream_next io (sr_context st) s = ((item, cx), s')"
    and st': "st' = \<lparr> sr_context = cx, sr_delivered = sr_delivered st @ (case item of Item (Some m) \<Rightarrow> [m] | _ \<Rightarrow> []) \<rparr>"
    using assms by (auto simp: poll_stream_def split: prod.splits)
  show "sx_id (sr_context st') = sx_id (sr_context st)" "sx_hash (sr_context st') = sx_hash (sr_context st)"
    "sx_cancel (sr_context st') = sx_cancel (sr_context st)"
    using nx unfolding st' by (auto simp: stream_next_def stream_fetch_def pop_message_def
      split: if_splits username_fetch_state.splits sum.splits prod.splits)
  have pop: "sx_buffer (sr_context st) \<noteq> [] \<Longrightarrow>
      sr_delivered st @ [last (sx_buffer (sr_context st))] @ rev (butlast (sx_buffer (sr_context st))) = taken st"
    unfolding taken_def by (metis append_butlast_last_id rev.simps(2) rev_append rev_rev_ident append_Cons append_Nil)
  have fetch: "live s st \<and> (let rows = messages_to_fetch (sx_hash (sr_context st)) (sx_id (sr_context st)) USERNAME_MAX_BUFFER_SIZE (as_queue_rows s) in
       s' = s\<lparr> as_queue_rows := mark_rows (sx_id (sr_context st)) rows (as_queue_rows s) \<rparr>
       \<and> taken st' = taken st @ map fetched_message (up_order io rows) \<and> (item = Item None \<longleftrightarrow> up_order io rows = [])
       \<and> (item = Item None \<longrightarrow> sr_delivered st' = taken st))
     \<or> s' = s \<and> taken st' = taken st \<and> item \<noteq> Item None"
    if "stream_fetch io (sr_context st\<lparr> sx_state := f \<rparr>) s = ((item, cx), s')" "sx_buffer (sr_context st) = []" "live s st" for f
    using that unfolding st'
    by (auto simp: stream_fetch_def UsernameQueue_fetch_into_def execute_def action_apply pop_message_def taken_def mark_rows_def
        last_rev butlast_rev Let_def hd_map split: if_splits prod.splits sum.splits) (simp_all add: map_hd_tl)
  have state: "sr_context st\<lparr> sx_state := sx_state (sr_context st) \<rparr> = sr_context st" by simp
  show "s' = s \<and> taken st' = taken st \<and> item \<noteq> Item None \<or>
     live s st \<and> (let rows = messages_to_fetch (sx_hash (sr_context st)) (sx_id (sr_context st)) USERNAME_MAX_BUFFER_SIZE (as_queue_rows s) in
       s' = s\<lparr> as_queue_rows := mark_rows (sx_id (sr_context st)) rows (as_queue_rows s) \<rparr>
       \<and> taken st' = taken st @ map fetched_message (up_order io rows) \<and> (item = Item None \<longleftrightarrow> up_order io rows = [])
       \<and> (item = Item None \<longrightarrow> sr_delivered st' = taken st))"
  proof (cases "live s st \<and> sx_buffer (sr_context st) = [] \<and> (sx_state (sr_context st) = FetchNext \<or> up_notified io)")
    case True
    then show ?thesis
      using nx fetch[of FetchNext] fetch[of "sx_state (sr_context st)"] unfolding state
      by (cases "sx_state (sr_context st)") (auto simp: stream_next_def live_def)
  next
    case False
    then show ?thesis
      using nx pop by (auto simp: stream_next_def live_def st' taken_def pop_message_def split: if_splits username_fetch_state.splits)
  qed
qed


lemma message_ids_append [simp]: "message_ids (xs @ ys) = message_ids xs @ message_ids ys"
  by (simp add: message_ids_def)

lemma fetched_ids:
  assumes "rows_ok all" "set rows \<subseteq> set all" "mset rows' = mset rows"
  shows "message_ids (map fetched_message rows') = map Some (map uq_message_id rows')" "set rows' = set rows"
proof -
  show same: "set rows' = set rows" using assms(3) by (rule mset_eq_setD)
  show "message_ids (map fetched_message rows') = map Some (map uq_message_id rows')"
    using assms(1,2) same unfolding rows_ok_def message_ids_def by (auto simp: fetched_message_def)
qed

lemma poll_keeps_inv:
  assumes inv: "queue_inv (s, streams)" and n: "n < length streams"
    and order: "\<And>rows. mset (up_order io rows) = mset rows"
    and run: "poll_stream io (streams ! n) s = ((item, st'), s')"
  shows "queue_inv (s', streams[n := st'])"
proof -
  define st where "st = streams ! n"
  have st: "st \<in> set streams" using n by (simp add: st_def)
  note facts = poll_run[OF run[folded st_def]]
  have rows_ok: "rows_ok (as_queue_rows s)" and tokens: "tokens_ok s streams"
    and ids: "distinct (map (\<lambda>st. sx_id (sr_context st)) streams)"
    using inv by (simp_all add: queue_inv_def)
  have maps: "map (\<lambda>st. sx_cancel (sr_context st)) (streams[n := st']) = map (\<lambda>st. sx_cancel (sr_context st)) streams"
    "map (\<lambda>st. sx_id (sr_context st)) (streams[n := st']) = map (\<lambda>st. sx_id (sr_context st)) streams"
    using facts(1,3) n by (simp_all add: map_update st_def list_update_same_conv)
  have elems: "x \<in> set (streams[n := st']) \<Longrightarrow> x = st' \<or> (\<exists>m < length streams. m \<noteq> n \<and> x = streams ! m)" for x
  proof -
    assume "x \<in> set (streams[n := st'])"
    then obtain i where "i < length streams" "x = streams[n := st'] ! i" by (auto simp: in_set_conv_nth)
    then show ?thesis using n by (cases "i = n") auto
  qed
  consider (same) "s' = s" "taken st' = taken st"
    | (fetch) rows where "rows = messages_to_fetch (sx_hash (sr_context st)) (sx_id (sr_context st)) USERNAME_MAX_BUFFER_SIZE (as_queue_rows s)"
        "live s st" "s' = s\<lparr> as_queue_rows := mark_rows (sx_id (sr_context st)) rows (as_queue_rows s) \<rparr>"
        "taken st' = taken st @ map fetched_message (up_order io rows)"
    using facts(4) by (auto simp: Let_def)
  then show ?thesis
  proof cases
    case same
    have "live s st' \<longleftrightarrow> live s st" by (simp add: live_def facts)
    moreover have "in_step (as_queue_rows s) st' \<longleftrightarrow> in_step (as_queue_rows s) st" by (simp add: in_step_def facts same)
    ultimately show ?thesis
      using inv st n unfolding queue_inv_def tokens_ok_def same(1) prod.case maps
      by (auto simp: facts same(2) dest!: elems)
  next
    case (fetch rows)
    have live: "live s' x \<longleftrightarrow> live s x" for x by (simp add: fetch(3) live_def)
    have sub: "set rows \<subseteq> {r \<in> set (as_queue_rows s). uq_hash r = sx_hash (sr_context st) \<and> uq_fetched_by r \<noteq> Some (sx_id (sr_context st))}"
      and dist: "distinct (map uq_message_id rows)"
      using sort_filter_take[OF rows_ok] unfolding fetch(1) by auto
    from sub have "set rows \<subseteq> set (as_queue_rows s)" by auto
    note new_ids = fetched_ids[OF rows_ok this order[of rows]]
    have step: "in_step (as_queue_rows s) st" "distinct (message_ids (taken st))"
      using queue_inv_streamD[OF inv st] fetch(2) by auto
    have marked: "uq_message_id r \<in> uq_message_id ` set rows \<longleftrightarrow> r \<in> set rows" if "r \<in> set (as_queue_rows s)" for r
    proof
      assume "uq_message_id r \<in> uq_message_id ` set rows"
      then obtain r' where r': "r' \<in> set rows" "uq_message_id r = uq_message_id r'" by blast
      with sub have "r' \<in> set (as_queue_rows s)" by blast
      from distinct_id_row[OF rows_ok that this r'(2)] r'(1) show "r \<in> set rows" by simp
    qed simp
    have "mset (map uq_message_id (up_order io rows)) = mset (map uq_message_id rows)" using order[of rows] by simp
    from mset_eq_imp_distinct_iff[OF this] dist have "distinct (map uq_message_id (up_order io rows))" by blast
    moreover have "Some (uq_message_id r) \<notin> set (message_ids (taken st))" if "r \<in> set rows" for r
      using step(1) sub that by (auto simp: in_step_def)
    ultimately have "distinct (message_ids (taken st'))"
      using step(2) by (auto simp: fetch(4) new_ids distinct_map comp_inj_on)
    moreover have "in_step (as_queue_rows s') st'"
      unfolding in_step_def fetch(3)
      using step(1) marked sub new_ids
      by (auto simp: mark_rows_def in_step_def fetch(4) facts split: if_splits)
    moreover have "in_step (as_queue_rows s') (streams ! m)" if m: "m < length streams" "m \<noteq> n" "live s (streams ! m)" for m
    proof -
      have "sx_hash (sr_context (streams ! m)) \<noteq> sx_hash (sr_context st)"
        using one_live_stream[OF tokens m(1) n m(2) _ m(3)] fetch(2) by (auto simp: st_def)
      with queue_inv_streamD(2)[OF inv nth_mem[OF m(1)] m(3)] show ?thesis
        using marked sub unfolding in_step_def fetch(3) by (auto simp: mark_rows_def split: if_splits)
    qed
    moreover have "tokens_ok s' (streams[n := st'])"
      using tokens st n unfolding tokens_ok_def maps by (auto simp: fetch(3) live_def facts dest!: elems)
    moreover have "rows_ok (as_queue_rows s')" using rows_ok_mark[OF rows_ok] by (simp add: fetch(3))
    moreover have "distinct (message_ids (taken (streams ! m)))" if "m < length streams" for m
      using inv that by (simp add: queue_inv_def)
    ultimately show ?thesis
      unfolding queue_inv_def prod.case maps using ids live by (auto dest!: elems)
  qed
qed

lemma delete_username_run:
  assumes "UsernameRecord_delete Pool ok hash s = (r, t)"
  shows "\<exists>P. as_queue_rows t = filter P (as_queue_rows s)" "as_listeners t = as_listeners s"
    "as_cancelled t = as_cancelled s" "as_next_listener t = as_next_listener s"
  using assms by (auto simp: UsernameRecord_delete_def execute_def action_apply split: if_splits intro: exI[of _ "\<lambda>_. True"])

lemma ack_run:
  assumes "UsernameQueues_ack ok message_id s = (r, t)"
  shows "\<exists>P. as_queue_rows t = filter P (as_queue_rows s)" "as_listeners t = as_listeners s"
    "as_cancelled t = as_cancelled s" "as_next_listener t = as_next_listener s"
  using assms by (auto simp: UsernameQueues_ack_def UsernameQueue_delete_def execute_def action_apply
      split: if_splits intro: exI[of _ "\<lambda>_. True"])

lemma queue_step_inv:
  assumes "queue_step cfg cfg'" "queue_inv cfg"
  shows "queue_inv cfg'"
  using assms
proof cases
  case (ack_step s streams ok message_id)
  obtain r t where run: "UsernameQueues_ack ok message_id s = (r, t)" by fastforce
  then obtain P where "as_queue_rows t = filter P (as_queue_rows s)" using ack_run(1) by blast
  with queue_inv_fewer_rows[of s streams t P] ack_run(2-4)[OF run] ack_step assms(2) run show ?thesis by simp
next
  case (delete_step s streams ok hash)
  obtain r t where run: "UsernameRecord_delete Pool ok hash s = (r, t)" by fastforce
  then obtain P where "as_queue_rows t = filter P (as_queue_rows s)" using delete_username_run(1) by blast
  with queue_inv_fewer_rows[of s streams t P] delete_username_run(2-4)[OF run] delete_step assms(2) run show ?thesis by simp
next
  case (poll_step n streams io s item st s')
  with assms(2) poll_keeps_inv[of s streams n io item st s'] show ?thesis by simp
qed (use assms in \<open>simp_all add: listen_keeps_inv enqueue_keeps_inv queue_inv_same\<close>)

definition queue_start :: "config \<Rightarrow> bool" where
  "queue_start cfg \<longleftrightarrow> snd cfg = [] \<and> rows_ok (as_queue_rows (fst cfg))"

interpretation username_streams: invariant_system queue_start queue_step queue_inv
proof unfold_locales
  show "queue_start cfg \<Longrightarrow> queue_inv cfg" for cfg
    by (cases cfg) (auto simp: queue_start_def queue_inv_def tokens_ok_def)
qed (rule queue_step_inv)

text \<open>
  The stream of a username delivers the queue: whatever clients and senders do, no stream delivers a message
  twice, and when a stream says that the queue is empty it has delivered every message in it.
\<close>
theorem username_stream_delivers_queue:
  assumes "reachable queue_start queue_step (s, streams)" "n < length streams"
    and "\<And>rows. mset (up_order io rows) = mset rows"
    and "poll_stream io (streams ! n) s = ((item, st), s')"
  shows "distinct (message_ids (sr_delivered st))
    \<and> (item = Item None \<longrightarrow> (\<forall>r \<in> set (as_queue_rows s'). uq_hash r = sx_hash (sr_context st) \<longrightarrow>
        Some (uq_message_id r) \<in> set (message_ids (sr_delivered st))))"
proof -
  have inv: "queue_inv (s, streams)" by (rule username_streams.reachable_inv[OF assms(1)])
  have inv': "queue_inv (s', streams[n := st])" by (rule poll_keeps_inv[OF inv assms(2-4)])
  have st: "st \<in> set (streams[n := st])" using assms(2) by (simp add: set_update_memI)
  note facts = poll_run[OF assms(4)]
  have "distinct (message_ids (sr_delivered st))"
    using queue_inv_streamD(1)[OF inv' st] by (simp add: taken_def)
  moreover have "Some (uq_message_id r) \<in> set (message_ids (sr_delivered st))"
    if empty: "item = Item None" and r: "r \<in> set (as_queue_rows s')" "uq_hash r = sx_hash (sr_context st)" for r
  proof -
    let ?rows = "messages_to_fetch (sx_hash (sr_context (streams ! n))) (sx_id (sr_context (streams ! n))) USERNAME_MAX_BUFFER_SIZE (as_queue_rows s)"
    from facts(4) empty have live: "live s (streams ! n)" and none: "up_order io ?rows = []"
      and s': "s' = s\<lparr> as_queue_rows := mark_rows (sx_id (sr_context (streams ! n))) ?rows (as_queue_rows s) \<rparr>"
      and d: "sr_delivered st = taken (streams ! n)"
      by (auto simp: Let_def)
    have "?rows = []" using none assms(3)[of ?rows] by simp
    then have "filter (\<lambda>r. uq_hash r = sx_hash (sr_context (streams ! n)) \<and> uq_fetched_by r \<noteq> Some (sx_id (sr_context (streams ! n))))
        (as_queue_rows s) = []"
      unfolding messages_to_fetch_def USERNAME_MAX_BUFFER_SIZE_def by (simp flip: length_0_conv)
    moreover have "as_queue_rows s' = as_queue_rows s" using \<open>?rows = []\<close> by (simp add: s' mark_rows_def)
    ultimately show ?thesis
      using queue_inv_streamD(2)[OF inv nth_mem[OF assms(2)] live] r unfolding d
      by (auto simp: in_step_def filter_empty_conv facts(2))
  qed
  ultimately show ?thesis by blast
qed



section \<open>The connect protocol\<close>

lemma on_service_Ok_iff [action_simps]:
  "on_service m (s, out) = (Ok x, (t, out')) \<longleftrightarrow> m s = (Ok x, t) \<and> out' = out"
  by (auto simp: on_service_def split: prod.splits)

lemma on_service_Err_iff [action_simps]:
  "on_service m (s, out) = (Err e, (t, out')) \<longleftrightarrow> m s = (Err e, t) \<and> out' = out"
  by (auto simp: on_service_def split: prod.splits)

lemma loaded_expiration:
  assumes "load_username_expiration_data_impl io hash s = (Ok (Some d), t)"
  shows "t = s \<and> (\<exists>record. map_of (as_usernames s) hash = Some record \<and> ux_expiration_data record = d)
    \<and> ExpirationData_validate (cn_round io) (cn_now io) d"
  using assms
  by (auto simp: load_username_expiration_data_impl_def load_expiration_data_def action_simps split: option.splits if_splits)

lemma next_connection_package_in:
  assumes "next_connection_package pick rows = Some p" "\<And>rows. rows \<noteq> [] \<Longrightarrow> pick rows \<in> set rows"
  shows "p \<in> set rows"
  using assms(1) assms(2)[of "filter (\<lambda>r. pw_is_last_resort r = Some False) rows"]
    assms(2)[of "filter (\<lambda>r. pw_is_last_resort r = Some True) rows"] assms(2)[of rows]
  by (auto simp: next_connection_package_def Let_def simp del: filter_empty_conv split: if_splits)

lemma loaded_package:
  assumes "load_for_username ok pick hash s = (Ok package, t)" "\<And>rows. rows \<noteq> [] \<Longrightarrow> pick rows \<in> set rows"
  shows "(\<exists>p \<in> set (as_packages s). pw_hash p = hash \<and> pw_package p = package) \<and> as_queue_rows t = as_queue_rows s"
proof -
  let ?rows = "filter (\<lambda>r. pw_hash r = hash) (as_packages s)"
  obtain p where p: "next_connection_package pick ?rows = Some p" "package = pw_package p" "as_queue_rows t = as_queue_rows s"
    using assms(1)
    by (cases "next_connection_package pick ?rows")
      (auto simp: load_for_username_def take_connection_package_def execute_def andThen_def action_apply split: if_splits)
  with next_connection_package_in[OF p(1) assms(2)] show ?thesis by auto
qed

lemma convert_hash_Ok_iff [result_simps]: "convert_hash f = Ok hash \<longleftrightarrow> f = Field hash"
  by (cases f) (auto simp: convert_hash_def)

lemma enqueue_step_acknowledged:
  assumes "enqueue_step io hash incoming (s, out) = (r, (s', out'))" "EnqueueResponse \<in> set out'" "EnqueueResponse \<notin> set out"
  shows "\<exists>offer rest. incoming = Ok (EnqueueStep (Some offer)) # rest \<and> r = Ok () \<and> out' = out @ [EnqueueResponse]
    \<and> as_queue_rows s' = as_queue_rows s @ [enqueued_row (cn_enqueue io) hash offer]"
proof -
  obtain step rest where incoming: "incoming = Ok step # rest"
    using assms by (cases incoming) (auto simp: enqueue_step_def action_apply split: sum.splits)
  then obtain offer where step: "step = EnqueueStep (Some offer)"
    using assms by (cases step) (auto simp: enqueue_step_def action_apply andThen_def result_simps split: option.splits sum.splits)
  obtain x t where run: "UsernameQueues_enqueue (cn_enqueue io) hash offer s = (x, t)" by fastforce
  with assms incoming step show ?thesis
    using enqueue_run(5)[OF run]
    by (cases x) (auto simp: enqueue_step_def andThen_def action_apply on_service_def converting_def send_response_def split: if_splits)
qed

text \<open>
  A connection offer the service acknowledges has been delivered: if the client of the connect protocol gets
  the final acknowledgement, then it asked for a username that is registered and not expired, it got
  one of the connection packages published for it, and its offer is the last message in the queue of that
  username.
\<close>
theorem acknowledged_offer_is_queued:
  assumes run: "run_protocol io incoming s = (out, s')" and ack: "EnqueueResponse \<in> set out"
    and pick: "\<And>rows. rows \<noteq> [] \<Longrightarrow> cn_pick io rows \<in> set rows"
  shows "\<exists>client_metadata hash offer rest package record.
    incoming = Ok (FetchStep client_metadata (Field hash)) # Ok (EnqueueStep (Some offer)) # rest
    \<and> out = [FetchResponse package, EnqueueResponse]
    \<and> map_of (as_usernames s) hash = Some record
    \<and> ExpirationData_validate (cn_round io) (cn_now io) (ux_expiration_data record)
    \<and> (\<exists>p \<in> set (as_packages s). pw_hash p = hash \<and> pw_package p = package)
    \<and> as_queue_rows s' = as_queue_rows s @ [enqueued_row (cn_enqueue io) hash offer]"
proof -
  obtain r t out' where impl: "run_protocol_impl io incoming (s, []) = (r, (t, out'))" by (metis surj_pair)
  have out: "EnqueueResponse \<in> set out'" "r = Ok () \<Longrightarrow> out = out'" and "t = s'"
    using run ack impl by (cases r; auto simp: run_protocol_def split: if_splits)+
  note impl = impl[unfolded \<open>t = s'\<close>]
  obtain step rest where incoming: "incoming = Ok step # rest"
    using impl out(1) by (cases incoming) (auto simp: run_protocol_impl_def action_apply split: sum.splits)
  then obtain client_metadata f where step: "step = FetchStep client_metadata f"
    using impl out(1) by (cases step) (auto simp: run_protocol_impl_def action_apply)
  note open_run = impl[unfolded incoming step run_protocol_impl_def list.case sum.case connect_request.case]
  obtain v where "verify_version (cn_version_req io) (cn_version_matches io) client_metadata = Ok v"
    using open_run out(1) by (cases "verify_version (cn_version_req io) (cn_version_matches io) client_metadata") (auto simp: action_simps)
  note open_run = open_run[unfolded this, simplified action_simps map_err.simps]
  obtain hash where hash: "convert_hash f = Ok hash"
    using open_run out(1) by (cases "convert_hash f") (auto simp: action_simps)
  note open_run = open_run[unfolded hash, simplified action_simps]
  obtain d where load: "load_username_expiration_data_impl io hash s = (Ok (Some d), s)"
    and stored: "\<exists>record. map_of (as_usernames s) hash = Some record \<and> ux_expiration_data record = d"
    and valid: "ExpirationData_validate (cn_round io) (cn_now io) d"
  proof -
    obtain x t where run: "load_username_expiration_data_impl io hash s = (x, t)" by fastforce
    with open_run out(1) obtain d where "x = Ok (Some d)"
      by (cases x; cases "projr x") (auto simp: andThen_def on_service_def converting_def action_apply)
    with run loaded_expiration that show ?thesis by blast
  qed
  obtain x t where package: "load_for_username (cn_package io) (cn_pick io) hash s = (x, t)" by fastforce
  with open_run out(1) load valid obtain package where x: "x = Ok package"
    and rest: "cn_sent io 0" "enqueue_step io hash rest (t, [FetchResponse package]) = (r, (s', out'))"
    by (cases x) (auto simp: andThen_def on_service_def converting_def action_apply ensure_def send_response_def split: if_splits)
  have "EnqueueResponse \<notin> set [FetchResponse package]" by simp
  from enqueue_step_acknowledged[OF rest(2) out(1) this] obtain offer rest' where
    offer: "rest = Ok (EnqueueStep (Some offer)) # rest'" "r = Ok ()" "out' = [FetchResponse package, EnqueueResponse]"
      "as_queue_rows s' = as_queue_rows t @ [enqueued_row (cn_enqueue io) hash offer]"
    by auto
  with loaded_package[OF package[unfolded x] pick] stored valid out(2) show ?thesis
    by (auto simp: incoming step hash[unfolded convert_hash_Ok_iff])
qed

end
