(* ===== verification/As_Invariant.thy ===== *)
theory As_Invariant
  imports As_Handlers As_Stream
begin

text \<open>
  The database of the authentication service stays consistent under every request, whether it succeeds,
  is refused or fails half-way: the keys of the tables are unique, clients and allowances belong to
  users, queued messages and connection packages to usernames.
\<close>

section \<open>The invariant\<close>

definition as_consistent :: "as_state \<Rightarrow> bool" where
  "as_consistent s \<longleftrightarrow>
     distinct (map fst (as_users s)) \<and> distinct (map fst (as_clients s)) \<and> distinct (map fst (as_allowances s))
     \<and> distinct (map fst (as_usernames s)) \<and> distinct (map fst (as_codes s))
     \<and> distinct (map fst (as_batched_keys s)) \<and> distinct (map fst (as_nonces s))
     \<and> (\<forall>(uuid, row) \<in> set (as_clients s). \<lparr> uid_uuid = uuid, uid_domain = aw_domain row \<rparr> \<in> fst ` set (as_users s))
     \<and> (\<forall>((user_id, _), _) \<in> set (as_allowances s). user_id \<in> fst ` set (as_users s))
     \<and> distinct (map uq_message_id (as_queue_rows s)) \<and> (\<forall>r \<in> set (as_queue_rows s). uq_hash r \<in> fst ` set (as_usernames s))
     \<and> distinct (map pw_id (as_packages s))
     \<and> (\<forall>r \<in> set (as_packages s). pw_id r < as_next_package_id s \<and> pw_hash r \<in> fst ` set (as_usernames s))"

text \<open>The numbers the identity column hands out only grow, also across a transaction that fails.\<close>

definition as_inv :: "nat \<Rightarrow> as_state \<Rightarrow> bool" where
  "as_inv n s \<longleftrightarrow> as_consistent s \<and> n \<le> as_next_package_id s"

lemmas as_inv_defs = as_inv_def as_consistent_def

lemma unaborted_as_inv [simp]: "unaborted (as_inv n)"
  by (simp add: unaborted_def as_inv_defs)

lemma as_inv_restore:
  assumes "as_inv n s" "as_inv (as_next_package_id s) s'"
  shows "as_inv n (restore_as_db s s')"
  using assms unfolding as_inv_defs restore_as_db_def by (auto dest: order_less_le_trans)

lemma as_inv_restore_registration:
  assumes "as_inv n s" "as_inv (as_next_package_id s) s'"
  shows "as_inv n (restore_registration s s')"
  using as_inv_restore[OF assms] assms(2) unfolding restore_registration_def as_inv_defs by simp

lemma keeps_as_transaction:
  assumes "\<And>n. keeps (as_inv n) body"
    and "\<And>n s s'. as_inv n s \<Longrightarrow> as_inv (as_next_package_id s) s' \<Longrightarrow> as_inv n (restore s s')"
  shows "keeps (as_inv n) (in_transaction restore ok_begin ok_commit conv body)"
proof (rule keepsI)
  fix s
  assume s: "as_inv n s"
  obtain r s' where run: "body (s\<lparr> as_aborted := False \<rparr>) = (r, s')" by fastforce
  from s have "as_inv (as_next_package_id s) (s\<lparr> as_aborted := False \<rparr>)" by (simp add: as_inv_defs)
  from keepsD[OF assms(1) this] run have s': "as_inv (as_next_package_id s) s'" by simp
  with s have "as_inv n s'" by (auto simp: as_inv_def)
  with assms(2)[OF s s'] s run show "as_inv n (snd (in_transaction restore ok_begin ok_commit conv body s))"
    by (auto simp: in_transaction_def action_apply split: sum.split)
qed

lemma keeps_as_transactions [keep_rules]:
  assumes "\<And>n. keeps (as_inv n) body"
  shows "keeps (as_inv n) (in_transaction restore_as_db ok_begin ok_commit conv body)"
    "keeps (as_inv n) (in_transaction restore_registration ok_begin ok_commit conv body)"
  by (rule keeps_as_transaction; simp add: assms as_inv_restore as_inv_restore_registration)+

lemma keeps_statement:
  assumes "\<And>s. as_inv n s \<Longrightarrow> as_inv n (snd (body s))"
  shows "keeps (as_inv n) (execute ex ok body)"
  by (rule keeps_execute) (simp_all add: keepsI assms)


section \<open>Statements\<close>

lemma keys_without: "fst ` {r \<in> set rows. case r of (h, _) \<Rightarrow> h \<noteq> k} = fst ` set rows - {k}"
  by force

lemma user_statements [keep_rules]:
  "keeps (as_inv n) (AsUserRecord_store ex ok user_id record)"
  "keeps (as_inv n) (AsUserRecord_load ex ok user_id)"
  "keeps (as_inv n) (AsUserRecord_update ex ok user_id record)"
  "keeps (as_inv n) (AsUserRecord_delete ex ok user_id)"
proof -
  show "keeps (as_inv n) (AsUserRecord_store ex ok user_id record)"
    unfolding AsUserRecord_store_def
    by (rule keeps_statement) (auto simp: action_apply as_inv_defs map_of_eq_None_iff)
  show "keeps (as_inv n) (AsUserRecord_load ex ok user_id)"
    unfolding AsUserRecord_load_def by (rule keeps_statement) (simp add: action_apply)
  show "keeps (as_inv n) (AsUserRecord_update ex ok user_id record)"
    unfolding AsUserRecord_update_def by (rule keeps_statement) (simp add: action_apply as_inv_defs)
  show "keeps (as_inv n) (AsUserRecord_delete ex ok user_id)"
    unfolding AsUserRecord_delete_def
    by (rule keeps_statement) (auto simp: action_apply as_inv_defs distinct_map_filter keys_without)
qed


lemma user_id_parts: "\<lparr> uid_uuid = uid_uuid u, uid_domain = uid_domain u \<rparr> = u" for u :: user_id
  by simp

lemma client_statements [keep_rules]:
  "keeps (as_inv n) (AsClientRecord_store ex ok record)" "keeps (as_inv n) (AsClientRecord_load ex ok user_id)"
  "keeps (as_inv n) (AsClientRecord_delete ex ok user_id)"
proof -
  show "keeps (as_inv n) (AsClientRecord_store ex ok record)"
    unfolding AsClientRecord_store_def Let_def
    by (rule keeps_statement) (simp add: action_apply as_inv_defs map_of_eq_None_iff user_id_parts)
qed (auto simp: AsClientRecord_load_def AsClientRecord_delete_def action_apply as_inv_defs distinct_map_filter
    intro!: keeps_statement)

lemma signing_key_statements [keep_rules]:
  "keeps (as_inv n) (store_signing_key ex ok key)" "keeps (as_inv n) (StorableSigningKey_load ex ok)"
  "keeps (as_inv n) (IntermediateSigningKey_load ex ok)" "keeps (as_inv n) (StorableSigningKey_activate ex ok key)"
  "keeps (as_inv n) (IntermediateSigningKey_activate ex ok key)" "keeps (as_inv n) (Credential_load_all ex ok)"
  "keeps (as_inv n) (IntermediateCredential_load_all ex ok)"
  unfolding store_signing_key_def StorableSigningKey_load_def IntermediateSigningKey_load_def StorableSigningKey_activate_def
    IntermediateSigningKey_activate_def Credential_load_all_def IntermediateCredential_load_all_def
  by (rule keeps_statement, simp add: action_apply as_inv_defs)+

lemma username_statements [keep_rules]:
  "keeps (as_inv n) (UsernameRecord_store ex ok hash record)" "keeps (as_inv n) (UsernameRecord_update ex ok hash record)"
  "keeps (as_inv n) (update_expiration_data ex ok hash d)" "keeps (as_inv n) (UsernameRecord_load_verifying_key ex ok hash)"
  "keeps (as_inv n) (load_expiration_data ex ok hash)" "keeps (as_inv n) (UsernameRecord_load_all ex ok)"
  "keeps (as_inv n) (UsernameRecord_delete ex ok hash)"
proof -
  show "keeps (as_inv n) (UsernameRecord_store ex ok hash record)"
    unfolding UsernameRecord_store_def
    by (rule keeps_statement) (auto simp: action_apply as_inv_defs map_of_eq_None_iff)
  show "keeps (as_inv n) (UsernameRecord_delete ex ok hash)"
    unfolding UsernameRecord_delete_def
    by (rule keeps_statement) (auto simp: as_inv_defs distinct_map_filter keys_without)
qed (auto simp: UsernameRecord_update_def update_expiration_data_def UsernameRecord_load_verifying_key_def
    load_expiration_data_def UsernameRecord_load_all_def change_username_def action_apply as_inv_defs intro!: keeps_statement)

lemma new_package_ids:
  fixes rows :: "package_row list"
  assumes "rows = map (\<lambda>(i, p). \<lparr> pw_id = n + i, pw_hash = h, pw_package = p, pw_is_last_resort = f p \<rparr>) (enumerate 0 ps)"
  shows "distinct (map pw_id rows)" "r \<in> set rows \<Longrightarrow> n \<le> pw_id r \<and> pw_id r < n + length ps \<and> pw_hash r = h"
proof -
  have "map pw_id rows = map (\<lambda>i. n + i) (map fst (enumerate 0 ps))"
    by (simp add: assms comp_def case_prod_unfold del: map_fst_enumerate)
  then have ids: "map pw_id rows = map (\<lambda>i. n + i) [0..<length ps]" by (simp only: map_fst_enumerate add_0)
  show "distinct (map pw_id rows)" unfolding ids by (simp add: distinct_map)
  assume "r \<in> set rows"
  moreover from this have "pw_id r \<in> set (map pw_id rows)" by simp
  ultimately show "n \<le> pw_id r \<and> pw_id r < n + length ps \<and> pw_hash r = h" unfolding ids by (auto simp: assms)
qed

lemma package_statements [keep_rules]:
  "keeps (as_inv n) (store_multiple_for_username ex ok packages hash)" "keeps (as_inv n) (load_for_username ok pick hash)"
proof -
  show "keeps (as_inv n) (store_multiple_for_username ex ok packages hash)"
    unfolding store_multiple_for_username_def
  proof (rule keeps_statement)
    fix s
    assume s: "as_inv n s"
    define new where "new = map (\<lambda>(i, p). \<lparr> pw_id = as_next_package_id s + i, pw_hash = hash, pw_package = p,
      pw_is_last_resort = package_is_last_resort p \<rparr>) (enumerate 0 packages)"
    note ids = new_package_ids[OF new_def]
    have "pw_id ` set (as_packages s) \<inter> pw_id ` set new = {}"
      using s ids(2) by (fastforce simp: as_inv_defs)
    with s ids show "as_inv n (snd ((if packages = [] \<or> map_of (as_usernames s) hash = None then fail_with DatabaseError s
        else modify_with (\<lambda>s. s\<lparr> as_packages := as_packages s @ map (\<lambda>(i, package). \<lparr> pw_id = as_next_package_id s + i,
          pw_hash = hash, pw_package = package, pw_is_last_resort = package_is_last_resort package \<rparr>) (enumerate 0 packages),
          as_next_package_id := as_next_package_id s + length packages \<rparr>) s)))"
      by (auto simp: action_apply as_inv_defs new_def[symmetric] map_of_eq_None_iff trans_less_add1)
  qed
  have "keeps (as_inv n) (\<lambda>s. take_connection_package ok pick {} hash s s)"
    by (rule keepsI, auto simp: take_connection_package_def execute_def andThen_def action_apply as_inv_defs distinct_map_filter Let_def
        split: option.split)
  then show "keeps (as_inv n) (load_for_username ok pick hash)"
    unfolding load_for_username_def by (intro keep_rules)
qed

lemma code_statements [keep_rules]:
  "keeps (as_inv n) (InvitationCodeRecord_load ex ok code)" "keeps (as_inv n) (insert_code ex ok now code redeemed)"
  "keeps (as_inv n) (save_code ex ok now code redeemed)" "keeps (as_inv n) (InvitationCodeRecord_generate ex ok now random)"
  "keeps (as_inv n) (lock_and_count_codes_issued_today ok midnight now)"
proof -
  show insert: "keeps (as_inv n) (insert_code ex ok now code redeemed)" for code redeemed
    unfolding insert_code_def
    by (rule keeps_statement) (auto simp: action_apply as_inv_defs map_of_eq_None_iff)
  show "keeps (as_inv n) (InvitationCodeRecord_generate ex ok now random)"
  proof (rule keepsI)
    fix s
    assume "as_inv n s"
    from keepsD[OF insert this] show "as_inv n (snd (InvitationCodeRecord_generate ex ok now random s))"
      by (auto simp: InvitationCodeRecord_generate_def generate_from_inserts split: prod.split sum.split) (metis snd_conv)+
  qed
  show "keeps (as_inv n) (save_code ex ok now code redeemed)"
    unfolding save_code_def
    by (rule keeps_statement) (auto simp: action_apply as_inv_defs map_of_eq_None_iff)
qed (auto simp: InvitationCodeRecord_load_def lock_and_count_codes_issued_today_def action_apply intro!: keeps_statement)

lemma allowance_statements [keep_rules]:
  "keeps (as_inv n) (ensure_exists ex ok add_month user_id op at)" "keeps (as_inv n) (TokenAllowance_load_for_update ok user_id op)"
  "keeps (as_inv n) (TokenAllowance_update ex ok user_id op allowance)"
proof -
  show "keeps (as_inv n) (ensure_exists ex ok add_month user_id op at)"
    unfolding ensure_exists_def
    by (rule keeps_statement) (auto simp: action_apply as_inv_defs map_of_eq_None_iff)
  show "keeps (as_inv n) (TokenAllowance_update ex ok user_id op allowance)"
    unfolding TokenAllowance_update_def
    by (rule keeps_statement) (auto simp: action_apply as_inv_defs change_at_def image_image case_prod_unfold comp_def)
qed (auto simp: TokenAllowance_load_for_update_def action_apply intro!: keeps_statement)


text \<open>The stores: a program changes keys and nonces only.\<close>

lemma store_statements:
  assumes "as_inv n s"
  shows "as_inv n (snd (key_store_insert ok op now key_id server s))" "as_inv n (snd (key_store_get ok op key_id s))"
    "as_inv n (snd (key_store_remove ok op key_id s))" "as_inv n (snd (nonce_store_reserve ok op now m s))"
    "as_inv n (snd (nonce_store_commit ok op m s))" "as_inv n (snd (nonce_store_release ok op m s))"
  using assms
  by (auto simp: key_store_insert_def key_store_get_def key_store_remove_def nonce_store_reserve_def nonce_store_commit_def
      nonce_store_release_def or_else_def execute_def action_apply as_inv_defs map_of_eq_None_iff distinct_map_filter)

lemma run_store_inv: "as_inv n s \<Longrightarrow> as_inv n (snd (run_store oks op now p i s))"
proof (induction p arbitrary: i s)
  case (GetKey key_id k)
  then show ?case using store_statements(2)[OF GetKey.prems] by (auto split: prod.split) (metis rangeI snd_conv)
next
  case (InsertKey key_id server k)
  then show ?case using store_statements(1)[OF InsertKey.prems] by (auto split: prod.split) (metis rangeI snd_conv)
next
  case (RemoveKey key_id k)
  then show ?case using store_statements(3)[OF RemoveKey.prems] by (auto split: prod.split) (metis rangeI snd_conv)
next
  case (ReserveNonce m k)
  then show ?case using store_statements(4)[OF ReserveNonce.prems] by (auto split: prod.split) (metis rangeI snd_conv)
next
  case (CommitNonce m p)
  then show ?case using store_statements(5)[OF CommitNonce.prems] by (auto split: prod.split) (metis rangeI snd_conv)
next
  case (ReleaseNonce m p)
  then show ?case using store_statements(6)[OF ReleaseNonce.prems] by (auto split: prod.split) (metis rangeI snd_conv)
qed simp

lemma program_keeps: "keeps (as_inv n) (\<lambda>s. case run_store oks op now p i s of (r, s') \<Rightarrow> (f r, s'))"
proof (rule keepsI)
  fix s
  assume "as_inv n s"
  from run_store_inv[OF this, of oks op now p i]
  show "as_inv n (snd (case run_store oks op now p i s of (r, s') \<Rightarrow> (f r, s')))" by (simp add: case_prod_beta)
qed

lemma redeem_keeps [keep_rules]: "keeps (as_inv n) (as_redeem_token pp oks now token op)"
  using program_keeps by (simp add: keeps_def as_redeem_token_def)

lemma key_pair_keeps [keep_rules]: "keeps (as_inv n) (create_new_keypair pp io op)"
  unfolding create_new_keypair_def by (intro keep_rules program_keeps)

lemma prune_keeps [keep_rules]:
  "keeps (as_inv n) (execute ex ok (modify_with (remove_keys now op)))"
  "keeps (as_inv n) (execute ex ok (modify_with (remove_nonces now op)))"
  by (rule keeps_statement, simp add: action_apply as_inv_defs remove_keys_def remove_nonces_def distinct_map_filter)+

lemma rotation_keeps [keep_rules]: "keeps (as_inv n) (rotate_keys_if_needed pp io)"
proof -
  have read: "keeps (as_inv n) (execute ex ok (read_with f))" for ex ok f
    by (rule keeps_statement) (simp add: action_apply)
  have each: "keeps (as_inv n) (rotate_keys_if_needed_for_operation_type pp rio op)" for rio op
    unfolding rotate_keys_if_needed_for_operation_type_def
    by (intro keeps_andThen keeps_converting read prune_keeps key_pair_keeps keep_rules)
  have "keeps (as_inv n) (rotate_each pp io ops)" for ops
    by (induction ops) (auto intro!: keeps_andThen each keep_rules)
  then show ?thesis by (simp add: rotate_keys_if_needed_def)
qed

lemma marked_ids:
  "map (uq_message_id \<circ> (\<lambda>r. if P r then r\<lparr> uq_fetched_by := x \<rparr> else r)) rows = map uq_message_id rows"
  by (induction rows) auto

lemma queue_statements [keep_rules]:
  "keeps (as_inv n) (UsernameQueue_enqueue ex ok now hash message_id message)" "keeps (as_inv n) (UsernameQueues_ack ok message_id)"
  "keeps (as_inv n) (UsernameQueue_fetch_into ok order hash fetched_by limit buffer)"
proof -
  show "keeps (as_inv n) (UsernameQueue_enqueue ex ok now hash message_id message)"
    unfolding UsernameQueue_enqueue_def
    by (rule keeps_statement) (auto simp: action_apply as_inv_defs map_of_eq_None_iff list_ex_iff)
  show "keeps (as_inv n) (UsernameQueues_ack ok message_id)"
    unfolding UsernameQueues_ack_def UsernameQueue_delete_def
    by (rule keeps_statement) (auto simp: action_apply as_inv_defs distinct_map_filter)
  show "keeps (as_inv n) (UsernameQueue_fetch_into ok order hash fetched_by limit buffer)"
    unfolding UsernameQueue_fetch_into_def Let_def
    by (rule keeps_statement)
      (auto simp: as_inv_defs marked_ids)
qed

lemma username_enqueue_keeps [keep_rules]: "keeps (as_inv n) (UsernameQueues_enqueue io hash payload)"
proof -
  have "keeps (as_inv n) (modify_with (\<lambda>s. s\<lparr> as_notified := as_notified s @ [hash] \<rparr>))" for n
    by (rule keepsI) (simp add: action_apply as_inv_defs)
  then show ?thesis unfolding UsernameQueues_enqueue_def Let_def by (intro keep_rules unaborted_as_inv)
qed

end
