(* ===== verification/Spec2Isabelle.thy ===== *)
theory Spec2Isabelle
  imports Backend Credential_Store As_Invariant
begin

text \<open>
  Placeholder.
\<close>

section \<open>From the sender to the queue of another member\<close>



end
